(* ===== verification/JS_Prelude.thy ===== *)
theory JS_Prelude
  imports Main "HOL-Library.Word"
begin

text \<open>
  Shared vocabulary of the SecureID development: the types that stand for the
  JavaScript values the decoder handles and the built-in operations its code
  calls, each with the lemmas the component theories rely on.

  \<^item> A \<^verbatim>\<open>Uint8Array\<close> is a list of 8-bit words (\<open>bytes\<close>); a JavaScript string is a
    \<open>string\<close> whose characters are the code units below 256 (every string the decoder
    builds comes from \<^verbatim>\<open>String.fromCharCode(byte)\<close>, so nothing is lost there).
  \<^item> \<open>nth_opt\<close> is array indexing that yields \<^verbatim>\<open>undefined\<close> (\<open>None\<close>) out of range.
  \<^item> \<open>js_slice\<close> is \<^verbatim>\<open>TypedArray.prototype.slice\<close> with its relative (negative) indices
    and clamping; \<open>substring\<close> is \<^verbatim>\<open>String.prototype.substring\<close> on natural indices.
  \<^item> \<open>trim\<close>, \<open>splitOn\<close> and \<open>includesChar\<close> are the string methods \<^verbatim>\<open>trim\<close>, \<^verbatim>\<open>split\<close> and
    \<^verbatim>\<open>includes\<close> for a one-character argument.
  \<^item> \<open>parseInt\<close> is \<^verbatim>\<open>Number.parseInt(string, radix)\<close>: \<open>None\<close> is \<^verbatim>\<open>NaN\<close>; the value
    is an unbounded integer, which agrees with the double the engine returns up to
    \<open>2 ^ 53\<close>.
  \<^item> \<open>toHex\<close> and \<open>hex2\<close> print numbers in radix 16 as \<^verbatim>\<open>toString(16)\<close> and
    \<^verbatim>\<open>toString(16).padStart(2, "0")\<close> do.

  The collections \<open>js_defs\<close> (unfolding rules that evaluate the built-ins on
  concrete input) and \<open>js_simps\<close> (rewrite rules about them) carry most proofs of
  the component theories.
\<close>

section \<open>Collections\<close>

named_theorems js_defs "definitions of the JavaScript built-ins, for evaluation"
named_theorems js_simps "rewrite rules about the JavaScript built-ins"

section \<open>Bytes and characters\<close>

type_synonym byte = "8 word"
type_synonym bytes = "byte list"

definition fromCharCode :: "byte \<Rightarrow> char" where
  "fromCharCode b = char_of (unat b)"

definition charCode :: "char \<Rightarrow> byte" where
  "charCode c = of_nat (of_char c)"

definition bytesToString :: "bytes \<Rightarrow> string" where
  "bytesToString bs = map fromCharCode bs"

definition stringToBytes :: "string \<Rightarrow> bytes" where
  "stringToBytes s = map charCode s"

section \<open>External collaborators\<close>

text \<open>
  What the decoder obtains from outside itself: the clock (\<^verbatim>\<open>new Date()\<close>), the
  engine's parser of date strings (\<^verbatim>\<open>new Date(string)\<close>, implementation-defined
  outside the ISO format) and the inflate routine of the compression library
  (\<open>None\<close> when it throws). One clock reading serves a whole call of the decoder.
\<close>

record environment =
  now :: int
  dateParse :: "string \<Rightarrow> int option"
  inflate :: "bytes \<Rightarrow> bytes option"

text \<open>
  \<open>clockAt t\<close> is the environment of the examples: the clock reads \<open>t\<close>, the host
  parses no date on its own and inflates nothing.
\<close>

definition clockAt :: "int \<Rightarrow> environment" where
  "clockAt t = \<lparr>now = t, dateParse = (\<lambda>_. None), inflate = (\<lambda>_. None)\<rparr>"

lemma clockAt_simps [simp]:
  "now (clockAt t) = t" "dateParse (clockAt t) s = None" "inflate (clockAt t) b = None"
  by (simp_all add: clockAt_def)

section \<open>Errors\<close>

text \<open>
  Every \<^verbatim>\<open>throw\<close> and every rejected promise of the decoder is a value of \<open>error\<close>.
  The first group are the causes; the wrappers are the \<^verbatim>\<open>catch\<close> blocks that rethrow
  with a prefix (\<^verbatim>\<open>"Failed to convert base10 to byte array: "\<close>,
  \<^verbatim>\<open>"Failed to extract data fields: "\<close> with the index reached,
  \<^verbatim>\<open>"Data processing failed: "\<close>, \<^verbatim>\<open>"QR Code decoding failed: "\<close>,
  \<^verbatim>\<open>"Error processing image: "\<close>). \<open>ProofGenerationFailed\<close> and \<open>QrDataFailed\<close> are the
  two errors of src/lib/zk-proofs.ts, which replace their cause.
\<close>

datatype error =
    BigIntSyntaxError
  | UndefinedTrim
  | CanvasUnavailable
  | IndexSizeError
  | InvalidFileType
  | NoQRCodeFound
  | ImageLoadFailed
  | FileReadFailed
  | ProofGenerationFailed
  | QrDataFailed
  | ConvertFailed error
  | ExtractFailed error nat
  | ProcessingFailed error
  | ImageProcessingFailed error
  | DecodingFailed error

section \<open>Arrays\<close>

definition nth_opt :: "'a list \<Rightarrow> nat \<Rightarrow> 'a option" where
  "nth_opt xs i = (if i < length xs then Some (xs ! i) else None)"

definition rel_index :: "int \<Rightarrow> nat \<Rightarrow> nat" where
  "rel_index i len = (if i < 0 then nat (max (int len + i) 0) else min (nat i) len)"

definition js_slice :: "'a list \<Rightarrow> int \<Rightarrow> int \<Rightarrow> 'a list" where
  "js_slice xs start fin =
    (let k = rel_index start (length xs);
         f = rel_index fin (length xs)
     in take (f - k) (drop k xs))"

definition substring :: "string \<Rightarrow> nat \<Rightarrow> nat \<Rightarrow> string" where
  "substring s i j =
    (let a = min (min i j) (length s);
         b = min (max i j) (length s)
     in take (b - a) (drop a s))"

section \<open>Strings\<close>

definition isWhiteSpace :: "char \<Rightarrow> bool" where
  "isWhiteSpace c = (of_char c \<in> {9, 10, 11, 12, 13, 32, 160 :: nat})"

definition trimStart :: "string \<Rightarrow> string" where
  "trimStart s = dropWhile isWhiteSpace s"

definition trim :: "string \<Rightarrow> string" where
  "trim s = rev (dropWhile isWhiteSpace (rev (dropWhile isWhiteSpace s)))"

definition includesChar :: "string \<Rightarrow> char \<Rightarrow> bool" where
  "includesChar s c = (c \<in> set s)"

fun splitOn :: "char \<Rightarrow> string \<Rightarrow> string list" where
  "splitOn sep [] = [[]]"
| "splitOn sep (c # cs) =
    (let r = splitOn sep cs in
     if c = sep then [] # r else (c # hd r) # tl r)"

section \<open>Numbers in a radix\<close>

definition digitValue :: "char \<Rightarrow> nat option" where
  "digitValue c =
    (let n = of_char c :: nat in
     if 48 \<le> n \<and> n \<le> 57 then Some (n - 48)
     else if 97 \<le> n \<and> n \<le> 122 then Some (n - 87)
     else if 65 \<le> n \<and> n \<le> 90 then Some (n - 55)
     else None)"

definition isRadixDigit :: "nat \<Rightarrow> char \<Rightarrow> bool" where
  "isRadixDigit r c = (case digitValue c of None \<Rightarrow> False | Some d \<Rightarrow> d < r)"

definition digitOf :: "char \<Rightarrow> nat" where
  "digitOf c = (case digitValue c of None \<Rightarrow> 0 | Some d \<Rightarrow> d)"

definition radixValue :: "nat \<Rightarrow> string \<Rightarrow> nat" where
  "radixValue r z = foldl (\<lambda>acc c. acc * r + digitOf c) 0 z"

definition parseInt :: "string \<Rightarrow> nat \<Rightarrow> int option" where
  "parseInt str radix =
    (let s = trimStart str;
         neg = (take 1 s = ''-'');
         s1 = (if take 1 s = ''+'' \<or> take 1 s = ''-'' then drop 1 s else s);
         hasPrefix = ((radix = 0 \<or> radix = 16) \<and> (take 2 s1 = ''0x'' \<or> take 2 s1 = ''0X''));
         r = (if hasPrefix then 16 else if radix = 0 then 10 else radix);
         s2 = (if hasPrefix then drop 2 s1 else s1);
         z = takeWhile (isRadixDigit r) s2
     in if radix \<noteq> 0 \<and> (radix < 2 \<or> 36 < radix) then None
        else if z = [] then None
        else Some ((if neg then - 1 else 1) * int (radixValue r z)))"

definition hexDigit :: "nat \<Rightarrow> char" where
  "hexDigit d = (if d < 10 then char_of (48 + d) else char_of (87 + d))"

fun toHex :: "nat \<Rightarrow> string" where
  "toHex n = (if n < 16 then [hexDigit n] else toHex (n div 16) @ [hexDigit (n mod 16)])"

declare toHex.simps [simp del]

definition hex2 :: "byte \<Rightarrow> string" where
  "hex2 b = (let h = toHex (unat b) in if length h < 2 then CHR ''0'' # h else h)"

definition decDigit :: "nat \<Rightarrow> char" where
  "decDigit d = char_of (48 + d)"

fun toDecimal :: "nat \<Rightarrow> string" where
  "toDecimal n = (if n < 10 then [decDigit n] else toDecimal (n div 10) @ [decDigit (n mod 10)])"

declare toDecimal.simps [simp del]

lemmas [js_defs] =
  fromCharCode_def charCode_def bytesToString_def stringToBytes_def nth_opt_def
  rel_index_def js_slice_def substring_def isWhiteSpace_def trimStart_def trim_def
  includesChar_def digitValue_def isRadixDigit_def digitOf_def radixValue_def parseInt_def
  hexDigit_def hex2_def decDigit_def Let_def

section \<open>Lemmas: characters and bytes\<close>

lemma char_of_eq_iff [js_simps]: "char_of (n::nat) = c \<longleftrightarrow> n mod 256 = of_char c"
  by (metis char_of_char of_char_of)

lemma unat_byte_less [js_simps]: "unat (b::byte) < 256"
  using unsigned_less [of b] by simp

lemma of_char_less_256 [js_simps]: "(of_char c :: nat) < 256"
  by (metis char_of_char of_char_of mod_less_divisor zero_less_numeral)

lemma charCode_fromCharCode [simp]: "charCode (fromCharCode b) = b"
  by (simp add: fromCharCode_def charCode_def unat_byte_less)

lemma fromCharCode_charCode [simp]: "fromCharCode (charCode c) = c"
  by (simp add: fromCharCode_def charCode_def char_of_eq_iff unat_of_nat)

lemma fromCharCode_inj [simp]: "fromCharCode a = fromCharCode b \<longleftrightarrow> a = b"
  by (metis charCode_fromCharCode)

lemma length_bytesToString [simp]: "length (bytesToString bs) = length bs"
  by (simp add: bytesToString_def)

lemma bytesToString_Nil [simp]: "bytesToString [] = []"
  by (simp add: bytesToString_def)

lemma bytesToString_eq_Nil [simp]: "bytesToString bs = [] \<longleftrightarrow> bs = []"
  by (simp add: bytesToString_def)

lemma bytesToString_append [simp]:
  "bytesToString (xs @ ys) = bytesToString xs @ bytesToString ys"
  by (simp add: bytesToString_def)

lemma bytesToString_inj [simp]: "bytesToString xs = bytesToString ys \<longleftrightarrow> xs = ys"
  by (simp add: bytesToString_def inj_on_def)

lemma stringToBytes_bytesToString [simp]: "stringToBytes (bytesToString bs) = bs"
  by (simp add: stringToBytes_def bytesToString_def map_idI)

lemma bytesToString_stringToBytes [simp]: "bytesToString (stringToBytes s) = s"
  by (simp add: stringToBytes_def bytesToString_def map_idI)

lemma length_stringToBytes [simp]: "length (stringToBytes s) = length s"
  by (simp add: stringToBytes_def)

section \<open>Lemmas: arrays\<close>

lemma nth_opt_Nil [simp]: "nth_opt [] i = None"
  by (simp add: nth_opt_def)

lemma nth_opt_Cons_0 [simp]: "nth_opt (x # xs) 0 = Some x"
  by (simp add: nth_opt_def)

lemma nth_opt_Cons_Suc [simp]: "nth_opt (x # xs) (Suc i) = nth_opt xs i"
  by (simp add: nth_opt_def)

lemma nth_opt_Cons_numeral [simp]:
  "nth_opt (x # xs) (numeral k) = nth_opt xs (pred_numeral k)"
  by (simp add: nth_opt_def numeral_eq_Suc)

lemma nth_opt_Some_iff: "nth_opt xs i = Some x \<longleftrightarrow> i < length xs \<and> xs ! i = x"
  by (auto simp: nth_opt_def)

lemma nth_opt_None_iff: "nth_opt xs i = None \<longleftrightarrow> length xs \<le> i"
  by (auto simp: nth_opt_def)

lemma nth_opt_append:
  "nth_opt (xs @ ys) i = (if i < length xs then nth_opt xs i else nth_opt ys (i - length xs))"
  by (auto simp: nth_opt_def nth_append)

lemma rel_index_le [js_simps]: "rel_index i len \<le> len"
  by (auto simp: rel_index_def max_def)

lemma rel_index_nonneg [js_simps]: "0 \<le> i \<Longrightarrow> rel_index i len = min (nat i) len"
  by (simp add: rel_index_def)

lemma rel_index_int [simp]: "rel_index (int i) len = min i len"
  by (simp add: rel_index_def)

lemma rel_index_neg [js_simps]: "i < 0 \<Longrightarrow> rel_index i len = nat (int len + i)"
  by (auto simp: rel_index_def max_def)

lemma js_slice_int [js_simps]:
  "js_slice xs (int i) (int j) = take (min j (length xs) - min i (length xs)) (drop i xs)"
  by (simp add: js_slice_def Let_def min_def)

lemma js_slice_within [js_simps]:
  "i \<le> j \<Longrightarrow> j \<le> length xs \<Longrightarrow> js_slice xs (int i) (int j) = take (j - i) (drop i xs)"
  by (simp add: js_slice_int)

lemma js_slice_to_end [js_simps]:
  "js_slice xs (int i) (int (length xs)) = drop i xs"
  by (simp add: js_slice_int)

lemma length_js_slice [js_simps]:
  "length (js_slice xs s e) = rel_index e (length xs) - rel_index s (length xs)"
  using rel_index_le [of e "length xs"] by (simp add: js_slice_def Let_def)

lemma js_slice_empty [js_simps]:
  "rel_index e (length xs) \<le> rel_index s (length xs) \<Longrightarrow> js_slice xs s e = []"
  by (simp add: js_slice_def Let_def)

section \<open>Lemmas: strings\<close>

lemma splitOn_nonempty [simp]: "splitOn sep s \<noteq> []"
  by (induction s) (auto simp: Let_def)

lemma length_splitOn [js_simps]:
  "length (splitOn sep s) = Suc (length (filter (\<lambda>c. c = sep) s))"
proof (induction s)
  case Nil
  show ?case by simp
next
  case (Cons c cs)
  have "length (tl (splitOn sep cs)) = length (splitOn sep cs) - 1" by simp
  with Cons show ?case
    by (cases "splitOn sep cs") (auto simp: Let_def)
qed

lemma splitOn_no_sep [js_simps]: "sep \<notin> set s \<Longrightarrow> splitOn sep s = [s]"
  by (induction s) (auto simp: Let_def)

lemma splitOn_append_sep [js_simps]:
  "sep \<notin> set a \<Longrightarrow> splitOn sep (a @ sep # b) = a # splitOn sep b"
  by (induction a) (auto simp: Let_def)

lemma trim_no_space [js_simps]:
  "s \<noteq> [] \<Longrightarrow> \<not> isWhiteSpace (hd s) \<Longrightarrow> \<not> isWhiteSpace (last s) \<Longrightarrow> trim s = s"
proof -
  assume ne: "s \<noteq> []" and h: "\<not> isWhiteSpace (hd s)" and l: "\<not> isWhiteSpace (last s)"
  from ne h have "dropWhile isWhiteSpace s = s"
    by (cases s) auto
  moreover from ne l have "dropWhile isWhiteSpace (rev s) = rev s"
    by (cases "rev s") (auto simp: hd_rev)
  ultimately show ?thesis by (simp add: trim_def)
qed

lemma trim_Nil [simp]: "trim [] = []"
  by (simp add: trim_def)

section \<open>Lemmas: digits\<close>

lemma digitValue_decDigit [js_simps]: "d < 10 \<Longrightarrow> digitValue (decDigit d) = Some d"
  by (simp add: digitValue_def decDigit_def Let_def)

lemma digitValue_hexDigit [js_simps]: "d < 16 \<Longrightarrow> digitValue (hexDigit d) = Some d"
  by (simp add: digitValue_def hexDigit_def Let_def)

lemma isRadixDigit_decDigit [js_simps]: "d < 10 \<Longrightarrow> isRadixDigit 10 (decDigit d)"
  by (simp add: isRadixDigit_def digitValue_decDigit)

lemma isRadixDigit_hexDigit [js_simps]: "d < 16 \<Longrightarrow> isRadixDigit 16 (hexDigit d)"
  by (simp add: isRadixDigit_def digitValue_hexDigit)

lemma digitOf_decDigit [js_simps]: "d < 10 \<Longrightarrow> digitOf (decDigit d) = d"
  by (simp add: digitOf_def digitValue_decDigit)

lemma digitOf_hexDigit [js_simps]: "d < 16 \<Longrightarrow> digitOf (hexDigit d) = d"
  by (simp add: digitOf_def digitValue_hexDigit)

lemma radixValue_Nil [simp]: "radixValue r [] = 0"
  by (simp add: radixValue_def)

lemma radixValue_snoc [simp]: "radixValue r (z @ [c]) = radixValue r z * r + digitOf c"
  by (simp add: radixValue_def)

lemma radixValue_single [simp]: "radixValue r [c] = digitOf c"
  by (simp add: radixValue_def)

lemma toHex_nonempty [simp]: "toHex n \<noteq> []"
  by (subst toHex.simps) simp

lemma toDecimal_nonempty [simp]: "toDecimal n \<noteq> []"
  by (subst toDecimal.simps) simp

lemma toHex_digits [js_simps]: "c \<in> set (toHex n) \<Longrightarrow> isRadixDigit 16 c"
proof (induction n arbitrary: c rule: toHex.induct)
  case (1 n)
  show ?case
  proof (cases "n < 16")
    case True
    with "1.prems" show ?thesis
      by (simp add: toHex.simps [of n] isRadixDigit_hexDigit)
  next
    case False
    with "1.prems" "1.IH" show ?thesis
      by (auto simp: toHex.simps [of n] isRadixDigit_hexDigit)
  qed
qed

lemma toDecimal_digits [js_simps]: "c \<in> set (toDecimal n) \<Longrightarrow> isRadixDigit 10 c"
proof (induction n arbitrary: c rule: toDecimal.induct)
  case (1 n)
  show ?case
  proof (cases "n < 10")
    case True
    with "1.prems" show ?thesis
      by (simp add: toDecimal.simps [of n] isRadixDigit_decDigit)
  next
    case False
    with "1.prems" "1.IH" show ?thesis
      by (auto simp: toDecimal.simps [of n] isRadixDigit_decDigit)
  qed
qed

lemma radixValue_toHex [js_simps]: "radixValue 16 (toHex n) = n"
proof (induction n rule: toHex.induct)
  case (1 n)
  show ?case
  proof (cases "n < 16")
    case True
    then show ?thesis by (simp add: toHex.simps [of n] digitOf_hexDigit)
  next
    case False
    with "1.IH" show ?thesis
      by (simp add: toHex.simps [of n] digitOf_hexDigit)
  qed
qed

lemma radixValue_toDecimal [js_simps]: "radixValue 10 (toDecimal n) = n"
proof (induction n rule: toDecimal.induct)
  case (1 n)
  show ?case
  proof (cases "n < 10")
    case True
    then show ?thesis by (simp add: toDecimal.simps [of n] digitOf_decDigit)
  next
    case False
    with "1.IH" show ?thesis
      by (simp add: toDecimal.simps [of n] digitOf_decDigit)
  qed
qed

lemma takeWhile_all [js_simps]: "(\<And>x. x \<in> set xs \<Longrightarrow> P x) \<Longrightarrow> takeWhile P xs = xs"
  by (induction xs) auto

lemma isRadixDigit_not_space [js_simps]: "isRadixDigit r c \<Longrightarrow> \<not> isWhiteSpace c"
  by (auto simp: isRadixDigit_def digitValue_def isWhiteSpace_def Let_def
      split: option.splits if_splits)

lemma isRadixDigit_not_sign [js_simps]:
  "isRadixDigit r c \<Longrightarrow> c \<noteq> CHR ''-'' \<and> c \<noteq> CHR ''+''"
  by (auto simp: isRadixDigit_def digitValue_def Let_def split: option.splits)

lemma isRadixDigit_not_x [js_simps]:
  "isRadixDigit r c \<Longrightarrow> r \<le> 16 \<Longrightarrow> c \<noteq> CHR ''x'' \<and> c \<noteq> CHR ''X''"
  by (auto simp: isRadixDigit_def digitValue_def Let_def split: option.splits)

section \<open>Digit strings\<close>

text \<open>
  A digit string is a non-empty string of decimal digits: what \<^verbatim>\<open>parseInt\<close> and
  \<^verbatim>\<open>BigInt\<close> read as a number without stopping early.
\<close>

definition digitString :: "string \<Rightarrow> bool" where
  "digitString z = (z \<noteq> [] \<and> list_all (isRadixDigit 10) z)"

lemma digitString_parseInt [js_simps]:
  assumes "digitString z"
  shows "parseInt z 10 = Some (int (radixValue 10 z))"
proof -
  from assms have ne: "z \<noteq> []" and all: "\<And>c. c \<in> set z \<Longrightarrow> isRadixDigit 10 c"
    by (auto simp: digitString_def list_all_iff)
  from ne all have hd: "isRadixDigit 10 (hd z)" by simp
  from ne hd have ts: "trimStart z = z"
    by (cases z) (auto simp: trimStart_def dest: isRadixDigit_not_space)
  from ne hd have sg: "take 1 z \<noteq> ''-''" "take 1 z \<noteq> ''+''"
    by (cases z; auto dest: isRadixDigit_not_sign)+
  from ts sg ne show ?thesis
    by (simp add: parseInt_def Let_def takeWhile_all all)
qed

lemma digitString_toDecimal [simp]: "digitString (toDecimal n)"
  by (auto simp: digitString_def list_all_iff dest: toDecimal_digits)

lemma digitString_no_sep [js_simps]:
  "digitString z \<Longrightarrow> CHR ''/'' \<notin> set z \<and> CHR ''-'' \<notin> set z"
  by (auto simp: digitString_def list_all_iff isRadixDigit_def digitValue_def Let_def
      split: option.splits)

lemma digitString_trim [js_simps]: "digitString a \<Longrightarrow> digitString b \<Longrightarrow>
  trim (a @ c # m @ e # b) = a @ c # m @ e # b"
proof -
  assume a: "digitString a" and b: "digitString b"
  then have "a \<noteq> []" "b \<noteq> []" "isRadixDigit 10 (hd a)" "isRadixDigit 10 (last b)"
    by (auto simp: digitString_def list_all_iff)
  then show ?thesis
    by (intro trim_no_space) (auto dest: isRadixDigit_not_space)
qed

end
