(* ===== verification/Byte_Codec.thy ===== *)
theory Byte_Codec
  imports JS_Prelude
begin

text \<open>
  The byte codec of the decoder: \<open>convertBase10ToByteArray\<close> and \<open>decompressData\<close>
  of src/lib/secure-qr-decoder.ts.

  \<^item> \<open>stringToBigInt\<close> is \<^verbatim>\<open>BigInt(string)\<close>: surrounding white space is dropped, the
    empty string is 0, a decimal numeral may carry a sign, and the prefixes
    \<^verbatim>\<open>0x\<close>, \<^verbatim>\<open>0o\<close>, \<^verbatim>\<open>0b\<close> select another base; \<open>None\<close> is the \<^verbatim>\<open>SyntaxError\<close>.
  \<^item> \<open>bigIntToHex\<close> is \<^verbatim>\<open>toString(16)\<close> of a \<^verbatim>\<open>BigInt\<close>, \<open>hexToBytes\<close> the \<^verbatim>\<open>for\<close> loop
    that reads the hex string two characters at a time with \<^verbatim>\<open>parseInt\<close>, and
    \<open>toUint8\<close> the conversion of an assignment to a \<^verbatim>\<open>Uint8Array\<close> element.
  \<^item> \<open>convertBase10ToByteArray\<close> is the method, its \<^verbatim>\<open>catch\<close> block included.
  \<^item> \<open>decompressData\<close> calls the inflate routine of the environment and falls back
    to its argument when that fails. The routine either raises an exception
    (\<open>None\<close>) or returns a byte array; a call that returns without a byte array is
    not modelled.

  \<open>natToBytes\<close> and \<open>bytesValue\<close> are the reference: the big-endian bytes of a
  number and the value of a byte list; \<open>pairs\<close> is the loop of \<open>hexToBytes\<close> as a
  recursion on the string. The lemmas show that the conversion of a digit string
  is \<open>natToBytes\<close> of its number, that it inverts the encoder's decimal numeral,
  and what it does outside decimal numerals.
\<close>

section \<open>Definitions\<close>

definition digitsIn :: "nat \<Rightarrow> string \<Rightarrow> int option" where
  "digitsIn r z =
    (if z \<noteq> [] \<and> list_all (isRadixDigit r) z then Some (int (radixValue r z)) else None)"

definition stringToBigInt :: "string \<Rightarrow> int option" where
  "stringToBigInt str =
    (let s = trim str in
     if s = [] then Some 0
     else if take 2 s = ''0x'' \<or> take 2 s = ''0X'' then digitsIn 16 (drop 2 s)
     else if take 2 s = ''0o'' \<or> take 2 s = ''0O'' then digitsIn 8 (drop 2 s)
     else if take 2 s = ''0b'' \<or> take 2 s = ''0B'' then digitsIn 2 (drop 2 s)
     else if take 1 s = ''-'' then map_option uminus (digitsIn 10 (drop 1 s))
     else if take 1 s = ''+'' then digitsIn 10 (drop 1 s)
     else digitsIn 10 s)"

definition bigIntToHex :: "int \<Rightarrow> string" where
  "bigIntToHex n = (if n < 0 then CHR ''-'' # toHex (nat (- n)) else toHex (nat n))"

definition toUint8 :: "int option \<Rightarrow> byte" where
  "toUint8 v = (case v of None \<Rightarrow> 0 | Some n \<Rightarrow> of_int n)"

definition hexToBytes :: "string \<Rightarrow> bytes" where
  "hexToBytes hexString =
    map (\<lambda>i. toUint8 (parseInt (substring hexString (i * 2) (i * 2 + 2)) 16))
      [0..<length hexString div 2]"

definition convertBase10ToByteArray :: "string \<Rightarrow> error + bytes" where
  "convertBase10ToByteArray base10String =
    (case stringToBigInt base10String of
       None \<Rightarrow> Inl (ConvertFailed BigIntSyntaxError)
     | Some bigInt \<Rightarrow>
         (let hexString = bigIntToHex bigInt;
              hexString' = (if length hexString mod 2 \<noteq> 0 then CHR ''0'' # hexString
                            else hexString)
          in Inr (hexToBytes hexString')))"

definition decompressData :: "environment \<Rightarrow> bytes \<Rightarrow> bytes" where
  "decompressData env compressedData =
    (case inflate env compressedData of None \<Rightarrow> compressedData | Some d \<Rightarrow> d)"

fun natToBytes :: "nat \<Rightarrow> bytes" where
  "natToBytes n = (if n < 256 then [of_nat n] else natToBytes (n div 256) @ [of_nat (n mod 256)])"

declare natToBytes.simps [simp del]

definition bytesValue :: "bytes \<Rightarrow> nat" where
  "bytesValue bs = foldl (\<lambda>acc b. acc * 256 + unat b) 0 bs"

fun pairs :: "string \<Rightarrow> bytes" where
  "pairs (a # b # h) = toUint8 (parseInt [a, b] 16) # pairs h"
| "pairs h = []"

lemmas codec_defs =
  digitsIn_def stringToBigInt_def bigIntToHex_def toUint8_def hexToBytes_def
  convertBase10ToByteArray_def decompressData_def bytesValue_def

section \<open>Pairs of hex digits\<close>

lemma substring_Cons2:
  "substring (a # b # h) (Suc i * 2) (Suc i * 2 + 2) = substring h (i * 2) (i * 2 + 2)"
  by (simp add: substring_def Let_def min_def max_def)

lemma substring_head2 [simp]: "substring (a # b # h) 0 (Suc (Suc 0)) = [a, b]"
  by (simp add: substring_def Let_def)

lemma hexToBytes_Cons2:
  "hexToBytes (a # b # h) = toUint8 (parseInt [a, b] 16) # hexToBytes h"
proof -
  have "[0..<length (a # b # h) div 2] = 0 # map Suc [0..<length h div 2]"
    by (simp add: upt_conv_Cons map_Suc_upt del: upt_Suc)
  then show ?thesis
    unfolding hexToBytes_def
    by (simp add: comp_def substring_Cons2 [simplified] del: upt_Suc)
qed

lemma hexToBytes_short: "length h < 2 \<Longrightarrow> hexToBytes h = []"
  by (simp add: hexToBytes_def)

lemma hexToBytes_pairs: "hexToBytes h = pairs h"
  by (induction h rule: pairs.induct) (simp_all add: hexToBytes_Cons2 hexToBytes_short)

lemma pairs_append2:
  "even (length h) \<Longrightarrow> pairs (h @ [a, b]) = pairs h @ [toUint8 (parseInt [a, b] 16)]"
  by (induction h rule: pairs.induct) simp_all

section \<open>Numbers of hex digits\<close>

lemma parseInt_digits:
  assumes ne: "z \<noteq> []" and all: "\<And>c. c \<in> set z \<Longrightarrow> isRadixDigit r c"
    and r: "2 \<le> r" "r \<le> 16"
  shows "parseInt z r = Some (int (radixValue r z))"
proof -
  obtain a z' where z: "z = a # z'" using ne by (cases z) auto
  from all z have a: "isRadixDigit r a" by simp
  have ts: "trimStart z = z"
    using a by (auto simp: z trimStart_def dest: isRadixDigit_not_space)
  have sg: "take 1 z \<noteq> ''-''" "take 1 z \<noteq> ''+''"
    using a by (auto simp: z dest: isRadixDigit_not_sign)
  have px: "take 2 z \<noteq> ''0x''" "take 2 z \<noteq> ''0X''"
  proof -
    { fix b z'' assume "z' = b # z''"
      with all z have "isRadixDigit r b" by simp
      with r have "b \<noteq> CHR ''x'' \<and> b \<noteq> CHR ''X''" by (auto dest: isRadixDigit_not_x) }
    then show "take 2 z \<noteq> ''0x''" "take 2 z \<noteq> ''0X''"
      by (cases z'; auto simp: z)+
  qed
  from ts sg px ne r show ?thesis
    by (simp add: parseInt_def Let_def takeWhile_all all)
qed

lemma parseInt_hex2:
  assumes "x < 16" and "y < 16"
  shows "parseInt [hexDigit x, hexDigit y] 16 = Some (int (16 * x + y))"
proof -
  have "parseInt [hexDigit x, hexDigit y] 16 =
    Some (int (radixValue 16 [hexDigit x, hexDigit y]))"
    using assms by (intro parseInt_digits) (auto simp: isRadixDigit_hexDigit)
  moreover have "radixValue 16 [hexDigit x, hexDigit y] = 16 * x + y"
    using assms radixValue_snoc [of 16 "[hexDigit x]" "hexDigit y"]
    by (simp add: digitOf_hexDigit)
  ultimately show ?thesis by simp
qed

definition evenHex :: "nat \<Rightarrow> string" where
  "evenHex n = (let h = toHex n in if length h mod 2 \<noteq> 0 then CHR ''0'' # h else h)"

lemma toHex_digit: "n < 16 \<Longrightarrow> toHex n = [hexDigit n]"
  by (subst toHex.simps) simp

lemma toHex_two:
  assumes "16 \<le> n" and "n < 256"
  shows "toHex n = [hexDigit (n div 16), hexDigit (n mod 16)]"
proof -
  from assms have "n div 16 < 16" by simp
  with assms show ?thesis
    by (subst toHex.simps) (simp add: toHex_digit)
qed

lemma toHex_step:
  assumes "256 \<le> n"
  shows "toHex n = toHex (n div 256) @ [hexDigit (n div 16 mod 16), hexDigit (n mod 16)]"
proof -
  from assms have "toHex n = toHex (n div 16) @ [hexDigit (n mod 16)]"
    by (subst toHex.simps) simp
  moreover from assms have "toHex (n div 16) =
    toHex (n div 16 div 16) @ [hexDigit (n div 16 mod 16)]"
    by (subst toHex.simps) simp
  moreover have "n div 16 div 16 = n div 256"
    by (simp add: div_mult2_eq [symmetric])
  ultimately show ?thesis by simp
qed

lemma hexDigit_0: "hexDigit 0 = CHR ''0''"
  by (simp add: hexDigit_def char_of_eq_iff)

lemma evenHex_small: "n < 256 \<Longrightarrow> evenHex n = [hexDigit (n div 16), hexDigit (n mod 16)]"
  by (cases "n < 16") (simp_all add: evenHex_def toHex_digit toHex_two hexDigit_0)

lemma evenHex_step:
  "256 \<le> n \<Longrightarrow>
   evenHex n = evenHex (n div 256) @ [hexDigit (n div 16 mod 16), hexDigit (n mod 16)]"
  by (simp add: evenHex_def toHex_step Let_def)

lemma even_length_evenHex: "even (length (evenHex n))"
proof (cases "even (length (toHex n))")
  case True
  then have "length (toHex n) mod 2 = 0" by (simp add: even_iff_mod_2_eq_zero)
  with True show ?thesis by (simp add: evenHex_def)
next
  case False
  then have "length (toHex n) mod 2 \<noteq> 0" by (simp add: even_iff_mod_2_eq_zero)
  with False show ?thesis by (simp add: evenHex_def)
qed

lemma pairs_evenHex: "pairs (evenHex n) = natToBytes n"
proof (induction n rule: natToBytes.induct)
  case (1 n)
  show ?case
  proof (cases "n < 256")
    case True
    then have "n div 16 < 16" by simp
    with True show ?thesis
      by (subst natToBytes.simps) (simp add: evenHex_small parseInt_hex2 toUint8_def)
  next
    case False
    have m: "16 * (n div 16 mod 16) + n mod 16 = n mod 256"
      using mod_mult2_eq [of n 16 16] by simp
    from False "1.IH" have "pairs (evenHex (n div 256)) = natToBytes (n div 256)" by simp
    with False show ?thesis
      by (subst natToBytes.simps)
        (simp add: evenHex_step pairs_append2 even_length_evenHex parseInt_hex2 toUint8_def m)
  qed
qed

section \<open>The conversion on digit strings\<close>

lemma digitString_head:
  assumes "digitString s"
  shows "s \<noteq> []" and "isRadixDigit 10 (hd s)" and "isRadixDigit 10 (last s)"
    and "\<And>c. c \<in> set s \<Longrightarrow> isRadixDigit 10 c"
  using assms by (auto simp: digitString_def list_all_iff)

lemma isRadixDigit_10_not_letter:
  "isRadixDigit 10 c \<Longrightarrow> c \<notin> {CHR ''x'', CHR ''X'', CHR ''o'', CHR ''O'', CHR ''b'', CHR ''B''}"
  by (auto simp: isRadixDigit_def digitValue_def Let_def split: option.splits)

lemma digitString_no_prefix:
  assumes "digitString s"
  shows "take 2 s \<notin> {''0x'', ''0X'', ''0o'', ''0O'', ''0b'', ''0B''}"
    and "take 1 s \<noteq> ''-''" and "take 1 s \<noteq> ''+''"
proof -
  note d = digitString_head [OF assms]
  from d(1) obtain a z where s: "s = a # z" by (cases s) auto
  { fix b z' assume "z = b # z'"
    with d(4) s have "isRadixDigit 10 b" by simp
    then have "b \<notin> {CHR ''x'', CHR ''X'', CHR ''o'', CHR ''O'', CHR ''b'', CHR ''B''}"
      by (rule isRadixDigit_10_not_letter) }
  then show "take 2 s \<notin> {''0x'', ''0X'', ''0o'', ''0O'', ''0b'', ''0B''}"
    by (cases z) (auto simp: s)
  from d(2) show "take 1 s \<noteq> ''-''" "take 1 s \<noteq> ''+''"
    by (auto simp: s dest: isRadixDigit_not_sign)
qed

lemma stringToBigInt_digits:
  assumes "digitString s"
  shows "stringToBigInt s = Some (int (radixValue 10 s))"
proof -
  note d = digitString_head [OF assms]
  have tr: "trim s = s"
    using d(1-3) by (intro trim_no_space) (auto dest: isRadixDigit_not_space)
  from assms have di: "digitsIn 10 s = Some (int (radixValue 10 s))"
    by (simp add: digitsIn_def digitString_def)
  from digitString_no_prefix [OF assms] d(1) show ?thesis
    unfolding stringToBigInt_def tr Let_def by (simp add: di)
qed

lemma convert_nat:
  assumes "stringToBigInt s = Some (int n)"
  shows "convertBase10ToByteArray s = Inr (natToBytes n)"
  using assms pairs_evenHex [of n]
  by (simp add: convertBase10ToByteArray_def bigIntToHex_def hexToBytes_pairs evenHex_def Let_def)

section \<open>Big-endian values\<close>

lemma bytesValue_Nil [simp]: "bytesValue [] = 0"
  by (simp add: bytesValue_def)

lemma bytesValue_snoc [simp]: "bytesValue (bs @ [b]) = bytesValue bs * 256 + unat b"
  by (simp add: bytesValue_def)

lemma bytesValue_single [simp]: "bytesValue [b] = unat b"
  by (simp add: bytesValue_def)

lemma unat_of_nat_byte: "unat (of_nat n :: byte) = n mod 256"
  by (simp add: unat_of_nat)

lemma bytesValue_natToBytes: "bytesValue (natToBytes n) = n"
proof (induction n rule: natToBytes.induct)
  case (1 n)
  then show ?case
    by (subst natToBytes.simps) (simp add: unat_of_nat_byte bytesValue_def)
qed

lemma natToBytes_small: "natToBytes (unat (b :: byte)) = [b]"
  using unat_byte_less [of b] by (subst natToBytes.simps) simp

lemma bytesValue_pos: "bs \<noteq> [] \<Longrightarrow> hd bs \<noteq> 0 \<Longrightarrow> 0 < bytesValue bs"
proof (induction bs rule: rev_induct)
  case Nil
  then show ?case by simp
next
  case (snoc b bs)
  show ?case
  proof (cases "bs = []")
    case True
    with snoc.prems show ?thesis by (simp add: unat_gt_0)
  next
    case False
    with snoc show ?thesis by (simp add: hd_append)
  qed
qed

lemma natToBytes_bytesValue:
  assumes "bs \<noteq> []" and "hd bs \<noteq> 0 \<or> length bs = 1"
  shows "natToBytes (bytesValue bs) = bs"
  using assms
proof (induction bs rule: rev_induct)
  case Nil
  then show ?case by simp
next
  case (snoc b bs)
  show ?case
  proof (cases "bs = []")
    case True
    then show ?thesis by (simp add: natToBytes_small)
  next
    case False
    with snoc.prems have hd: "hd bs \<noteq> 0" by simp
    with False have pos: "0 < bytesValue bs" by (rule bytesValue_pos)
    from unat_byte_less [of b]
    have dm: "(bytesValue bs * 256 + unat b) div 256 = bytesValue bs"
      "(bytesValue bs * 256 + unat b) mod 256 = unat b"
      by simp_all
    from pos have "\<not> bytesValue bs * 256 + unat b < 256" by simp
    moreover have "unat b mod 256 = unat b"
      using unat_byte_less [of b] by simp
    ultimately show ?thesis
      using snoc.IH [OF False] hd by (subst natToBytes.simps) (simp add: dm)
  qed
qed

lemma length_natToBytes_pos [simp]: "natToBytes n \<noteq> []"
  by (subst natToBytes.simps) simp

lemma hd_natToBytes: "0 < n \<Longrightarrow> hd (natToBytes n) \<noteq> 0"
proof (induction n rule: natToBytes.induct)
  case (1 n)
  show ?case
  proof (cases "n < 256")
    case True
    with "1.prems" have "unat (of_nat n :: byte) \<noteq> 0" by (simp add: unat_of_nat_byte)
    then have "(of_nat n :: byte) \<noteq> 0" by (metis unat_0)
    with True show ?thesis by (subst natToBytes.simps) simp
  next
    case False
    then have "0 < n div 256" by simp
    with "1.IH" False show ?thesis
      by (subst natToBytes.simps) simp
  qed
qed

lemma convert_decimal: "convertBase10ToByteArray (toDecimal n) = Inr (natToBytes n)"
  by (simp add: convert_nat stringToBigInt_digits radixValue_toDecimal)

section \<open>Evaluation on examples\<close>

lemma convert_eval:
  assumes "stringToBigInt s = Some n" and "bigIntToHex n = h"
    and "pairs (if length h mod 2 \<noteq> 0 then CHR ''0'' # h else h) = bs"
  shows "convertBase10ToByteArray s = Inr bs"
  using assms by (simp add: convertBase10ToByteArray_def hexToBytes_pairs Let_def)

lemmas bigint_eval = stringToBigInt_def digitsIn_def
lemmas hex_eval = bigIntToHex_def toHex.simps hexDigit_def char_of_eq_iff

section \<open>Properties\<close>

text \<open>
  Claim C3. On a string of decimal digits \<open>convertBase10ToByteArray\<close> returns the
  big-endian bytes of the number, without leading zero bytes: \<open>255\<close> gives the one
  byte \<open>0xFF\<close> and \<open>256\<close> the two bytes \<open>0x01 0x00\<close>.
\<close>

theorem convertBase10ToByteArray_digits:
  assumes "digitString s"
  shows "convertBase10ToByteArray s = Inr (natToBytes (radixValue 10 s))"
  using assms by (simp add: convert_nat stringToBigInt_digits)

lemma sample_numbers: "digitString ''255''" "digitString ''256''"
  "radixValue 10 ''255'' = 255" "radixValue 10 ''256'' = 256"
  "natToBytes 255 = [255]" "natToBytes 256 = [1, 0]"
  by (simp_all add: digitString_def js_defs natToBytes.simps)

theorem convertBase10ToByteArray_digits_witness:
  "digitString ''255'' \<and> digitString ''256'' \<and>
   convertBase10ToByteArray ''255'' = Inr [255] \<and>
   convertBase10ToByteArray ''256'' = Inr [1, 0]"
  using convertBase10ToByteArray_digits [of "''255''"]
    convertBase10ToByteArray_digits [of "''256''"] sample_numbers
  by simp

text \<open>
  Claim C20. Round trip with the encoder: the decimal numeral of the big-endian value
  of a byte array is converted back to that array, provided the array has no
  leading zero byte (or is the single byte 0).
\<close>

theorem convertBase10ToByteArray_roundtrip:
  assumes "bs \<noteq> []" and "hd bs \<noteq> 0 \<or> length bs = 1"
  shows "convertBase10ToByteArray (toDecimal (bytesValue bs)) = Inr bs"
  using assms
  by (simp add: convert_decimal natToBytes_bytesValue)

theorem convertBase10ToByteArray_roundtrip_witness:
  "convertBase10ToByteArray (toDecimal (bytesValue [31, 139, 8])) = Inr [31, 139, 8]"
  using convertBase10ToByteArray_roundtrip [of "[31, 139, 8]"] by simp

text \<open>
  The bytes returned for a digit string have the number as their
  big-endian value, and the first byte is zero only for the number zero.
\<close>

theorem convertBase10ToByteArray_value:
  assumes "digitString s"
  shows "\<exists>bs. convertBase10ToByteArray s = Inr bs \<and> bs \<noteq> [] \<and>
    bytesValue bs = radixValue 10 s \<and> (hd bs = 0) = (radixValue 10 s = 0)"
proof -
  have "(hd (natToBytes n) = 0) = (n = 0)" for n
    using hd_natToBytes [of n] by (cases "n = 0") (simp_all add: natToBytes.simps)
  with assms show ?thesis
    by (simp add: convert_nat stringToBigInt_digits bytesValue_natToBytes)
qed

theorem convertBase10ToByteArray_value_witness:
  "digitString ''256'' \<and>
   (\<exists>bs. convertBase10ToByteArray ''256'' = Inr bs \<and> bs \<noteq> [] \<and> bytesValue bs = 256 \<and> hd bs \<noteq> 0)"
  using convertBase10ToByteArray_value [of "''256''"] sample_numbers by simp

text \<open>
  The only failure of \<open>convertBase10ToByteArray\<close> is the \<^verbatim>\<open>SyntaxError\<close> of
  \<^verbatim>\<open>BigInt\<close>, rethrown with the prefix of the \<^verbatim>\<open>catch\<close> block; it is raised exactly
  when the text is not an integer literal.
\<close>

theorem convertBase10ToByteArray_error:
  "convertBase10ToByteArray s = Inl e \<longleftrightarrow>
   stringToBigInt s = None \<and> e = ConvertFailed BigIntSyntaxError"
  by (auto simp: convertBase10ToByteArray_def Let_def split: option.splits)

text \<open>
  \<^verbatim>\<open>BigInt\<close> accepts more than decimal numerals, and so does the
  conversion: the empty string is the number 0, a hexadecimal literal is read in
  base 16, and a negative numeral yields the bytes of the hex string with its minus
  sign, which \<^verbatim>\<open>parseInt\<close> reads pair by pair. A numeral with a fraction is rejected.
\<close>

theorem convertBase10ToByteArray_lenient:
  "convertBase10ToByteArray [] = Inr [0] \<and>
   convertBase10ToByteArray ''0x1f8b'' = Inr [31, 139] \<and>
   convertBase10ToByteArray ''-255'' = Inr [0, 255] \<and>
   convertBase10ToByteArray ''-15'' = Inr [241] \<and>
   convertBase10ToByteArray ''1.5'' = Inl (ConvertFailed BigIntSyntaxError)"
proof -
  have "convertBase10ToByteArray [] = Inr [0]"
    by (rule convert_eval [where n = 0 and h = "''0''"])
      (simp_all add: bigint_eval hex_eval toUint8_def js_defs)
  moreover have "convertBase10ToByteArray ''0x1f8b'' = Inr [31, 139]"
    by (rule convert_eval [where n = 8075 and h = "''1f8b''"])
      (simp_all add: bigint_eval hex_eval toUint8_def js_defs)
  moreover have "convertBase10ToByteArray ''-255'' = Inr [0, 255]"
    by (rule convert_eval [where n = "- 255" and h = "''-ff''"])
      (simp_all add: bigint_eval hex_eval toUint8_def js_defs)
  moreover have "convertBase10ToByteArray ''-15'' = Inr [241]"
    by (rule convert_eval [where n = "- 15" and h = "''-f''"])
      (simp_all add: bigint_eval hex_eval toUint8_def js_defs)
  moreover have "stringToBigInt ''1.5'' = None"
    by (simp add: bigint_eval js_defs)
  then have "convertBase10ToByteArray ''1.5'' = Inl (ConvertFailed BigIntSyntaxError)"
    by (simp add: convertBase10ToByteArray_def)
  ultimately show ?thesis by simp
qed

end
