(* ===== verification/JS_Date.thy ===== *)
theory JS_Date
  imports JS_Prelude
begin

text \<open>
  The part of the JavaScript \<^verbatim>\<open>Date\<close> object that the decoder calls from
  \<^verbatim>\<open>parseDateOfBirth\<close> and \<^verbatim>\<open>calculateAge\<close> (src/lib/secure-qr-decoder.ts): the
  constructor \<^verbatim>\<open>new Date(year, monthIndex, day)\<close>, the getters \<^verbatim>\<open>getFullYear\<close>,
  \<^verbatim>\<open>getMonth\<close>, \<^verbatim>\<open>getDate\<close>, the setter \<^verbatim>\<open>setFullYear\<close> and the comparison of two
  dates by their time values. The definitions follow the day-number arithmetic of
  ECMA-262 (\<open>DayFromYear\<close>, \<open>YearFromTime\<close>, \<open>MonthFromTime\<close>, \<open>DateFromTime\<close>,
  \<open>MakeDay\<close>, \<open>TimeClip\<close>).

  A date is its time value, an \<open>int\<close> of milliseconds, and \<open>None\<close> is the invalid
  date (\<^verbatim>\<open>NaN\<close>). The time axis is local time: the model assumes a constant offset
  between local time and UTC, under which the constructor and the getters cancel
  the offset; only \<open>TimeClip\<close> is then applied a few hours off its true place, at
  dates 273,000 years from now.

  \<open>YearFromDay\<close> searches upwards from an estimate that is never above the year;
  \<open>YearFromDay_spec\<close> and \<open>YearFromDay_unique\<close> characterise it as ECMA-262 does
  (the year whose first day is the latest not after the given day), and
  \<open>civil_roundtrip\<close> shows that the getters give back the fields of a date built
  from a valid year, month and day.
\<close>

section \<open>Day numbers and years\<close>

definition msPerDay :: int where
  "msPerDay = 86400000"

definition Day :: "int \<Rightarrow> int" where
  "Day t = t div msPerDay"

definition TimeWithinDay :: "int \<Rightarrow> int" where
  "TimeWithinDay t = t mod msPerDay"


lemma div_succ:
  fixes x n :: int
  assumes "0 < n"
  shows "(x + 1) div n = x div n + (if (x + 1) mod n = 0 then 1 else 0)"
proof -
  define q r where "q = x div n" and "r = x mod n"
  have x: "x = n * q + r" and r: "0 \<le> r" "r < n"
    using assms by (simp_all add: q_def r_def)
  show ?thesis
  proof (cases "r + 1 = n")
    case True
    with x have "x + 1 = n * (q + 1)" by (simp add: algebra_simps)
    with assms have "(x + 1) div n = q + 1" and "(x + 1) mod n = 0" by simp_all
    then show ?thesis by (simp add: q_def)
  next
    case False
    with r have r1: "r + 1 < n" by simp
    from x have x1: "x + 1 = (r + 1) + q * n" by (simp add: algebra_simps)
    from r r1 have "(x + 1) div n = q" and "(x + 1) mod n = r + 1"
      unfolding x1 by simp_all
    with r show ?thesis by (simp add: q_def)
  qed
qed

lemma mod_shift: "((x::int) - n * k) mod n = x mod n"
  by (metis mod_mult_self4 diff_add_cancel mult.commute add.commute)

definition DaysInYear :: "int \<Rightarrow> int" where
  "DaysInYear y =
    (if y mod 4 \<noteq> 0 then 365 else if y mod 100 \<noteq> 0 then 366
     else if y mod 400 \<noteq> 0 then 365 else 366)"

definition DayFromYear :: "int \<Rightarrow> int" where
  "DayFromYear y = 365 * (y - 1970) + (y - 1969) div 4 - (y - 1901) div 100 + (y - 1601) div 400"

lemma mod_chain: "(y::int) mod 400 = 0 \<Longrightarrow> y mod 100 = 0" "(y::int) mod 100 = 0 \<Longrightarrow> y mod 4 = 0"
  by (simp_all add: mod_eq_0_iff_dvd) (auto elim!: dvdE)

lemma DayFromYear_Suc: "DayFromYear (y + 1) = DayFromYear y + DaysInYear y"
proof -
  have a: "(y + 1 - 1969) div 4 = (y - 1969) div 4 + (if y mod 4 = 0 then 1 else 0)"
    using div_succ [of 4 "y - 1969"] mod_shift [of y 4 492] by (simp add: algebra_simps)
  have b: "(y + 1 - 1901) div 100 = (y - 1901) div 100 + (if y mod 100 = 0 then 1 else 0)"
    using div_succ [of 100 "y - 1901"] mod_shift [of y 100 19] by (simp add: algebra_simps)
  have c: "(y + 1 - 1601) div 400 = (y - 1601) div 400 + (if y mod 400 = 0 then 1 else 0)"
    using div_succ [of 400 "y - 1601"] mod_shift [of y 400 4] by (simp add: algebra_simps)
  show ?thesis
    unfolding DayFromYear_def DaysInYear_def a b c
    using mod_chain [of y] by auto
qed


lemma DaysInYear_bounds: "365 \<le> DaysInYear y \<and> DaysInYear y \<le> 366"
  by (simp add: DaysInYear_def)

lemma DayFromYear_less: "DayFromYear y < DayFromYear (y + 1)"
  using DaysInYear_bounds [of y] by (simp add: DayFromYear_Suc)

lemma DayFromYear_add:
  "DayFromYear y + 365 * int k \<le> DayFromYear (y + int k) \<and>
   DayFromYear (y + int k) \<le> DayFromYear y + 366 * int k"
proof (induction k)
  case 0
  show ?case by simp
next
  case (Suc k)
  have "DayFromYear (y + int (Suc k)) = DayFromYear (y + int k) + DaysInYear (y + int k)"
    using DayFromYear_Suc [of "y + int k"] by (simp add: add.commute add.left_commute)
  with Suc DaysInYear_bounds [of "y + int k"] show ?case by simp
qed

lemma DayFromYear_mono: "y \<le> z \<Longrightarrow> DayFromYear y \<le> DayFromYear z"
  using DayFromYear_add [of y "nat (z - y)"] by simp

lemma DayFromYear_1970 [simp]: "DayFromYear 1970 = 0"
  by (simp add: DayFromYear_def)

function yearSearch :: "int \<Rightarrow> int \<Rightarrow> int" where
  "yearSearch d y = (if DayFromYear (y + 1) \<le> d then yearSearch d (y + 1) else y)"
  by pat_completeness auto
termination
proof (relation "measure (\<lambda>(d, y). nat (d - DayFromYear y))")
  show "wf (measure (\<lambda>(d, y). nat (d - DayFromYear y)))" by simp
next
  fix d y :: int
  assume "DayFromYear (y + 1) \<le> d"
  with DayFromYear_less [of y]
  show "((d, y + 1), (d, y)) \<in> measure (\<lambda>(d, y). nat (d - DayFromYear y))"
    by simp
qed

declare yearSearch.simps [simp del]

definition yearEstimate :: "int \<Rightarrow> int" where
  "yearEstimate d = 1970 + (if d < 0 then d div 365 else d div 366)"

definition YearFromDay :: "int \<Rightarrow> int" where
  "YearFromDay d = yearSearch d (yearEstimate d)"

lemma yearSearch_spec:
  "DayFromYear y \<le> d \<Longrightarrow>
   DayFromYear (yearSearch d y) \<le> d \<and> d < DayFromYear (yearSearch d y + 1)"
proof (induction d y rule: yearSearch.induct)
  case (1 d y)
  then show ?case
    by (cases "DayFromYear (y + 1) \<le> d") (simp_all add: yearSearch.simps [of d y])
qed

lemma yearEstimate_le: "DayFromYear (yearEstimate d) \<le> d"
proof (cases "d < 0")
  case True
  define k where "k = nat (- (d div 365))"
  from True have k: "int k = - (d div 365)"
    by (simp add: k_def div_int_pos_iff)
  from DayFromYear_add [of "1970 - int k" k]
  have "DayFromYear (1970 - int k) \<le> - (365 * int k)" by simp
  also have "\<dots> \<le> d" unfolding k by simp
  finally show ?thesis using True by (simp add: yearEstimate_def k)
next
  case False
  define k where "k = nat (d div 366)"
  from False have k: "int k = d div 366"
    by (simp add: k_def div_int_pos_iff)
  from DayFromYear_add [of 1970 k]
  have "DayFromYear (1970 + int k) \<le> 366 * int k" by simp
  also have "\<dots> \<le> d" unfolding k by simp
  finally show ?thesis using False by (simp add: yearEstimate_def k)
qed

lemma YearFromDay_spec:
  "DayFromYear (YearFromDay d) \<le> d \<and> d < DayFromYear (YearFromDay d + 1)"
  unfolding YearFromDay_def by (rule yearSearch_spec) (rule yearEstimate_le)

lemma YearFromDay_unique:
  assumes "DayFromYear y \<le> d" and "d < DayFromYear (y + 1)"
  shows "YearFromDay d = y"
proof (rule ccontr)
  assume ne: "YearFromDay d \<noteq> y"
  let ?z = "YearFromDay d"
  from YearFromDay_spec [of d]
  have z: "DayFromYear ?z \<le> d" "d < DayFromYear (?z + 1)" by simp_all
  from ne consider "?z < y" | "y < ?z" by linarith
  then show False
  proof cases
    case 1
    then have "DayFromYear (?z + 1) \<le> DayFromYear y" by (intro DayFromYear_mono) simp
    with z assms show False by simp
  next
    case 2
    then have "DayFromYear (y + 1) \<le> DayFromYear ?z" by (intro DayFromYear_mono) simp
    with z assms show False by simp
  qed
qed

section \<open>Months and days of the month\<close>

definition InLeapYear :: "int \<Rightarrow> bool" where
  "InLeapYear y = (DaysInYear y = 366)"

definition monthStart :: "bool \<Rightarrow> nat \<Rightarrow> int" where
  "monthStart leap m =
    int ([0, 31, 59, 90, 120, 151, 181, 212, 243, 273, 304, 334, 365] ! m)
    + (if leap \<and> 2 \<le> m then 1 else 0)"

definition DayWithinYear :: "int \<Rightarrow> int" where
  "DayWithinYear d = d - DayFromYear (YearFromDay d)"

definition MonthFromDay :: "int \<Rightarrow> nat" where
  "MonthFromDay d =
    (let w = DayWithinYear d; l = InLeapYear (YearFromDay d) in
     if w < monthStart l 1 then 0 else if w < monthStart l 2 then 1
     else if w < monthStart l 3 then 2 else if w < monthStart l 4 then 3
     else if w < monthStart l 5 then 4 else if w < monthStart l 6 then 5
     else if w < monthStart l 7 then 6 else if w < monthStart l 8 then 7
     else if w < monthStart l 9 then 8 else if w < monthStart l 10 then 9
     else if w < monthStart l 11 then 10 else 11)"

definition DateFromDay :: "int \<Rightarrow> int" where
  "DateFromDay d =
    DayWithinYear d - monthStart (InLeapYear (YearFromDay d)) (MonthFromDay d) + 1"

definition daysInMonth :: "int \<Rightarrow> nat \<Rightarrow> int" where
  "daysInMonth y m = monthStart (InLeapYear y) (Suc m) - monthStart (InLeapYear y) m"

definition MakeDay :: "int \<Rightarrow> int \<Rightarrow> int \<Rightarrow> int" where
  "MakeDay year month date =
    (let ym = year + month div 12;
         mn = nat (month mod 12)
     in DayFromYear ym + monthStart (InLeapYear ym) mn + date - 1)"

definition TimeClip :: "int \<Rightarrow> int option" where
  "TimeClip t = (if 8640000000000000 < \<bar>t\<bar> then None else Some t)"

section \<open>The Date operations the decoder calls\<close>

definition newDate :: "int \<Rightarrow> int \<Rightarrow> int \<Rightarrow> int option" where
  "newDate year month date =
    (let yr = (if 0 \<le> year \<and> year \<le> 99 then 1900 + year else year)
     in TimeClip (MakeDay yr month date * msPerDay))"

definition getFullYear :: "int \<Rightarrow> int" where
  "getFullYear t = YearFromDay (Day t)"

definition getMonth :: "int \<Rightarrow> int" where
  "getMonth t = int (MonthFromDay (Day t))"

definition getDate :: "int \<Rightarrow> int" where
  "getDate t = DateFromDay (Day t)"

definition setFullYear :: "int \<Rightarrow> int \<Rightarrow> int option" where
  "setFullYear t y =
    TimeClip (MakeDay y (getMonth t) (getDate t) * msPerDay + TimeWithinDay t)"

lemmas date_defs =
  Day_def TimeWithinDay_def msPerDay_def InLeapYear_def DaysInYear_def monthStart_def
  DayWithinYear_def MonthFromDay_def DateFromDay_def daysInMonth_def MakeDay_def
  TimeClip_def newDate_def getFullYear_def getMonth_def getDate_def setFullYear_def

section \<open>Lemmas: months\<close>

lemma monthStart_0 [simp]: "monthStart l 0 = 0"
  by (simp add: monthStart_def)

lemma monthStart_12: "monthStart (InLeapYear y) 12 = DaysInYear y"
  by (simp add: monthStart_def InLeapYear_def DaysInYear_def)

lemma lt12_cases [consumes 1]:
  assumes "m < (12::nat)"
  obtains "m = 0" | "m = 1" | "m = 2" | "m = 3" | "m = 4" | "m = 5" | "m = 6"
    | "m = 7" | "m = 8" | "m = 9" | "m = 10" | "m = 11"
proof -
  from assms have "m = 0 \<or> m = 1 \<or> m = 2 \<or> m = 3 \<or> m = 4 \<or> m = 5 \<or> m = 6
    \<or> m = 7 \<or> m = 8 \<or> m = 9 \<or> m = 10 \<or> m = 11"
    by presburger
  with that show thesis by blast
qed

lemma monthStart_nonneg: "m < 12 \<Longrightarrow> 0 \<le> monthStart l m"
  by (cases m rule: lt12_cases) (simp_all add: monthStart_def)

lemma monthStart_Suc_le: "m < 12 \<Longrightarrow> monthStart l (Suc m) \<le> monthStart l 12"
  by (cases m rule: lt12_cases) (simp_all add: monthStart_def)

lemma daysInMonth_bounds: "m < 12 \<Longrightarrow> 28 \<le> daysInMonth y m \<and> daysInMonth y m \<le> 31"
  by (cases m rule: lt12_cases) (simp_all add: daysInMonth_def monthStart_def)

lemma Day_MakeDay [simp]: "Day (d * msPerDay) = d"
  by (simp add: Day_def msPerDay_def)

lemma Day_MakeDay_add:
  "0 \<le> r \<Longrightarrow> r < msPerDay \<Longrightarrow> Day (d * msPerDay + r) = d"
  by (simp add: Day_def msPerDay_def)

lemma MonthFromDay_eq:
  assumes "m < 12" and "monthStart (InLeapYear (YearFromDay d)) m \<le> DayWithinYear d"
    and "DayWithinYear d < monthStart (InLeapYear (YearFromDay d)) (Suc m)"
  shows "MonthFromDay d = m"
  using assms
  by (cases m rule: lt12_cases)
    (simp_all add: MonthFromDay_def Let_def monthStart_def split: if_splits)

text \<open>
  Round trip of the calendar: a day built by \<open>MakeDay\<close> from a year, a month index
  below 12 and a day of that month is read back by the three getters unchanged.
\<close>

lemma civil_roundtrip:
  assumes m: "m < 12" and lo: "1 \<le> dt" and hi: "dt \<le> daysInMonth y m"
  shows "YearFromDay (MakeDay y (int m) dt) = y"
    and "MonthFromDay (MakeDay y (int m) dt) = m"
    and "DateFromDay (MakeDay y (int m) dt) = dt"
proof -
  let ?l = "InLeapYear y"
  let ?d = "MakeDay y (int m) dt"
  from m have d: "?d = DayFromYear y + monthStart ?l m + dt - 1"
    by (simp add: MakeDay_def Let_def)
  from m have "0 \<le> monthStart ?l m"
    by (rule monthStart_nonneg)
  with lo d have ge: "DayFromYear y \<le> ?d" by simp
  from hi have "monthStart ?l m + dt \<le> monthStart ?l (Suc m)"
    by (simp add: daysInMonth_def)
  also from m have "\<dots> \<le> monthStart ?l 12"
    by (rule monthStart_Suc_le)
  finally have "monthStart ?l m + dt \<le> DaysInYear y"
    by (simp add: monthStart_12)
  with d have lt: "?d < DayFromYear (y + 1)"
    by (simp add: DayFromYear_Suc)
  from ge lt show yr: "YearFromDay ?d = y" by (rule YearFromDay_unique)
  from d yr have w: "DayWithinYear ?d = monthStart ?l m + dt - 1"
    by (simp add: DayWithinYear_def)
  from m w lo hi show mo: "MonthFromDay ?d = m"
    by (intro MonthFromDay_eq) (simp_all add: yr daysInMonth_def)
  from w yr mo show "DateFromDay ?d = dt"
    by (simp add: DateFromDay_def)
qed

lemma MakeDay_strict_mono_date: "a < b \<Longrightarrow> MakeDay y m a < MakeDay y m b"
  by (simp add: MakeDay_def Let_def)

end
