(* ===== verification/Date_Age.thy ===== *)
theory Date_Age
  imports JS_Date
begin

text \<open>
  The date and age deriver of the decoder: \<open>parseDateOfBirth\<close> and \<open>calculateAge\<close>
  of src/lib/secure-qr-decoder.ts, over the \<^verbatim>\<open>Date\<close> model of \<open>JS_Date\<close>.

  \<open>parseDateOfBirth\<close> returns \<open>None\<close> where the code returns \<^verbatim>\<open>null\<close>: a wrong number
  of parts, a part that is not a number, an invalid date, a date after the clock
  reading or more than 120 years before it. \<open>calculateAge\<close> is the difference of
  the years, less one before the birthday. The one clock reading \<open>now env\<close> stands
  for the calls of \<^verbatim>\<open>new Date()\<close> that \<^verbatim>\<open>parseDateOfBirth\<close> and \<^verbatim>\<open>calculateAge\<close> make
  one after the other while one record is decoded.

  The lemmas give the age in terms of the calendar fields of the two dates
  (\<open>calculateAge_civil\<close>), the adult flag as the eighteenth birthday
  (\<open>isAdult_civil\<close>), the range of accepted dates (\<open>parseDateOfBirth_range\<close>),
  the three accepted formats on digit strings and what the parser makes of a year
  of one or two digits (\<open>parseDateOfBirth_two_digit_year\<close>).
\<close>

section \<open>Definitions\<close>

definition calculateAge :: "environment \<Rightarrow> int \<Rightarrow> int" where
  "calculateAge env dob =
    (let today = now env;
         age = getFullYear today - getFullYear dob;
         monthDiff = getMonth today - getMonth dob
     in if monthDiff < 0 \<or> (monthDiff = 0 \<and> getDate today < getDate dob)
        then age - 1 else age)"

definition dateFromParts :: "int option \<Rightarrow> int option \<Rightarrow> int option \<Rightarrow> int option" where
  "dateFromParts day month year =
    (case day of None \<Rightarrow> None | Some d \<Rightarrow>
     case month of None \<Rightarrow> None | Some m \<Rightarrow>
     case year of None \<Rightarrow> None | Some y \<Rightarrow> newDate y (m - 1) d)"

definition parseSlashDate :: "string \<Rightarrow> int option" where
  "parseSlashDate cleanDob =
    (let parts = splitOn CHR ''/'' cleanDob in
     if length parts \<noteq> 3 then None
     else dateFromParts (parseInt (parts ! 0) 10) (parseInt (parts ! 1) 10)
            (parseInt (parts ! 2) 10))"

definition parseHyphenDate :: "string \<Rightarrow> int option" where
  "parseHyphenDate cleanDob =
    (let parts = splitOn CHR ''-'' cleanDob in
     if length parts \<noteq> 3 then None
     else if length (parts ! 0) = 4
       then dateFromParts (parseInt (parts ! 2) 10) (parseInt (parts ! 1) 10)
              (parseInt (parts ! 0) 10)
       else dateFromParts (parseInt (parts ! 0) 10) (parseInt (parts ! 1) 10)
              (parseInt (parts ! 2) 10))"

definition minDate :: "environment \<Rightarrow> int option" where
  "minDate env = setFullYear (now env) (getFullYear (now env) - 120)"

definition tooOld :: "environment \<Rightarrow> int \<Rightarrow> bool" where
  "tooOld env dob = (case minDate env of None \<Rightarrow> False | Some m \<Rightarrow> dob < m)"

definition parseDateOfBirth :: "environment \<Rightarrow> string \<Rightarrow> int option" where
  "parseDateOfBirth env dobString =
    (let cleanDob = trim dobString;
         dob = (if includesChar cleanDob CHR ''/'' then parseSlashDate cleanDob
                else if includesChar cleanDob CHR ''-'' then parseHyphenDate cleanDob
                else dateParse env cleanDob)
     in case dob of
          None \<Rightarrow> None
        | Some t \<Rightarrow>
            if now env < t then None
            else if tooOld env t then None
            else Some t)"

definition isAdultAge :: "int \<Rightarrow> bool" where
  "isAdultAge age = (18 \<le> age)"

definition validCivil :: "int \<Rightarrow> nat \<Rightarrow> int \<Rightarrow> bool" where
  "validCivil y m d = (m < 12 \<and> 1 \<le> d \<and> d \<le> daysInMonth y m)"

definition civilTime :: "int \<Rightarrow> nat \<Rightarrow> int \<Rightarrow> int" where
  "civilTime y m d = MakeDay y (int m) d * msPerDay"

lemmas age_defs =
  calculateAge_def dateFromParts_def parseSlashDate_def parseHyphenDate_def minDate_def
  tooOld_def parseDateOfBirth_def isAdultAge_def validCivil_def civilTime_def
  digitString_def

section \<open>Getters of calendar dates\<close>

lemma getters_civil [simp]:
  assumes "validCivil y m d" and "0 \<le> r" and "r < msPerDay"
  shows "getFullYear (civilTime y m d + r) = y"
    and "getMonth (civilTime y m d + r) = int m"
    and "getDate (civilTime y m d + r) = d"
  using assms civil_roundtrip [of m d y]
  by (simp_all add: validCivil_def civilTime_def getFullYear_def getMonth_def getDate_def
      Day_MakeDay_add)

lemma getters_civil0 [simp]:
  assumes "validCivil y m d"
  shows "getFullYear (civilTime y m d) = y"
    and "getMonth (civilTime y m d) = int m"
    and "getDate (civilTime y m d) = d"
  using getters_civil [OF assms, of 0] by (simp_all add: msPerDay_def)

section \<open>Age\<close>

text \<open>
  Claim C6. \<open>calculateAge\<close> computes the completed years between the date of birth
  and the clock reading: for calendar dates \<open>y-m-d\<close> (birth) and \<open>yT-mT-dT\<close> (today,
  at any time \<open>r\<close> of the day) the result is \<open>yT - y\<close>, less one when today's month
  and day come before the birthday's.
\<close>

theorem calculateAge_civil:
  assumes "validCivil yT mT dT" and "0 \<le> r" and "r < msPerDay"
    and "now env = civilTime yT mT dT + r" and "validCivil y m d"
  shows "calculateAge env (civilTime y m d) =
    (if mT < m \<or> (mT = m \<and> dT < d) then yT - y - 1 else yT - y)"
  using assms by (auto simp: calculateAge_def Let_def)

lemmas civil_eval =
  validCivil_def daysInMonth_def monthStart_def InLeapYear_def DaysInYear_def msPerDay_def

theorem calculateAge_civil_witness:
  "validCivil 2024 5 14 \<and> validCivil 2024 5 15 \<and> validCivil 2000 5 15 \<and>
   calculateAge (clockAt (civilTime 2024 5 14 + 3600000)) (civilTime 2000 5 15) = 23 \<and>
   calculateAge (clockAt (civilTime 2024 5 15)) (civilTime 2000 5 15) = 24"
  using calculateAge_civil [of 2024 5 14 3600000 "clockAt (civilTime 2024 5 14 + 3600000)"
      2000 5 15]
    calculateAge_civil [of 2024 5 15 0 "clockAt (civilTime 2024 5 15)" 2000 5 15]
  by (simp add: civil_eval)

text \<open>
  The adult flag \<open>age >= 18\<close> holds exactly from the eighteenth birthday
  on: the birth year is more than 18 years back, or exactly 18 and the birthday's
  month and day are not after today's.
\<close>

theorem isAdult_civil:
  assumes "validCivil yT mT dT" and "0 \<le> r" and "r < msPerDay"
    and "now env = civilTime yT mT dT + r" and "validCivil y m d"
  shows "isAdultAge (calculateAge env (civilTime y m d)) \<longleftrightarrow>
    (y + 18 < yT \<or> (y + 18 = yT \<and> (m < mT \<or> (m = mT \<and> d \<le> dT))))"
  using assms by (auto simp: calculateAge_def Let_def isAdultAge_def)

theorem isAdult_civil_witness:
  "validCivil 2024 5 14 \<and> validCivil 2006 5 15 \<and>
   \<not> isAdultAge (calculateAge (clockAt (civilTime 2024 5 14)) (civilTime 2006 5 15))"
  using isAdult_civil [of 2024 5 14 0 "clockAt (civilTime 2024 5 14)" 2006 5 15]
  by (simp add: civil_eval)

section \<open>Parsing\<close>

lemma parseDateOfBirth_validate:
  "parseDateOfBirth env s =
    (case (let c = trim s in
           if includesChar c CHR ''/'' then parseSlashDate c
           else if includesChar c CHR ''-'' then parseHyphenDate c
           else dateParse env c) of
       None \<Rightarrow> None
     | Some t \<Rightarrow> if now env < t \<or> tooOld env t then None else Some t)"
  by (simp add: parseDateOfBirth_def Let_def split: option.splits)

definition checkRange :: "environment \<Rightarrow> int option \<Rightarrow> int option" where
  "checkRange env dob =
    (case dob of None \<Rightarrow> None
     | Some t \<Rightarrow> if now env < t \<or> tooOld env t then None else Some t)"

lemma splitOn_three [js_simps]:
  assumes "sep \<notin> set a" and "sep \<notin> set b" and "sep \<notin> set c"
  shows "splitOn sep (a @ sep # b @ sep # c) = [a, b, c]"
  using assms by (simp add: splitOn_append_sep splitOn_no_sep)

lemma parse_parts:
  assumes "trim s = s" and "splitOn c s = [p0, p1, p2]" and "c \<in> set s"
    and "c = CHR ''/'' \<or> c = CHR ''-'' \<and> CHR ''/'' \<notin> set s \<and> length p0 \<noteq> 4"
  shows "parseDateOfBirth env s =
    checkRange env (dateFromParts (parseInt p0 10) (parseInt p1 10) (parseInt p2 10))"
  using assms unfolding parseDateOfBirth_validate checkRange_def
  by (auto simp: includesChar_def parseSlashDate_def parseHyphenDate_def)

lemma parse_parts_iso:
  assumes "trim s = s" and "splitOn CHR ''-'' s = [p0, p1, p2]" and "CHR ''-'' \<in> set s"
    and "CHR ''/'' \<notin> set s" and "length p0 = 4"
  shows "parseDateOfBirth env s =
    checkRange env (dateFromParts (parseInt p2 10) (parseInt p1 10) (parseInt p0 10))"
  using assms unfolding parseDateOfBirth_validate checkRange_def
  by (auto simp: includesChar_def parseHyphenDate_def)

lemma dateFromParts_digits:
  assumes "digitString ds" and "digitString ms" and "digitString ys"
  shows "dateFromParts (parseInt ds 10) (parseInt ms 10) (parseInt ys 10) =
    newDate (int (radixValue 10 ys)) (int (radixValue 10 ms) - 1) (int (radixValue 10 ds))"
  using assms by (simp add: dateFromParts_def digitString_parseInt)

text \<open>
  On a string \<open>DD/MM/YYYY\<close> of three digit strings the parser builds the
  date from year, month minus one and day, in that order, and then applies the range
  check; nothing else of the string matters.
\<close>

theorem parseDateOfBirth_slash:
  assumes "digitString ds" and "digitString ms" and "digitString ys"
  shows "parseDateOfBirth env (ds @ CHR ''/'' # ms @ CHR ''/'' # ys) =
    checkRange env (newDate (int (radixValue 10 ys)) (int (radixValue 10 ms) - 1)
      (int (radixValue 10 ds)))"
proof -
  let ?s = "ds @ CHR ''/'' # ms @ CHR ''/'' # ys"
  from assms have tr: "trim ?s = ?s" by (simp add: digitString_trim)
  from assms have sp: "splitOn CHR ''/'' ?s = [ds, ms, ys]"
    by (intro splitOn_three) (simp_all add: digitString_no_sep)
  show ?thesis
    using parse_parts [OF tr sp] dateFromParts_digits [OF assms] by simp
qed

lemma sample_dates:
  "validCivil 2024 5 14"
  "newDate 2000 5 15 = Some (civilTime 2000 5 15)"
  "minDate (clockAt (civilTime 2024 5 14)) = Some (civilTime 1904 5 14)"
  "civilTime 1904 5 14 \<le> civilTime 2000 5 15"
  "civilTime 2000 5 15 \<le> civilTime 2024 5 14"
proof -
  show v: "validCivil 2024 5 14" by (simp add: civil_eval)
  show "newDate 2000 5 15 = Some (civilTime 2000 5 15)"
    by (simp add: newDate_def civilTime_def TimeClip_def MakeDay_def DayFromYear_def civil_eval)
  have g: "getFullYear (civilTime 2024 5 14) = 2024" "getMonth (civilTime 2024 5 14) = 5"
    "getDate (civilTime 2024 5 14) = 14"
    using v by simp_all
  show "minDate (clockAt (civilTime 2024 5 14)) = Some (civilTime 1904 5 14)"
    by (simp add: minDate_def setFullYear_def g)
      (simp add: civilTime_def TimeClip_def MakeDay_def DayFromYear_def TimeWithinDay_def
        civil_eval)
  show "civilTime 1904 5 14 \<le> civilTime 2000 5 15"
    "civilTime 2000 5 15 \<le> civilTime 2024 5 14"
    by (simp_all add: civilTime_def MakeDay_def DayFromYear_def civil_eval)
qed

lemma sample_digits:
  "digitString ''15''" "digitString ''06''" "digitString ''2000''" "digitString ''24''"
  by (simp_all add: digitString_def js_defs)

theorem parseDateOfBirth_slash_witness:
  "digitString ''15'' \<and> digitString ''06'' \<and> digitString ''2000'' \<and>
   parseDateOfBirth (clockAt (civilTime 2024 5 14)) ''15/06/2000'' = Some (civilTime 2000 5 15)"
  using parseDateOfBirth_slash [of "''15''" "''06''" "''2000''" "clockAt (civilTime 2024 5 14)"]
    sample_digits sample_dates
  by (simp add: checkRange_def tooOld_def js_defs)

text \<open>
  With hyphens the order of the parts depends on the length of the first
  one: four characters mean \<open>YYYY-MM-DD\<close>, anything else \<open>DD-MM-YYYY\<close>.
\<close>

theorem parseDateOfBirth_hyphen:
  assumes "digitString a" and "digitString ms" and "digitString b"
  shows "parseDateOfBirth env (a @ CHR ''-'' # ms @ CHR ''-'' # b) =
    checkRange env
      (if length a = 4
       then newDate (int (radixValue 10 a)) (int (radixValue 10 ms) - 1) (int (radixValue 10 b))
       else newDate (int (radixValue 10 b)) (int (radixValue 10 ms) - 1) (int (radixValue 10 a)))"
proof -
  let ?s = "a @ CHR ''-'' # ms @ CHR ''-'' # b"
  from assms have tr: "trim ?s = ?s" by (simp add: digitString_trim)
  from assms have sp: "splitOn CHR ''-'' ?s = [a, ms, b]"
    by (intro splitOn_three) (simp_all add: digitString_no_sep)
  from assms have ns: "CHR ''/'' \<notin> set ?s" by (simp add: digitString_no_sep)
  show ?thesis
    using parse_parts [OF tr sp, of env] parse_parts_iso [OF tr sp _ ns, of env]
      dateFromParts_digits [OF assms] dateFromParts_digits [OF assms(3,2,1)] ns
    by (cases "length a = 4") simp_all
qed

theorem parseDateOfBirth_hyphen_witness:
  "digitString ''2000'' \<and> digitString ''06'' \<and> digitString ''15'' \<and>
   parseDateOfBirth (clockAt (civilTime 2024 5 14)) ''2000-06-15'' = Some (civilTime 2000 5 15) \<and>
   parseDateOfBirth (clockAt (civilTime 2024 5 14)) ''15-06-2000'' = Some (civilTime 2000 5 15)"
  using parseDateOfBirth_hyphen [of "''2000''" "''06''" "''15''" "clockAt (civilTime 2024 5 14)"]
    parseDateOfBirth_hyphen [of "''15''" "''06''" "''2000''" "clockAt (civilTime 2024 5 14)"]
    sample_digits sample_dates
  by (simp add: checkRange_def tooOld_def js_defs)

lemma sample_parse:
  "parseDateOfBirth (clockAt (civilTime 2024 5 14)) ''15/06/2000'' = Some (civilTime 2000 5 15)"
proof -
  have "trim ''15/06/2000'' = ''15/06/2000''"
    using digitString_trim [of "''15''" "''2000''" "CHR ''/''" "''06''" "CHR ''/''"] sample_digits
    by simp
  moreover have "splitOn CHR ''/'' ''15/06/2000'' = [''15'', ''06'', ''2000'']"
    using splitOn_three [of "CHR ''/''" "''15''" "''06''" "''2000''"] by simp
  ultimately show ?thesis
    using parse_parts [of "''15/06/2000''" "CHR ''/''" "''15''" "''06''" "''2000''"]
      dateFromParts_digits [of "''15''" "''06''" "''2000''"] sample_digits sample_dates
    by (simp add: checkRange_def tooOld_def js_defs)
qed

lemma sample_parse_hyphen:
  "parseDateOfBirth (clockAt (civilTime 2024 5 14)) ''15-06-2000'' = Some (civilTime 2000 5 15)"
proof -
  have "trim ''15-06-2000'' = ''15-06-2000''"
    using digitString_trim [of "''15''" "''2000''" "CHR ''-''" "''06''" "CHR ''-''"] sample_digits
    by simp
  moreover have "splitOn CHR ''-'' ''15-06-2000'' = [''15'', ''06'', ''2000'']"
    using splitOn_three [of "CHR ''-''" "''15''" "''06''" "''2000''"] by simp
  ultimately show ?thesis
    using parse_parts [of "''15-06-2000''" "CHR ''-''" "''15''" "''06''" "''2000''"]
      dateFromParts_digits [of "''15''" "''06''" "''2000''"] sample_digits sample_dates
    by (simp add: checkRange_def tooOld_def js_defs)
qed

lemma sample_age:
  "calculateAge (clockAt (civilTime 2024 5 14)) (civilTime 2000 5 15) = 23"
proof -
  have "validCivil 2024 5 14" "validCivil 2000 5 15" by (simp_all add: civil_eval)
  then show ?thesis by (simp add: calculateAge_def Let_def)
qed

text \<open>
  Claim C22. A date of birth that \<open>parseDateOfBirth\<close> accepts is never after the clock
  reading and never before the clock reading moved back 120 years: dates in the
  future and dates too far in the past are rejected, whatever the format.
\<close>

theorem parseDateOfBirth_range:
  assumes "parseDateOfBirth env s = Some t"
  shows "t \<le> now env \<and> \<not> tooOld env t"
  using assms
  by (auto simp: parseDateOfBirth_def Let_def split: option.splits if_splits)

theorem parseDateOfBirth_range_witness:
  "parseDateOfBirth (clockAt (civilTime 2024 5 14)) ''15/06/2000'' = Some (civilTime 2000 5 15) \<and>
   civilTime 2000 5 15 \<le> now (clockAt (civilTime 2024 5 14)) \<and>
   \<not> tooOld (clockAt (civilTime 2024 5 14)) (civilTime 2000 5 15)"
  using parseDateOfBirth_range [OF sample_parse] sample_parse by simp

lemma monthStart_le: "m < 12 \<Longrightarrow> monthStart l m \<le> 335"
  by (cases m rule: lt12_cases) (simp_all add: monthStart_def)

lemma DayFromYear_century: "DayFromYear 1900 = - 25567" "DayFromYear 1999 = 10592"
  by (simp_all add: DayFromYear_def)

lemma MakeDay_century:
  assumes "0 \<le> y" and "y \<le> 99" and "m < 12" and "0 \<le> d" and "d \<le> 31"
  shows "\<bar>MakeDay (1900 + y) (int m) d\<bar> \<le> 25568"
proof -
  have "DayFromYear 1900 \<le> DayFromYear (1900 + y)" "DayFromYear (1900 + y) \<le> DayFromYear 1999"
    using assms(1,2) by (auto intro: DayFromYear_mono)
  moreover have "0 \<le> monthStart (InLeapYear (1900 + y)) m"
    "monthStart (InLeapYear (1900 + y)) m \<le> 335"
    using assms(3) by (auto intro: monthStart_nonneg monthStart_le)
  moreover have "MakeDay (1900 + y) (int m) d =
    DayFromYear (1900 + y) + monthStart (InLeapYear (1900 + y)) m + d - 1"
    using assms(3) by (simp add: MakeDay_def Let_def)
  ultimately show ?thesis
    using assms(4,5) unfolding DayFromYear_century by linarith
qed

lemma TimeClip_small: "\<bar>t\<bar> \<le> 8640000000000000 \<Longrightarrow> TimeClip t = Some t"
  by (simp add: TimeClip_def)

lemma newDate_two_digit:
  assumes "0 \<le> y" and "y \<le> 99" and "m < 12" and "0 \<le> d" and "d \<le> 31"
  shows "newDate y (int m) d = Some (civilTime (1900 + y) m d)"
proof -
  have "\<bar>MakeDay (1900 + y) (int m) d * msPerDay\<bar> = \<bar>MakeDay (1900 + y) (int m) d\<bar> * 86400000"
    by (simp add: msPerDay_def abs_mult)
  also have "\<dots> \<le> 25568 * 86400000"
    using MakeDay_century [OF assms] by (rule mult_right_mono) simp
  finally have "TimeClip (MakeDay (1900 + y) (int m) d * msPerDay) =
    Some (MakeDay (1900 + y) (int m) d * msPerDay)"
    by (intro TimeClip_small) simp
  then show ?thesis
    using assms(1,2) by (simp add: newDate_def civilTime_def)
qed

text \<open>
  Claim C39. The \<^verbatim>\<open>Date\<close> constructor reads a year from 0 to 99 as 1900 plus that year,
  so every date of birth written \<open>DD/MM/YY\<close> with a year of one or two digits is taken
  as a date of the twentieth century, and is accepted when that date is not more than
  120 years back: a card that says \<open>15/06/15\<close> for a child born in 2015 gives a
  holder aged 108 in 2024.
\<close>

theorem parseDateOfBirth_two_digit_year:
  assumes "digitString ds" and "digitString ms" and "digitString ys"
    and "radixValue 10 ys < 100" and "1 \<le> radixValue 10 ms" and "radixValue 10 ms \<le> 12"
    and "radixValue 10 ds \<le> 31"
  shows "parseDateOfBirth env (ds @ CHR ''/'' # ms @ CHR ''/'' # ys) =
    (let dob = civilTime (1900 + int (radixValue 10 ys)) (radixValue 10 ms - 1)
                 (int (radixValue 10 ds))
     in if now env < dob \<or> tooOld env dob then None else Some dob)"
proof -
  have m: "int (radixValue 10 ms) - 1 = int (radixValue 10 ms - 1)"
    using assms(5) by simp
  have "newDate (int (radixValue 10 ys)) (int (radixValue 10 ms - 1)) (int (radixValue 10 ds)) =
    Some (civilTime (1900 + int (radixValue 10 ys)) (radixValue 10 ms - 1)
      (int (radixValue 10 ds)))"
    using assms(4-7) by (intro newDate_two_digit) simp_all
  then show ?thesis
    unfolding parseDateOfBirth_slash [OF assms(1-3)] m by (simp add: checkRange_def)
qed

lemma sample_digits_15: "digitString ''15''" "radixValue 10 ''15'' = 15" "radixValue 10 ''06'' = 6"
  by (simp_all add: digitString_def js_defs)

theorem parseDateOfBirth_two_digit_year_witness:
  "parseDateOfBirth (clockAt (civilTime 2024 5 14)) ''15/06/15'' = Some (civilTime 1915 5 15) \<and>
   calculateAge (clockAt (civilTime 2024 5 14)) (civilTime 1915 5 15) = 108"
proof -
  have v: "validCivil 2024 5 14" "validCivil 1915 5 15"
    by (simp_all add: civil_eval)
  have "civilTime 1904 5 14 \<le> civilTime 1915 5 15" "civilTime 1915 5 15 \<le> civilTime 2024 5 14"
    by (simp_all add: civilTime_def MakeDay_def DayFromYear_def civil_eval)
  then show ?thesis
    using parseDateOfBirth_two_digit_year [of "''15''" "''06''" "''15''"
        "clockAt (civilTime 2024 5 14)"] sample_digits sample_digits_15 sample_dates(3) v
    by (simp add: tooOld_def calculateAge_def Let_def)
qed

end
