(* ===== verification/Field_Parser.thy ===== *)
theory Field_Parser
  imports Date_Age
begin

text \<open>
  The field parser of the decoder: \<open>extractDataFields\<close> of
  src/lib/secure-qr-decoder.ts with its helpers \<open>bytesToString\<close> (in the prelude)
  and \<open>bytesToHexString\<close>.

  \<^item> \<open>findEnd\<close> is the inner \<^verbatim>\<open>while\<close> that looks for the next delimiter, \<open>readFields\<close>
    the outer one that collects at most 16 field values; both run on indices into
    the array, as the code does, and both terminate because the index grows.
  \<^item> \<open>tokens\<close> is the reference definition of the same split on the remaining
    bytes; \<open>readFields_tokens\<close> shows the loops implement it.
  \<^item> \<open>fieldShift\<close> is the test of the anomaly correction, \<open>indicator\<close> the value it
    gives \<^verbatim>\<open>emailMobilePresent\<close>, \<open>shiftFields\<close> its \<^verbatim>\<open>for\<close> loop and \<open>correctedFields\<close>
    the field values after it.
  \<^item> \<open>tailLayout\<close> is the \<^verbatim>\<open>if\<close> chain that cuts the hashes and the photo, and
    \<open>deriveAge\<close> the final block that adds \<open>age\<close> and \<open>isAdult\<close>.
  \<^item> \<open>assembleRecord\<close> is the body of the \<^verbatim>\<open>try\<close> block after the first pass, and
    \<open>extractDataFields\<close> the whole method.
  \<^item> \<open>identity\<close> is the result object; a field the code leaves \<^verbatim>\<open>undefined\<close> or never
    sets is \<open>None\<close>.

  The only exception inside the \<^verbatim>\<open>try\<close> block is the \<^verbatim>\<open>TypeError\<close> of
  \<^verbatim>\<open>fieldValues[0].trim()\<close> on an empty payload; it is rethrown with the index 0.
\<close>

section \<open>Definitions\<close>

definition DELIMITER :: byte where
  "DELIMITER = 255"

definition SIGNATURE_SIZE :: int where
  "SIGNATURE_SIZE = 256"

record identity =
  emailMobilePresent :: int
  referenceId :: "string option"
  name :: "string option"
  dateOfBirth :: "string option"
  gender :: "string option"
  careOf :: "string option"
  district :: "string option"
  landmark :: "string option"
  house :: "string option"
  location :: "string option"
  pinCode :: "string option"
  postOffice :: "string option"
  state :: "string option"
  street :: "string option"
  subDistrict :: "string option"
  vtc :: "string option"
  mobileHash :: "string option"
  emailHash :: "string option"
  photo :: bytes
  signature :: bytes
  age :: "int option"
  isAdult :: "bool option"

function findEnd :: "bytes \<Rightarrow> nat \<Rightarrow> nat" where
  "findEnd byteArray endIndex =
    (if endIndex < length byteArray \<and> byteArray ! endIndex \<noteq> DELIMITER
     then findEnd byteArray (Suc endIndex) else endIndex)"
  by pat_completeness auto
termination
  by (relation "measure (\<lambda>(b, e). length b - e)") auto

declare findEnd.simps [simp del]

lemma findEnd_ge: "endIndex \<le> findEnd byteArray endIndex"
proof (induction byteArray endIndex rule: findEnd.induct)
  case (1 byteArray endIndex)
  then show ?case
    by (subst findEnd.simps) (auto simp: Suc_leD)
qed

function readFields :: "bytes \<Rightarrow> nat \<Rightarrow> string list \<Rightarrow> string list" where
  "readFields byteArray index fieldValues =
    (if index < length byteArray then
       (let endIndex = findEnd byteArray index;
            fieldBytes = js_slice byteArray (int index) (int endIndex);
            fieldValues' = fieldValues @ [bytesToString fieldBytes]
        in if 15 < length fieldValues' then fieldValues'
           else readFields byteArray (endIndex + 1) fieldValues')
     else fieldValues)"
  by pat_completeness auto
termination
proof (relation "measure (\<lambda>(b, i, f). length b - i)")
  show "wf (measure (\<lambda>(b, i, f). length b - i))" by simp
next
  fix byteArray :: bytes and index :: nat and fieldValues :: "string list"
    and x xa xb
  assume "index < length byteArray" and "x = findEnd byteArray index"
  with findEnd_ge [of index byteArray]
  show "((byteArray, x + 1, xb), byteArray, index, fieldValues)
    \<in> measure (\<lambda>(b, i, f). length b - i)"
    by simp
qed

declare readFields.simps [simp del]

fun tokens :: "nat \<Rightarrow> bytes \<Rightarrow> string list" where
  "tokens 0 bs = []"
| "tokens (Suc n) bs =
    (if bs = [] then []
     else bytesToString (takeWhile (\<lambda>b. b \<noteq> DELIMITER) bs)
          # tokens n (drop 1 (dropWhile (\<lambda>b. b \<noteq> DELIMITER) bs)))"

definition shiftFields :: "string list \<Rightarrow> string list" where
  "shiftFields fieldValues =
    fold (\<lambda>i fv. fv[i := fv ! (i + 1)]) [1..<length fieldValues - 1] fieldValues"

definition textEnd :: "string list \<Rightarrow> nat" where
  "textEnd fieldValues = sum_list (map (\<lambda>v. length v + 1) fieldValues)"

definition bytesToHexString :: "bytes \<Rightarrow> string" where
  "bytesToHexString bs = concat (map hex2 bs)"

definition tailLayout ::
  "bytes \<Rightarrow> int \<Rightarrow> bool \<Rightarrow> int \<Rightarrow> string option \<times> string option \<times> bytes" where
  "tailLayout byteArray emp fieldShift currentIndex =
    (let dataLength = int (length byteArray);
         signatureStartIndex = dataLength - SIGNATURE_SIZE
     in if emp = 3 \<or> fieldShift then
          (let mobileStartIndex = signatureStartIndex - 32;
               emailStartIndex = mobileStartIndex - 32
           in (Some (bytesToHexString (js_slice byteArray mobileStartIndex (mobileStartIndex + 32))),
               Some (bytesToHexString (js_slice byteArray emailStartIndex (emailStartIndex + 32))),
               js_slice byteArray currentIndex emailStartIndex))
        else if emp = 2 then
          (let mobileStartIndex = signatureStartIndex - 32
           in (Some (bytesToHexString (js_slice byteArray mobileStartIndex (mobileStartIndex + 32))),
               None,
               js_slice byteArray currentIndex mobileStartIndex))
        else if emp = 1 then
          (let emailStartIndex = signatureStartIndex - 32
           in (None,
               Some (bytesToHexString (js_slice byteArray emailStartIndex (emailStartIndex + 32))),
               js_slice byteArray currentIndex emailStartIndex))
        else (None, None, js_slice byteArray currentIndex signatureStartIndex))"

definition deriveAge :: "environment \<Rightarrow> string option \<Rightarrow> int option \<times> bool option" where
  "deriveAge env dobField =
    (case dobField of
       None \<Rightarrow> (None, None)
     | Some s \<Rightarrow>
         if s = [] then (None, None)
         else (case parseDateOfBirth env s of
                 None \<Rightarrow> (None, None)
               | Some dob \<Rightarrow>
                   (let a = calculateAge env dob in (Some a, Some (18 \<le> a)))))"

definition fieldShift :: "string \<Rightarrow> string list \<Rightarrow> bool" where
  "fieldShift first fieldValues =
    (parseInt (trim first) 10 = None \<and> nth_opt fieldValues 1 = Some ''3'')"

definition indicator :: "string \<Rightarrow> string list \<Rightarrow> int" where
  "indicator first fieldValues =
    (if fieldShift first fieldValues then 3
     else (case parseInt (trim first) 10 of None \<Rightarrow> 0 | Some v \<Rightarrow> v))"

definition correctedFields :: "string \<Rightarrow> string list \<Rightarrow> string list" where
  "correctedFields first fieldValues =
    (if fieldShift first fieldValues then shiftFields fieldValues else fieldValues)"

definition assembleRecord :: "environment \<Rightarrow> bytes \<Rightarrow> string list \<Rightarrow> string \<Rightarrow> identity" where
  "assembleRecord env byteArray fieldValues first =
    (let emp = indicator first fieldValues;
         fv = correctedFields first fieldValues;
         currentIndex = int (textEnd fv);
         tail = tailLayout byteArray emp (fieldShift first fieldValues) currentIndex;
         dataLength = int (length byteArray);
         derived = deriveAge env (nth_opt fv 3)
     in \<lparr>emailMobilePresent = emp,
         referenceId = nth_opt fv 1, name = nth_opt fv 2,
         dateOfBirth = nth_opt fv 3, gender = nth_opt fv 4,
         careOf = nth_opt fv 5, district = nth_opt fv 6,
         landmark = nth_opt fv 7, house = nth_opt fv 8,
         location = nth_opt fv 9, pinCode = nth_opt fv 10,
         postOffice = nth_opt fv 11, state = nth_opt fv 12,
         street = nth_opt fv 13, subDistrict = nth_opt fv 14,
         vtc = (if 15 < length fv then nth_opt fv 15 else None),
         mobileHash = fst tail, emailHash = fst (snd tail),
         photo = snd (snd tail),
         signature = js_slice byteArray (dataLength - SIGNATURE_SIZE) dataLength,
         age = fst derived, isAdult = snd derived\<rparr>)"

definition extractDataFields :: "environment \<Rightarrow> bytes \<Rightarrow> error + identity" where
  "extractDataFields env byteArray =
    (let fieldValues = readFields byteArray 0 [] in
     case nth_opt fieldValues 0 of
       None \<Rightarrow> Inl (ExtractFailed UndefinedTrim 0)
     | Some first \<Rightarrow> Inr (assembleRecord env byteArray fieldValues first))"

lemmas parser_defs =
  DELIMITER_def SIGNATURE_SIZE_def shiftFields_def textEnd_def bytesToHexString_def
  tailLayout_def deriveAge_def fieldShift_def indicator_def correctedFields_def
  assembleRecord_def extractDataFields_def

section \<open>Well-formed payloads\<close>

text \<open>
  The encoder side, which the repository does not contain: \<open>encodeFields\<close> writes
  each token followed by the delimiter, \<open>hashTail\<close> is the part between the photo
  and the signature that the indicator announces, and \<open>textFields\<close> lists the
  fifteen text fields of a result in the order of the format.
\<close>

definition encodeFields :: "bytes list \<Rightarrow> bytes" where
  "encodeFields toks = concat (map (\<lambda>t. t @ [DELIMITER]) toks)"

definition hashTail :: "int \<Rightarrow> bytes \<Rightarrow> bytes \<Rightarrow> bytes" where
  "hashTail ind email mobile =
    (if ind = 3 then email @ mobile else if ind = 2 then mobile
     else if ind = 1 then email else [])"

definition textFields :: "identity \<Rightarrow> string option list" where
  "textFields r =
    [referenceId r, name r, dateOfBirth r, gender r, careOf r, district r, landmark r,
     house r, location r, pinCode r, postOffice r, state r, street r, subDistrict r, vtc r]"

section \<open>The loops and the reference split\<close>

lemma findEnd_eq:
  "i \<le> length b \<Longrightarrow>
   findEnd b i = i + length (takeWhile (\<lambda>x. x \<noteq> DELIMITER) (drop i b))"
proof (induction b i rule: findEnd.induct)
  case (1 b i)
  show ?case
  proof (cases "i < length b \<and> b ! i \<noteq> DELIMITER")
    case True
    then have d: "drop i b = b ! i # drop (Suc i) b"
      by (simp add: Cons_nth_drop_Suc)
    from True "1.IH" have "findEnd b (Suc i) =
      Suc i + length (takeWhile (\<lambda>x. x \<noteq> DELIMITER) (drop (Suc i) b))"
      by simp
    with True show ?thesis
      by (subst findEnd.simps) (simp add: d)
  next
    case False
    show ?thesis
    proof (cases "i < length b")
      case True
      with False have "b ! i = DELIMITER" by simp
      with True have "takeWhile (\<lambda>x. x \<noteq> DELIMITER) (drop i b) = []"
        by (simp add: Cons_nth_drop_Suc [symmetric])
      with True \<open>b ! i = DELIMITER\<close> show ?thesis by (subst findEnd.simps) simp
    next
      case False
      with "1.prems" show ?thesis by (subst findEnd.simps) simp
    qed
  qed
qed

lemma slice_field:
  "i \<le> length b \<Longrightarrow>
   js_slice b (int i) (int (findEnd b i)) = takeWhile (\<lambda>x. x \<noteq> DELIMITER) (drop i b)"
proof -
  assume i: "i \<le> length b"
  let ?tw = "takeWhile (\<lambda>x. x \<noteq> DELIMITER) (drop i b)"
  have "length ?tw \<le> length (drop i b)" by (rule length_takeWhile_le)
  with i have le: "i + length ?tw \<le> length b" by simp
  have "take (length ?tw) (drop i b) = ?tw"
    by (simp add: takeWhile_eq_take [symmetric])
  with i le show ?thesis
    using js_slice_within [of i "i + length ?tw" b] by (simp add: findEnd_eq)
qed

lemma drop_field:
  "i \<le> length b \<Longrightarrow>
   drop (findEnd b i + 1) b = drop 1 (dropWhile (\<lambda>x. x \<noteq> DELIMITER) (drop i b))"
  by (simp add: findEnd_eq dropWhile_eq_drop add.commute)

lemma tokens_Nil [simp]: "tokens n [] = []"
  by (cases n) simp_all

lemma readFields_tokens:
  "length acc \<le> 15 \<Longrightarrow>
   readFields b i acc = acc @ tokens (16 - length acc) (drop i b)"
proof (induction b i acc rule: readFields.induct)
  case (1 b i acc)
  show ?case
  proof (cases "i < length b")
    case False
    then show ?thesis by (subst readFields.simps) simp
  next
    case True
    then have i: "i \<le> length b" and ne: "drop i b \<noteq> []" by simp_all
    let ?tw = "takeWhile (\<lambda>x. x \<noteq> DELIMITER) (drop i b)"
    let ?rest = "drop 1 (dropWhile (\<lambda>x. x \<noteq> DELIMITER) (drop i b))"
    let ?sl = "js_slice b (int i) (int (findEnd b i))"
    let ?acc = "acc @ [bytesToString ?sl]"
    define n where "n = 15 - length acc"
    from "1.prems" have n: "16 - length acc = Suc n" by (simp add: n_def)
    have sl: "?sl = ?tw" by (rule slice_field [OF i])
    from ne have rhs: "tokens (Suc n) (drop i b) = bytesToString ?tw # tokens n ?rest"
      by simp
    show ?thesis
    proof (cases "length acc = 15")
      case full: True
      then have "n = 0" by (simp add: n_def)
      with True full show ?thesis
        unfolding n rhs by (subst readFields.simps) (simp add: Let_def sl)
    next
      case more: False
      with "1.prems" have lt: "length acc < 15" by simp
      then have a: "\<not> 15 < length ?acc" and b: "length ?acc \<le> 15" by simp_all
      from lt have n': "16 - length ?acc = n" by (simp add: n_def)
      have "readFields b (findEnd b i + 1) ?acc =
        ?acc @ tokens (16 - length ?acc) (drop (findEnd b i + 1) b)"
        by (rule "1.IH" [OF True refl refl refl a b])
      then have ih: "readFields b (findEnd b i + 1) ?acc = ?acc @ tokens n ?rest"
        unfolding n' drop_field [OF i] .
      have "readFields b i acc = readFields b (findEnd b i + 1) ?acc"
        using True a by (subst readFields.simps) (simp add: Let_def)
      with ih show ?thesis
        unfolding n rhs by (simp add: sl)
    qed
  qed
qed

lemma encodeFields_Nil [simp]: "encodeFields [] = []"
  by (simp add: encodeFields_def)

lemma encodeFields_Cons [simp]: "encodeFields (t # ts) = t @ DELIMITER # encodeFields ts"
  by (simp add: encodeFields_def)

lemma length_encodeFields:
  "length (encodeFields toks) = sum_list (map (\<lambda>t. length t + 1) toks)"
  by (induction toks) simp_all

lemma takeWhile_field [simp]:
  "DELIMITER \<notin> set t \<Longrightarrow> takeWhile (\<lambda>x. x \<noteq> DELIMITER) (t @ DELIMITER # r) = t"
  by (induction t) auto

lemma dropWhile_field [simp]:
  "DELIMITER \<notin> set t \<Longrightarrow> dropWhile (\<lambda>x. x \<noteq> DELIMITER) (t @ DELIMITER # r) = DELIMITER # r"
  by (induction t) auto

lemma tokens_encode:
  assumes "\<forall>t\<in>set toks. DELIMITER \<notin> set t"
  shows "tokens n (encodeFields toks @ rest) =
    map bytesToString (take n toks) @ tokens (n - length toks) rest"
  using assms
proof (induction toks arbitrary: n)
  case Nil
  show ?case by simp
next
  case (Cons t ts)
  show ?case
  proof (cases n)
    case 0
    then show ?thesis by simp
  next
    case (Suc m)
    with Cons show ?thesis by simp
  qed
qed

lemma shift_fold:
  fixes fv :: "'a list"
  assumes "k \<le> length fv - 1"
  shows "length (fold (\<lambda>i fv. fv[i := fv ! (i + 1)]) [1..<k] fv) = length fv \<and>
    (\<forall>i<length fv. fold (\<lambda>i fv. fv[i := fv ! (i + 1)]) [1..<k] fv ! i =
      (if 1 \<le> i \<and> i < k then fv ! (i + 1) else fv ! i))"
  using assms
proof (induction k)
  case 0
  show ?case by simp
next
  case (Suc k)
  show ?case
  proof (cases "k = 0")
    case True
    then show ?thesis by simp
  next
    case False
    then have up: "[1..<Suc k] = [1..<k] @ [k]" by simp
    from Suc.prems have "k \<le> length fv - 1" and k: "Suc k < length fv" by simp_all
    with Suc.IH have ih: "length (fold (\<lambda>i fv. fv[i := fv ! (i + 1)]) [1..<k] fv) = length fv"
      "\<And>i. i < length fv \<Longrightarrow> fold (\<lambda>i fv. fv[i := fv ! (i + 1)]) [1..<k] fv ! i =
        (if 1 \<le> i \<and> i < k then fv ! (i + 1) else fv ! i)"
      by simp_all
    from k ih False show ?thesis
      unfolding up by (auto simp: nth_list_update)
  qed
qed

lemma length_shiftFields [simp]: "length (shiftFields fv) = length fv"
  using shift_fold [of "length fv - 1" fv] by (simp add: shiftFields_def)

lemma shiftFields_nth:
  "i < length fv \<Longrightarrow>
   shiftFields fv ! i = (if 1 \<le> i \<and> i < length fv - 1 then fv ! (i + 1) else fv ! i)"
  using shift_fold [of "length fv - 1" fv] by (simp add: shiftFields_def)

lemma shiftFields_eq:
  assumes "2 \<le> length fv"
  shows "shiftFields fv = hd fv # drop 2 fv @ [last fv]"
proof (rule nth_equalityI)
  from assms show "length (shiftFields fv) = length (hd fv # drop 2 fv @ [last fv])"
    by simp
next
  fix i
  assume "i < length (shiftFields fv)"
  then have i: "i < length fv" by simp
  from assms have ne: "fv \<noteq> []" by auto
  consider "i = 0" | "1 \<le> i" "i < length fv - 1" | "i = length fv - 1" "1 \<le> i"
    using i by linarith
  then show "shiftFields fv ! i = (hd fv # drop 2 fv @ [last fv]) ! i"
  proof cases
    case 1
    with i ne show ?thesis by (simp add: shiftFields_nth hd_conv_nth)
  next
    case 2
    then obtain j where j: "i = Suc j" by (cases i) auto
    with 2 have "j < length fv - 2" by linarith
    with 2 i j show ?thesis by (simp add: shiftFields_nth nth_append)
  next
    case 3
    define j where "j = length fv - 2"
    from 3 assms have j: "i = Suc j" by (simp add: j_def)
    have "(hd fv # drop 2 fv @ [last fv]) ! i = (drop 2 fv @ [last fv]) ! length (drop 2 fv)"
      using j by (simp add: j_def)
    also have "\<dots> = last fv" by (rule nth_append_length)
    also have "\<dots> = fv ! i" using ne 3 by (simp add: last_conv_nth)
    finally show ?thesis using 3 i by (simp add: shiftFields_nth)
  qed
qed

lemma shiftFields_short: "length fv < 2 \<Longrightarrow> shiftFields fv = fv"
  by (simp add: shiftFields_def)

section \<open>Slices of a well-formed payload\<close>

lemma js_slice_nonneg:
  "0 \<le> s \<Longrightarrow> 0 \<le> e \<Longrightarrow> js_slice xs s e = take (nat e - nat s) (drop (nat s) xs)"
  by (auto simp: js_slice_def Let_def rel_index_def min_def)

lemma js_slice_middle:
  "s = int (length A) \<Longrightarrow> e = int (length A) + int (length P) \<Longrightarrow>
   js_slice (A @ P @ R) s e = P"
  by (simp add: js_slice_nonneg nat_add_distrib)

lemma js_slice_suffix:
  "s = int (length A) \<Longrightarrow> e = int (length A) + int (length P) \<Longrightarrow>
   js_slice (A @ P) s e = P"
  using js_slice_middle [of s A e P "[]"] by simp

lemma readFields_all: "readFields b 0 [] = tokens 16 b"
  using readFields_tokens [of "[]" b 0] by simp

lemma readFields_wellformed:
  assumes "length toks = 16" and "\<forall>t\<in>set toks. DELIMITER \<notin> set t"
  shows "readFields (encodeFields toks @ rest) 0 [] = map bytesToString toks"
  using assms by (simp add: readFields_all tokens_encode)

lemma textEnd_wellformed:
  "textEnd (map bytesToString toks) = length (encodeFields toks)"
  by (simp add: textEnd_def length_encodeFields comp_def)

lemma tokens_eq_Nil_iff: "0 < n \<Longrightarrow> tokens n b = [] \<longleftrightarrow> b = []"
  by (cases n) auto

lemma readFields_Nil_iff [simp]: "readFields b 0 [] = [] \<longleftrightarrow> b = []"
  by (simp add: readFields_all tokens_eq_Nil_iff)

lemma readFields_empty [simp]: "readFields [] 0 [] = []"
  by simp

lemma length_tokens_le: "length (tokens n b) \<le> n"
  by (induction n b rule: tokens.induct) auto

lemma nth_opt_0_None_iff [simp]: "nth_opt xs 0 = None \<longleftrightarrow> xs = []"
  by (simp add: nth_opt_def)

lemma extractDataFields_eq:
  "extractDataFields env b =
    (if b = [] then Inl (ExtractFailed UndefinedTrim 0)
     else Inr (assembleRecord env b (tokens 16 b) (hd (tokens 16 b))))"
  by (cases "tokens 16 b"; cases b)
    (auto simp: extractDataFields_def readFields_all tokens_eq_Nil_iff Let_def
      split: option.splits)

lemma extractDataFields_Inr_iff:
  "extractDataFields env b = Inr r \<longleftrightarrow>
   b \<noteq> [] \<and> r = assembleRecord env b (readFields b 0 []) (hd (readFields b 0 []))"
  by (auto simp: extractDataFields_eq readFields_all)

lemma signature_assemble [simp]:
  "signature (assembleRecord env b fv first) = js_slice b (int (length b) - 256) (int (length b))"
  by (simp add: assembleRecord_def Let_def SIGNATURE_SIZE_def)

lemma js_slice_last:
  "n \<le> length b \<Longrightarrow> js_slice b (int (length b) - int n) (int (length b)) = drop (length b - n) b"
  by (simp add: js_slice_def Let_def rel_index_def nat_diff_distrib')

section \<open>The binary tail of a well-formed payload\<close>

lemma tailLayout_both:
  assumes "length email = 32" and "length mobile = 32" and "length sg = 256"
    and "emp = 3 \<or> shift"
  shows "tailLayout (A @ ph @ email @ mobile @ sg) emp shift (int (length A)) =
    (Some (bytesToHexString mobile), Some (bytesToHexString email), ph)"
proof -
  let ?b = "A @ ph @ email @ mobile @ sg"
  let ?n = "int (length ?b)"
  have m: "js_slice ?b (?n - 256 - 32) (?n - 256 - 32 + 32) = mobile"
    using assms(1-3) by (simp add: js_slice_nonneg nat_diff_distrib' nat_add_distrib)
  have e: "js_slice ?b (?n - 256 - 32 - 32) (?n - 256 - 32 - 32 + 32) = email"
    using assms(1-3) by (simp add: js_slice_nonneg nat_diff_distrib' nat_add_distrib)
  have p: "js_slice ?b (int (length A)) (?n - 256 - 32 - 32) = ph"
    using assms(1-3) by (simp add: js_slice_nonneg nat_diff_distrib' nat_add_distrib)
  from assms(4) show ?thesis
    unfolding tailLayout_def Let_def SIGNATURE_SIZE_def m e p by simp
qed

lemma tailLayout_mobile:
  assumes "length mobile = 32" and "length sg = 256"
  shows "tailLayout (A @ ph @ mobile @ sg) 2 False (int (length A)) =
    (Some (bytesToHexString mobile), None, ph)"
proof -
  let ?b = "A @ ph @ mobile @ sg"
  let ?n = "int (length ?b)"
  have m: "js_slice ?b (?n - 256 - 32) (?n - 256 - 32 + 32) = mobile"
    using assms by (simp add: js_slice_nonneg nat_diff_distrib' nat_add_distrib)
  have p: "js_slice ?b (int (length A)) (?n - 256 - 32) = ph"
    using assms by (simp add: js_slice_nonneg nat_diff_distrib' nat_add_distrib)
  show ?thesis
    unfolding tailLayout_def Let_def SIGNATURE_SIZE_def m p by simp
qed

lemma tailLayout_email:
  assumes "length email = 32" and "length sg = 256"
  shows "tailLayout (A @ ph @ email @ sg) 1 False (int (length A)) =
    (None, Some (bytesToHexString email), ph)"
proof -
  let ?b = "A @ ph @ email @ sg"
  let ?n = "int (length ?b)"
  have e: "js_slice ?b (?n - 256 - 32) (?n - 256 - 32 + 32) = email"
    using assms by (simp add: js_slice_nonneg nat_diff_distrib' nat_add_distrib)
  have p: "js_slice ?b (int (length A)) (?n - 256 - 32) = ph"
    using assms by (simp add: js_slice_nonneg nat_diff_distrib' nat_add_distrib)
  show ?thesis
    unfolding tailLayout_def Let_def SIGNATURE_SIZE_def e p by simp
qed

lemma tailLayout_none:
  assumes "length sg = 256" and "emp \<noteq> 3" and "emp \<noteq> 2" and "emp \<noteq> 1"
  shows "tailLayout (A @ ph @ sg) emp False (int (length A)) = (None, None, ph)"
proof -
  let ?b = "A @ ph @ sg"
  have p: "js_slice ?b (int (length A)) (int (length ?b) - 256) = ph"
    using assms(1) by (simp add: js_slice_nonneg nat_diff_distrib' nat_add_distrib)
  from assms(2-4) show ?thesis
    unfolding tailLayout_def Let_def SIGNATURE_SIZE_def p by simp
qed

lemma tailLayout_wellformed:
  assumes "length email = 32" and "length mobile = 32" and "length sg = 256"
  shows "tailLayout (A @ ph @ hashTail ind email mobile @ sg) ind False (int (length A)) =
    (if ind = 3 \<or> ind = 2 then Some (bytesToHexString mobile) else None,
     if ind = 3 \<or> ind = 1 then Some (bytesToHexString email) else None, ph)"
  using assms tailLayout_both [of email mobile sg ind False A ph]
    tailLayout_mobile [of mobile sg A ph] tailLayout_email [of email sg A ph]
    tailLayout_none [of sg ind A ph]
  by (auto simp: hashTail_def)

lemma list16:
  assumes "length xs = 16"
  obtains x0 x1 x2 x3 x4 x5 x6 x7 x8 x9 x10 x11 x12 x13 x14 x15
  where "xs = [x0, x1, x2, x3, x4, x5, x6, x7, x8, x9, x10, x11, x12, x13, x14, x15]"
  using assms by (auto simp: numeral_eq_Suc length_Suc_conv)

lemma textFields_assemble:
  assumes "length fv = 16"
  shows "textFields (assembleRecord env b fv first) =
    map Some (drop 1 (correctedFields first fv))"
proof -
  from assms have "length (correctedFields first fv) = 16"
    by (simp add: correctedFields_def)
  then obtain x0 x1 x2 x3 x4 x5 x6 x7 x8 x9 x10 x11 x12 x13 x14 x15
    where "correctedFields first fv =
      [x0, x1, x2, x3, x4, x5, x6, x7, x8, x9, x10, x11, x12, x13, x14, x15]"
    by (rule list16)
  then show ?thesis
    by (simp add: textFields_def assembleRecord_def Let_def)
qed

lemma noShift_parsed:
  "parseInt (trim first) 10 = Some ind \<Longrightarrow> \<not> fieldShift first fv"
  "parseInt (trim first) 10 = Some ind \<Longrightarrow> indicator first fv = ind"
  "parseInt (trim first) 10 = Some ind \<Longrightarrow> correctedFields first fv = fv"
  by (simp_all add: fieldShift_def indicator_def correctedFields_def)

lemma tail_assemble:
  "mobileHash (assembleRecord env b fv first) =
     fst (tailLayout b (indicator first fv) (fieldShift first fv)
       (int (textEnd (correctedFields first fv))))"
  "emailHash (assembleRecord env b fv first) =
     fst (snd (tailLayout b (indicator first fv) (fieldShift first fv)
       (int (textEnd (correctedFields first fv)))))"
  "photo (assembleRecord env b fv first) =
     snd (snd (tailLayout b (indicator first fv) (fieldShift first fv)
       (int (textEnd (correctedFields first fv)))))"
  "emailMobilePresent (assembleRecord env b fv first) = indicator first fv"
  "age (assembleRecord env b fv first) = fst (deriveAge env (nth_opt (correctedFields first fv) 3))"
  "isAdult (assembleRecord env b fv first) = snd (deriveAge env (nth_opt (correctedFields first fv) 3))"
  by (simp_all add: assembleRecord_def Let_def)

lemma encodeFields_eq_Nil_iff [simp]: "encodeFields toks = [] \<longleftrightarrow> toks = []"
  by (cases toks) simp_all

lemma assemble_wellformed:
  fixes env :: environment and ph :: bytes
  assumes len: "length toks = 16"
    and ind: "parseInt (trim (bytesToString (hd toks))) 10 = Some ind"
    and sizes: "length email = 32" "length mobile = 32" "length sg = 256"
  defines "r \<equiv> assembleRecord env (encodeFields toks @ ph @ hashTail ind email mobile @ sg)
    (map bytesToString toks) (bytesToString (hd toks))"
  shows "emailMobilePresent r = ind"
    and "textFields r = map (\<lambda>t. Some (bytesToString t)) (tl toks)"
    and "photo r = ph"
    and "mobileHash r = (if ind = 3 \<or> ind = 2 then Some (bytesToHexString mobile) else None)"
    and "emailHash r = (if ind = 3 \<or> ind = 1 then Some (bytesToHexString email) else None)"
    and "signature r = sg"
proof -
  note ns = noShift_parsed [OF ind]
  note tl = tailLayout_wellformed [OF sizes, of "encodeFields toks" ph ind]
  show "emailMobilePresent r = ind"
    by (simp add: r_def tail_assemble ns)
  from len show "textFields r = map (\<lambda>t. Some (bytesToString t)) (tl toks)"
    by (simp add: r_def textFields_assemble ns drop_Suc map_tl comp_def)
  show "photo r = ph"
    by (simp add: r_def tail_assemble ns textEnd_wellformed tl)
  show "mobileHash r = (if ind = 3 \<or> ind = 2 then Some (bytesToHexString mobile) else None)"
    by (simp add: r_def tail_assemble ns textEnd_wellformed tl)
  show "emailHash r = (if ind = 3 \<or> ind = 1 then Some (bytesToHexString email) else None)"
    by (simp add: r_def tail_assemble ns textEnd_wellformed tl)
  from sizes(3) show "signature r = sg"
    using js_slice_last [of 256 "encodeFields toks @ ph @ hashTail ind email mobile @ sg"]
    by (simp add: r_def)
qed

lemma extract_wellformed:
  assumes "length toks = 16" and "\<forall>t\<in>set toks. DELIMITER \<notin> set t"
  shows "extractDataFields env (encodeFields toks @ rest) =
    Inr (assembleRecord env (encodeFields toks @ rest) (map bytesToString toks)
      (bytesToString (hd toks)))"
proof -
  from assms(1) have "toks \<noteq> []" by auto
  with assms show ?thesis
    by (simp add: extractDataFields_Inr_iff readFields_wellformed hd_map)
qed

section \<open>The anomaly correction\<close>

lemma shift_detected:
  assumes "parseInt (trim first) 10 = None" and "nth_opt fv 1 = Some ''3''"
  shows "fieldShift first fv" and "indicator first fv = 3"
    and "correctedFields first fv = shiftFields fv"
  using assms by (simp_all add: fieldShift_def indicator_def correctedFields_def)

lemma encodeFields_append [simp]:
  "encodeFields (ts @ us) = encodeFields ts @ encodeFields us"
  by (simp add: encodeFields_def)

lemma textEnd_Cons [simp]: "textEnd (v # vs) = Suc (length v + textEnd vs)"
  by (simp add: textEnd_def)

lemma textEnd_append [simp]: "textEnd (vs @ ws) = textEnd vs + textEnd ws"
  by (simp add: textEnd_def)

lemma textEnd_Nil [simp]: "textEnd [] = 0"
  by (simp add: textEnd_def)

lemma textEnd_shift:
  assumes "2 \<le> length fv"
  shows "textEnd (shiftFields fv) + length (fv ! 1) = textEnd fv + length (last fv)"
proof -
  from assms obtain a b rest where fv: "fv = a # b # rest"
    by (cases fv; cases "tl fv") auto
  have "textEnd (shiftFields fv) = textEnd (a # rest @ [last fv])"
    using shiftFields_eq [OF assms] by (simp add: fv)
  then show ?thesis
    by (simp add: fv)
qed

lemma textEnd_shift_wellformed:
  assumes "length toks = 16" and "toks ! 1 = stringToBytes ''3''"
  shows "Suc (textEnd (shiftFields (map bytesToString toks))) =
    length (encodeFields toks) + length (last toks)"
proof -
  from assms(1) have "toks \<noteq> []" by auto
  then have "length (last (map bytesToString toks)) = length (last toks)"
    by (simp add: last_map)
  with assms textEnd_shift [of "map bytesToString toks"] show ?thesis
    by (simp add: textEnd_wellformed stringToBytes_def)
qed

lemma shifted_tail:
  fixes env :: environment and P :: bytes
  assumes nan: "parseInt (trim first) 10 = None" and three: "nth_opt fv 1 = Some ''3''"
    and sizes: "length email = 32" "length mobile = 32" "length sg = 256"
    and idx: "textEnd (shiftFields fv) = length A"
  defines "r \<equiv> assembleRecord env (A @ P @ email @ mobile @ sg) fv first"
  shows "photo r = P" and "mobileHash r = Some (bytesToHexString mobile)"
    and "emailHash r = Some (bytesToHexString email)" and "emailMobilePresent r = 3"
    and "signature r = sg"
proof -
  note sd = shift_detected [OF nan three]
  have tl: "tailLayout (A @ P @ email @ mobile @ sg) 3 True (int (length A)) =
    (Some (bytesToHexString mobile), Some (bytesToHexString email), P)"
    using sizes by (rule tailLayout_both) simp
  show "photo r = P" and "mobileHash r = Some (bytesToHexString mobile)"
    and "emailHash r = Some (bytesToHexString email)" and "emailMobilePresent r = 3"
    by (simp_all add: r_def tail_assemble sd idx tl)
  from sizes(3) show "signature r = sg"
    using js_slice_last [of 256 "A @ P @ email @ mobile @ sg"] by (simp add: r_def)
qed

lemma shifted_textFields:
  assumes len: "length toks = 16"
    and nan: "parseInt (trim first) 10 = None"
    and three: "toks ! 1 = stringToBytes ''3''"
  shows "textFields (assembleRecord env b (map bytesToString toks) first) =
    map (\<lambda>t. Some (bytesToString t)) (drop 2 toks @ [last toks])"
proof -
  let ?fv = "map bytesToString toks"
  from len three have "nth_opt ?fv 1 = Some ''3''"
    by (simp add: nth_opt_def)
  note sd = shift_detected [OF nan this]
  from len have "toks \<noteq> []" by auto
  with len show ?thesis
    by (simp add: textFields_assemble sd shiftFields_eq drop_map last_map comp_def)
qed

lemma encodeFields_last:
  assumes "toks \<noteq> []"
  shows "drop (length (encodeFields toks) - 1) (encodeFields toks @ ph) = DELIMITER # ph"
proof -
  from assms have "toks = butlast toks @ [last toks]" by simp
  then have "encodeFields toks = (encodeFields (butlast toks) @ last toks) @ [DELIMITER]"
    by (metis encodeFields_append encodeFields_Cons encodeFields_Nil append_assoc)
  then show ?thesis by simp
qed

lemma shifted_split:
  assumes len: "length toks = 16" and three: "toks ! 1 = stringToBytes ''3''"
    and n: "length (last toks) \<le> Suc (length ph)"
  defines "m \<equiv> length (encodeFields toks) - 1 + length (last toks)"
  shows "textEnd (shiftFields (map bytesToString toks)) = length (take m (encodeFields toks @ ph))"
    and "drop m (encodeFields toks @ ph) = drop (length (last toks)) (DELIMITER # ph)"
proof -
  from len have ne: "toks \<noteq> []" by auto
  then have pos: "Suc 0 \<le> length (encodeFields toks)" by (cases toks) simp_all
  from textEnd_shift_wellformed [OF len three] pos
  have "textEnd (shiftFields (map bytesToString toks)) = m"
    unfolding m_def by arith
  moreover from n pos have "m \<le> length (encodeFields toks) + length ph"
    unfolding m_def by arith
  ultimately show "textEnd (shiftFields (map bytesToString toks)) =
    length (take m (encodeFields toks @ ph))"
    by simp
  have "drop m (encodeFields toks @ ph) =
    drop (length (last toks)) (drop (length (encodeFields toks) - 1) (encodeFields toks @ ph))"
    by (simp add: m_def add.commute)
  then show "drop m (encodeFields toks @ ph) = drop (length (last toks)) (DELIMITER # ph)"
    by (simp only: encodeFields_last [OF ne])
qed

lemma assemble_shifted:
  fixes env :: environment and ph :: bytes
  assumes len: "length toks = 16"
    and nan: "parseInt (trim (bytesToString (hd toks))) 10 = None"
    and three: "toks ! 1 = stringToBytes ''3''"
    and sizes: "length email = 32" "length mobile = 32" "length sg = 256"
    and n: "length (last toks) \<le> Suc (length ph)"
  defines "r \<equiv> assembleRecord env (encodeFields toks @ ph @ email @ mobile @ sg)
    (map bytesToString toks) (bytesToString (hd toks))"
  shows "emailMobilePresent r = 3"
    and "textFields r = map (\<lambda>t. Some (bytesToString t)) (drop 2 toks @ [last toks])"
    and "photo r = drop (length (last toks)) (DELIMITER # ph)"
    and "mobileHash r = Some (bytesToHexString mobile)"
    and "emailHash r = Some (bytesToHexString email)"
    and "signature r = sg"
proof -
  let ?fv = "map bytesToString toks"
  define m where "m = length (encodeFields toks) - 1 + length (last toks)"
  note sp = shifted_split [OF len three n, folded m_def]
  from len three have t: "nth_opt ?fv 1 = Some ''3''"
    by (simp add: nth_opt_def)
  have b: "encodeFields toks @ ph @ email @ mobile @ sg =
    take m (encodeFields toks @ ph) @ drop m (encodeFields toks @ ph) @ email @ mobile @ sg"
    by (metis append_assoc append_take_drop_id)
  note st = shifted_tail [OF nan t sizes sp(1), of env "drop m (encodeFields toks @ ph)",
      folded b, unfolded sp(2), folded r_def]
  from st show "emailMobilePresent r = 3"
    and "photo r = drop (length (last toks)) (DELIMITER # ph)"
    and "mobileHash r = Some (bytesToHexString mobile)"
    and "emailHash r = Some (bytesToHexString email)"
    and "signature r = sg"
    by simp_all
  show "textFields r = map (\<lambda>t. Some (bytesToString t)) (drop 2 toks @ [last toks])"
    unfolding r_def by (rule shifted_textFields [OF len nan three])
qed

lemma tokens_numeral:
  "tokens (numeral k) bs =
    (if bs = [] then []
     else bytesToString (takeWhile (\<lambda>b. b \<noteq> DELIMITER) bs)
          # tokens (pred_numeral k) (drop 1 (dropWhile (\<lambda>b. b \<noteq> DELIMITER) bs)))"
  by (simp add: numeral_eq_Suc)

section \<open>Sample payloads\<close>

text \<open>
  Two payloads for the examples: sixteen tokens with the indicator 3, and the same
  record behind a stray first token, which is the case the anomaly correction is
  written for.
\<close>

definition sampleTokens :: "bytes list" where
  "sampleTokens = map stringToBytes
    [''3'', ''2697'', ''Asha'', ''15-06-2000'', ''F'', ''Ravi'', ''Pune'', [], ''12'',
     ''Baner'', ''411045'', ''Baner'', ''MH'', ''Main'', ''Haveli'', ''Pune'']"

definition shiftedTokens :: "bytes list" where
  "shiftedTokens = map stringToBytes
    [''V'', ''3'', ''2697'', ''Asha'', ''15-06-2000'', ''F'', ''Ravi'', ''Pune'', [],
     ''12'', ''Baner'', ''411045'', ''Baner'', ''MH'', ''Main'', ''Haveli'']"

definition samplePayload :: bytes where
  "samplePayload =
    encodeFields sampleTokens @ [1, 2, 3] @ (replicate 32 7 @ replicate 32 9) @ replicate 256 5"

lemma sample_wellformed:
  "length sampleTokens = 16" "\<forall>t\<in>set sampleTokens. DELIMITER \<notin> set t"
  "parseInt (trim (bytesToString (hd sampleTokens))) 10 = Some 3"
proof -
  show "length sampleTokens = 16" "\<forall>t\<in>set sampleTokens. DELIMITER \<notin> set t"
    by (simp_all add: sampleTokens_def DELIMITER_def stringToBytes_def charCode_def)
  have "bytesToString (hd sampleTokens) = ''3''"
    by (simp add: sampleTokens_def)
  then show "parseInt (trim (bytesToString (hd sampleTokens))) 10 = Some 3"
    by (simp add: js_defs)
qed

lemma shifted_wellformed:
  "length shiftedTokens = 16" "\<forall>t\<in>set shiftedTokens. DELIMITER \<notin> set t"
  "parseInt (trim (bytesToString (hd shiftedTokens))) 10 = None"
  "shiftedTokens ! 1 = stringToBytes ''3''"
  "last shiftedTokens = stringToBytes ''Haveli''"
proof -
  show "length shiftedTokens = 16" "\<forall>t\<in>set shiftedTokens. DELIMITER \<notin> set t"
    "shiftedTokens ! 1 = stringToBytes ''3''" "last shiftedTokens = stringToBytes ''Haveli''"
    by (simp_all add: shiftedTokens_def DELIMITER_def stringToBytes_def charCode_def)
  have "bytesToString (hd shiftedTokens) = ''V''"
    by (simp add: shiftedTokens_def)
  then show "parseInt (trim (bytesToString (hd shiftedTokens))) 10 = None"
    by (simp add: js_defs)
qed

lemma sample_deriveAge:
  "deriveAge (clockAt (civilTime 2024 5 14)) (Some ''15-06-2000'') = (Some 23, Some True)"
  by (simp add: deriveAge_def sample_parse_hyphen sample_age)

lemma samplePayload_head: "samplePayload \<noteq> []" "hd samplePayload \<noteq> 0"
  by (simp_all add: samplePayload_def sampleTokens_def stringToBytes_def charCode_def)

lemma sample_record:
  fixes env :: environment
  defines "r \<equiv> assembleRecord env samplePayload (map bytesToString sampleTokens)
    (bytesToString (hd sampleTokens))"
  shows "extractDataFields env samplePayload = Inr r"
    and "emailMobilePresent r = 3"
    and "textFields r = map (\<lambda>t. Some (bytesToString t)) (tl sampleTokens)"
    and "photo r = [1, 2, 3]"
    and "mobileHash r = Some (bytesToHexString (replicate 32 9))"
    and "emailHash r = Some (bytesToHexString (replicate 32 7))"
    and "signature r = replicate 256 5"
    and "age r = fst (deriveAge env (Some ''15-06-2000''))"
    and "isAdult r = snd (deriveAge env (Some ''15-06-2000''))"
proof -
  note w = sample_wellformed
  show "extractDataFields env samplePayload = Inr r"
    unfolding samplePayload_def r_def by (rule extract_wellformed [OF w(1,2)])
  note a = assemble_wellformed [OF w(1) w(3), of "replicate 32 7" "replicate 32 9"
      "replicate 256 5" env "[1, 2, 3]"]
  from a show "emailMobilePresent r = 3"
    and "textFields r = map (\<lambda>t. Some (bytesToString t)) (tl sampleTokens)"
    and "photo r = [1, 2, 3]"
    and "mobileHash r = Some (bytesToHexString (replicate 32 9))"
    and "emailHash r = Some (bytesToHexString (replicate 32 7))"
    and "signature r = replicate 256 5"
    by (simp_all add: r_def samplePayload_def hashTail_def)
  have "nth_opt (map bytesToString sampleTokens) 3 = Some ''15-06-2000''"
    by (simp add: sampleTokens_def nth_opt_def)
  then show "age r = fst (deriveAge env (Some ''15-06-2000''))"
    and "isAdult r = snd (deriveAge env (Some ''15-06-2000''))"
    by (simp_all add: r_def tail_assemble noShift_parsed [OF w(3)])
qed

section \<open>Properties\<close>

text \<open>
  Claim C2. Layout of a well-formed payload. For sixteen delimiter-free tokens whose
  first one parses to the indicator \<open>ind\<close>, followed by the photo, the hashes the
  indicator announces (32 bytes each, email before mobile) and a 256-byte signature,
  \<open>extractDataFields\<close> returns a record: the indicator, the fifteen text fields in
  the order of the tokens, the photo, the hashes as lower-case hex and the signature,
  each exactly the bytes that were written.
\<close>

theorem extractDataFields_layout:
  assumes "length toks = 16" and "\<forall>t\<in>set toks. DELIMITER \<notin> set t"
    and "parseInt (trim (bytesToString (hd toks))) 10 = Some ind"
    and "length email = 32" and "length mobile = 32" and "length sg = 256"
  shows "\<exists>r. extractDataFields env (encodeFields toks @ ph @ hashTail ind email mobile @ sg) = Inr r
    \<and> emailMobilePresent r = ind
    \<and> textFields r = map (\<lambda>t. Some (bytesToString t)) (tl toks)
    \<and> photo r = ph
    \<and> mobileHash r = (if ind = 3 \<or> ind = 2 then Some (bytesToHexString mobile) else None)
    \<and> emailHash r = (if ind = 3 \<or> ind = 1 then Some (bytesToHexString email) else None)
    \<and> signature r = sg"
  using extract_wellformed [OF assms(1,2)] assemble_wellformed [OF assms(1) assms(3-6)]
  by simp

theorem extractDataFields_layout_witness:
  "\<exists>r. extractDataFields (clockAt 0)
      (encodeFields sampleTokens @ [1, 2, 3] @ (replicate 32 7 @ replicate 32 9)
         @ replicate 256 5) = Inr r
    \<and> emailMobilePresent r = 3
    \<and> textFields r = map (\<lambda>t. Some (bytesToString t)) (tl sampleTokens)
    \<and> photo r = [1, 2, 3]
    \<and> mobileHash r = Some (bytesToHexString (replicate 32 9))
    \<and> emailHash r = Some (bytesToHexString (replicate 32 7))
    \<and> signature r = replicate 256 5"
  using extractDataFields_layout [of sampleTokens 3 "replicate 32 7" "replicate 32 9"
      "replicate 256 5" "clockAt 0" "[1, 2, 3]"] sample_wellformed
  by (simp add: hashTail_def)

text \<open>
  Claim C5. The two nested loops of the first pass compute the reference split:
  from any index and any list of values read so far, \<open>readFields\<close> appends the
  tokens of the remaining bytes, at most sixteen values in all and at least one more
  when bytes remain.
\<close>

theorem readFields_refinement:
  "readFields b i acc = acc @ tokens (max 1 (16 - length acc)) (drop i b)"
proof (cases "length acc \<le> 15")
  case True
  then have "max 1 (16 - length acc) = 16 - length acc" by simp
  with readFields_tokens [OF True] show ?thesis by simp
next
  case False
  then have m: "max 1 (16 - length acc) = Suc 0" by simp
  show ?thesis
  proof (cases "i < length b")
    case True
    with False slice_field [of i b] show ?thesis
      unfolding m by (subst readFields.simps) (simp add: Let_def)
  next
    case False
    then show ?thesis
      by (subst readFields.simps) simp
  qed
qed

text \<open>
  Claim C21. Reading back what was written: on tokens without the delimiter byte,
  each followed by the delimiter, the first pass returns the first sixteen tokens as
  strings, and goes on into the rest of the payload only when fewer than sixteen
  were written.
\<close>

theorem readFields_roundtrip:
  assumes "\<forall>t\<in>set toks. DELIMITER \<notin> set t"
  shows "readFields (encodeFields toks @ rest) 0 [] =
    map bytesToString (take 16 toks) @ tokens (16 - length toks) rest"
  using assms by (simp add: readFields_all tokens_encode)

theorem readFields_roundtrip_witness:
  "readFields (encodeFields sampleTokens @ [1, 2, 255, 3]) 0 [] =
     [''3'', ''2697'', ''Asha'', ''15-06-2000'', ''F'', ''Ravi'', ''Pune'', [], ''12'',
      ''Baner'', ''411045'', ''Baner'', ''MH'', ''Main'', ''Haveli'', ''Pune'']"
  using readFields_roundtrip [of sampleTokens "[1, 2, 255, 3]"] sample_wellformed
  by (simp add: sampleTokens_def)

text \<open>
  Claim C27. \<open>extractDataFields\<close> fails on the empty payload only, with the
  \<^verbatim>\<open>TypeError\<close> of \<^verbatim>\<open>fieldValues[0].trim()\<close> rethrown at index 0; every other
  payload, however short, gives a record built from its tokens.
\<close>

theorem extractDataFields_total:
  "extractDataFields env b = Inl e \<longleftrightarrow> b = [] \<and> e = ExtractFailed UndefinedTrim 0"
  by (auto simp: extractDataFields_eq)

text \<open>
  Claim C19. The anomaly correction. When the first token is not a number and the
  second is \<open>3\<close>, the indicator is 3 and the text fields are the tokens from the
  third on, the last token standing for both \<open>subDistrict\<close> and \<open>vtc\<close>. The photo
  is cut from the index computed on the shifted values, which is the real end of the
  text moved by the length of the last token less one: the photo loses its first
  bytes, or gains the last delimiter, unless the last token has one character.
\<close>

theorem extractDataFields_shifted:
  assumes "length toks = 16" and "\<forall>t\<in>set toks. DELIMITER \<notin> set t"
    and "parseInt (trim (bytesToString (hd toks))) 10 = None"
    and "toks ! 1 = stringToBytes ''3''"
    and "length email = 32" and "length mobile = 32" and "length sg = 256"
    and "length (last toks) \<le> Suc (length ph)"
  shows "\<exists>r. extractDataFields env (encodeFields toks @ ph @ email @ mobile @ sg) = Inr r
    \<and> emailMobilePresent r = 3
    \<and> textFields r = map (\<lambda>t. Some (bytesToString t)) (drop 2 toks @ [last toks])
    \<and> photo r = drop (length (last toks)) (DELIMITER # ph)
    \<and> mobileHash r = Some (bytesToHexString mobile)
    \<and> emailHash r = Some (bytesToHexString email)
    \<and> signature r = sg"
  using extract_wellformed [OF assms(1,2)] assemble_shifted [OF assms(1) assms(3-8)]
  by simp

theorem extractDataFields_shifted_witness:
  "\<exists>r. extractDataFields (clockAt 0)
      (encodeFields shiftedTokens @ [1, 2, 3, 4, 5, 6, 7] @ replicate 32 7 @ replicate 32 9
         @ replicate 256 5) = Inr r
    \<and> emailMobilePresent r = 3
    \<and> subDistrict r = Some ''Haveli'' \<and> vtc r = Some ''Haveli''
    \<and> photo r = [6, 7]"
  using extractDataFields_shifted [of shiftedTokens "replicate 32 7" "replicate 32 9"
      "replicate 256 5" "[1, 2, 3, 4, 5, 6, 7]" "clockAt 0"] shifted_wellformed
  by (auto simp: textFields_def shiftedTokens_def)

text \<open>
  The signature of a record is the last 256 bytes of the payload, whenever
  the payload has that many.
\<close>

theorem signature_last_256:
  assumes "extractDataFields env b = Inr r" and "256 \<le> length b"
  shows "signature r = drop (length b - 256) b"
  using assms js_slice_last [of 256 b] by (simp add: extractDataFields_Inr_iff)

theorem signature_last_256_witness:
  "extractDataFields (clockAt 0) (51 # replicate 300 7) =
     Inr (assembleRecord (clockAt 0) (51 # replicate 300 7)
       (readFields (51 # replicate 300 7) 0 []) (hd (readFields (51 # replicate 300 7) 0 []))) \<and>
   signature (assembleRecord (clockAt 0) (51 # replicate 300 7)
       (readFields (51 # replicate 300 7) 0 []) (hd (readFields (51 # replicate 300 7) 0 []))) =
     replicate 256 7"
  using signature_last_256 [of "clockAt 0" "51 # replicate 300 7"
      "assembleRecord (clockAt 0) (51 # replicate 300 7)
        (readFields (51 # replicate 300 7) 0 []) (hd (readFields (51 # replicate 300 7) 0 []))"]
  by (simp add: extractDataFields_Inr_iff)

text \<open>
  Claim C36. A payload shorter than 256 bytes raises no error: the start index of the
  signature is negative and \<^verbatim>\<open>slice\<close> counts it from the end, so the signature has
  \<open>min n (256 - n)\<close> bytes for a payload of \<open>n\<close> bytes.
\<close>

theorem signature_short_payload:
  assumes "extractDataFields env b = Inr r" and "length b < 256"
  shows "length (signature r) = min (length b) (256 - length b)"
proof -
  from assms(1) have "length (signature r) =
    rel_index (int (length b)) (length b) - rel_index (int (length b) - 256) (length b)"
    by (simp add: extractDataFields_Inr_iff length_js_slice)
  also from assms(2) have "\<dots> = length b - nat (max (2 * int (length b) - 256) 0)"
    by (simp add: rel_index_def)
  also from assms(2) have "\<dots> = min (length b) (256 - length b)"
    by (simp add: min_def max_def) (auto simp: nat_diff_distrib' nat_mult_distrib)
  finally show ?thesis .
qed

theorem signature_short_payload_witness:
  "extractDataFields (clockAt 0) (51 # replicate 199 7) =
     Inr (assembleRecord (clockAt 0) (51 # replicate 199 7)
       (readFields (51 # replicate 199 7) 0 []) (hd (readFields (51 # replicate 199 7) 0 []))) \<and>
   length (signature (assembleRecord (clockAt 0) (51 # replicate 199 7)
       (readFields (51 # replicate 199 7) 0 []) (hd (readFields (51 # replicate 199 7) 0 [])))) = 56"
  using signature_short_payload [of "clockAt 0" "51 # replicate 199 7"
      "assembleRecord (clockAt 0) (51 # replicate 199 7)
        (readFields (51 # replicate 199 7) 0 []) (hd (readFields (51 # replicate 199 7) 0 []))"]
  by (simp add: extractDataFields_Inr_iff)

text \<open>
  The first pass never returns more than sixteen values.
\<close>

theorem readFields_bound: "length (readFields b 0 []) \<le> 16"
  by (simp add: readFields_all length_tokens_le)

text \<open>
  In every record the decoder returns, \<open>isAdult\<close> is set exactly when
  \<open>age\<close> is, and it says whether the age is at least 18.
\<close>

theorem isAdult_consistent:
  assumes "extractDataFields env b = Inr r"
  shows "isAdult r = map_option (\<lambda>a. 18 \<le> a) (age r)"
  using assms
  by (auto simp: extractDataFields_Inr_iff tail_assemble deriveAge_def Let_def
      split: option.splits)

theorem isAdult_consistent_witness:
  "extractDataFields (clockAt 0) [51] = Inr (assembleRecord (clockAt 0) [51] [''3''] ''3'') \<and>
   isAdult (assembleRecord (clockAt 0) [51] [''3''] ''3'') =
     map_option (\<lambda>a. 18 \<le> a) (age (assembleRecord (clockAt 0) [51] [''3''] ''3''))"
proof -
  have t: "tokens 16 [51] = [''3'']"
    by (simp add: tokens_numeral DELIMITER_def js_defs char_of_eq_iff)
  then have "extractDataFields (clockAt 0) [51] =
    Inr (assembleRecord (clockAt 0) [51] [''3''] ''3'')"
    by (simp add: extractDataFields_Inr_iff readFields_all)
  with isAdult_consistent [OF this] show ?thesis by simp
qed

end
