(* ===== verification/Image_Filters.thy ===== *)
theory Image_Filters
  imports JS_Prelude
begin

text \<open>
  The pixel filters of the decoder: \<open>applyHighContrast\<close>, \<open>applyGrayscale\<close>,
  \<open>applyBinarize\<close> and \<open>applySharpen\<close> of src/lib/secure-qr-decoder.ts.

  A \<open>canvas\<close> has a width, a height and its pixels, four bytes for each pixel
  (red, green, blue, alpha). \<open>getImageData\<close> returns the pixels, and raises
  \<^verbatim>\<open>IndexSizeError\<close> on a canvas with a zero side, as the browser does;
  \<open>withImageData\<close> is the frame of every filter, which reads the pixels, changes
  them and writes them back.

  The loops run over indices, as in the code: \<open>pixelStarts\<close> is the sequence
  \<open>0, 4, 8, ...\<close> below the length, a read outside the array is \<open>None\<close> (the
  code reads \<^verbatim>\<open>undefined\<close>), a write outside the array is dropped, and
  \<open>toUint8Clamp\<close> is the conversion of a value stored in a clamped array
  (\<^verbatim>\<open>NaN\<close>, here \<open>None\<close>, is stored as 0). The mean of three bytes is rounded to
  the nearest integer, \<open>(r + g + b + 1) div 3\<close>; the threshold of \<open>applyBinarize\<close>
  is the quotient \<open>sum / (length / 4)\<close>, and a value is compared with it by cross
  multiplication, which is exact.

  \<open>mapPixels\<close> is the reference: one function applied to the three colour values of
  every pixel. The lemmas show that the loops of the three point filters are such
  maps, give the value of every byte of the result, and characterise the sharpening
  kernel by the set of indices it writes.
\<close>

section \<open>Definitions\<close>

record canvas =
  width :: nat
  height :: nat
  pixels :: bytes

definition getByte :: "bytes \<Rightarrow> nat \<Rightarrow> int option" where
  "getByte data i = map_option uint (nth_opt data i)"

definition toUint8Clamp :: "int option \<Rightarrow> byte" where
  "toUint8Clamp v = (case v of None \<Rightarrow> 0 | Some n \<Rightarrow> word_of_int (max 0 (min 255 n)))"

definition pixelStarts :: "nat \<Rightarrow> nat list" where
  "pixelStarts n = map (\<lambda>k. 4 * k) [0..<(n + 3) div 4]"

definition getImageData :: "canvas \<Rightarrow> error + bytes" where
  "getImageData c = (if width c = 0 \<or> height c = 0 then Inl IndexSizeError else Inr (pixels c))"

definition withImageData :: "(bytes \<Rightarrow> bytes) \<Rightarrow> canvas \<Rightarrow> error + canvas" where
  "withImageData f c =
    (case getImageData c of Inl e \<Rightarrow> Inl e | Inr data \<Rightarrow> Inr (c\<lparr>pixels := f data\<rparr>))"

definition contrastChannel :: "bytes \<Rightarrow> nat \<Rightarrow> bytes" where
  "contrastChannel data k =
    data[k := (case getByte data k of Some v \<Rightarrow> if v < 128 then 0 else 255 | None \<Rightarrow> 255)]"

definition contrastPixel :: "nat \<Rightarrow> bytes \<Rightarrow> bytes" where
  "contrastPixel i data = fold (\<lambda>j d. contrastChannel d (i + j)) [0..<3] data"

definition highContrastData :: "bytes \<Rightarrow> bytes" where
  "highContrastData data = fold contrastPixel (pixelStarts (length data)) data"

definition applyHighContrast :: "canvas \<Rightarrow> error + canvas" where
  "applyHighContrast = withImageData highContrastData"

definition averageAt :: "bytes \<Rightarrow> nat \<Rightarrow> int option" where
  "averageAt data i =
    (case (getByte data i, getByte data (i + 1), getByte data (i + 2)) of
       (Some r, Some g, Some b) \<Rightarrow> Some ((r + g + b + 1) div 3)
     | _ \<Rightarrow> None)"

definition grayPixel :: "nat \<Rightarrow> bytes \<Rightarrow> bytes" where
  "grayPixel i data =
    (let avg = toUint8Clamp (averageAt data i)
     in data[i + 2 := avg, i + 1 := avg, i := avg])"

definition grayscaleData :: "bytes \<Rightarrow> bytes" where
  "grayscaleData data = fold grayPixel (pixelStarts (length data)) data"

definition applyGrayscale :: "canvas \<Rightarrow> error + canvas" where
  "applyGrayscale = withImageData grayscaleData"

definition channelSum :: "bytes \<Rightarrow> int" where
  "channelSum data =
    fold (\<lambda>i pixelSum. pixelSum + (case getByte data i of Some v \<Rightarrow> v | None \<Rightarrow> 0))
      (pixelStarts (length data)) 0"

definition thresholdPixel :: "int \<Rightarrow> nat \<Rightarrow> nat \<Rightarrow> bytes \<Rightarrow> bytes" where
  "thresholdPixel pixelSum n i data =
    (let value = (case getByte data i of
                    Some v \<Rightarrow> if v * int n < 4 * pixelSum then 0 else 255
                  | None \<Rightarrow> 255)
     in data[i + 2 := value, i + 1 := value, i := value])"

definition binarizeData :: "bytes \<Rightarrow> bytes" where
  "binarizeData data =
    (let gray = grayscaleData data;
         pixelSum = channelSum gray
     in fold (thresholdPixel pixelSum (length gray)) (pixelStarts (length gray)) gray)"

definition applyBinarize :: "canvas \<Rightarrow> error + canvas" where
  "applyBinarize = withImageData binarizeData"

definition sharpenValue :: "bytes \<Rightarrow> nat \<Rightarrow> nat \<Rightarrow> byte" where
  "sharpenValue original w i =
    toUint8Clamp
      (case (getByte original i, getByte original (i - w * 4), getByte original (i - 4),
             getByte original (i + 4), getByte original (i + w * 4)) of
         (Some a, Some u, Some l, Some r, Some b) \<Rightarrow> Some (5 * a - u - l - r - b)
       | _ \<Rightarrow> None)"

definition sharpenPixel :: "bytes \<Rightarrow> nat \<Rightarrow> nat \<Rightarrow> bytes \<Rightarrow> bytes" where
  "sharpenPixel original w idx data =
    fold (\<lambda>c d. d[idx + c := sharpenValue original w (idx + c)]) [0..<3] data"

definition sharpenData :: "nat \<Rightarrow> nat \<Rightarrow> bytes \<Rightarrow> bytes" where
  "sharpenData w h data =
    fold (\<lambda>y d. fold (\<lambda>x d. sharpenPixel data w ((y * w + x) * 4) d) [1..<w - 1] d)
      [1..<h - 1] data"

definition applySharpen :: "canvas \<Rightarrow> error + canvas" where
  "applySharpen c = withImageData (sharpenData (width c) (height c)) c"

lemmas filter_defs =
  getByte_def toUint8Clamp_def pixelStarts_def getImageData_def withImageData_def
  contrastChannel_def contrastPixel_def highContrastData_def applyHighContrast_def
  averageAt_def grayPixel_def grayscaleData_def applyGrayscale_def channelSum_def
  thresholdPixel_def binarizeData_def applyBinarize_def sharpenValue_def sharpenPixel_def
  sharpenData_def applySharpen_def

section \<open>Pixel-wise loops\<close>

definition read3 :: "bytes \<Rightarrow> nat \<Rightarrow> byte option list" where
  "read3 d i = [nth_opt d i, nth_opt d (i + 1), nth_opt d (i + 2)]"

definition write3 :: "nat \<Rightarrow> byte list \<Rightarrow> bytes \<Rightarrow> bytes" where
  "write3 i vs d = d[i := vs ! 0, i + 1 := vs ! 1, i + 2 := vs ! 2]"

definition mapPixels :: "(byte option list \<Rightarrow> byte list) \<Rightarrow> bytes \<Rightarrow> bytes" where
  "mapPixels g d = fold (\<lambda>i d. write3 i (g (read3 d i)) d) (pixelStarts (length d)) d"

lemma length_write3 [simp]: "length (write3 i vs d) = length d"
  by (simp add: write3_def)

lemma nth_write3:
  "k < length d \<Longrightarrow>
   write3 i vs d ! k = (if i \<le> k \<and> k < i + 3 then vs ! (k - i) else d ! k)"
  by (auto simp: write3_def nth_list_update numeral_eq_Suc less_Suc_eq)

lemma read3_cong:
  assumes "length d = length d'"
    and "\<And>k. i \<le> k \<Longrightarrow> k < i + 3 \<Longrightarrow> k < length d \<Longrightarrow> d ! k = d' ! k"
  shows "read3 d i = read3 d' i"
  using assms by (simp add: read3_def nth_opt_def)

lemma pixel_prefix:
  fixes g :: "byte option list \<Rightarrow> byte list"
  defines "F \<equiv> \<lambda>m d. fold (\<lambda>i d. write3 i (g (read3 d i)) d) (map (\<lambda>k. 4 * k) [0..<m]) d"
  shows "length (F m d) = length d \<and>
    (\<forall>k < length d. F m d ! k =
      (if k div 4 < m \<and> k mod 4 < 3 then g (read3 d (4 * (k div 4))) ! (k mod 4) else d ! k))"
proof (induction m)
  case 0
  show ?case by (simp add: F_def)
next
  case (Suc m)
  have step: "F (Suc m) d = write3 (4 * m) (g (read3 (F m d) (4 * m))) (F m d)"
    by (simp add: F_def)
  have r: "read3 (F m d) (4 * m) = read3 d (4 * m)"
  proof (rule read3_cong)
    show "length (F m d) = length d" using Suc by simp
    fix k assume "4 * m \<le> k" "k < 4 * m + 3" "k < length (F m d)"
    then have "\<not> k div 4 < m" "k < length d" using Suc by auto
    with Suc show "F m d ! k = d ! k" by simp
  qed
  show ?case
  proof (intro conjI allI impI)
    show "length (F (Suc m) d) = length d"
      using Suc by (simp add: step)
    fix k assume k: "k < length d"
    have c: "(4 * m \<le> k \<and> k < 4 * m + 3) = (k div 4 = m \<and> k mod 4 < 3)"
      by presburger
    have e: "k div 4 = m \<Longrightarrow> k - 4 * m = k mod 4"
      by presburger
    from k Suc show "F (Suc m) d ! k =
      (if k div 4 < Suc m \<and> k mod 4 < 3 then g (read3 d (4 * (k div 4))) ! (k mod 4)
       else d ! k)"
      unfolding step r by (auto simp: nth_write3 c e less_Suc_eq)
  qed
qed

lemma mapPixels_nth:
  assumes "k < length d"
  shows "mapPixels g d ! k =
    (if k mod 4 < 3 then g (read3 d (4 * (k div 4))) ! (k mod 4) else d ! k)"
proof -
  from assms have "k div 4 < (length d + 3) div 4" by presburger
  with assms pixel_prefix [of g "(length d + 3) div 4" d] show ?thesis
    by (simp add: mapPixels_def pixelStarts_def)
qed

lemma length_mapPixels [simp]: "length (mapPixels g d) = length d"
  using pixel_prefix [of g "(length d + 3) div 4" d]
  by (simp add: mapPixels_def pixelStarts_def)

lemma read3_nth: "j < 3 \<Longrightarrow> read3 d i ! j = nth_opt d (i + j)"
  by (auto simp: read3_def numeral_eq_Suc less_Suc_eq)

lemma pixel_index: "4 * (k div 4) + k mod 4 = (k::nat)"
  by simp

lemma mapPixels_channel:
  assumes "k < length d" and "k mod 4 < 3"
    and "\<And>w j. length w = 3 \<Longrightarrow> j < 3 \<Longrightarrow> g w ! j = h (w ! j)"
  shows "mapPixels g d ! k = h (Some (d ! k))"
proof -
  have "length (read3 d (4 * (k div 4))) = 3" by (simp add: read3_def)
  with assms show ?thesis
    by (simp add: mapPixels_nth read3_nth nth_opt_def)
qed

lemma mapPixels_alpha:
  assumes "k < length d" and "k mod 4 = 3"
  shows "mapPixels g d ! k = d ! k"
  using assms by (simp add: mapPixels_nth)

section \<open>The filters as pixel maps\<close>

definition contrastOf :: "byte option \<Rightarrow> byte" where
  "contrastOf v = (case v of Some b \<Rightarrow> if uint b < 128 then 0 else 255 | None \<Rightarrow> 255)"

lemma nth_opt_update_other: "k \<noteq> i \<Longrightarrow> nth_opt (d[i := x]) k = nth_opt d k"
  by (simp add: nth_opt_def)

lemma contrastChannel_eq: "contrastChannel d k = d[k := contrastOf (nth_opt d k)]"
  by (cases "nth_opt d k") (simp_all add: contrastChannel_def getByte_def contrastOf_def)

lemma contrastPixel_write3: "contrastPixel i d = write3 i (map contrastOf (read3 d i)) d"
  by (simp add: contrastPixel_def contrastChannel_eq upt_rec numeral_eq_Suc write3_def
      read3_def nth_opt_update_other)

lemma highContrastData_mapPixels: "highContrastData d = mapPixels (map contrastOf) d"
  by (simp add: highContrastData_def mapPixels_def contrastPixel_write3 [abs_def])

definition grayOf :: "byte option list \<Rightarrow> byte list" where
  "grayOf w =
    replicate 3 (toUint8Clamp
      (case (w ! 0, w ! 1, w ! 2) of
         (Some r, Some g, Some b) \<Rightarrow> Some ((uint r + uint g + uint b + 1) div 3)
       | _ \<Rightarrow> None))"

lemma update3_swap:
  "d[Suc (Suc i) := a, Suc i := b, i := c] = d[i := c, Suc i := b, Suc (Suc i) := a]"
  by (simp add: list_update_swap)

lemma averageAt_read3:
  "averageAt d i =
    (case (read3 d i ! 0, read3 d i ! 1, read3 d i ! 2) of
       (Some r, Some g, Some b) \<Rightarrow> Some ((uint r + uint g + uint b + 1) div 3)
     | _ \<Rightarrow> None)"
  by (simp add: averageAt_def getByte_def read3_def split: option.splits)

lemma grayPixel_write3: "grayPixel i d = write3 i (grayOf (read3 d i)) d"
  by (simp add: grayPixel_def Let_def update3_swap write3_def grayOf_def averageAt_read3
      numeral_eq_Suc)

lemma grayscaleData_mapPixels: "grayscaleData d = mapPixels grayOf d"
  by (simp add: grayscaleData_def mapPixels_def grayPixel_write3 [abs_def])

lemma length_grayscaleData [simp]: "length (grayscaleData d) = length d"
  by (simp add: grayscaleData_mapPixels)

lemma length_highContrastData [simp]: "length (highContrastData d) = length d"
  by (simp add: highContrastData_mapPixels)

definition thresholdOf :: "int \<Rightarrow> nat \<Rightarrow> byte option list \<Rightarrow> byte list" where
  "thresholdOf pixelSum n w =
    replicate 3 (case w ! 0 of
                   Some b \<Rightarrow> if uint b * int n < 4 * pixelSum then 0 else 255
                 | None \<Rightarrow> 255)"

lemma thresholdPixel_write3:
  "thresholdPixel s n i d = write3 i (thresholdOf s n (read3 d i)) d"
  by (cases "nth_opt d i")
    (simp_all add: thresholdPixel_def Let_def update3_swap write3_def thresholdOf_def
      getByte_def read3_def numeral_eq_Suc)

lemma binarizeData_mapPixels:
  "binarizeData d =
    mapPixels (thresholdOf (channelSum (grayscaleData d)) (length d)) (grayscaleData d)"
  unfolding binarizeData_def Let_def mapPixels_def thresholdPixel_write3 [abs_def]
  by simp

section \<open>Values of the filtered pixels\<close>

lemma highContrast_nth:
  assumes "k < length d"
  shows "highContrastData d ! k =
    (if k mod 4 = 3 then d ! k else if uint (d ! k) < 128 then 0 else 255)"
proof (cases "k mod 4 = 3")
  case True
  with assms show ?thesis
    by (simp add: highContrastData_mapPixels mapPixels_alpha)
next
  case False
  then have "k mod 4 < 3" by presburger
  with assms have "mapPixels (map contrastOf) d ! k = contrastOf (Some (d ! k))"
    by (intro mapPixels_channel) (simp_all add: read3_nth)
  with False show ?thesis
    by (simp add: highContrastData_mapPixels contrastOf_def)
qed

lemma uint_byte_bounds: "0 \<le> uint (b :: byte)" "uint (b :: byte) \<le> 255"
  using uint_lt2p [of b] by simp_all

lemma average_bounds:
  "0 \<le> (uint (r :: byte) + uint (g :: byte) + uint (b :: byte) + 1) div 3"
  "(uint (r :: byte) + uint (g :: byte) + uint (b :: byte) + 1) div 3 \<le> 255"
  using uint_byte_bounds [of r] uint_byte_bounds [of g] uint_byte_bounds [of b]
  by linarith+

lemma grayOf_nth:
  assumes "j < 3"
  shows "grayOf [Some r, Some g, Some b] ! j =
    word_of_int ((uint r + uint g + uint b + 1) div 3)"
  using assms average_bounds [of r g b]
  by (simp add: grayOf_def toUint8Clamp_def min_def max_def)

lemma read3_full:
  "i + 2 < length d \<Longrightarrow> read3 d i = [Some (d ! i), Some (d ! (i + 1)), Some (d ! (i + 2))]"
  by (simp add: read3_def nth_opt_def)

lemma grayscale_nth:
  assumes "4 * (k div 4) + 2 < length d" and "k mod 4 < 3"
  shows "grayscaleData d ! k =
    word_of_int ((uint (d ! (4 * (k div 4))) + uint (d ! (4 * (k div 4) + 1))
      + uint (d ! (4 * (k div 4) + 2)) + 1) div 3)"
proof -
  from assms have "k < length d" by presburger
  with assms show ?thesis
    by (simp add: grayscaleData_mapPixels mapPixels_nth read3_full grayOf_nth)
qed

lemma grayscale_alpha: "k < length d \<Longrightarrow> k mod 4 = 3 \<Longrightarrow> grayscaleData d ! k = d ! k"
  by (simp add: grayscaleData_mapPixels mapPixels_alpha)

lemma thresholdOf_nth:
  "j < 3 \<Longrightarrow> thresholdOf s n w ! j =
    (case w ! 0 of Some b \<Rightarrow> if uint b * int n < 4 * s then 0 else 255 | None \<Rightarrow> 255)"
  by (simp add: thresholdOf_def)

lemma read3_first: "i < length d \<Longrightarrow> read3 d i ! 0 = Some (d ! i)"
  by (simp add: read3_def nth_opt_def)

lemma length_binarizeData [simp]: "length (binarizeData d) = length d"
  by (simp add: binarizeData_mapPixels)

lemma binarize_nth:
  assumes "k < length d" and "k mod 4 < 3"
  shows "binarizeData d ! k =
    (if uint (grayscaleData d ! (4 * (k div 4))) * int (length d)
        < 4 * channelSum (grayscaleData d) then 0 else 255)"
proof -
  from assms(1) have "4 * (k div 4) < length d" by presburger
  with assms show ?thesis
    by (simp add: binarizeData_mapPixels mapPixels_nth thresholdOf_nth read3_first)
qed

lemma binarize_alpha: "k < length d \<Longrightarrow> k mod 4 = 3 \<Longrightarrow> binarizeData d ! k = d ! k"
  by (simp add: binarizeData_mapPixels mapPixels_alpha grayscale_alpha)

section \<open>The sharpening kernel\<close>

definition sharpenIndices :: "nat \<Rightarrow> nat \<Rightarrow> nat list" where
  "sharpenIndices w h =
    concat (map (\<lambda>y. concat (map (\<lambda>x. map (\<lambda>c. (y * w + x) * 4 + c) [0..<3]) [1..<w - 1]))
      [1..<h - 1])"

lemma fold_fold_concat: "fold (\<lambda>y. fold g (F y)) ys = fold g (concat (map F ys))"
proof
  fix d show "fold (\<lambda>y. fold g (F y)) ys d = fold g (concat (map F ys)) d"
    by (induction ys arbitrary: d) simp_all
qed

lemma in_channels: "k \<in> set (map (\<lambda>c. idx + c) [0..<3]) \<longleftrightarrow> (\<exists>c<3. k = idx + c)"
proof
  assume "k \<in> set (map (\<lambda>c. idx + c) [0..<3])"
  then have "idx \<le> k" "k < idx + 3" by auto
  then have "k - idx < 3 \<and> k = idx + (k - idx)" by arith
  then show "\<exists>c<3. k = idx + c" by blast
next
  assume "\<exists>c<3. k = idx + c"
  then show "k \<in> set (map (\<lambda>c. idx + c) [0..<3])" by auto
qed

lemma in_concat_map: "k \<in> set (concat (map F ys)) \<longleftrightarrow> (\<exists>y\<in>set ys. k \<in> set (F y))"
  by auto

lemma fold_update_nth:
  "k < length d \<Longrightarrow>
   fold (\<lambda>i d. d[i := v i]) is d ! k = (if k \<in> set is then v k else d ! k)"
  by (induction "is" arbitrary: d) (auto simp: nth_list_update)

lemma length_fold_update [simp]: "length (fold (\<lambda>i d. d[i := v i]) is d) = length d"
  by (induction "is" arbitrary: d) simp_all

lemma sharpenData_fold:
  "sharpenData w h d = fold (\<lambda>i d'. d'[i := sharpenValue d w i]) (sharpenIndices w h) d"
proof -
  have p: "sharpenPixel d w idx = fold (\<lambda>i d'. d'[i := sharpenValue d w i])
    (map (\<lambda>c. idx + c) [0..<3])" for idx
    by (rule ext) (simp add: sharpenPixel_def fold_map comp_def)
  show ?thesis
    unfolding sharpenData_def sharpenIndices_def p
    by (simp only: fold_fold_concat)
qed

lemma length_sharpenData [simp]: "length (sharpenData w h d) = length d"
  by (simp add: sharpenData_fold)

lemma sharpen_nth:
  "k < length d \<Longrightarrow>
   sharpenData w h d ! k = (if k \<in> set (sharpenIndices w h) then sharpenValue d w k else d ! k)"
  by (simp add: sharpenData_fold fold_update_nth)

lemma sharpenIndices_iff:
  "k \<in> set (sharpenIndices w h) \<longleftrightarrow>
   (\<exists>y x c. 1 \<le> y \<and> y < h - 1 \<and> 1 \<le> x \<and> x < w - 1 \<and> c < 3 \<and> k = (y * w + x) * 4 + c)"
proof -
  have "k \<in> set (sharpenIndices w h) \<longleftrightarrow>
    (\<exists>y\<in>set [1..<h - 1]. \<exists>x\<in>set [1..<w - 1].
       k \<in> set (map (\<lambda>c. (y * w + x) * 4 + c) [0..<3]))"
    unfolding sharpenIndices_def in_concat_map ..
  also have "\<dots> \<longleftrightarrow>
    (\<exists>y\<in>set [1..<h - 1]. \<exists>x\<in>set [1..<w - 1]. \<exists>c<3. k = (y * w + x) * 4 + c)"
    unfolding in_channels ..
  also have "\<dots> \<longleftrightarrow>
    (\<exists>y x c. 1 \<le> y \<and> y < h - 1 \<and> 1 \<le> x \<and> x < w - 1 \<and> c < 3 \<and> k = (y * w + x) * 4 + c)"
    by (simp only: set_upt atLeastLessThan_iff Bex_def) blast
  finally show ?thesis .
qed

lemma sharpen_alpha:
  assumes "k < length d" and "k mod 4 = 3"
  shows "sharpenData w h d ! k = d ! k"
proof -
  have "k \<notin> set (sharpenIndices w h)"
  proof
    assume "k \<in> set (sharpenIndices w h)"
    then obtain y x c where "c < 3" "k = (y * w + x) * 4 + c"
      unfolding sharpenIndices_iff by blast
    then have "k = c + 4 * (y * w + x)" by simp
    then have "k mod 4 = c mod 4" by (simp only: mod_mult_self2)
    with \<open>c < 3\<close> assms(2) show False by simp
  qed
  with assms(1) show ?thesis by (simp add: sharpen_nth)
qed

lemma interior_bounds:
  assumes "length d = 4 * w * h" and "1 \<le> y" and "y + 1 < h" and "x + 1 < w" and "c < 3"
  shows "(y * w + x) * 4 + c + w * 4 < length d"
proof -
  from assms(3) have "(y + 2) * w \<le> h * w" by (intro mult_le_mono1) simp
  with assms(4) have "(y + 1) * w + x + 1 \<le> h * w" by (simp add: algebra_simps)
  with assms(1,5) show ?thesis by (simp add: algebra_simps)
qed

lemma sharpenValue_interior:
  assumes len: "length d = 4 * w * h" and y: "1 \<le> y" "y + 1 < h" and x: "1 \<le> x" "x + 1 < w"
    and c: "c < 3"
  shows "sharpenValue d w ((y * w + x) * 4 + c) =
    toUint8Clamp (Some (5 * uint (d ! ((y * w + x) * 4 + c))
      - uint (d ! (((y - 1) * w + x) * 4 + c)) - uint (d ! ((y * w + (x - 1)) * 4 + c))
      - uint (d ! ((y * w + (x + 1)) * 4 + c)) - uint (d ! (((y + 1) * w + x) * 4 + c))))"
proof -
  let ?i = "(y * w + x) * 4 + c"
  note b = interior_bounds [OF len y x(2) c]
  from y(1) have up: "?i - w * 4 = ((y - 1) * w + x) * 4 + c"
    by (cases y) (simp_all add: algebra_simps)
  from x(1) have left: "?i - 4 = (y * w + (x - 1)) * 4 + c"
    by (cases x) (simp_all add: algebra_simps)
  have right: "?i + 4 = (y * w + (x + 1)) * 4 + c" and down: "?i + w * 4 = ((y + 1) * w + x) * 4 + c"
    by (simp_all add: algebra_simps)
  from x(2) have "4 \<le> w * 4" by simp
  with b have r: "?i + 4 < length d" "?i < length d" "?i - w * 4 < length d" "?i - 4 < length d"
    by simp_all
  show ?thesis
    unfolding sharpenValue_def getByte_def up [symmetric] left [symmetric] right [symmetric]
      down [symmetric]
    using b r by (simp add: nth_opt_def)
qed

section \<open>Examples\<close>

lemma sample_gray:
  "grayscaleData [10, 20, 30, 255, 200, 210, 220, 255] = [20, 20, 20, 255, 210, 210, 210, 255]"
  by code_simp

lemma sample_sum: "channelSum [20, 20, 20, 255, 210, 210, 210, 255] = 230"
  by code_simp

section \<open>Properties\<close>

text \<open>
  The high-contrast filter keeps the length of the pixel data and the
  alpha channel, and sets every colour value to 0 when it is below 128 and to 255
  otherwise.
\<close>

theorem highContrast_pixels:
  assumes "k < length d"
  shows "length (highContrastData d) = length d \<and>
    highContrastData d ! k =
      (if k mod 4 = 3 then d ! k else if uint (d ! k) < 128 then 0 else 255)"
  using assms by (simp add: highContrast_nth)

theorem highContrast_pixels_witness:
  "highContrastData [10, 200, 128, 77] ! 0 = 0 \<and> highContrastData [10, 200, 128, 77] ! 2 = 255 \<and>
   highContrastData [10, 200, 128, 77] ! 3 = 77"
  using highContrast_pixels [of 0 "[10, 200, 128, 77]"]
    highContrast_pixels [of 2 "[10, 200, 128, 77]"]
    highContrast_pixels [of 3 "[10, 200, 128, 77]"]
  by simp

text \<open>
  The grayscale filter gives the three colour values of a pixel their mean,
  rounded to the nearest integer as the clamped array does.
\<close>

theorem grayscale_pixels:
  assumes "4 * p + 3 < length d" and "c < 3"
  shows "grayscaleData d ! (4 * p + c) =
    word_of_int ((uint (d ! (4 * p)) + uint (d ! (4 * p + 1)) + uint (d ! (4 * p + 2)) + 1) div 3)"
proof -
  from assms(2) have "(4 * p + c) div 4 = p" "(4 * p + c) mod 4 < 3" by simp_all
  with assms grayscale_nth [of "4 * p + c" d] show ?thesis by simp
qed

theorem grayscale_pixels_witness:
  "grayscaleData [10, 20, 31, 255] ! 1 = 20 \<and> grayscaleData [10, 20, 32, 255] ! 1 = 21"
  using grayscale_pixels [of 0 "[10, 20, 31, 255]" 1] grayscale_pixels [of 0 "[10, 20, 32, 255]" 1]
  by simp

text \<open>
  Claim C35. The binarize filter is the grayscale filter followed by a threshold at
  the mean of the gray values: a colour value becomes 0 when the gray value of its
  pixel is below the mean and 255 otherwise, so every colour value of the result
  is 0 or 255.
\<close>

theorem binarize_pixels:
  assumes "k < length d" and "k mod 4 < 3"
  shows "binarizeData d ! k =
      (if uint (grayscaleData d ! (4 * (k div 4))) * int (length d)
          < 4 * channelSum (grayscaleData d) then 0 else 255)
    \<and> (binarizeData d ! k = 0 \<or> binarizeData d ! k = 255)"
  using assms by (simp add: binarize_nth)

theorem binarize_pixels_witness:
  "binarizeData [10, 20, 30, 255, 200, 210, 220, 255] ! 0 = 0 \<and>
   binarizeData [10, 20, 30, 255, 200, 210, 220, 255] ! 4 = 255"
  using binarize_pixels [of 0 "[10, 20, 30, 255, 200, 210, 220, 255]"]
    binarize_pixels [of 4 "[10, 20, 30, 255, 200, 210, 220, 255]"]
  by (simp add: sample_gray sample_sum)

text \<open>
  Inside the image the sharpen filter replaces a colour value by five
  times the original value less its four neighbours, clamped to the range of a
  byte; the neighbours are read from the original data, not from the values
  already sharpened.
\<close>

theorem sharpen_interior:
  assumes "length d = 4 * w * h" and "1 \<le> y" and "y + 1 < h" and "1 \<le> x" and "x + 1 < w"
    and "c < 3"
  shows "sharpenData w h d ! ((y * w + x) * 4 + c) =
    toUint8Clamp (Some (5 * uint (d ! ((y * w + x) * 4 + c))
      - uint (d ! (((y - 1) * w + x) * 4 + c)) - uint (d ! ((y * w + (x - 1)) * 4 + c))
      - uint (d ! ((y * w + (x + 1)) * 4 + c)) - uint (d ! (((y + 1) * w + x) * 4 + c))))"
proof -
  from assms(2-6) have "1 \<le> y \<and> y < h - 1 \<and> 1 \<le> x \<and> x < w - 1 \<and> c < 3" by arith
  then have "(y * w + x) * 4 + c \<in> set (sharpenIndices w h)"
    unfolding sharpenIndices_iff by blast
  moreover from interior_bounds [OF assms(1-3,5,6)] have "(y * w + x) * 4 + c < length d" by simp
  ultimately have "sharpenData w h d ! ((y * w + x) * 4 + c) =
    sharpenValue d w ((y * w + x) * 4 + c)"
    by (simp only: sharpen_nth if_True)
  then show ?thesis
    by (simp only: sharpenValue_interior [OF assms])
qed

theorem sharpen_interior_witness:
  "sharpenData 3 3 (replicate 16 10 @ [200] @ replicate 19 10) ! 16 = 255"
  using sharpen_interior [of "replicate 16 10 @ [200] @ replicate 19 10" 3 3 1 1 0]
  by (simp add: nth_append toUint8Clamp_def)

text \<open>
  No filter changes the alpha channel or the length of the pixel data.
\<close>

theorem filters_preserve_alpha:
  assumes "k < length d" and "k mod 4 = 3"
  shows "highContrastData d ! k = d ! k \<and> grayscaleData d ! k = d ! k \<and>
    binarizeData d ! k = d ! k \<and> sharpenData w h d ! k = d ! k \<and>
    length (highContrastData d) = length d \<and> length (grayscaleData d) = length d \<and>
    length (binarizeData d) = length d \<and> length (sharpenData w h d) = length d"
  using assms by (simp add: highContrast_nth grayscale_alpha binarize_alpha sharpen_alpha)

theorem filters_preserve_alpha_witness:
  "highContrastData [10, 200, 128, 77] ! 3 = 77 \<and> grayscaleData [10, 200, 128, 77] ! 3 = 77 \<and>
   binarizeData [10, 200, 128, 77] ! 3 = 77 \<and> sharpenData 1 1 [10, 200, 128, 77] ! 3 = 77"
  using filters_preserve_alpha [of 3 "[10, 200, 128, 77]" 1 1] by simp

end
