(* ===== verification/QR_Localizer.thy ===== *)
theory QR_Localizer
  imports Image_Filters
begin

text \<open>
  The QR localizer of the decoder: \<open>scanFromFile\<close> and
  \<open>tryMultipleProcessingMethods\<close> of src/lib/secure-qr-decoder.ts.

  What the browser and the detector library do is a record \<open>browser\<close> of functions:
  whether the canvas has a drawing context, the type of a file, the file reader,
  the image loader, the sides of an image, the height the canvas takes when it is
  assigned \<open>k * (height / width)\<close> (a floating-point product converted to an
  integer), the pixels of the canvas after the image is drawn at a size, and the
  detector \<open>jsQR\<close>, whose exceptions the code catches and treats like no code.

  \<open>firstResult\<close> is a \<^verbatim>\<open>for\<close> loop that returns at the first text found and lets
  an exception pass; \<open>tryInversions\<close> is the innermost loop. \<open>tryMethod\<close> is the
  body of the loop over the filters, \<open>tryMultipleProcessingMethods\<close> the method,
  and \<open>scanFromFile\<close> the promise with its five rejections.

  \<open>attempts\<close> lists the forty combinations in the order of the loops and
  \<open>detect\<close> is the detector on the filtered picture of one combination; the
  lemmas show that the search returns the first success of that list, and what
  happens when a size has a zero side.
\<close>

section \<open>Definitions\<close>

datatype inversion = DontInvert | AttemptBoth

datatype processingMethod = Original | HighContrast | Grayscale | Binarize | Sharpen

record ('file, 'img) browser =
  hasContext :: bool
  fileType :: "'file \<Rightarrow> string"
  readAsDataURL :: "'file \<Rightarrow> string option"
  loadImage :: "string \<Rightarrow> 'img option"
  imageWidth :: "'img \<Rightarrow> nat"
  imageHeight :: "'img \<Rightarrow> nat"
  scaledHeight :: "nat \<Rightarrow> 'img \<Rightarrow> nat"
  drawImage :: "'img \<Rightarrow> nat \<Rightarrow> nat \<Rightarrow> bytes"
  jsQR :: "bytes \<Rightarrow> nat \<Rightarrow> nat \<Rightarrow> inversion \<Rightarrow> string option"

definition sizes :: "('file, 'img) browser \<Rightarrow> 'img \<Rightarrow> (nat \<times> nat) list" where
  "sizes br img =
    [(imageWidth br img, imageHeight br img),
     (800, scaledHeight br 800 img),
     (1000, scaledHeight br 1000 img),
     (1200, scaledHeight br 1200 img)]"

definition processingMethods :: "processingMethod list" where
  "processingMethods = [Original, HighContrast, Grayscale, Binarize, Sharpen]"

definition inversionMethods :: "inversion list" where
  "inversionMethods = [DontInvert, AttemptBoth]"

definition process :: "processingMethod \<Rightarrow> canvas \<Rightarrow> error + canvas" where
  "process m c =
    (case m of
       Original \<Rightarrow> Inr c
     | HighContrast \<Rightarrow> applyHighContrast c
     | Grayscale \<Rightarrow> applyGrayscale c
     | Binarize \<Rightarrow> applyBinarize c
     | Sharpen \<Rightarrow> applySharpen c)"

fun tryInversions :: "(inversion \<Rightarrow> string option) \<Rightarrow> inversion list \<Rightarrow> string option" where
  "tryInversions f [] = None"
| "tryInversions f (inversion # rest) =
    (case f inversion of Some d \<Rightarrow> Some d | None \<Rightarrow> tryInversions f rest)"

fun firstResult :: "('a \<Rightarrow> error + string option) \<Rightarrow> 'a list \<Rightarrow> error + string option" where
  "firstResult f [] = Inr None"
| "firstResult f (x # xs) =
    (case f x of
       Inl e \<Rightarrow> Inl e
     | Inr (Some d) \<Rightarrow> Inr (Some d)
     | Inr None \<Rightarrow> firstResult f xs)"

definition tryMethod ::
  "('file, 'img) browser \<Rightarrow> 'img \<Rightarrow> nat \<times> nat \<Rightarrow> processingMethod \<Rightarrow> error + string option" where
  "tryMethod br img sz m =
    (let c = \<lparr>width = fst sz, height = snd sz,
               pixels = drawImage br img (fst sz) (snd sz)\<rparr>
     in case process m c of
          Inl e \<Rightarrow> Inl e
        | Inr c' \<Rightarrow>
            (case getImageData c' of
               Inl e \<Rightarrow> Inl e
             | Inr data \<Rightarrow>
                 Inr (tryInversions (jsQR br data (width c') (height c')) inversionMethods)))"

definition tryMultipleProcessingMethods ::
  "('file, 'img) browser \<Rightarrow> 'img \<Rightarrow> error + string option" where
  "tryMultipleProcessingMethods br img =
    (if \<not> hasContext br then Inl CanvasUnavailable
     else firstResult (\<lambda>sz. firstResult (tryMethod br img sz) processingMethods)
            (sizes br img))"

fun isInfix :: "string \<Rightarrow> string \<Rightarrow> bool" where
  "isInfix p [] = (p = [])"
| "isInfix p (c # cs) = (take (length p) (c # cs) = p \<or> isInfix p cs)"

definition scanFromFile :: "('file, 'img) browser \<Rightarrow> 'file option \<Rightarrow> error + string" where
  "scanFromFile br imageFile =
    (case imageFile of
       None \<Rightarrow> Inl InvalidFileType
     | Some file \<Rightarrow>
         if \<not> isInfix ''image'' (fileType br file) then Inl InvalidFileType
         else (case readAsDataURL br file of
                 None \<Rightarrow> Inl FileReadFailed
               | Some url \<Rightarrow>
                   (case loadImage br url of
                      None \<Rightarrow> Inl ImageLoadFailed
                    | Some img \<Rightarrow>
                        (case tryMultipleProcessingMethods br img of
                           Inl e \<Rightarrow> Inl (ImageProcessingFailed e)
                         | Inr None \<Rightarrow> Inl NoQRCodeFound
                         | Inr (Some result) \<Rightarrow>
                             if result = [] then Inl NoQRCodeFound else Inr result))))"

lemmas localizer_defs =
  sizes_def processingMethods_def inversionMethods_def process_def tryMethod_def
  tryMultipleProcessingMethods_def scanFromFile_def

section \<open>The search as a list of attempts\<close>

definition filtered :: "processingMethod \<Rightarrow> nat \<Rightarrow> nat \<Rightarrow> bytes \<Rightarrow> bytes" where
  "filtered m w h data =
    (case m of
       Original \<Rightarrow> data
     | HighContrast \<Rightarrow> highContrastData data
     | Grayscale \<Rightarrow> grayscaleData data
     | Binarize \<Rightarrow> binarizeData data
     | Sharpen \<Rightarrow> sharpenData w h data)"

definition attempts ::
  "('file, 'img) browser \<Rightarrow> 'img \<Rightarrow> ((nat \<times> nat) \<times> processingMethod \<times> inversion) list" where
  "attempts br img =
    concat (map (\<lambda>sz. concat (map (\<lambda>m. map (\<lambda>inversion. (sz, m, inversion))
      inversionMethods) processingMethods)) (sizes br img))"

definition detect ::
  "('file, 'img) browser \<Rightarrow> 'img \<Rightarrow> (nat \<times> nat) \<times> processingMethod \<times> inversion \<Rightarrow> string option" where
  "detect br img a =
    (case a of ((w, h), m, inversion) \<Rightarrow>
       jsQR br (filtered m w h (drawImage br img w h)) w h inversion)"

fun firstSome :: "('a \<Rightarrow> 'b option) \<Rightarrow> 'a list \<Rightarrow> 'b option" where
  "firstSome f [] = None"
| "firstSome f (x # xs) = (case f x of Some y \<Rightarrow> Some y | None \<Rightarrow> firstSome f xs)"

lemma tryInversions_firstSome: "tryInversions f xs = firstSome f xs"
  by (induction xs) (simp_all split: option.splits)

lemma firstSome_append:
  "firstSome f (xs @ ys) = (case firstSome f xs of Some y \<Rightarrow> Some y | None \<Rightarrow> firstSome f ys)"
  by (induction xs) (simp_all split: option.splits)

lemma firstSome_concat_map:
  "firstSome f (concat (map g xs)) = firstSome (\<lambda>x. firstSome f (g x)) xs"
  by (induction xs) (simp_all add: firstSome_append split: option.splits)

lemma firstSome_map: "firstSome f (map g xs) = firstSome (\<lambda>x. f (g x)) xs"
  by (induction xs) (simp_all split: option.splits)

lemma firstResult_Inr:
  assumes "\<And>x. x \<in> set xs \<Longrightarrow> f x = Inr (g x)"
  shows "firstResult f xs = Inr (firstSome g xs)"
  using assms by (induction xs) (simp_all split: option.splits)

lemma firstSome_cong:
  "(\<And>x. x \<in> set xs \<Longrightarrow> f x = g x) \<Longrightarrow> firstSome f xs = firstSome g xs"
  by (induction xs) (simp_all split: option.splits)

lemma firstSome_Some_iff:
  "firstSome f xs = Some y \<longleftrightarrow>
   (\<exists>i < length xs. f (xs ! i) = Some y \<and> (\<forall>j < i. f (xs ! j) = None))"
proof (induction xs)
  case Nil
  show ?case by simp
next
  case (Cons x xs)
  show ?case
  proof (cases "f x")
    case None
    have "(\<exists>i < length (x # xs). f ((x # xs) ! i) = Some y \<and> (\<forall>j < i. f ((x # xs) ! j) = None))
      \<longleftrightarrow> (\<exists>i < length xs. f (xs ! i) = Some y \<and> (\<forall>j < i. f (xs ! j) = None))"
      (is "?L \<longleftrightarrow> ?R")
    proof
      assume ?L
      then obtain i where i: "i < length (x # xs)" "f ((x # xs) ! i) = Some y"
        "\<forall>j < i. f ((x # xs) ! j) = None" by blast
      with None obtain i' where "i = Suc i'" by (cases i) auto
      with i have "i' < length xs \<and> f (xs ! i') = Some y \<and> (\<forall>j < i'. f (xs ! j) = None)"
        by auto
      then show ?R by blast
    next
      assume ?R
      then obtain i where i: "i < length xs" "f (xs ! i) = Some y" "\<forall>j < i. f (xs ! j) = None"
        by blast
      with None have "Suc i < length (x # xs) \<and> f ((x # xs) ! Suc i) = Some y \<and>
        (\<forall>j < Suc i. f ((x # xs) ! j) = None)"
        by (auto simp: less_Suc_eq_0_disj)
      then show ?L by blast
    qed
    with None Cons show ?thesis by simp
  next
    case (Some z)
    have "(\<exists>i < length (x # xs). f ((x # xs) ! i) = Some y \<and> (\<forall>j < i. f ((x # xs) ! j) = None))
      \<longleftrightarrow> z = y"
    proof
      assume "\<exists>i < length (x # xs). f ((x # xs) ! i) = Some y \<and> (\<forall>j < i. f ((x # xs) ! j) = None)"
      then obtain i where i: "f ((x # xs) ! i) = Some y" "\<forall>j < i. f ((x # xs) ! j) = None"
        by blast
      with Some have "i = 0" by (cases i) auto
      with i Some show "z = y" by simp
    next
      assume "z = y"
      with Some have "0 < length (x # xs) \<and> f ((x # xs) ! 0) = Some y \<and>
        (\<forall>j < 0. f ((x # xs) ! j) = None)" by simp
      then show "\<exists>i < length (x # xs). f ((x # xs) ! i) = Some y \<and>
        (\<forall>j < i. f ((x # xs) ! j) = None)" by blast
    qed
    with Some show ?thesis by simp
  qed
qed

section \<open>One size, one method\<close>

definition nonzero :: "nat \<times> nat \<Rightarrow> bool" where
  "nonzero sz = (0 < fst sz \<and> 0 < snd sz)"

definition attemptsAt :: "(nat \<times> nat) list \<Rightarrow> ((nat \<times> nat) \<times> processingMethod \<times> inversion) list" where
  "attemptsAt szs =
    concat (map (\<lambda>sz. concat (map (\<lambda>m. map (\<lambda>inversion. (sz, m, inversion))
      inversionMethods) processingMethods)) szs)"

lemma attempts_attemptsAt: "attempts br img = attemptsAt (sizes br img)"
  by (simp add: attempts_def attemptsAt_def)

lemma process_nonzero:
  assumes "0 < width c" and "0 < height c"
  shows "process m c = Inr (c\<lparr>pixels := filtered m (width c) (height c) (pixels c)\<rparr>)"
  using assms
  by (cases m)
    (simp_all add: process_def filtered_def applyHighContrast_def applyGrayscale_def
      applyBinarize_def applySharpen_def withImageData_def getImageData_def)

lemma process_zero:
  assumes "width c = 0 \<or> height c = 0"
  shows "process m c = (if m = Original then Inr c else Inl IndexSizeError)"
  using assms
  by (cases m)
    (auto simp: process_def applyHighContrast_def applyGrayscale_def
      applyBinarize_def applySharpen_def withImageData_def getImageData_def)

lemma tryMethod_nonzero:
  assumes "nonzero sz"
  shows "tryMethod br img sz m =
    Inr (firstSome (\<lambda>inversion. detect br img (sz, m, inversion)) inversionMethods)"
  using assms
  by (cases sz)
    (simp add: tryMethod_def Let_def process_nonzero getImageData_def nonzero_def detect_def
      tryInversions_firstSome)

lemma tryMethod_zero:
  assumes "\<not> nonzero sz"
  shows "tryMethod br img sz m = Inl IndexSizeError"
  using assms
  by (cases "m = Original")
    (auto simp: tryMethod_def Let_def process_zero getImageData_def nonzero_def)

lemma trySize_nonzero:
  assumes "nonzero sz"
  shows "firstResult (tryMethod br img sz) processingMethods =
    Inr (firstSome (detect br img) (attemptsAt [sz]))"
proof -
  have "firstResult (tryMethod br img sz) processingMethods =
    Inr (firstSome (\<lambda>m. firstSome (\<lambda>inversion. detect br img (sz, m, inversion))
      inversionMethods) processingMethods)"
    by (rule firstResult_Inr) (rule tryMethod_nonzero [OF assms])
  then show ?thesis
    by (simp add: attemptsAt_def firstSome_concat_map firstSome_map)
qed

lemma trySize_zero:
  assumes "\<not> nonzero sz"
  shows "firstResult (tryMethod br img sz) processingMethods = Inl IndexSizeError"
  by (simp add: processingMethods_def tryMethod_zero [OF assms])

lemma attemptsAt_Cons: "attemptsAt (sz # szs) = attemptsAt [sz] @ attemptsAt szs"
  by (simp add: attemptsAt_def)

lemma attemptsAt_Nil [simp]: "attemptsAt [] = []"
  by (simp add: attemptsAt_def)

lemma trySizes_eq:
  "firstResult (\<lambda>sz. firstResult (tryMethod br img sz) processingMethods) szs =
    (case firstSome (detect br img) (attemptsAt (takeWhile nonzero szs)) of
       Some d \<Rightarrow> Inr (Some d)
     | None \<Rightarrow> if list_all nonzero szs then Inr None else Inl IndexSizeError)"
proof (induction szs)
  case Nil
  show ?case by simp
next
  case (Cons sz szs)
  show ?case
  proof (cases "nonzero sz")
    case True
    then have a: "attemptsAt (takeWhile nonzero (sz # szs)) =
      attemptsAt [sz] @ attemptsAt (takeWhile nonzero szs)"
      by (simp add: attemptsAt_Cons [of sz "takeWhile nonzero szs"])
    from True Cons show ?thesis
      unfolding a by (simp add: trySize_nonzero firstSome_append split: option.splits)
  next
    case False
    then show ?thesis by (simp add: trySize_zero)
  qed
qed

lemma tryMultiple_eq:
  "tryMultipleProcessingMethods br img =
    (if \<not> hasContext br then Inl CanvasUnavailable
     else case firstSome (detect br img) (attemptsAt (takeWhile nonzero (sizes br img))) of
            Some d \<Rightarrow> Inr (Some d)
          | None \<Rightarrow> if list_all nonzero (sizes br img) then Inr None else Inl IndexSizeError)"
  by (simp add: tryMultipleProcessingMethods_def trySizes_eq)

lemma length_attemptsAt_single: "length (attemptsAt [sz]) = 10"
  by (simp add: attemptsAt_def processingMethods_def inversionMethods_def)

lemma length_attemptsAt: "length (attemptsAt szs) = 10 * length szs"
proof (induction szs)
  case Nil
  show ?case by simp
next
  case (Cons sz szs)
  then show ?case
    by (subst attemptsAt_Cons) (simp add: length_attemptsAt_single)
qed

lemma tryMultiple_nonzero:
  assumes "hasContext br" and "list_all nonzero (sizes br img)"
  shows "tryMultipleProcessingMethods br img = Inr (firstSome (detect br img) (attempts br img))"
proof -
  from assms(2) have tw: "takeWhile nonzero (sizes br img) = sizes br img"
    by (simp add: takeWhile_eq_all_conv list_all_iff)
  show ?thesis
    unfolding tryMultiple_eq tw attempts_attemptsAt using assms
    by (simp split: option.splits)
qed

section \<open>Outcomes of a scan\<close>

lemma scanFromFile_image:
  assumes "isInfix ''image'' (fileType br file)" and "readAsDataURL br file = Some url"
    and "loadImage br url = Some img"
  shows "scanFromFile br (Some file) =
    (case tryMultipleProcessingMethods br img of
       Inl e \<Rightarrow> Inl (ImageProcessingFailed e)
     | Inr None \<Rightarrow> Inl NoQRCodeFound
     | Inr (Some result) \<Rightarrow> if result = [] then Inl NoQRCodeFound else Inr result)"
  using assms by (simp add: scanFromFile_def)

section \<open>A sample browser\<close>

text \<open>
  A browser for the examples: every file is an image file that loads, the canvas
  is empty, and the detector finds the text \<open>12345\<close> in pictures 1000 pixels wide
  when it may invert them. \<open>narrowBrowser\<close> is the same with an image so wide that
  its scaled heights are zero.
\<close>

definition sampleBrowser :: "(unit, unit) browser" where
  "sampleBrowser =
    \<lparr>hasContext = True, fileType = (\<lambda>_. ''image/png''), readAsDataURL = (\<lambda>_. Some ''data:''),
     loadImage = (\<lambda>_. Some ()), imageWidth = (\<lambda>_. 2), imageHeight = (\<lambda>_. 2),
     scaledHeight = (\<lambda>k _. k), drawImage = (\<lambda>_ _ _. []),
     jsQR = (\<lambda>_ w _ inversion. if w = 1000 \<and> inversion = AttemptBoth then Some ''12345''
                                else None)\<rparr>"

definition narrowBrowser :: "(unit, unit) browser" where
  "narrowBrowser = sampleBrowser\<lparr>imageWidth := (\<lambda>_. 2000), scaledHeight := (\<lambda>_ _. 0)\<rparr>"

lemma sample_sizes:
  "sizes sampleBrowser () = [(2, 2), (800, 800), (1000, 1000), (1200, 1200)]"
  "sizes narrowBrowser () = [(2000, 2), (800, 0), (1000, 0), (1200, 0)]"
  by (simp_all add: sizes_def sampleBrowser_def narrowBrowser_def)

lemma sample_fields:
  "hasContext sampleBrowser" "hasContext narrowBrowser"
  "imageWidth narrowBrowser () = 2000" "imageHeight narrowBrowser () = 2"
  "scaledHeight narrowBrowser 800 () = 0"
  by (simp_all add: sampleBrowser_def narrowBrowser_def)

lemma sample_detect:
  "detect sampleBrowser () ((w, h), m, inversion) =
    (if w = 1000 \<and> inversion = AttemptBoth then Some ''12345'' else None)"
  "detect narrowBrowser () ((w, h), m, inversion) =
    (if w = 1000 \<and> inversion = AttemptBoth then Some ''12345'' else None)"
  by (simp_all add: detect_def sampleBrowser_def narrowBrowser_def)

lemma attemptsAt_single:
  "attemptsAt [sz] =
    [(sz, Original, DontInvert), (sz, Original, AttemptBoth),
     (sz, HighContrast, DontInvert), (sz, HighContrast, AttemptBoth),
     (sz, Grayscale, DontInvert), (sz, Grayscale, AttemptBoth),
     (sz, Binarize, DontInvert), (sz, Binarize, AttemptBoth),
     (sz, Sharpen, DontInvert), (sz, Sharpen, AttemptBoth)]"
  by (simp add: attemptsAt_def processingMethods_def inversionMethods_def)

lemma narrow_first:
  "firstSome (detect narrowBrowser ()) (attemptsAt [(2000, 2)]) = None"
  by (simp add: attemptsAt_single sample_detect)

lemma attemptsAt_four:
  "attemptsAt [a, b, c, d] = attemptsAt [a] @ attemptsAt [b] @ attemptsAt [c] @ attemptsAt [d]"
  by (simp add: attemptsAt_def)

lemma sample_first:
  "firstSome (detect sampleBrowser ()) (attempts sampleBrowser ()) = Some ''12345''"
  unfolding attempts_attemptsAt sample_sizes attemptsAt_four
  by (simp add: attemptsAt_single firstSome_append sample_detect)

section \<open>Properties\<close>

text \<open>
  Claim C4. The search for the QR code tries four sizes, five filters and two
  inversion modes, forty attempts in all, in the order sizes, filters, inversion
  modes, and returns the text of the first attempt in which the detector finds a
  code, or nothing when none does. This holds when the canvas has a drawing context
  and no size has a zero side.
\<close>

theorem tryMultipleProcessingMethods_first:
  assumes "hasContext br" and "list_all nonzero (sizes br img)"
  shows "tryMultipleProcessingMethods br img = Inr (firstSome (detect br img) (attempts br img))
    \<and> length (attempts br img) = 40"
  using assms
  by (simp add: tryMultiple_nonzero attempts_attemptsAt length_attemptsAt sizes_def)

theorem tryMultipleProcessingMethods_first_witness:
  "tryMultipleProcessingMethods sampleBrowser () = Inr (Some ''12345'')"
  using tryMultipleProcessingMethods_first [of sampleBrowser "()"] sample_first sample_fields
  by (simp add: sample_sizes nonzero_def)

text \<open>
  Claim C37. A size with a zero side ends the search with an error: reading the pixels
  of an empty canvas raises \<^verbatim>\<open>IndexSizeError\<close>. When the detector finds nothing at the
  native size of a picture so wide that its height scaled to a width of 800 is zero,
  the sizes 1000 and 1200 are never tried.
\<close>

theorem tryMultipleProcessingMethods_degenerate:
  assumes "hasContext br" and "0 < imageWidth br img" and "0 < imageHeight br img"
    and "firstSome (detect br img) (attemptsAt [(imageWidth br img, imageHeight br img)]) = None"
    and "scaledHeight br 800 img = 0"
  shows "tryMultipleProcessingMethods br img = Inl IndexSizeError"
  using assms by (simp add: tryMultiple_eq sizes_def nonzero_def)

theorem tryMultipleProcessingMethods_degenerate_witness:
  "tryMultipleProcessingMethods narrowBrowser () = Inl IndexSizeError"
  using tryMultipleProcessingMethods_degenerate [of narrowBrowser "()"] narrow_first
  by (simp add: sample_fields)

text \<open>
  \<open>scanFromFile\<close> resolves with a text exactly when the file is an image
  file that can be read and loaded and the search returns a non-empty text. A code
  whose text is empty is reported as no code found.
\<close>

theorem scanFromFile_resolves:
  "scanFromFile br (Some file) = Inr d \<longleftrightarrow>
     isInfix ''image'' (fileType br file) \<and> d \<noteq> [] \<and>
     (\<exists>url img. readAsDataURL br file = Some url \<and> loadImage br url = Some img \<and>
        tryMultipleProcessingMethods br img = Inr (Some d))"
  by (auto simp: scanFromFile_def split: option.splits sum.splits if_splits)

text \<open>
  Every rejection of \<open>scanFromFile\<close> is one of five errors, each with its
  cause: no image file, a file that cannot be read, an image that cannot be loaded,
  an exception of the search, or no code found.
\<close>

theorem scanFromFile_rejects:
  "scanFromFile br (Some file) = Inl e \<longleftrightarrow>
     (\<not> isInfix ''image'' (fileType br file) \<and> e = InvalidFileType) \<or>
     (isInfix ''image'' (fileType br file) \<and>
       (case readAsDataURL br file of
          None \<Rightarrow> e = FileReadFailed
        | Some url \<Rightarrow>
            (case loadImage br url of
               None \<Rightarrow> e = ImageLoadFailed
             | Some img \<Rightarrow>
                 (case tryMultipleProcessingMethods br img of
                    Inl e' \<Rightarrow> e = ImageProcessingFailed e'
                  | Inr r \<Rightarrow> (r = None \<or> r = Some []) \<and> e = NoQRCodeFound))))"
  by (auto simp: scanFromFile_def split: option.splits sum.splits if_splits)

end
