(* ===== verification/Pipeline.thy ===== *)
theory Pipeline
  imports Byte_Codec Field_Parser QR_Localizer
begin

text \<open>
  The pipeline of the decoder: \<open>processSecureQRData\<close> of
  src/lib/secure-qr-decoder.ts, which converts the text of the QR code to bytes,
  decompresses them and extracts the fields, and \<open>decodeFromFile\<close>, which scans
  the image first. An exception of a stage is caught and rethrown with the prefix
  \<^verbatim>\<open>"Data processing failed: "\<close> (\<open>ProcessingFailed\<close>) or
  \<^verbatim>\<open>"QR Code decoding failed: "\<close> (\<open>DecodingFailed\<close>).

  The lemmas describe the result by the stage that decides it: the conversion
  fails, the decompressed data is empty, or a record is returned.
\<close>

section \<open>Definitions\<close>

definition processSecureQRData :: "environment \<Rightarrow> string \<Rightarrow> error + identity" where
  "processSecureQRData env rawData =
    (case convertBase10ToByteArray rawData of
       Inl e \<Rightarrow> Inl (ProcessingFailed e)
     | Inr byteArray \<Rightarrow>
         (let decompressedBytes = decompressData env byteArray in
          case extractDataFields env decompressedBytes of
            Inl e \<Rightarrow> Inl (ProcessingFailed e)
          | Inr result \<Rightarrow> Inr result))"

definition decodeFromFile ::
  "environment \<Rightarrow> ('file, 'img) browser \<Rightarrow> 'file \<Rightarrow> error + identity" where
  "decodeFromFile env br imageFile =
    (case scanFromFile br (Some imageFile) of
       Inl e \<Rightarrow> Inl (DecodingFailed e)
     | Inr rawData \<Rightarrow>
         (case processSecureQRData env rawData of
            Inl e \<Rightarrow> Inl (DecodingFailed e)
          | Inr result \<Rightarrow> Inr result))"

section \<open>Stages\<close>

lemma decompressData_cases:
  "decompressData env c = (case inflate env c of None \<Rightarrow> c | Some d \<Rightarrow> d)"
  by (simp add: decompressData_def)

lemma decompressData_Some [simp]: "inflate env c = Some d \<Longrightarrow> decompressData env c = d"
  by (simp add: decompressData_def)

lemma decompressData_None [simp]: "inflate env c = None \<Longrightarrow> decompressData env c = c"
  by (simp add: decompressData_def)

lemma process_convert_failed:
  "stringToBigInt rawData = None \<Longrightarrow>
   processSecureQRData env rawData = Inl (ProcessingFailed (ConvertFailed BigIntSyntaxError))"
  by (simp add: processSecureQRData_def convertBase10ToByteArray_def)

lemma process_converted:
  assumes "convertBase10ToByteArray rawData = Inr c"
  shows "processSecureQRData env rawData =
    (if decompressData env c = [] then Inl (ProcessingFailed (ExtractFailed UndefinedTrim 0))
     else Inr (assembleRecord env (decompressData env c) (tokens 16 (decompressData env c))
       (hd (tokens 16 (decompressData env c)))))"
  using assms by (simp add: processSecureQRData_def extractDataFields_eq Let_def)

lemma hexToBytes_nonempty: "2 \<le> length h \<Longrightarrow> hexToBytes h \<noteq> []"
  by (simp add: hexToBytes_def)

lemma bigIntToHex_nonempty [simp]: "bigIntToHex n \<noteq> []"
  by (simp add: bigIntToHex_def)

lemma convert_nonempty:
  assumes "convertBase10ToByteArray rawData = Inr c"
  shows "c \<noteq> []"
proof -
  from assms obtain n where c: "c = hexToBytes
    (if length (bigIntToHex n) mod 2 \<noteq> 0 then CHR ''0'' # bigIntToHex n else bigIntToHex n)"
    by (auto simp: convertBase10ToByteArray_def Let_def split: option.splits)
  have "2 \<le> length
    (if length (bigIntToHex n) mod 2 \<noteq> 0 then CHR ''0'' # bigIntToHex n else bigIntToHex n)"
    using bigIntToHex_nonempty [of n]
    by (cases "bigIntToHex n"; cases "tl (bigIntToHex n)") auto
  then show ?thesis
    unfolding c by (rule hexToBytes_nonempty)
qed

lemma decompress_empty_iff:
  assumes "c \<noteq> []"
  shows "decompressData env c = [] \<longleftrightarrow> inflate env c = Some []"
  using assms by (cases "inflate env c") simp_all

lemma process_decimal:
  assumes "c \<noteq> []" and "hd c \<noteq> 0 \<or> length c = 1"
  shows "convertBase10ToByteArray (toDecimal (bytesValue c)) = Inr c"
  using assms by (simp add: convert_decimal natToBytes_bytesValue)

section \<open>A browser that finds the sample payload\<close>

definition payloadBrowser :: "(unit, unit) browser" where
  "payloadBrowser =
    sampleBrowser\<lparr>jsQR := (\<lambda>_ _ _ _. Some (toDecimal (bytesValue samplePayload)))\<rparr>"

lemma payload_scan:
  "scanFromFile payloadBrowser (Some ()) = Inr (toDecimal (bytesValue samplePayload))"
proof -
  have f: "hasContext payloadBrowser" "fileType payloadBrowser () = ''image/png''"
    "readAsDataURL payloadBrowser () = Some ''data:''"
    "loadImage payloadBrowser ''data:'' = Some ()"
    "sizes payloadBrowser () = [(2, 2), (800, 800), (1000, 1000), (1200, 1200)]"
    by (simp_all add: payloadBrowser_def sampleBrowser_def sizes_def)
  have d: "detect payloadBrowser () ((w, h), m, inversion) =
    Some (toDecimal (bytesValue samplePayload))" for w h m inversion
    by (simp add: detect_def payloadBrowser_def)
  have "tryMultipleProcessingMethods payloadBrowser () =
    Inr (Some (toDecimal (bytesValue samplePayload)))"
    using f(1) by (simp add: tryMultiple_nonzero f(5) nonzero_def attempts_attemptsAt
        attemptsAt_four attemptsAt_single d)
  moreover have "isInfix ''image'' ''image/png''" by simp
  ultimately show ?thesis
    using scanFromFile_image [of payloadBrowser "()" "''data:''" "()"] f(2-4) by simp
qed

end
