(* ===== verification/Alt_Parser.thy ===== *)
theory Alt_Parser
  imports Byte_Codec Field_Parser
begin

text \<open>
  The second parser of the repository, \<^verbatim>\<open>processQrData\<close> of src/lib/zk-proofs.ts, with
  its helpers \<^verbatim>\<open>bigIntToByteArray\<close>, \<^verbatim>\<open>findDelimiter\<close> and \<^verbatim>\<open>parseByteArray\<close>. The
  loop of \<^verbatim>\<open>findDelimiter\<close> is a \<open>function\<close> on the index with a measure; the result
  object is the record \<open>qrFields\<close>. The lemmas relate each helper to its counterpart
  in the decoder (\<open>hexToBytes\<close>, \<open>findEnd\<close>, \<open>tokens\<close>) and compare the fields the two
  parsers return on the same bytes.
\<close>

section \<open>Definitions\<close>

definition substr :: "string \<Rightarrow> nat \<Rightarrow> nat \<Rightarrow> string" where
  "substr s start len = take len (drop start s)"

definition bigIntToByteArray :: "int \<Rightarrow> bytes" where
  "bigIntToByteArray bigInt =
    (let hex = bigIntToHex bigInt;
         hex' = (if length hex mod 2 \<noteq> 0 then CHR ''0'' # hex else hex)
     in map (\<lambda>i. toUint8 (parseInt (substr hex' (i * 2) 2) 16)) [0..<length hex' div 2])"

function findDelimiter :: "bytes \<Rightarrow> nat \<Rightarrow> nat" where
  "findDelimiter byteArray i =
    (if i < length byteArray
     then (if byteArray ! i = 255 then i else findDelimiter byteArray (i + 1))
     else length byteArray)"
  by pat_completeness auto
termination
  by (relation "measure (\<lambda>(b, i). length b - i)") auto

declare findDelimiter.simps [simp del]

record qrFields =
  emailMobileIndicator :: "int option"
  qrName :: string
  qrDob :: string
  qrGender :: string
  qrUid :: string

definition parseByteArray :: "bytes \<Rightarrow> qrFields" where
  "parseByteArray byteArray =
    (let currentIndex = 0;
         delimiterIndex = findDelimiter byteArray currentIndex;
         indicatorBytes = js_slice byteArray (int currentIndex) (int delimiterIndex);
         indicator = parseInt (bytesToString indicatorBytes) 0;
         currentIndex = delimiterIndex + 1;
         nameDelimiterIndex = findDelimiter byteArray currentIndex;
         nameValue = bytesToString (js_slice byteArray (int currentIndex) (int nameDelimiterIndex));
         currentIndex = nameDelimiterIndex + 1;
         dobDelimiterIndex = findDelimiter byteArray currentIndex;
         dobValue = bytesToString (js_slice byteArray (int currentIndex) (int dobDelimiterIndex));
         currentIndex = dobDelimiterIndex + 1;
         genderDelimiterIndex = findDelimiter byteArray currentIndex;
         genderValue =
           bytesToString (js_slice byteArray (int currentIndex) (int genderDelimiterIndex));
         currentIndex = genderDelimiterIndex + 1;
         uidDelimiterIndex = findDelimiter byteArray currentIndex;
         uidValue = bytesToString (js_slice byteArray (int currentIndex) (int uidDelimiterIndex))
     in \<lparr>emailMobileIndicator = indicator, qrName = nameValue, qrDob = dobValue,
         qrGender = genderValue, qrUid = uidValue\<rparr>)"

definition processQrData :: "environment \<Rightarrow> string \<Rightarrow> error + qrFields" where
  "processQrData env qrData =
    (case stringToBigInt qrData of
       None \<Rightarrow> Inl QrDataFailed
     | Some bigIntValue \<Rightarrow>
         (let byteArray = bigIntToByteArray bigIntValue;
              decompressedData = (case inflate env byteArray of
                                    Some d \<Rightarrow> d | None \<Rightarrow> byteArray)
          in Inr (parseByteArray decompressedData)))"

section \<open>The conversion\<close>

lemma substr_substring: "substr s (i * 2) 2 = substring s (i * 2) (i * 2 + 2)"
  by (simp add: substr_def substring_def Let_def min_def)

lemma bigIntToByteArray_hexToBytes:
  "bigIntToByteArray n =
    hexToBytes (if length (bigIntToHex n) mod 2 \<noteq> 0 then CHR ''0'' # bigIntToHex n
                else bigIntToHex n)"
  by (simp add: bigIntToByteArray_def hexToBytes_def Let_def substr_substring)

lemma convert_bigIntToByteArray:
  "convertBase10ToByteArray s =
    (case stringToBigInt s of
       None \<Rightarrow> Inl (ConvertFailed BigIntSyntaxError)
     | Some n \<Rightarrow> Inr (bigIntToByteArray n))"
  by (simp add: convertBase10ToByteArray_def bigIntToByteArray_hexToBytes Let_def
      split: option.splits)

section \<open>Tokens\<close>

lemma findDelimiter_findEnd: "i \<le> length b \<Longrightarrow> findDelimiter b i = findEnd b i"
proof (induction b i rule: findDelimiter.induct)
  case (1 b i)
  show ?case
  proof (cases "i < length b")
    case True
    with "1.IH" show ?thesis
      by (subst findDelimiter.simps, subst findEnd.simps) (auto simp: DELIMITER_def)
  next
    case False
    with "1.prems" show ?thesis
      by (subst findDelimiter.simps, subst findEnd.simps) simp
  qed
qed

fun fieldAt :: "nat \<Rightarrow> bytes \<Rightarrow> string" where
  "fieldAt 0 r = bytesToString (takeWhile (\<lambda>x. x \<noteq> DELIMITER) r)"
| "fieldAt (Suc k) r = fieldAt k (drop 1 (dropWhile (\<lambda>x. x \<noteq> DELIMITER) r))"

definition tokenAt :: "bytes \<Rightarrow> nat \<Rightarrow> string \<times> nat" where
  "tokenAt b i =
    (bytesToString (js_slice b (int i) (int (findDelimiter b i))), findDelimiter b i + 1)"

lemma findDelimiter_beyond: "length b \<le> i \<Longrightarrow> findDelimiter b i = length b"
  by (subst findDelimiter.simps) simp

lemma tokenAt_drop:
  "fst (tokenAt b i) = fieldAt 0 (drop i b)"
  "drop (snd (tokenAt b i)) b = drop 1 (dropWhile (\<lambda>x. x \<noteq> DELIMITER) (drop i b))"
proof -
  show "fst (tokenAt b i) = fieldAt 0 (drop i b)"
  proof (cases "i \<le> length b")
    case True
    then show ?thesis
      by (simp add: tokenAt_def findDelimiter_findEnd slice_field)
  next
    case False
    then show ?thesis
      by (simp add: tokenAt_def findDelimiter_beyond js_slice_def rel_index_def)
  qed
  show "drop (snd (tokenAt b i)) b = drop 1 (dropWhile (\<lambda>x. x \<noteq> DELIMITER) (drop i b))"
  proof (cases "i \<le> length b")
    case True
    then show ?thesis
      using drop_field [of i b] by (simp add: tokenAt_def findDelimiter_findEnd)
  next
    case False
    then show ?thesis
      by (simp add: tokenAt_def findDelimiter_beyond)
  qed
qed

lemma tokenAt_next:
  assumes "drop i b = r"
  shows "fst (tokenAt b (snd (tokenAt b i))) = fieldAt 1 r"
    and "drop (snd (tokenAt b (snd (tokenAt b i)))) b =
      drop 1 (dropWhile (\<lambda>x. x \<noteq> DELIMITER) (drop 1 (dropWhile (\<lambda>x. x \<noteq> DELIMITER) r)))"
  using assms by (simp_all add: tokenAt_drop)

lemma parseByteArray_tokenAt:
  "parseByteArray b =
    (let c0 = tokenAt b 0; c1 = tokenAt b (snd c0); c2 = tokenAt b (snd c1);
         c3 = tokenAt b (snd c2); c4 = tokenAt b (snd c3)
     in \<lparr>emailMobileIndicator = parseInt (fst c0) 0, qrName = fst c1, qrDob = fst c2,
         qrGender = fst c3, qrUid = fst c4\<rparr>)"
  by (simp add: parseByteArray_def tokenAt_def Let_def)

lemma parseByteArray_fields:
  "parseByteArray b =
    \<lparr>emailMobileIndicator = parseInt (fieldAt 0 b) 0, qrName = fieldAt 1 b,
     qrDob = fieldAt 2 b, qrGender = fieldAt 3 b, qrUid = fieldAt 4 b\<rparr>"
  by (simp add: parseByteArray_tokenAt Let_def tokenAt_drop numeral_eq_Suc)

lemma fieldAt_tokens:
  "k < length (tokens n b) \<Longrightarrow> tokens n b ! k = fieldAt k b"
proof (induction n b arbitrary: k rule: tokens.induct)
  case (1 bs)
  then show ?case by simp
next
  case (2 n bs)
  then show ?case
    by (cases k) (auto split: if_splits)
qed

section \<open>Properties\<close>

text \<open>
  Claim C34. The two parsers of the repository read the same tokens and name them
  differently: what the decoder returns as reference id, name, date of birth and
  gender, \<open>parseByteArray\<close> returns as name, date of birth, gender and uid.
\<close>

theorem parseByteArray_labels:
  assumes "extractDataFields env b = Inr r"
    and "\<not> fieldShift (hd (tokens 16 b)) (tokens 16 b)"
    and "5 \<le> length (tokens 16 b)"
  shows "referenceId r = Some (qrName (parseByteArray b)) \<and>
    name r = Some (qrDob (parseByteArray b)) \<and>
    dateOfBirth r = Some (qrGender (parseByteArray b)) \<and>
    gender r = Some (qrUid (parseByteArray b))"
proof -
  let ?fv = "tokens 16 b"
  from assms(1) have r: "r = assembleRecord env b ?fv (hd ?fv)"
    by (simp add: extractDataFields_Inr_iff readFields_all)
  from assms(2) have c: "correctedFields (hd ?fv) ?fv = ?fv"
    by (simp add: correctedFields_def)
  from assms(3) have "nth_opt ?fv k = Some (fieldAt k b)" if "k < 5" for k
    using that by (simp add: nth_opt_def fieldAt_tokens)
  then show ?thesis
    by (simp add: r assembleRecord_def Let_def c parseByteArray_fields)
qed

theorem parseByteArray_labels_witness:
  "qrName (parseByteArray samplePayload) = ''2697'' \<and>
   qrDob (parseByteArray samplePayload) = ''Asha'' \<and>
   qrGender (parseByteArray samplePayload) = ''15-06-2000'' \<and>
   qrUid (parseByteArray samplePayload) = ''F''"
proof -
  let ?env = "clockAt 0"
  let ?r = "assembleRecord ?env samplePayload (map bytesToString sampleTokens)
    (bytesToString (hd sampleTokens))"
  note s = sample_record [of ?env]
  have t: "tokens 16 samplePayload = map bytesToString sampleTokens"
    using readFields_wellformed [OF sample_wellformed(1,2)]
    by (simp add: readFields_all samplePayload_def)
  have "sampleTokens \<noteq> []" using sample_wellformed(1) by auto
  then have "hd (map bytesToString sampleTokens) = bytesToString (hd sampleTokens)"
    by (simp add: hd_map)
  then have "\<not> fieldShift (hd (tokens 16 samplePayload)) (tokens 16 samplePayload)"
    using noShift_parsed(1) [OF sample_wellformed(3)] by (simp add: t)
  moreover have "5 \<le> length (tokens 16 samplePayload)"
    using sample_wellformed(1) by (simp add: t)
  moreover have "referenceId ?r = Some ''2697''" "name ?r = Some ''Asha''"
    "dateOfBirth ?r = Some ''15-06-2000''" "gender ?r = Some ''F''"
    using s(3) by (simp_all add: textFields_def sampleTokens_def)
  ultimately show ?thesis
    using parseByteArray_labels [OF s(1)] by simp
qed

text \<open>
  \<open>processQrData\<close> converts and decompresses as the decoder does: on every
  text it fails when \<open>convertBase10ToByteArray\<close> fails, and otherwise parses the
  bytes the decoder would parse.
\<close>

theorem processQrData_agrees:
  "processQrData env qrData =
    (case convertBase10ToByteArray qrData of
       Inl e \<Rightarrow> Inl QrDataFailed
     | Inr byteArray \<Rightarrow> Inr (parseByteArray (decompressData env byteArray)))"
  by (simp add: processQrData_def convert_bigIntToByteArray decompressData_def Let_def
      split: option.splits)

end
