(* ===== verification/Identity_Ledger.thy ===== *)
theory Identity_Ledger
  imports JS_Prelude
begin

text \<open>
  The contract \<^verbatim>\<open>IdentityVerifier\<close>, whose Solidity source is kept in
  src/components/connect-wallet-button.tsx. Its storage is the record \<open>ledger\<close>: the
  two mappings as total functions with the default values of Solidity, and the
  events emitted so far as a list. A call that reverts returns \<open>Inl\<close> and leaves the
  state as it was. \<open>execute\<close> runs one state-changing call, \<open>reachableLedger\<close> are
  the states reached from deployment. The comparison of the Keccak hashes of two
  strings in \<^verbatim>\<open>verifyProof\<close> is the comparison of the strings. The lemmas show that
  the stored identity of every user is the one of the user's last \<^verbatim>\<open>ProofStored\<close>
  event, what the view functions return after a call, and that the proof data of
  an identifier belongs to no user.
\<close>

section \<open>Definitions\<close>

type_synonym address = "160 word"

type_synonym uint256 = "256 word"

record Identity =
  idProofId :: string
  idCommitment :: string
  idIsAdult :: bool
  idTimestamp :: uint256

datatype event =
    ProofStored string address bool uint256
  | ProofVerified string address address uint256

datatype revert = ProofIdEmpty | NoIdentityFound

record message =
  sender :: address
  blockTimestamp :: uint256

record ledger =
  userIdentities :: "address \<Rightarrow> Identity"
  proofData :: "string \<Rightarrow> string"
  events :: "event list"

definition emptyIdentity :: Identity where
  "emptyIdentity = \<lparr>idProofId = [], idCommitment = [], idIsAdult = False, idTimestamp = 0\<rparr>"

definition deployed :: ledger where
  "deployed = \<lparr>userIdentities = (\<lambda>_. emptyIdentity), proofData = (\<lambda>_. []), events = []\<rparr>"

definition storeProof ::
  "message \<Rightarrow> string \<Rightarrow> string \<Rightarrow> bool \<Rightarrow> string \<Rightarrow> ledger \<Rightarrow> revert + ledger" where
  "storeProof msg proofId commitment isAdult proofDataStr st =
    (if \<not> length proofId > 0 then Inl ProofIdEmpty
     else Inr (st\<lparr>userIdentities := (userIdentities st)
                  (sender msg := \<lparr>idProofId = proofId, idCommitment = commitment,
                                  idIsAdult = isAdult, idTimestamp = blockTimestamp msg\<rparr>),
                 proofData := (proofData st)(proofId := proofDataStr),
                 events := events st @
                   [ProofStored proofId (sender msg) isAdult (blockTimestamp msg)]\<rparr>))"

definition verifyProof :: "string \<Rightarrow> address \<Rightarrow> ledger \<Rightarrow> revert + bool" where
  "verifyProof proofId user st =
    (let identity = userIdentities st user
     in if \<not> length (idProofId identity) > 0 then Inl NoIdentityFound
        else Inr (idProofId identity = proofId))"

definition logVerification :: "message \<Rightarrow> string \<Rightarrow> address \<Rightarrow> ledger \<Rightarrow> ledger" where
  "logVerification msg proofId user st =
    st\<lparr>events := events st @ [ProofVerified proofId (sender msg) user (blockTimestamp msg)]\<rparr>"

definition getUserIdentity :: "address \<Rightarrow> ledger \<Rightarrow> string \<times> string \<times> bool \<times> uint256" where
  "getUserIdentity user st =
    (let identity = userIdentities st user
     in (idProofId identity, idCommitment identity, idIsAdult identity, idTimestamp identity))"

definition getProofData :: "string \<Rightarrow> ledger \<Rightarrow> string" where
  "getProofData proofId st = proofData st proofId"

datatype call =
    StoreProof message string string bool string
  | LogVerification message string address

definition execute :: "call \<Rightarrow> ledger \<Rightarrow> ledger" where
  "execute c st =
    (case c of
       StoreProof msg proofId commitment isAdult proofDataStr \<Rightarrow>
         (case storeProof msg proofId commitment isAdult proofDataStr st of
            Inl e \<Rightarrow> st | Inr st' \<Rightarrow> st')
     | LogVerification msg proofId user \<Rightarrow> logVerification msg proofId user st)"

inductive reachableLedger :: "ledger \<Rightarrow> bool" where
  init: "reachableLedger deployed"
| step: "reachableLedger st \<Longrightarrow> reachableLedger (execute c st)"

fun lastStored :: "address \<Rightarrow> event list \<Rightarrow> (string \<times> bool \<times> uint256) option" where
  "lastStored user [] = None"
| "lastStored user (e # es) =
    (case lastStored user es of
       Some s \<Rightarrow> Some s
     | None \<Rightarrow>
         (case e of
            ProofStored p u a t \<Rightarrow> if u = user then Some (p, a, t) else None
          | ProofVerified p v u t \<Rightarrow> None))"

definition summary :: "Identity \<Rightarrow> string \<times> bool \<times> uint256" where
  "summary i = (idProofId i, idIsAdult i, idTimestamp i)"

definition consistent :: "Identity \<Rightarrow> (string \<times> bool \<times> uint256) option \<Rightarrow> bool" where
  "consistent i l =
    (case l of
       None \<Rightarrow> i = emptyIdentity
     | Some s \<Rightarrow> fst s \<noteq> [] \<and> summary i = s)"

definition logged :: "ledger \<Rightarrow> bool" where
  "logged st = (\<forall>user. consistent (userIdentities st user) (lastStored user (events st)))"

lemmas ledger_defs =
  emptyIdentity_def deployed_def storeProof_def verifyProof_def logVerification_def
  getUserIdentity_def getProofData_def execute_def

section \<open>Calls\<close>

lemma storeProof_Inr_iff:
  "storeProof msg p c a d st = Inr st' \<longleftrightarrow>
   p \<noteq> [] \<and> st' = st\<lparr>userIdentities := (userIdentities st)
       (sender msg := \<lparr>idProofId = p, idCommitment = c, idIsAdult = a,
                       idTimestamp = blockTimestamp msg\<rparr>),
     proofData := (proofData st)(p := d),
     events := events st @ [ProofStored p (sender msg) a (blockTimestamp msg)]\<rparr>"
  by (auto simp: storeProof_def)

lemma storeProof_Inl_iff: "storeProof msg p c a d st = Inl e \<longleftrightarrow> p = [] \<and> e = ProofIdEmpty"
  by (auto simp: storeProof_def)

lemma lastStored_append:
  "lastStored user (es @ [e]) =
    (case e of
       ProofStored p u a t \<Rightarrow> if u = user then Some (p, a, t) else lastStored user es
     | ProofVerified p v u t \<Rightarrow> lastStored user es)"
  by (induction es) (auto split: option.splits event.splits)

lemma execute_StoreProof:
  assumes "p \<noteq> []"
  shows "userIdentities (execute (StoreProof msg p c a d) st) =
      (userIdentities st)(sender msg := \<lparr>idProofId = p, idCommitment = c, idIsAdult = a,
        idTimestamp = blockTimestamp msg\<rparr>)"
    and "proofData (execute (StoreProof msg p c a d) st) = (proofData st)(p := d)"
    and "events (execute (StoreProof msg p c a d) st) =
      events st @ [ProofStored p (sender msg) a (blockTimestamp msg)]"
  using assms by (simp_all add: execute_def storeProof_def)

lemma execute_StoreProof_empty: "execute (StoreProof msg [] c a d) st = st"
  by (simp add: execute_def storeProof_def)

lemma execute_LogVerification:
  "userIdentities (execute (LogVerification msg p u) st) = userIdentities st"
  "proofData (execute (LogVerification msg p u) st) = proofData st"
  "events (execute (LogVerification msg p u) st) =
    events st @ [ProofVerified p (sender msg) u (blockTimestamp msg)]"
  by (simp_all add: execute_def logVerification_def)

lemma consistent_simps [simp]:
  "consistent i None \<longleftrightarrow> i = emptyIdentity"
  "consistent i (Some (p, a, t)) \<longleftrightarrow> p \<noteq> [] \<and> summary i = (p, a, t)"
  by (simp_all add: consistent_def)

lemma logged_deployed: "logged deployed"
  by (simp add: logged_def deployed_def)

lemma logged_execute:
  assumes "logged st"
  shows "logged (execute c st)"
proof (cases c)
  case (StoreProof msg p cm a d)
  show ?thesis
  proof (cases "p = []")
    case True
    with assms StoreProof show ?thesis by (simp add: execute_StoreProof_empty)
  next
    case False
    with assms show ?thesis
      unfolding logged_def StoreProof
      by (simp add: execute_StoreProof [OF False] lastStored_append summary_def)
  qed
next
  case (LogVerification msg p user)
  from assms show ?thesis
    unfolding logged_def LogVerification
    by (simp add: execute_LogVerification lastStored_append)
qed

lemma reachable_logged: "reachableLedger st \<Longrightarrow> logged st"
  by (induction rule: reachableLedger.induct) (simp_all add: logged_deployed logged_execute)

lemma verifyProof_eq:
  "verifyProof p user st =
    (if idProofId (userIdentities st user) = [] then Inl NoIdentityFound
     else Inr (idProofId (userIdentities st user) = p))"
  by (simp add: verifyProof_def)

lemma logged_verifyProof:
  assumes "logged st"
  shows "verifyProof p user st =
    (case lastStored user (events st) of
       None \<Rightarrow> Inl NoIdentityFound
     | Some s \<Rightarrow> Inr (fst s = p))"
proof -
  from assms have c: "consistent (userIdentities st user) (lastStored user (events st))"
    by (simp add: logged_def)
  show ?thesis
  proof (cases "lastStored user (events st)")
    case None
    with c show ?thesis by (simp add: verifyProof_eq emptyIdentity_def)
  next
    case (Some s)
    with c show ?thesis by (cases s) (auto simp: verifyProof_eq summary_def)
  qed
qed

section \<open>A sample history\<close>

definition alice :: message where
  "alice = \<lparr>sender = 1, blockTimestamp = 1700000000\<rparr>"

definition bob :: message where
  "bob = \<lparr>sender = 2, blockTimestamp = 1700000060\<rparr>"

definition sampleLedger :: ledger where
  "sampleLedger =
    execute (LogVerification bob ''proof_1'' 1)
      (execute (StoreProof alice ''proof_1'' ''c1'' True ''{}'') deployed)"

lemma sampleLedger_reachable: "reachableLedger sampleLedger"
  unfolding sampleLedger_def by (intro reachableLedger.step reachableLedger.init)

lemma sample_events:
  "events sampleLedger =
    [ProofStored ''proof_1'' 1 True 1700000000, ProofVerified ''proof_1'' 2 1 1700000060]"
  by (simp add: sampleLedger_def execute_LogVerification execute_StoreProof deployed_def
      alice_def bob_def)

section \<open>Properties\<close>

text \<open>
  A successful \<^verbatim>\<open>storeProof\<close> is read back: afterwards \<^verbatim>\<open>getUserIdentity\<close> of
  the sender returns the stored fields with the block's timestamp, \<^verbatim>\<open>getProofData\<close>
  of the identifier returns the stored string, \<^verbatim>\<open>verifyProof\<close> for the sender answers
  whether the identifier asked for is the stored one, the identity of every other
  user is unchanged, and exactly one \<^verbatim>\<open>ProofStored\<close> event is appended.
\<close>

theorem storeProof_verifyProof:
  assumes "storeProof msg p c a d st = Inr st'"
  shows "getUserIdentity (sender msg) st' = (p, c, a, blockTimestamp msg)
    \<and> getProofData p st' = d
    \<and> verifyProof q (sender msg) st' = Inr (p = q)
    \<and> (\<forall>user. user \<noteq> sender msg \<longrightarrow> getUserIdentity user st' = getUserIdentity user st)
    \<and> events st' = events st @ [ProofStored p (sender msg) a (blockTimestamp msg)]"
  using assms by (auto simp: storeProof_Inr_iff getUserIdentity_def getProofData_def verifyProof_eq)

theorem storeProof_verifyProof_witness:
  "\<exists>st'. storeProof alice ''proof_1'' ''c1'' True ''{}'' deployed = Inr st'
     \<and> getUserIdentity 1 st' = (''proof_1'', ''c1'', True, 1700000000)
     \<and> verifyProof ''proof_1'' 1 st' = Inr True
     \<and> verifyProof ''proof_2'' 1 st' = Inr False
     \<and> verifyProof ''proof_1'' 2 st' = Inl NoIdentityFound"
proof -
  obtain st' where s: "storeProof alice ''proof_1'' ''c1'' True ''{}'' deployed = Inr st'"
    by (simp add: storeProof_def)
  have "verifyProof ''proof_1'' 2 st' = Inl NoIdentityFound"
    using s by (auto simp: storeProof_Inr_iff verifyProof_eq deployed_def emptyIdentity_def alice_def)
  with storeProof_verifyProof [OF s, of "''proof_1''"] storeProof_verifyProof [OF s, of "''proof_2''"] s
  show ?thesis by (simp add: alice_def)
qed

text \<open>
  Claim C9. The event log determines the answers of the contract. In every state
  reached from deployment by calls of \<^verbatim>\<open>storeProof\<close> and \<^verbatim>\<open>logVerification\<close>,
  \<^verbatim>\<open>verifyProof\<close> reverts exactly for a user with no \<^verbatim>\<open>ProofStored\<close> event, and
  otherwise compares the identifier with the one of the user's last such event; a
  reverted call leaves the state unchanged.
\<close>

theorem reachable_verifyProof:
  assumes "reachableLedger st"
  shows "verifyProof p user st =
    (case lastStored user (events st) of
       None \<Rightarrow> Inl NoIdentityFound
     | Some s \<Rightarrow> Inr (fst s = p))"
  using assms by (intro logged_verifyProof reachable_logged)

theorem reachable_verifyProof_witness:
  "reachableLedger sampleLedger
     \<and> verifyProof ''proof_1'' 1 sampleLedger = Inr True
     \<and> verifyProof ''proof_1'' 2 sampleLedger = Inl NoIdentityFound"
  using reachable_verifyProof [OF sampleLedger_reachable, of "''proof_1''" 1]
    reachable_verifyProof [OF sampleLedger_reachable, of "''proof_1''" 2]
  by (simp add: sampleLedger_reachable sample_events)

text \<open>
  The proof data is keyed by the identifier alone. A second
  \<^verbatim>\<open>storeProof\<close> under an identifier already in use, by any sender, replaces the
  proof data of that identifier, while the identity of the first sender and the
  answer of \<^verbatim>\<open>verifyProof\<close> for it stay as they were.
\<close>

theorem storeProof_overwrites:
  assumes "p \<noteq> []" and "sender m2 \<noteq> sender m1"
  shows "(let st1 = execute (StoreProof m1 p c1 a1 d1) st;
              st2 = execute (StoreProof m2 p c2 a2 d2) st1
          in getProofData p st1 = d1 \<and> getProofData p st2 = d2
             \<and> getUserIdentity (sender m1) st2 = (p, c1, a1, blockTimestamp m1)
             \<and> verifyProof p (sender m1) st2 = Inr True)"
  using assms
  by (simp add: Let_def execute_StoreProof getProofData_def getUserIdentity_def verifyProof_eq)

theorem storeProof_overwrites_witness:
  "(let st1 = execute (StoreProof alice ''proof_1'' ''c1'' True ''real'') deployed;
        st2 = execute (StoreProof bob ''proof_1'' ''c2'' False ''forged'') st1
    in getProofData ''proof_1'' st1 = ''real'' \<and> getProofData ''proof_1'' st2 = ''forged''
       \<and> verifyProof ''proof_1'' 1 st2 = Inr True)"
  using storeProof_overwrites [of "''proof_1''" bob alice "''c1''" True "''real''" deployed
    "''c2''" False "''forged''"]
  by (simp add: alice_def bob_def Let_def)

end
