(* ===== verification/Zk_Proofs.thy ===== *)
theory Zk_Proofs
  imports Field_Parser
begin

text \<open>
  The proof generator of src/lib/zk-proofs.ts: \<^verbatim>\<open>hashString\<close>, the string hash on
  32-bit integers, as a fold of \<open>hashStep\<close> over the characters on \<open>32 word\<close>;
  \<^verbatim>\<open>generateProofId\<close>; and \<^verbatim>\<open>generateZkProof\<close>, which builds the commitment and the
  proof object from an identity record. The Poseidon hash is a library the source
  only calls: it is a parameter \<open>poseidon\<close> of the model, from the list of its inputs
  to the decimal string of the digest, \<open>None\<close> when it throws. The operator \<^verbatim>\<open>||\<close> is
  \<open>orElse\<close>, with the test for a falsy value of the type at hand. The lemmas relate
  the loop to the polynomial hash with multiplier 31, bound its result, and show
  what the proof object depends on.
\<close>

unbundle bit_operations_syntax

section \<open>Definitions\<close>

type_synonym int32 = "32 word"

definition hashStep :: "int32 \<Rightarrow> char \<Rightarrow> int32" where
  "hashStep hash c =
    (let hash' = push_bit 5 hash - hash + of_nat (of_char c)
     in hash' AND hash')"

definition hashString :: "string \<Rightarrow> int" where
  "hashString str = (if str = [] then 0 else \<bar>sint (fold (\<lambda>c hash. hashStep hash c) str 0)\<bar>)"

definition numberToString :: "int \<Rightarrow> string" where
  "numberToString n = (if n < 0 then CHR ''-'' # toDecimal (nat (- n)) else toDecimal (nat n))"

definition generateProofId :: "environment \<Rightarrow> string \<Rightarrow> string" where
  "generateProofId env uid =
    ''proof_'' @ numberToString (hashString uid) @ ''_'' @ numberToString (now env)"

record identityData = identity +
  livenessVerified :: "bool option"

record zkProof =
  proofId :: string
  commitment :: string
  publicIsAdult :: bool
  publicLivenessVerified :: bool
  pi_a :: "string list"
  pi_b :: "string list list"
  pi_c :: "string list"

definition orElse :: "'a option \<Rightarrow> ('a \<Rightarrow> bool) \<Rightarrow> 'a \<Rightarrow> 'a" where
  "orElse v falsy d = (case v of None \<Rightarrow> d | Some x \<Rightarrow> if falsy x then d else x)"

definition proofUid :: "'a identityData_scheme \<Rightarrow> string" where
  "proofUid data =
    orElse (referenceId data) (\<lambda>s. s = [])
      (numberToString (hashString (orElse (name data) (\<lambda>s. s = []) ''unknown'')))"

definition commitmentInputs :: "'a identityData_scheme \<Rightarrow> int list" where
  "commitmentInputs data =
    (let uid = proofUid data;
         ageValue = orElse (age data) (\<lambda>a. a = 0) 0;
         adult = orElse (isAdult data) Not False;
         live = orElse (livenessVerified data) Not False
     in [hashString uid, ageValue, if adult then 1 else 0, if live then 1 else 0])"

definition generateZkProof ::
  "environment \<Rightarrow> (int list \<Rightarrow> string option) \<Rightarrow> 'a identityData_scheme \<Rightarrow> error + zkProof" where
  "generateZkProof env poseidon data =
    (case poseidon (commitmentInputs data) of
       None \<Rightarrow> Inl ProofGenerationFailed
     | Some digest \<Rightarrow>
         Inr \<lparr>proofId = generateProofId env (proofUid data),
              commitment = digest,
              publicIsAdult = orElse (isAdult data) Not False,
              publicLivenessVerified = orElse (livenessVerified data) Not False,
              pi_a = [js_slice digest 0 10, js_slice digest 10 20],
              pi_b = [[js_slice digest 20 30, js_slice digest 30 40],
                      [js_slice digest 40 50, js_slice digest 50 60]],
              pi_c = [js_slice digest 60 70, js_slice digest 70 80]\<rparr>)"

definition unknownData :: identityData where
  "unknownData =
    \<lparr>emailMobilePresent = 0, referenceId = Some ''2697'', name = Some ''Asha'',
     dateOfBirth = None, gender = Some ''F'', careOf = None, district = None, landmark = None,
     house = None, location = None, pinCode = None, postOffice = None, state = None,
     street = None, subDistrict = None, vtc = None, mobileHash = None, emailHash = None,
     photo = [], signature = [], age = None, isAdult = None, livenessVerified = Some True\<rparr>"

definition polyHash :: "string \<Rightarrow> int" where
  "polyHash str = foldl (\<lambda>h c. 31 * h + int (of_char c)) 0 str"

lemmas zk_defs =
  hashStep_def hashString_def numberToString_def generateProofId_def orElse_def proofUid_def
  commitmentInputs_def generateZkProof_def polyHash_def

section \<open>The string hash\<close>

lemma hashStep_eq: "hashStep h c = 31 * h + of_nat (of_char c)"
proof -
  have "push_bit 5 h = 32 * h" by (simp add: push_bit_eq_mult)
  then show ?thesis by (simp add: hashStep_def Let_def)
qed

lemma fold_hashStep:
  "fold (\<lambda>c hash. hashStep hash c) str (word_of_int a) =
    word_of_int (foldl (\<lambda>h c. 31 * h + int (of_char c)) a str)"
proof (induction str arbitrary: a)
  case Nil
  show ?case by simp
next
  case (Cons c str)
  have "hashStep (word_of_int a) c = word_of_int (31 * a + int (of_char c))"
    by (simp add: hashStep_eq)
  with Cons [of "31 * a + int (of_char c)"] show ?case by simp
qed

lemma hashString_polyHash: "hashString str = \<bar>sint (word_of_int (polyHash str) :: int32)\<bar>"
  using fold_hashStep [of str 0] by (simp add: hashString_def polyHash_def)

lemma hashString_bounds: "0 \<le> hashString str" "hashString str \<le> 2 ^ 31"
proof -
  let ?w = "word_of_int (polyHash str) :: int32"
  have "- (2 ^ 31) \<le> sint ?w" "sint ?w < 2 ^ 31"
    using sint_ge [of ?w] sint_lt [of ?w] by simp_all
  then show "0 \<le> hashString str" "hashString str \<le> 2 ^ 31"
    unfolding hashString_polyHash by linarith+
qed

section \<open>The proof record\<close>

lemma hashString_Aa_BB: "hashString ''Aa'' = 2112" "hashString ''BB'' = 2112"
  by (simp_all add: hashString_polyHash polyHash_def)

lemma proofUid_referenceId [simp]:
  "s \<noteq> [] \<Longrightarrow> proofUid (data\<lparr>referenceId := Some s\<rparr>) = s"
  by (simp add: proofUid_def orElse_def)

lemma commitmentInputs_referenceId:
  "s \<noteq> [] \<Longrightarrow> commitmentInputs (data\<lparr>referenceId := Some s\<rparr>) =
    hashString s # tl (commitmentInputs data)"
  by (simp add: commitmentInputs_def Let_def)

lemma generateZkProof_referenceId:
  assumes "s \<noteq> []" and "t \<noteq> []" and "hashString s = hashString t"
  shows "generateZkProof env poseidon (data\<lparr>referenceId := Some s\<rparr>) =
    generateZkProof env poseidon (data\<lparr>referenceId := Some t\<rparr>)"
  using assms
  by (simp add: generateZkProof_def commitmentInputs_referenceId generateProofId_def
      split: option.splits)

section \<open>Properties\<close>

text \<open>
  Claim C11. \<open>hashString\<close> is the polynomial hash with multiplier 31 in 32-bit two's
  complement arithmetic, taken absolute: the loop with its shift and its mask
  computes \<open>31 * hash + code\<close> modulo \<open>2^32\<close> for every character. The result lies
  between 0 and \<open>2^31\<close>, both included.
\<close>

theorem hashString_polynomial:
  "hashString str = \<bar>sint (word_of_int (polyHash str) :: int32)\<bar> \<and>
   0 \<le> hashString str \<and> hashString str \<le> 2 ^ 31"
  using hashString_bounds [of str] by (simp add: hashString_polyHash)

text \<open>
  For a record without age and adult flag (the date of birth was absent or
  not accepted) \<open>generateZkProof\<close> commits to the age 0 and to the flag 0 and
  publishes \<open>isAdult = false\<close>: the proof does not distinguish an unknown age from
  a minor.
\<close>

theorem generateZkProof_defaults:
  assumes "age data = None" and "isAdult data = None"
    and "poseidon (commitmentInputs data) = Some digest"
  shows "\<exists>p. generateZkProof env poseidon data = Inr p \<and> commitment p = digest \<and>
    publicIsAdult p = False \<and> commitmentInputs data ! 1 = 0 \<and> commitmentInputs data ! 2 = 0"
  using assms by (simp add: generateZkProof_def commitmentInputs_def orElse_def Let_def)

theorem generateZkProof_defaults_witness:
  "\<exists>p. generateZkProof (clockAt 0) (\<lambda>_. Some ''7'') unknownData = Inr p \<and> commitment p = ''7'' \<and>
     publicIsAdult p = False \<and> commitmentInputs unknownData ! 1 = 0 \<and>
     commitmentInputs unknownData ! 2 = 0"
  using generateZkProof_defaults [of unknownData "\<lambda>_. Some ''7''" "''7''" "clockAt 0"]
  by (simp add: unknownData_def)

text \<open>
  The proof depends on the reference id through its 32-bit hash only: two
  records that differ in reference ids with the same hash, such as \<open>Aa\<close> and \<open>BB\<close>,
  get the same proof id at the same time and the same commitment.
\<close>

theorem generateZkProof_collision:
  "generateZkProof env poseidon (data\<lparr>referenceId := Some ''Aa''\<rparr>) =
   generateZkProof env poseidon (data\<lparr>referenceId := Some ''BB''\<rparr>)"
  by (rule generateZkProof_referenceId) (simp_all add: hashString_Aa_BB)

end
