(* ===== verification/Wallet_Provider.thy ===== *)
theory Wallet_Provider
  imports JS_Prelude
begin

text \<open>
  The component \<^verbatim>\<open>WalletProvider\<close> of src/components/wallet-provider-simple.tsx: the
  five state variables it keeps, the effect that runs when it is mounted, the
  functions \<^verbatim>\<open>connect\<close> and \<^verbatim>\<open>disconnect\<close> it hands to the pages, and the four
  listeners it registers with the wallet. The wallet is a record \<open>ethereum\<close> of the
  answers it gives to the requests of the component, a rejected request being
  \<open>None\<close>; the state is the record \<open>walletState\<close>; the state updates of one handler
  are applied together, as React batches them; the reload of the page that
  \<^verbatim>\<open>handleChainChanged\<close> asks for is the mount effect on the initial state. The root
  layout imports its provider from the module \<^verbatim>\<open>@/components/wallet-provider\<close>, which
  is not among the sources; this file is the only provider the sources hold and is
  taken to be that module. The lemmas show that the connection
  flag and the three fields set with it agree in every state the component reaches,
  what \<^verbatim>\<open>connect\<close> stores and requests, and what a change of account leaves behind.
\<close>

section \<open>Definitions\<close>

record ('p, 's) ethereum =
  ethAccounts :: "string list option"
  ethRequestAccounts :: "string list option"
  newProvider :: "nat option \<Rightarrow> 'p option"
  getSigner :: "'p \<Rightarrow> 's option"
  getNetwork :: "'p \<Rightarrow> int option"
  switchEthereumChain :: "string \<Rightarrow> int option"

record ('p, 's) walletState =
  provider :: "'p option"
  signer :: "'s option"
  address :: "string option"
  chainId :: "int option"
  isConnected :: bool

datatype effect = Alert string | SwitchChain string | AddChain string

definition initialState :: "('p, 's) walletState" where
  "initialState =
    \<lparr>provider = None, signer = None, address = None, chainId = None, isConnected = False\<rparr>"

definition sepolia :: int where
  "sepolia = 11155111"

definition sepoliaHex :: string where
  "sepoliaHex = ''0xaa36a7''"

definition noWalletAlert :: string where
  "noWalletAlert = ''No Ethereum wallet detected. Please install MetaMask or another wallet.''"

definition connectFailedAlert :: string where
  "connectFailedAlert = ''Failed to connect wallet. Please try again.''"

definition mount :: "('p, 's) ethereum option \<Rightarrow> ('p, 's) walletState \<Rightarrow> ('p, 's) walletState" where
  "mount eth st =
    (case eth of
       None \<Rightarrow> st
     | Some ethereum \<Rightarrow>
         (case newProvider ethereum (Some 5000) of
            None \<Rightarrow> st
          | Some p \<Rightarrow>
              (let st1 = st\<lparr>provider := Some p\<rparr>
               in case ethAccounts ethereum of
                    None \<Rightarrow> st1
                  | Some accounts \<Rightarrow>
                      if length accounts > 0 then
                        (case getSigner ethereum p of
                           None \<Rightarrow> st1
                         | Some s \<Rightarrow>
                             (case getNetwork ethereum p of
                                None \<Rightarrow> st1
                              | Some network \<Rightarrow>
                                  st1\<lparr>address := Some (accounts ! 0), chainId := Some network,
                                      signer := Some s, isConnected := True\<rparr>))
                      else st1)))"

definition switchToSepolia :: "('p, 's) ethereum \<Rightarrow> int \<Rightarrow> effect list" where
  "switchToSepolia ethereum network =
    (if network \<noteq> sepolia then
       (case switchEthereumChain ethereum sepoliaHex of
          None \<Rightarrow> [SwitchChain sepoliaHex]
        | Some code \<Rightarrow>
            if code = 4902 then [SwitchChain sepoliaHex, AddChain sepoliaHex]
            else [SwitchChain sepoliaHex])
     else [])"

definition connect ::
  "('p, 's) ethereum option \<Rightarrow> ('p, 's) walletState \<Rightarrow> ('p, 's) walletState \<times> effect list" where
  "connect eth st =
    (case eth of
       None \<Rightarrow> (st, [Alert noWalletAlert])
     | Some ethereum \<Rightarrow>
         (case ethRequestAccounts ethereum of
            None \<Rightarrow> (st, [Alert connectFailedAlert])
          | Some accounts \<Rightarrow>
              if length accounts > 0 then
                (case newProvider ethereum None of
                   None \<Rightarrow> (st, [Alert connectFailedAlert])
                 | Some p \<Rightarrow>
                     (let st1 = st\<lparr>provider := Some p\<rparr>
                      in case getSigner ethereum p of
                           None \<Rightarrow> (st1, [Alert connectFailedAlert])
                         | Some s \<Rightarrow>
                             (case getNetwork ethereum p of
                                None \<Rightarrow> (st1, [Alert connectFailedAlert])
                              | Some network \<Rightarrow>
                                  (st1\<lparr>address := Some (accounts ! 0), chainId := Some network,
                                       signer := Some s, isConnected := True\<rparr>,
                                   switchToSepolia ethereum network))))
              else (st, [])))"

definition disconnect :: "('p, 's) walletState \<Rightarrow> ('p, 's) walletState" where
  "disconnect st = st\<lparr>signer := None, address := None, chainId := None, isConnected := False\<rparr>"

definition handleAccountsChanged ::
  "string list \<Rightarrow> ('p, 's) walletState \<Rightarrow> ('p, 's) walletState" where
  "handleAccountsChanged accounts st =
    (if length accounts = 0 then disconnect st
     else if isConnected st then st\<lparr>address := Some (accounts ! 0)\<rparr>
     else st)"

definition handleChainChanged ::
  "('p, 's) ethereum option \<Rightarrow> string \<Rightarrow> ('p, 's) walletState \<Rightarrow> ('p, 's) walletState" where
  "handleChainChanged eth chain st = mount eth initialState"

definition handleConnect :: "string \<Rightarrow> ('p, 's) walletState \<Rightarrow> ('p, 's) walletState" where
  "handleConnect connectInfo st = st"

definition handleDisconnect :: "int \<Rightarrow> ('p, 's) walletState \<Rightarrow> ('p, 's) walletState" where
  "handleDisconnect code st = disconnect st"

datatype ('p, 's) walletEvent =
    Mount "('p, 's) ethereum option"
  | Connect "('p, 's) ethereum option"
  | Disconnect
  | AccountsChanged "string list"
  | ChainChanged "('p, 's) ethereum option" string
  | ConnectEvent string
  | DisconnectEvent int

fun handle :: "('p, 's) walletEvent \<Rightarrow> ('p, 's) walletState \<Rightarrow> ('p, 's) walletState" where
  "handle (Mount eth) st = mount eth st"
| "handle (Connect eth) st = fst (connect eth st)"
| "handle Disconnect st = disconnect st"
| "handle (AccountsChanged accounts) st = handleAccountsChanged accounts st"
| "handle (ChainChanged eth chain) st = handleChainChanged eth chain st"
| "handle (ConnectEvent connectInfo) st = handleConnect connectInfo st"
| "handle (DisconnectEvent code) st = handleDisconnect code st"

inductive reachableWallet :: "('p, 's) walletState \<Rightarrow> bool" where
  init: "reachableWallet initialState"
| step: "reachableWallet st \<Longrightarrow> reachableWallet (handle ev st)"

definition wellFormed :: "('p, 's) walletState \<Rightarrow> bool" where
  "wellFormed st =
    (if isConnected st
     then provider st \<noteq> None \<and> signer st \<noteq> None \<and> address st \<noteq> None \<and> chainId st \<noteq> None
     else signer st = None \<and> address st = None \<and> chainId st = None)"

lemmas wallet_defs =
  initialState_def mount_def connect_def disconnect_def handleAccountsChanged_def
  handleChainChanged_def handleConnect_def handleDisconnect_def switchToSepolia_def

section \<open>The handlers keep the state well formed\<close>

lemma wellFormed_initial: "wellFormed initialState"
  by (simp add: wellFormed_def initialState_def)

lemma wellFormed_mount: "wellFormed st \<Longrightarrow> wellFormed (mount eth st)"
  by (auto simp: wellFormed_def mount_def Let_def split: option.splits if_splits)

lemma wellFormed_connect: "wellFormed st \<Longrightarrow> wellFormed (fst (connect eth st))"
  by (auto simp: wellFormed_def connect_def Let_def split: option.splits if_splits)

lemma wellFormed_disconnect: "wellFormed (disconnect st)"
  by (simp add: wellFormed_def disconnect_def)

lemma wellFormed_accounts: "wellFormed st \<Longrightarrow> wellFormed (handleAccountsChanged accounts st)"
  by (auto simp: wellFormed_def handleAccountsChanged_def disconnect_def split: if_splits)

lemma wellFormed_handle: "wellFormed st \<Longrightarrow> wellFormed (handle ev st)"
  by (cases ev)
    (simp_all add: wellFormed_mount wellFormed_connect wellFormed_disconnect
      wellFormed_accounts wellFormed_initial handleChainChanged_def handleConnect_def
      handleDisconnect_def)

lemma reachable_wellFormed: "reachableWallet st \<Longrightarrow> wellFormed st"
  by (induction rule: reachableWallet.induct) (simp_all add: wellFormed_initial wellFormed_handle)

section \<open>What connect stores\<close>

lemma connect_success:
  assumes "ethRequestAccounts e = Some (a # others)" and "newProvider e None = Some p"
    and "getSigner e p = Some s" and "getNetwork e p = Some n"
  shows "connect (Some e) st =
    (st\<lparr>provider := Some p, address := Some a, chainId := Some n, signer := Some s,
        isConnected := True\<rparr>, switchToSepolia e n)"
  using assms by (simp add: connect_def)

lemma connect_connects_iff:
  "isConnected (fst (connect eth st)) \<and> \<not> isConnected st \<longleftrightarrow>
     \<not> isConnected st \<and>
     (\<exists>e a others p s n. eth = Some e \<and> ethRequestAccounts e = Some (a # others) \<and>
        newProvider e None = Some p \<and> getSigner e p = Some s \<and> getNetwork e p = Some n)"
  by (cases "isConnected st")
    (auto simp: connect_def Let_def neq_Nil_conv split: option.splits)

section \<open>A sample wallet\<close>

definition sampleWallet :: "(unit, string) ethereum" where
  "sampleWallet =
    \<lparr>ethAccounts = Some [], ethRequestAccounts = Some [''0xA''],
     newProvider = (\<lambda>_. Some ()), getSigner = (\<lambda>_. Some ''0xA''),
     getNetwork = (\<lambda>_. Some 1), switchEthereumChain = (\<lambda>_. Some 4902)\<rparr>"

definition sampleSession :: "(unit, string) walletState" where
  "sampleSession =
    handle (AccountsChanged [''0xB''])
      (handle (Connect (Some sampleWallet)) (handle (Mount (Some sampleWallet)) initialState))"

lemma sample_connect:
  "connect (Some sampleWallet) st =
    (st\<lparr>provider := Some (), address := Some ''0xA'', chainId := Some 1, signer := Some ''0xA'',
        isConnected := True\<rparr>, [SwitchChain sepoliaHex, AddChain sepoliaHex])"
  by (subst connect_success [of sampleWallet "''0xA''" "[]" "()" "''0xA''" 1])
    (simp_all add: sampleWallet_def switchToSepolia_def sepolia_def)

lemma sample_mount: "mount (Some sampleWallet) initialState = initialState\<lparr>provider := Some ()\<rparr>"
  by (simp add: mount_def sampleWallet_def)

lemma sampleSession_eq:
  "sampleSession =
    \<lparr>provider = Some (), signer = Some ''0xA'', address = Some ''0xB'', chainId = Some 1,
     isConnected = True\<rparr>"
  by (simp add: sampleSession_def sample_connect sample_mount handleAccountsChanged_def
      initialState_def)

lemma sampleSession_reachable: "reachableWallet sampleSession"
  unfolding sampleSession_def by (intro reachableWallet.step reachableWallet.init)

section \<open>Properties\<close>

text \<open>
  Claim C10. In every state the component reaches from its initial state by the
  mount effect, calls of \<^verbatim>\<open>connect\<close> and \<^verbatim>\<open>disconnect\<close> and the events of the wallet,
  the flag \<^verbatim>\<open>isConnected\<close> is set exactly when the address, the signer and the chain
  identifier are set, and a connected state has a provider.
\<close>

theorem reachable_connected:
  assumes "reachableWallet st"
  shows "(isConnected st \<longleftrightarrow> address st \<noteq> None) \<and> (isConnected st \<longleftrightarrow> signer st \<noteq> None)
    \<and> (isConnected st \<longleftrightarrow> chainId st \<noteq> None) \<and> (isConnected st \<longrightarrow> provider st \<noteq> None)"
  using reachable_wellFormed [OF assms] by (auto simp: wellFormed_def split: if_splits)

theorem reachable_connected_witness:
  "reachableWallet sampleSession \<and> isConnected sampleSession \<and> address sampleSession = Some ''0xB''
     \<and> signer sampleSession \<noteq> None \<and> chainId sampleSession \<noteq> None
     \<and> provider sampleSession \<noteq> None"
  using reachable_connected [OF sampleSession_reachable]
  by (simp add: sampleSession_reachable [unfolded sampleSession_eq] sampleSession_eq)

text \<open>
  \<^verbatim>\<open>connect\<close> connects a disconnected component exactly when the wallet
  returns an account, a provider, a signer and a network. The state then holds the
  first account and the chain identifier read before the chain is switched, and
  the switch to Sepolia is requested exactly when that identifier is another one,
  followed by the request to add the chain when the wallet answers with code 4902.
\<close>

theorem connect_sepolia:
  assumes "ethRequestAccounts e = Some (a # others)" and "newProvider e None = Some p"
    and "getSigner e p = Some s" and "getNetwork e p = Some n"
  shows "fst (connect (Some e) st) =
      \<lparr>provider = Some p, signer = Some s, address = Some a, chainId = Some n,
       isConnected = True\<rparr>
    \<and> snd (connect (Some e) st) =
      (if n = sepolia then []
       else if switchEthereumChain e sepoliaHex = Some 4902
         then [SwitchChain sepoliaHex, AddChain sepoliaHex]
       else [SwitchChain sepoliaHex])"
  by (cases st)
    (auto simp: connect_success [OF assms] switchToSepolia_def split: option.splits)

theorem connect_sepolia_witness:
  "connect (Some sampleWallet) initialState =
    (\<lparr>provider = Some (), signer = Some ''0xA'', address = Some ''0xA'', chainId = Some 1,
      isConnected = True\<rparr>, [SwitchChain sepoliaHex, AddChain sepoliaHex])"
  using connect_sepolia [of sampleWallet "''0xA''" "[]" "()" "''0xA''" 1 initialState]
  by (simp add: sampleWallet_def prod_eq_iff sepolia_def)

text \<open>
  A change of account while connected replaces the address and nothing
  else: the signer stays the one obtained when the wallet was connected, for the
  account of that time.
\<close>

theorem handleAccountsChanged_signer:
  assumes "isConnected st"
  shows "handleAccountsChanged (a # others) st = st\<lparr>address := Some a\<rparr>
    \<and> signer (handleAccountsChanged (a # others) st) = signer st"
  using assms by (simp add: handleAccountsChanged_def)

theorem handleAccountsChanged_signer_witness:
  "isConnected (fst (connect (Some sampleWallet) initialState))
     \<and> address (handleAccountsChanged [''0xB''] (fst (connect (Some sampleWallet) initialState)))
         = Some ''0xB''
     \<and> signer (handleAccountsChanged [''0xB''] (fst (connect (Some sampleWallet) initialState)))
         = Some ''0xA''"
  using handleAccountsChanged_signer [of "fst (connect (Some sampleWallet) initialState)"
    "''0xB''" "[]"]
  by (simp add: sample_connect)

end
