(* ===== verification/Create_Page.thy ===== *)
theory Create_Page
  imports Complex_Main Zk_Proofs Wallet_Provider
begin

text \<open>
  The page \<^verbatim>\<open>CreateIdentity\<close> of src/app/create/page.tsx: the wizard that leads from
  the scanned card to the proof stored in the contract. Its state variables are the
  record \<open>createState\<close>; the step is a rational number, as the code counts
  \<^verbatim>\<open>1, 2, 2.5, 3, 4, 5\<close> and subtracts one to go back. Each handler is a function on
  the state that applies all its state updates; an asynchronous handler runs to
  its end before the next event. \<open>enabled\<close> says for which events the page shows an
  enabled control, \<open>fire\<close> runs the handler of an event, \<open>reachableCreate\<close> are the
  states reached from the initial one. The routine that sends the proof to the
  contract is not part of the sources: it is the parameter \<open>store\<close>. Notifications are
  not modelled. The lemmas give the invariant of the wizard, the proof it holds at
  the last two steps, and two states it should not reach.
\<close>

section \<open>Definitions\<close>

record createState =
  step :: rat
  isProcessing :: bool
  qrData :: "identity option"
  lastFourDigits :: string
  identityData :: "identity option"
  proofGenerated :: bool
  zkProof :: "zkProof option"
  error :: "string option"
  livenessVerified :: bool

definition initialCreate :: createState where
  "initialCreate =
    \<lparr>step = 1, isProcessing = False, qrData = None, lastFourDigits = [], identityData = None,
     proofGenerated = False, zkProof = None, error = None, livenessVerified = False\<rparr>"

definition noIdentityMessage :: string where
  "noIdentityMessage = ''No identity data found. Please scan your ID again.''"

definition mismatchMessage :: string where
  "mismatchMessage = ''The digits you entered do not match our records.''"

definition generateFailedMessage :: string where
  "generateFailedMessage = ''Failed to generate zero-knowledge proof''"

definition storeFailedMessage :: string where
  "storeFailedMessage =
    ''There was an error storing your proof on the blockchain. Please try again.''"

definition handleQrCodeScanned :: "identity \<Rightarrow> createState \<Rightarrow> createState" where
  "handleQrCodeScanned data st =
    st\<lparr>error := None, qrData := Some data, step := 2, isProcessing := False\<rparr>"

definition verifyLastFourDigits :: "createState \<Rightarrow> createState" where
  "verifyLastFourDigits st =
    (let st1 = st\<lparr>error := None\<rparr>
     in case qrData st of
          None \<Rightarrow> st1\<lparr>error := Some noIdentityMessage\<rparr>
        | Some q \<Rightarrow>
            (case referenceId q of
               None \<Rightarrow> st1\<lparr>error := Some noIdentityMessage\<rparr>
             | Some rid \<Rightarrow>
                 if rid = [] then st1\<lparr>error := Some noIdentityMessage\<rparr>
                 else
                   (let firstFourDigits = substring rid 0 4
                    in if lastFourDigits st = firstFourDigits
                       then st1\<lparr>identityData := Some q, step := 5 / 2\<rparr>
                       else st1\<lparr>error := Some mismatchMessage\<rparr>)))"

definition handleLivenessComplete :: "bool \<Rightarrow> createState \<Rightarrow> createState" where
  "handleLivenessComplete success st =
    (if success then st\<lparr>livenessVerified := True, step := 3\<rparr> else st\<lparr>step := 3\<rparr>)"

definition withoutLiveness :: "identity \<Rightarrow> identityData" where
  "withoutLiveness r = identity.extend r (identityData.fields None)"

definition generateProof ::
  "environment \<Rightarrow> (int list \<Rightarrow> string option) \<Rightarrow> createState \<Rightarrow> createState" where
  "generateProof env poseidon st =
    (case identityData st of
       None \<Rightarrow> st
     | Some d \<Rightarrow>
         (case generateZkProof env poseidon (withoutLiveness d) of
            Inr proof \<Rightarrow>
              st\<lparr>error := None,
                 zkProof := Some (proof\<lparr>publicLivenessVerified := livenessVerified st\<rparr>),
                 proofGenerated := True, step := 4, isProcessing := False\<rparr>
          | Inl e \<Rightarrow> st\<lparr>error := Some generateFailedMessage, isProcessing := False\<rparr>))"

definition storeProofOnChain ::
  "('s \<Rightarrow> zkProof \<Rightarrow> string option + 'tx) \<Rightarrow> 's option \<Rightarrow> createState \<Rightarrow> createState" where
  "storeProofOnChain store walletSigner st =
    (case zkProof st of
       None \<Rightarrow> st
     | Some p \<Rightarrow>
         (case walletSigner of
            None \<Rightarrow> st
          | Some s \<Rightarrow>
              (case store s p of
                 Inr tx \<Rightarrow> st\<lparr>error := None, step := 5, isProcessing := False\<rparr>
               | Inl msg \<Rightarrow>
                   st\<lparr>error := Some (orElse msg (\<lambda>m. m = []) storeFailedMessage),
                      isProcessing := False\<rparr>)))"

definition goBack :: "createState \<Rightarrow> createState" where
  "goBack st = st\<lparr>step := step st - 1\<rparr>"

datatype createEvent =
    QrCodeScanned identity
  | LastFourDigitsChanged string
  | VerifyClicked
  | LivenessComplete bool
  | GenerateClicked
  | StoreClicked
  | BackClicked

fun enabled :: "bool \<Rightarrow> createState \<Rightarrow> createEvent \<Rightarrow> bool" where
  "enabled walletConnected st (QrCodeScanned data) \<longleftrightarrow> step st = 1 \<and> walletConnected"
| "enabled walletConnected st (LastFourDigitsChanged v) \<longleftrightarrow> step st = 2 \<and> length v \<le> 4"
| "enabled walletConnected st VerifyClicked \<longleftrightarrow> step st = 2 \<and> \<not> length (lastFourDigits st) \<noteq> 4"
| "enabled walletConnected st (LivenessComplete success) \<longleftrightarrow> step st = 5 / 2"
| "enabled walletConnected st GenerateClicked \<longleftrightarrow> step st = 3 \<and> \<not> isProcessing st"
| "enabled walletConnected st StoreClicked \<longleftrightarrow> step st = 4 \<and> \<not> isProcessing st"
| "enabled walletConnected st BackClicked \<longleftrightarrow> step st > 1 \<and> step st < 5 \<and> \<not> isProcessing st"

fun fire ::
  "environment \<Rightarrow> (int list \<Rightarrow> string option) \<Rightarrow> ('s \<Rightarrow> zkProof \<Rightarrow> string option + 'tx) \<Rightarrow>
   's option \<Rightarrow> createEvent \<Rightarrow> createState \<Rightarrow> createState" where
  "fire env poseidon store walletSigner (QrCodeScanned data) st = handleQrCodeScanned data st"
| "fire env poseidon store walletSigner (LastFourDigitsChanged v) st = st\<lparr>lastFourDigits := v\<rparr>"
| "fire env poseidon store walletSigner VerifyClicked st = verifyLastFourDigits st"
| "fire env poseidon store walletSigner (LivenessComplete success) st = handleLivenessComplete success st"
| "fire env poseidon store walletSigner GenerateClicked st = generateProof env poseidon st"
| "fire env poseidon store walletSigner StoreClicked st = storeProofOnChain store walletSigner st"
| "fire env poseidon store walletSigner BackClicked st = goBack st"

inductive reachableCreate ::
  "(int list \<Rightarrow> string option) \<Rightarrow> ('s \<Rightarrow> zkProof \<Rightarrow> string option + 'tx) \<Rightarrow> createState \<Rightarrow> bool"
  for poseidon store where
  init: "reachableCreate poseidon store initialCreate"
| step: "reachableCreate poseidon store st \<Longrightarrow> enabled walletConnected st ev \<Longrightarrow>
    reachableCreate poseidon store (fire env poseidon store walletSigner ev st)"

definition verified :: "createState \<Rightarrow> bool" where
  "verified st \<longleftrightarrow>
    (\<exists>q rid. qrData st = Some q \<and> identityData st = Some q \<and> referenceId q = Some rid \<and>
       rid \<noteq> [] \<and> lastFourDigits st = substring rid 0 4)"

definition proved :: "(int list \<Rightarrow> string option) \<Rightarrow> createState \<Rightarrow> bool" where
  "proved poseidon st \<longleftrightarrow>
    (\<exists>env d p. identityData st = Some d \<and>
       generateZkProof env poseidon (withoutLiveness d) = Inr p \<and>
       zkProof st = Some (p\<lparr>publicLivenessVerified := livenessVerified st\<rparr>))"

definition wizardInv :: "(int list \<Rightarrow> string option) \<Rightarrow> createState \<Rightarrow> bool" where
  "wizardInv poseidon st \<longleftrightarrow>
    \<not> isProcessing st \<and>
    step st \<in> {1 / 2, 1, 3 / 2, 2, 5 / 2, 3, 4, 5} \<and>
    (step st \<in> {5 / 2, 3, 4, 5} \<longrightarrow> verified st) \<and>
    (step st \<in> {4, 5} \<longrightarrow> proved poseidon st)"

lemmas create_defs =
  initialCreate_def handleQrCodeScanned_def verifyLastFourDigits_def handleLivenessComplete_def
  generateProof_def storeProofOnChain_def goBack_def

section \<open>The record passed to the proof generator\<close>

lemma withoutLiveness_simps [simp]:
  "referenceId (withoutLiveness r) = referenceId r"
  "name (withoutLiveness r) = name r"
  "age (withoutLiveness r) = age r"
  "isAdult (withoutLiveness r) = isAdult r"
  "identityData.livenessVerified (withoutLiveness r) = None"
  by (simp_all add: withoutLiveness_def identity.defs identityData.defs)

lemma commitment_without_liveness:
  "commitmentInputs (withoutLiveness r) ! 3 = 0" "length (commitmentInputs (withoutLiveness r)) = 4"
  by (simp_all add: commitmentInputs_def orElse_def Let_def)

section \<open>The handlers keep the invariant\<close>

lemma wizardInv_initial: "wizardInv poseidon initialCreate"
  by (simp add: wizardInv_def initialCreate_def)

lemma wizardInv_scanned:
  "wizardInv poseidon st \<Longrightarrow> wizardInv poseidon (handleQrCodeScanned data st)"
  by (simp add: wizardInv_def handleQrCodeScanned_def)

lemma wizardInv_digits:
  "wizardInv poseidon st \<Longrightarrow> step st = 2 \<Longrightarrow> wizardInv poseidon (st\<lparr>lastFourDigits := v\<rparr>)"
  by (simp add: wizardInv_def)

lemma wizardInv_verify:
  "wizardInv poseidon st \<Longrightarrow> step st = 2 \<Longrightarrow> wizardInv poseidon (verifyLastFourDigits st)"
  by (auto simp: wizardInv_def verifyLastFourDigits_def verified_def Let_def
      split: option.splits)

lemma wizardInv_liveness:
  "wizardInv poseidon st \<Longrightarrow> step st = 5 / 2 \<Longrightarrow>
    wizardInv poseidon (handleLivenessComplete success st)"
  by (simp add: wizardInv_def handleLivenessComplete_def verified_def)

lemma wizardInv_generate:
  assumes "wizardInv poseidon st" and "step st = 3"
  shows "wizardInv poseidon (generateProof env poseidon st)"
proof -
  from assms obtain d where d: "identityData st = Some d" and v: "verified st"
    by (auto simp: wizardInv_def verified_def)
  show ?thesis
  proof (cases "generateZkProof env poseidon (withoutLiveness d)")
    case (Inl e)
    with assms d show ?thesis
      by (simp add: generateProof_def wizardInv_def verified_def)
  next
    case (Inr p)
    then have "proved poseidon (generateProof env poseidon st)"
      using d by (auto simp: generateProof_def proved_def)
    moreover have "verified (generateProof env poseidon st)"
      using v d Inr by (simp add: generateProof_def verified_def)
    ultimately show ?thesis
      using assms d Inr by (simp add: wizardInv_def generateProof_def)
  qed
qed

lemma storeProofOnChain_frame [simp]:
  "qrData (storeProofOnChain store walletSigner st) = qrData st"
  "identityData (storeProofOnChain store walletSigner st) = identityData st"
  "lastFourDigits (storeProofOnChain store walletSigner st) = lastFourDigits st"
  "zkProof (storeProofOnChain store walletSigner st) = zkProof st"
  "livenessVerified (storeProofOnChain store walletSigner st) = livenessVerified st"
  by (simp_all add: storeProofOnChain_def split: option.splits sum.splits)

lemma storeProofOnChain_step:
  "step (storeProofOnChain store walletSigner st) = step st \<or>
   step (storeProofOnChain store walletSigner st) = 5"
  "isProcessing (storeProofOnChain store walletSigner st) \<longrightarrow> isProcessing st"
  by (simp_all add: storeProofOnChain_def split: option.splits sum.splits)

lemma wizardInv_store:
  assumes "wizardInv poseidon st" and "step st = 4"
  shows "wizardInv poseidon (storeProofOnChain store walletSigner st)"
proof -
  let ?st = "storeProofOnChain store walletSigner st"
  from assms have "verified st" "proved poseidon st" "\<not> isProcessing st"
    by (simp_all add: wizardInv_def)
  then have "verified ?st" "proved poseidon ?st" "\<not> isProcessing ?st"
    using storeProofOnChain_step(2) [of store walletSigner st]
    by (simp_all add: verified_def proved_def)
  moreover have "step ?st = 4 \<or> step ?st = 5"
    using storeProofOnChain_step(1) [of store walletSigner st] assms(2) by simp
  ultimately show ?thesis
    by (auto simp: wizardInv_def)
qed

lemma wizardInv_back:
  assumes "wizardInv poseidon st" and "step st > 1" and "step st < 5"
  shows "wizardInv poseidon (goBack st)"
proof -
  from assms have "step st = 3 / 2 \<or> step st = 2 \<or> step st = 5 / 2 \<or> step st = 3 \<or> step st = 4"
    by (auto simp: wizardInv_def)
  moreover have "verified (goBack st) = verified st"
    by (simp add: verified_def goBack_def)
  ultimately show ?thesis
    using assms(1) by (elim disjE) (simp_all add: wizardInv_def goBack_def)
qed

lemma wizardInv_fire:
  assumes "wizardInv poseidon st" and "enabled walletConnected st ev"
  shows "wizardInv poseidon (fire env poseidon store walletSigner ev st)"
  using assms
  by (cases ev)
    (simp_all add: wizardInv_scanned wizardInv_digits wizardInv_verify wizardInv_liveness
      wizardInv_generate wizardInv_store wizardInv_back)

lemma reachable_wizardInv:
  "reachableCreate poseidon store st \<Longrightarrow> wizardInv poseidon st"
  by (induction rule: reachableCreate.induct) (simp_all add: wizardInv_initial wizardInv_fire)

section \<open>Runs of the wizard\<close>

fun runEvents ::
  "environment \<Rightarrow> (int list \<Rightarrow> string option) \<Rightarrow> ('s \<Rightarrow> zkProof \<Rightarrow> string option + 'tx) \<Rightarrow>
   ('p, 's) walletState \<Rightarrow> createEvent list \<Rightarrow> createState \<Rightarrow> createState option" where
  "runEvents env poseidon store wallet [] st = Some st"
| "runEvents env poseidon store wallet (ev # evs) st =
    (if enabled (isConnected wallet) st ev
     then runEvents env poseidon store wallet evs (fire env poseidon store (signer wallet) ev st)
     else None)"

lemma reachable_runEvents:
  assumes "reachableCreate poseidon store st"
    and "runEvents env poseidon store wallet evs st = Some st'"
  shows "reachableCreate poseidon store st'"
  using assms
proof (induction evs arbitrary: st)
  case Nil
  then show ?case by simp
next
  case (Cons ev evs)
  then show ?case
    by (auto intro: reachableCreate.step split: if_splits)
qed

lemma reachable_from_initial:
  "runEvents env poseidon store wallet evs initialCreate = Some st \<Longrightarrow>
    reachableCreate poseidon store st"
  by (rule reachable_runEvents [OF reachableCreate.init])

lemma nothing_enabled:
  assumes "step st = 1 / 2"
  shows "\<not> enabled walletConnected st ev"
  using assms by (cases ev) simp_all

lemma goBack_enabled:
  assumes "reachableCreate poseidon store st" and "1 < step st" and "step st < 5"
  shows "reachableCreate poseidon store (goBack st)"
proof -
  from assms(1) have "\<not> isProcessing st"
    using reachable_wizardInv by (auto simp: wizardInv_def)
  with assms have "enabled True st BackClicked" by simp
  from reachableCreate.step [OF assms(1) this, of "clockAt 0" None]
  show ?thesis by simp
qed

section \<open>A sample run\<close>

definition sampleCard :: identity where
  "sampleCard =
    \<lparr>emailMobilePresent = 3, referenceId = Some ''269720190101'', name = Some ''Asha'',
     dateOfBirth = Some ''15-06-2000'', gender = Some ''F'', careOf = None, district = None,
     landmark = None, house = None, location = None, pinCode = None, postOffice = None,
     state = None, street = None, subDistrict = None, vtc = None, mobileHash = None,
     emailHash = None, photo = [], signature = [], age = Some 23, isAdult = Some True\<rparr>"

definition sampleUser :: "(unit, string) walletState" where
  "sampleUser =
    \<lparr>provider = Some (), signer = Some ''0xA'', address = Some ''0xA'', chainId = Some 11155111,
     isConnected = True\<rparr>"

definition toLiveness :: "createEvent list" where
  "toLiveness = [QrCodeScanned sampleCard, LastFourDigitsChanged ''2697'', VerifyClicked]"

definition atLiveness :: createState where
  "atLiveness =
    initialCreate\<lparr>qrData := Some sampleCard, lastFourDigits := ''2697'',
      identityData := Some sampleCard, step := 5 / 2\<rparr>"

definition secondLiveness :: createState where
  "secondLiveness = atLiveness\<lparr>livenessVerified := True\<rparr>"

lemma sampleCard_referenceId [simp]: "referenceId sampleCard = Some ''269720190101''"
  by (simp add: sampleCard_def)

lemma run_toLiveness:
  "runEvents env poseidon store sampleUser toLiveness initialCreate = Some atLiveness"
  by (simp add: toLiveness_def atLiveness_def sampleUser_def initialCreate_def
      handleQrCodeScanned_def verifyLastFourDigits_def substring_def Let_def)

lemma run_secondLiveness:
  "runEvents env poseidon store sampleUser
     [LivenessComplete True, BackClicked, VerifyClicked] atLiveness
   = Some secondLiveness"
  by (simp add: secondLiveness_def atLiveness_def sampleUser_def initialCreate_def
      handleLivenessComplete_def goBack_def verifyLastFourDigits_def substring_def Let_def)

lemma atLiveness_reachable:
  fixes store :: "string \<Rightarrow> zkProof \<Rightarrow> string option + 'tx"
  shows "reachableCreate poseidon store atLiveness"
  by (rule reachable_from_initial [OF run_toLiveness])

lemma secondLiveness_reachable:
  fixes store :: "string \<Rightarrow> zkProof \<Rightarrow> string option + 'tx"
  shows "reachableCreate poseidon store secondLiveness"
  by (rule reachable_runEvents [OF atLiveness_reachable run_secondLiveness])

lemma sample_generate:
  "\<exists>p. generateZkProof env (\<lambda>_. Some ''7'') (withoutLiveness sampleCard) = Inr p"
  by (simp add: generateZkProof_def)

section \<open>Properties\<close>

text \<open>
  Claim C12. The proof the wizard holds. In every state reached at step 4 or 5
  the user has entered the first four characters of the reference id of the scanned
  card, and the stored proof is the one \<open>generateZkProof\<close> returns for that card,
  with the liveness flag of the page written over its public signal. The card is
  passed without a liveness field, so the commitment is computed with the liveness
  input 0 whatever the flag says.
\<close>

theorem reachable_proof:
  assumes "reachableCreate poseidon store st" and "step st = 4 \<or> step st = 5"
  shows "\<exists>env d p rid. qrData st = Some d \<and> identityData st = Some d \<and>
    referenceId d = Some rid \<and> lastFourDigits st = substring rid 0 4 \<and>
    generateZkProof env poseidon (withoutLiveness d) = Inr p \<and>
    zkProof st = Some (p\<lparr>publicLivenessVerified := livenessVerified st\<rparr>) \<and>
    commitmentInputs (withoutLiveness d) ! 3 = 0"
proof -
  from reachable_wizardInv [OF assms(1)] assms(2)
  have "verified st" and "proved poseidon st"
    by (auto simp: wizardInv_def)
  then obtain d rid env p where "qrData st = Some d" "identityData st = Some d"
    "referenceId d = Some rid" "lastFourDigits st = substring rid 0 4"
    "generateZkProof env poseidon (withoutLiveness d) = Inr p"
    "zkProof st = Some (p\<lparr>publicLivenessVerified := livenessVerified st\<rparr>)"
    by (auto simp: verified_def proved_def)
  then show ?thesis
    by (intro exI [of _ env] exI [of _ d] exI [of _ p] exI [of _ rid])
      (simp add: commitment_without_liveness)
qed

theorem reachable_proof_witness:
  "\<exists>st p. runEvents (clockAt 0) (\<lambda>_. Some ''7'') (\<lambda>s p. Inr ()) sampleUser
       [LivenessComplete True, GenerateClicked] atLiveness = Some st
     \<and> step st = 4 \<and> zkProof st = Some p \<and> publicLivenessVerified p
     \<and> commitmentInputs (withoutLiveness sampleCard) ! 3 = 0"
proof -
  let ?store = "\<lambda>(s :: string) (p :: zkProof). Inr () :: string option + unit"
  obtain p where p: "generateZkProof (clockAt 0) (\<lambda>_. Some ''7'') (withoutLiveness sampleCard) = Inr p"
    using sample_generate by blast
  let ?st = "atLiveness\<lparr>livenessVerified := True, error := None,
    zkProof := Some (p\<lparr>publicLivenessVerified := True\<rparr>), proofGenerated := True, step := 4\<rparr>"
  have r: "runEvents (clockAt 0) (\<lambda>_. Some ''7'') ?store sampleUser
      [LivenessComplete True, GenerateClicked] atLiveness = Some ?st"
    using p
    by (simp add: atLiveness_def sampleUser_def initialCreate_def handleLivenessComplete_def
        generateProof_def)
  have "reachableCreate (\<lambda>_. Some ''7'') ?store ?st"
    by (rule reachable_runEvents [OF atLiveness_reachable r])
  from reachable_proof [OF this] r show ?thesis
    by (simp add: commitment_without_liveness)
qed

text \<open>
  Claim C28. The wizard has a dead end. From the liveness step, numbered 2.5, the
  button \<^verbatim>\<open>Back\<close> leads to step 1.5 and then to step 0.5: both are reached, and at
  step 0.5 the page shows no panel and no button, so no event is enabled any more.
\<close>

theorem wizard_dead_end:
  assumes "reachableCreate poseidon store st" and "step st = 5 / 2"
  shows "reachableCreate poseidon store (goBack (goBack st)) \<and>
    step (goBack (goBack st)) = 1 / 2 \<and>
    (\<forall>walletConnected ev. \<not> enabled walletConnected (goBack (goBack st)) ev)"
proof -
  have 1: "reachableCreate poseidon store (goBack st)"
    using assms by (simp add: goBack_enabled)
  have "step (goBack st) = 3 / 2"
    using assms(2) by (simp add: goBack_def)
  with 1 have 2: "reachableCreate poseidon store (goBack (goBack st))"
    by (simp add: goBack_enabled)
  have "step (goBack (goBack st)) = 1 / 2"
    using assms(2) by (simp add: goBack_def)
  with 2 show ?thesis
    by (simp add: nothing_enabled)
qed

theorem wizard_dead_end_witness:
  "step atLiveness = 5 / 2 \<and> step (goBack (goBack atLiveness)) = 1 / 2 \<and>
   reachableCreate (\<lambda>_. Some ''7'') (\<lambda>(s :: string) p. Inr () :: string option + unit)
     (goBack (goBack atLiveness)) \<and>
   \<not> enabled True (goBack (goBack atLiveness)) BackClicked \<and>
   \<not> enabled True (goBack (goBack atLiveness)) (QrCodeScanned sampleCard)"
  using wizard_dead_end [OF atLiveness_reachable,
      of "\<lambda>_. Some ''7''" "\<lambda>(s :: string) p. Inr () :: string option + unit"]
  by (simp add: atLiveness_def)

text \<open>
  Claim C38. The liveness flag is never reset. When a liveness check has passed once
  and a later check of the same session fails or is skipped, the proof generated
  afterwards still publishes liveness as verified.
\<close>

theorem liveness_not_reset:
  assumes "livenessVerified st" and "identityData st = Some d"
    and "generateZkProof env poseidon (withoutLiveness d) = Inr p"
  shows "zkProof (generateProof env poseidon (handleLivenessComplete False st)) =
      Some (p\<lparr>publicLivenessVerified := True\<rparr>)
    \<and> step (generateProof env poseidon (handleLivenessComplete False st)) = 4"
  using assms by (simp add: generateProof_def handleLivenessComplete_def)

theorem liveness_not_reset_witness:
  "reachableCreate (\<lambda>_. Some ''7'') (\<lambda>(s :: string) p. Inr () :: string option + unit) secondLiveness
   \<and> step secondLiveness = 5 / 2
   \<and> (\<exists>p. zkProof (generateProof (clockAt 0) (\<lambda>_. Some ''7'')
              (handleLivenessComplete False secondLiveness)) = Some p
          \<and> publicLivenessVerified p)"
proof -
  obtain p where p: "generateZkProof (clockAt 0) (\<lambda>_. Some ''7'') (withoutLiveness sampleCard) = Inr p"
    using sample_generate by blast
  from liveness_not_reset [of secondLiveness sampleCard "clockAt 0" "\<lambda>_. Some ''7''" p] p
  show ?thesis
    by (simp add: secondLiveness_reachable) (simp add: secondLiveness_def atLiveness_def)
qed

end
