(* ===== verification/Liveness_Detection.thy ===== *)
theory Liveness_Detection
  imports Complex_Main JS_Prelude
begin

text \<open>
  The component \<^verbatim>\<open>LivenessDetection\<close> of src/components/liveness-detection.tsx: the
  camera, the loop that looks at one frame after the other, and the three stages
  face, blinks and head turns that end with \<^verbatim>\<open>onComplete(true)\<close>.

  A handler of a React component is a closure of the rendering that created it: it
  reads the state variables of that rendering, and writes the state of the
  component. The record \<open>livenessState\<close> holds the state variables; every handler
  takes the state \<open>cap\<close> its closure has captured and the configuration \<open>liveness\<close> of
  the component, which holds the current state, the values of the \<^verbatim>\<open>useRef\<close> cells,
  the callback waiting for the next animation frame with the state it has captured,
  the pending timer and the calls of \<^verbatim>\<open>onComplete\<close> made so far. The face detector and
  the camera are not part of the sources: the result of the detector for a frame is
  the value \<open>frameResult\<close> of the event, the answers of the camera are the record
  \<open>camera\<close>. Numbers are reals with the two values \<^verbatim>\<open>Infinity\<close> and \<^verbatim>\<open>NaN\<close> a division
  can give; rounding is not modelled. A handler runs to its end before the next event. The test
  of \<^verbatim>\<open>detectFace\<close> for the video and the canvas element is left out: both elements are
  rendered as long as the component is, and the component is not removed in this
  theory.

  The lemmas show what one frame does to the counters, that the loop is never
  started by \<^verbatim>\<open>startCamera\<close>, and that a loop whose closure predates the detection
  of the blinks never counts a head turn.
\<close>

section \<open>Numbers\<close>

datatype number = Finite real | Infinity | NegInfinity | NaN

definition jsDivide :: "real \<Rightarrow> real \<Rightarrow> number" where
  "jsDivide a b =
    (if b \<noteq> 0 then Finite (a / b)
     else if a > 0 then Infinity else if a < 0 then NegInfinity else NaN)"

fun jsPlus :: "number \<Rightarrow> number \<Rightarrow> number" where
  "jsPlus (Finite a) (Finite b) = Finite (a + b)"
| "jsPlus NaN y = NaN"
| "jsPlus x NaN = NaN"
| "jsPlus Infinity NegInfinity = NaN"
| "jsPlus NegInfinity Infinity = NaN"
| "jsPlus Infinity y = Infinity"
| "jsPlus x Infinity = Infinity"
| "jsPlus NegInfinity y = NegInfinity"
| "jsPlus x NegInfinity = NegInfinity"

fun jsHalf :: "number \<Rightarrow> number" where
  "jsHalf (Finite a) = Finite (a / 2)"
| "jsHalf x = x"

fun jsGreater :: "number \<Rightarrow> real \<Rightarrow> bool" where
  "jsGreater (Finite a) b \<longleftrightarrow> a > b"
| "jsGreater Infinity b \<longleftrightarrow> True"
| "jsGreater x b \<longleftrightarrow> False"

fun jsLess :: "number \<Rightarrow> real \<Rightarrow> bool" where
  "jsLess (Finite a) b \<longleftrightarrow> a < b"
| "jsLess NegInfinity b \<longleftrightarrow> True"
| "jsLess x b \<longleftrightarrow> False"

section \<open>Definitions\<close>

type_synonym point = "real \<times> real"

record face =
  leftEye :: "point list"
  rightEye :: "point list"
  boxX :: real
  boxY :: real
  boxWidth :: real
  boxHeight :: real

datatype frameResult = DetectorFailed | Detections "face list"

record detectionSteps =
  faceDetected :: bool
  blinkDetected :: bool
  headTurnDetected :: bool

record livenessState =
  isLoading :: bool
  isDetecting :: bool
  cameraActive :: bool
  error :: "string option"
  instructions :: string
  detectionProgress :: nat
  detectionSteps :: detectionSteps

record liveness =
  ui :: livenessState
  streamRef :: bool
  modelsLoadedRef :: bool
  prevEyeAspectRatioRef :: "number option"
  prevFacePositionRef :: "point option"
  blinkCountRef :: nat
  headTurnCountRef :: nat
  scheduled :: "livenessState option"
  timer :: bool
  completed :: "bool list"

record camera =
  mediaSupported :: bool
  getUserMedia :: "string option + unit"
  playSucceeds :: bool
  firstFrame :: frameResult

definition noSteps :: detectionSteps where
  "noSteps = \<lparr>faceDetected = False, blinkDetected = False, headTurnDetected = False\<rparr>"

definition initialLiveness :: liveness where
  "initialLiveness =
    \<lparr>ui = \<lparr>isLoading = True, isDetecting = False, cameraActive = False, error = None,
            instructions = ''Loading face detection models...'', detectionProgress = 0,
            detectionSteps = noSteps\<rparr>,
     streamRef = False, modelsLoadedRef = False, prevEyeAspectRatioRef = None,
     prevFacePositionRef = None, blinkCountRef = 0, headTurnCountRef = 0, scheduled = None,
     timer = False, completed = []\<rparr>"

definition setUi :: "(livenessState \<Rightarrow> livenessState) \<Rightarrow> liveness \<Rightarrow> liveness" where
  "setUi f c = c\<lparr>ui := f (ui c)\<rparr>"

definition loadModels :: "bool \<Rightarrow> liveness \<Rightarrow> liveness" where
  "loadModels loaded c =
    (let c1 = setUi (\<lambda>s. s\<lparr>isLoading := True,
                 instructions := ''Loading face detection models...''\<rparr>) c
     in if loaded
        then setUi (\<lambda>s. s\<lparr>instructions := ''Models loaded. Click 'Start Liveness Check' to begin.'',
                       isLoading := False\<rparr>) (c1\<lparr>modelsLoadedRef := True\<rparr>)
        else setUi (\<lambda>s. s\<lparr>error := Some
                       ''Failed to load face detection models. Please refresh and try again.'',
                       isLoading := False\<rparr>) c1)"

definition stopCamera :: "liveness \<Rightarrow> liveness" where
  "stopCamera c =
    setUi (\<lambda>s. s\<lparr>cameraActive := False, isDetecting := False\<rparr>)
      (c\<lparr>scheduled := None, streamRef := False\<rparr>)"

definition distance :: "point \<Rightarrow> point \<Rightarrow> real" where
  "distance p q = sqrt ((fst p - fst q)\<^sup>2 + (snd p - snd q)\<^sup>2)"

definition calculateEyeAspectRatio :: "point list \<Rightarrow> number option" where
  "calculateEyeAspectRatio eye =
    (if length eye < 6 then None
     else
       (let v1 = distance (eye ! 1) (eye ! 5);
            v2 = distance (eye ! 2) (eye ! 4);
            h = distance (eye ! 0) (eye ! 3)
        in Some (jsDivide (v1 + v2) (2 * h))))"

definition markFace :: "livenessState \<Rightarrow> liveness \<Rightarrow> liveness" where
  "markFace cap c =
    (if \<not> faceDetected (detectionSteps cap)
     then setUi (\<lambda>s. s\<lparr>detectionSteps := (detectionSteps s)\<lparr>faceDetected := True\<rparr>,
                      instructions := ''Face detected! Now please blink a few times'',
                      detectionProgress := 33\<rparr>) c
     else c)"

definition countBlink :: "livenessState \<Rightarrow> number \<Rightarrow> liveness \<Rightarrow> liveness" where
  "countBlink cap earAvg c =
    (if \<not> blinkDetected (detectionSteps cap) then
       (case prevEyeAspectRatioRef c of
          None \<Rightarrow> c
        | Some prev \<Rightarrow>
            if jsGreater prev 0.2 \<and> jsLess earAvg 0.2 \<and> blinkCountRef c < 3 then
              (let c1 = c\<lparr>blinkCountRef := blinkCountRef c + 1\<rparr>
               in if blinkCountRef c1 \<ge> 3
                  then setUi (\<lambda>s. s\<lparr>detectionSteps := (detectionSteps s)\<lparr>blinkDetected := True\<rparr>,
                         instructions := ''Great! Now please turn your head slightly left and right'',
                         detectionProgress := 66\<rparr>) c1
                  else c1)
            else c)
     else c)"

definition countHeadTurn :: "livenessState \<Rightarrow> point \<Rightarrow> liveness \<Rightarrow> liveness" where
  "countHeadTurn cap facePosition c =
    (if blinkDetected (detectionSteps cap) \<and> \<not> headTurnDetected (detectionSteps cap) then
       (case prevFacePositionRef c of
          None \<Rightarrow> c
        | Some prevPosition \<Rightarrow>
            (let xDiff = \<bar>fst facePosition - fst prevPosition\<bar>
             in if xDiff > 30 \<and> headTurnCountRef c < 2 then
                  (let c1 = c\<lparr>headTurnCountRef := headTurnCountRef c + 1\<rparr>
                   in if headTurnCountRef c1 \<ge> 2
                      then (setUi (\<lambda>s. s\<lparr>detectionSteps :=
                                (detectionSteps s)\<lparr>headTurnDetected := True\<rparr>,
                              instructions := ''Liveness check complete!'',
                              detectionProgress := 100\<rparr>) c1)\<lparr>timer := True\<rparr>
                      else c1)
                else c))
     else c)"

definition processFace :: "livenessState \<Rightarrow> face \<Rightarrow> liveness \<Rightarrow> liveness" where
  "processFace cap detection c =
    (let c1 = markFace cap c
     in case calculateEyeAspectRatio (leftEye detection) of
          None \<Rightarrow> c1
        | Some leftEAR \<Rightarrow>
            (case calculateEyeAspectRatio (rightEye detection) of
               None \<Rightarrow> c1
             | Some rightEAR \<Rightarrow>
                 (let earAvg = jsHalf (jsPlus leftEAR rightEAR);
                      facePosition = (boxX detection + boxWidth detection / 2,
                                      boxY detection + boxHeight detection / 2);
                      c2 = countBlink cap earAvg c1;
                      c3 = countHeadTurn cap facePosition c2
                  in c3\<lparr>prevEyeAspectRatioRef := Some earAvg,
                        prevFacePositionRef := Some facePosition\<rparr>)))"

definition detectFace :: "livenessState \<Rightarrow> frameResult \<Rightarrow> liveness \<Rightarrow> liveness" where
  "detectFace cap result c =
    (if \<not> cameraActive cap then c
     else
       (let c1 = (case result of
                    DetectorFailed \<Rightarrow> c
                  | Detections detections \<Rightarrow>
                      if length detections > 0 then processFace cap (detections ! 0) c
                      else if faceDetected (detectionSteps cap)
                        then setUi (\<lambda>s. s\<lparr>instructions :=
                          ''Face lost. Please position your face in the center of the frame''\<rparr>) c
                        else c)
        in if cameraActive cap then c1\<lparr>scheduled := Some cap\<rparr> else c1))"

definition startDetection :: "livenessState \<Rightarrow> frameResult \<Rightarrow> liveness \<Rightarrow> liveness" where
  "startDetection cap result c = (if \<not> cameraActive cap then c else detectFace cap result c)"

definition startCamera :: "livenessState \<Rightarrow> camera \<Rightarrow> liveness \<Rightarrow> liveness" where
  "startCamera cap cam c =
    (let c1 = setUi (\<lambda>s. s\<lparr>error := None, isDetecting := True\<rparr>) c
     in if \<not> mediaSupported cam
        then setUi (\<lambda>s. s\<lparr>error := Some ''Camera access is not supported in your browser'',
                        isDetecting := False\<rparr>) c1
        else
          (case getUserMedia cam of
             Inl msg \<Rightarrow>
               setUi (\<lambda>s. s\<lparr>error := Some (case msg of
                          None \<Rightarrow> ''Failed to access camera. Please check your camera permissions.''
                        | Some m \<Rightarrow> if m = [] then
                            ''Failed to access camera. Please check your camera permissions.''
                            else m),
                        isDetecting := False\<rparr>) c1
           | Inr stream \<Rightarrow>
               (let c2 = c1\<lparr>streamRef := True\<rparr>
                in if playSucceeds cam then
                     startDetection cap (firstFrame cam)
                       ((setUi (\<lambda>s. s\<lparr>cameraActive := True,
                            instructions := ''Position your face in the center of the frame'',
                            detectionSteps := noSteps, detectionProgress := 0\<rparr>) c2)
                          \<lparr>blinkCountRef := 0, headTurnCountRef := 0,
                           prevEyeAspectRatioRef := None, prevFacePositionRef := None\<rparr>)
                   else stopCamera (setUi (\<lambda>s. s\<lparr>error := Some
                          ''Failed to start camera feed. Please try again.''\<rparr>) c2))))"

definition cancelCheck :: "liveness \<Rightarrow> liveness" where
  "cancelCheck c = (let c1 = stopCamera c in c1\<lparr>completed := completed c1 @ [False]\<rparr>)"

definition completeCheck :: "liveness \<Rightarrow> liveness" where
  "completeCheck c =
    (let c1 = stopCamera (c\<lparr>timer := False\<rparr>) in c1\<lparr>completed := completed c1 @ [True]\<rparr>)"

datatype livenessEvent =
    ModelsLoaded bool
  | StartClicked camera
  | CloseClicked
  | FrameDue frameResult
  | TimerDue
  | SkipClicked

fun shown :: "bool \<Rightarrow> liveness \<Rightarrow> livenessEvent \<Rightarrow> bool" where
  "shown isProcessing c (ModelsLoaded loaded) \<longleftrightarrow> isLoading (ui c) \<and> \<not> modelsLoadedRef c"
| "shown isProcessing c (StartClicked cam) \<longleftrightarrow>
    \<not> cameraActive (ui c) \<and> \<not> isProcessing \<and> \<not> (isLoading (ui c) \<or> isProcessing)"
| "shown isProcessing c CloseClicked \<longleftrightarrow> cameraActive (ui c)"
| "shown isProcessing c (FrameDue result) \<longleftrightarrow> scheduled c \<noteq> None"
| "shown isProcessing c TimerDue \<longleftrightarrow> timer c"
| "shown isProcessing c SkipClicked \<longleftrightarrow> \<not> isProcessing"

fun react :: "livenessEvent \<Rightarrow> liveness \<Rightarrow> liveness" where
  "react (ModelsLoaded loaded) c = loadModels loaded c"
| "react (StartClicked cam) c = startCamera (ui c) cam c"
| "react CloseClicked c = stopCamera c"
| "react (FrameDue result) c =
    (case scheduled c of
       None \<Rightarrow> c
     | Some cap \<Rightarrow> detectFace cap result (c\<lparr>scheduled := None\<rparr>))"
| "react TimerDue c = completeCheck c"
| "react SkipClicked c = cancelCheck c"

inductive reachableLiveness :: "liveness \<Rightarrow> bool" where
  init: "reachableLiveness initialLiveness"
| step: "reachableLiveness c \<Longrightarrow> shown isProcessing c ev \<Longrightarrow> reachableLiveness (react ev c)"

definition idle :: "liveness \<Rightarrow> bool" where
  "idle c \<longleftrightarrow>
    scheduled c = None \<and> \<not> timer c \<and> True \<notin> set (completed c) \<and>
    detectionSteps (ui c) = noSteps \<and> detectionProgress (ui c) = 0 \<and>
    blinkCountRef c = 0 \<and> headTurnCountRef c = 0"

lemmas liveness_defs =
  setUi_def loadModels_def stopCamera_def markFace_def countBlink_def countHeadTurn_def
  processFace_def detectFace_def startDetection_def startCamera_def cancelCheck_def
  completeCheck_def

section \<open>The loop is not started\<close>

lemma startDetection_inactive [simp]:
  "\<not> cameraActive cap \<Longrightarrow> startDetection cap result c = c"
  by (simp add: startDetection_def)

lemma idle_initial: "idle initialLiveness"
  by (simp add: idle_def initialLiveness_def)

lemma idle_loadModels: "idle c \<Longrightarrow> idle (loadModels loaded c)"
  by (simp add: idle_def loadModels_def setUi_def Let_def)

lemma idle_stopCamera: "idle c \<Longrightarrow> idle (stopCamera c)"
  by (simp add: idle_def stopCamera_def setUi_def)

lemma idle_startCamera:
  assumes "idle c" and "\<not> cameraActive cap"
  shows "idle (startCamera cap cam c)"
  using assms
  by (auto simp: idle_def startCamera_def stopCamera_def setUi_def Let_def
      split: sum.splits option.splits)

lemma idle_cancelCheck: "idle c \<Longrightarrow> idle (cancelCheck c)"
  by (simp add: idle_def cancelCheck_def stopCamera_def setUi_def Let_def)

lemma idle_react:
  assumes "idle c" and "shown isProcessing c ev"
  shows "idle (react ev c)"
proof (cases ev)
  case (StartClicked cam)
  with assms show ?thesis by (simp add: idle_startCamera)
next
  case (FrameDue result)
  with assms show ?thesis by (simp add: idle_def)
next
  case TimerDue
  with assms show ?thesis by (simp add: idle_def)
qed (use assms in \<open>simp_all add: idle_loadModels idle_stopCamera idle_cancelCheck\<close>)

lemma reachable_idle: "reachableLiveness c \<Longrightarrow> idle c"
  by (induction rule: reachableLiveness.induct) (simp_all add: idle_initial idle_react)

section \<open>One frame\<close>

lemma setUi_fields [simp]:
  "ui (setUi f c) = f (ui c)"
  "streamRef (setUi f c) = streamRef c"
  "prevEyeAspectRatioRef (setUi f c) = prevEyeAspectRatioRef c"
  "prevFacePositionRef (setUi f c) = prevFacePositionRef c"
  "blinkCountRef (setUi f c) = blinkCountRef c"
  "headTurnCountRef (setUi f c) = headTurnCountRef c"
  "scheduled (setUi f c) = scheduled c"
  "timer (setUi f c) = timer c"
  "completed (setUi f c) = completed c"
  by (simp_all add: setUi_def)

lemma markFace_fields [simp]:
  "headTurnCountRef (markFace cap c) = headTurnCountRef c"
  "blinkCountRef (markFace cap c) = blinkCountRef c"
  "prevEyeAspectRatioRef (markFace cap c) = prevEyeAspectRatioRef c"
  "timer (markFace cap c) = timer c"
  "completed (markFace cap c) = completed c"
  "headTurnDetected (detectionSteps (ui (markFace cap c))) = headTurnDetected (detectionSteps (ui c))"
  by (simp_all add: markFace_def)

lemma countBlink_fields [simp]:
  "headTurnCountRef (countBlink cap e c) = headTurnCountRef c"
  "timer (countBlink cap e c) = timer c"
  "completed (countBlink cap e c) = completed c"
  "headTurnDetected (detectionSteps (ui (countBlink cap e c))) =
    headTurnDetected (detectionSteps (ui c))"
  by (simp_all add: countBlink_def Let_def split: option.splits)

lemma countHeadTurn_stale [simp]:
  "\<not> blinkDetected (detectionSteps cap) \<Longrightarrow> countHeadTurn cap p c = c"
  by (simp add: countHeadTurn_def)

lemma processFace_stale:
  assumes "\<not> blinkDetected (detectionSteps cap)"
  shows "headTurnCountRef (processFace cap f c) = headTurnCountRef c"
    and "timer (processFace cap f c) = timer c"
    and "completed (processFace cap f c) = completed c"
    and "headTurnDetected (detectionSteps (ui (processFace cap f c))) =
      headTurnDetected (detectionSteps (ui c))"
  using assms by (simp_all add: processFace_def Let_def split: option.splits)

lemma detectFace_stale:
  assumes "\<not> blinkDetected (detectionSteps cap)"
  shows "headTurnCountRef (detectFace cap r c) = headTurnCountRef c"
    and "timer (detectFace cap r c) = timer c"
    and "completed (detectFace cap r c) = completed c"
    and "headTurnDetected (detectionSteps (ui (detectFace cap r c))) =
      headTurnDetected (detectionSteps (ui c))"
    and "cameraActive cap \<Longrightarrow> scheduled (detectFace cap r c) = Some cap"
  using assms
  by (simp_all add: detectFace_def Let_def processFace_stale split: frameResult.splits)

lemma frames_stale:
  assumes "\<not> blinkDetected (detectionSteps cap)"
  shows "headTurnCountRef (fold (detectFace cap) rs c) = headTurnCountRef c \<and>
    timer (fold (detectFace cap) rs c) = timer c \<and>
    completed (fold (detectFace cap) rs c) = completed c \<and>
    headTurnDetected (detectionSteps (ui (fold (detectFace cap) rs c))) =
      headTurnDetected (detectionSteps (ui c))"
  by (induction rs arbitrary: c) (simp_all add: detectFace_stale [OF assms])

section \<open>What a frame counts\<close>

lemma distance_vertical [simp]: "distance (a, b) (a, c) = \<bar>b - c\<bar>"
  by (simp add: distance_def)

lemma distance_horizontal [simp]: "distance (a, b) (c, b) = \<bar>a - c\<bar>"
  by (simp add: distance_def)

lemma processFace_blink:
  assumes "\<not> blinkDetected (detectionSteps cap)"
    and "calculateEyeAspectRatio (leftEye f) = Some l"
    and "calculateEyeAspectRatio (rightEye f) = Some r"
    and "prevEyeAspectRatioRef c = Some prev" and "jsGreater prev 0.2"
    and "jsLess (jsHalf (jsPlus l r)) 0.2" and "blinkCountRef c < 3"
  shows "blinkCountRef (processFace cap f c) = blinkCountRef c + 1"
    and "prevEyeAspectRatioRef (processFace cap f c) = Some (jsHalf (jsPlus l r))"
    and "blinkDetected (detectionSteps (ui (processFace cap f c))) \<longleftrightarrow>
      blinkCountRef c = 2 \<or> blinkDetected (detectionSteps (ui c))"
  using assms
  by (auto simp: processFace_def countBlink_def markFace_def Let_def)

lemma processFace_first:
  assumes "\<not> blinkDetected (detectionSteps cap)"
    and "calculateEyeAspectRatio (leftEye f) = Some l"
    and "calculateEyeAspectRatio (rightEye f) = Some r"
    and "prevEyeAspectRatioRef c = None"
  shows "blinkCountRef (processFace cap f c) = blinkCountRef c"
    and "prevEyeAspectRatioRef (processFace cap f c) = Some (jsHalf (jsPlus l r))"
  using assms
  by (simp_all add: processFace_def countBlink_def markFace_def Let_def)

lemma detectFace_face:
  assumes "cameraActive cap"
  shows "blinkCountRef (detectFace cap (Detections [f]) c) = blinkCountRef (processFace cap f c)"
    and "prevEyeAspectRatioRef (detectFace cap (Detections [f]) c) =
      prevEyeAspectRatioRef (processFace cap f c)"
  using assms by (simp_all add: detectFace_def)

section \<open>A sample session\<close>

definition openEye :: "point list" where
  "openEye = [(0, 0), (3, 3), (7, 3), (10, 0), (7, - 3), (3, - 3)]"

definition closedEye :: "point list" where
  "closedEye = [(0, 0), (3, 1 / 2), (7, 1 / 2), (10, 0), (7, - 1 / 2), (3, - 1 / 2)]"

definition faceWith :: "point list \<Rightarrow> real \<Rightarrow> face" where
  "faceWith eye x =
    \<lparr>leftEye = eye, rightEye = eye, boxX = x, boxY = 100, boxWidth = 200, boxHeight = 200\<rparr>"

definition goodCamera :: camera where
  "goodCamera =
    \<lparr>mediaSupported = True, getUserMedia = Inr (), playSucceeds = True,
     firstFrame = Detections [faceWith openEye 100]\<rparr>"

definition watching :: liveness where
  "watching = react (StartClicked goodCamera) (react (ModelsLoaded True) initialLiveness)"

lemma sample_ratio:
  "calculateEyeAspectRatio openEye = Some (Finite (3 / 5))"
  "calculateEyeAspectRatio closedEye = Some (Finite (1 / 10))"
  by (simp_all add: calculateEyeAspectRatio_def openEye_def closedEye_def jsDivide_def Let_def)

lemma watching_reachable: "reachableLiveness watching"
proof -
  have 1: "reachableLiveness (react (ModelsLoaded True) initialLiveness)"
    by (rule reachableLiveness.step [OF reachableLiveness.init, of False])
      (simp add: initialLiveness_def)
  show ?thesis
    unfolding watching_def
    by (rule reachableLiveness.step [OF 1, of False])
      (simp add: initialLiveness_def loadModels_def setUi_def)
qed

lemma watching_ui:
  "cameraActive (ui watching)" "isDetecting (ui watching)" "error (ui watching) = None"
  "streamRef watching" "prevEyeAspectRatioRef watching = None"
  by (simp_all add: watching_def initialLiveness_def loadModels_def startCamera_def setUi_def
      goodCamera_def Let_def)

section \<open>Properties\<close>

text \<open>
  Claim C13. The detection loop is never started. \<^verbatim>\<open>startCamera\<close> calls
  \<^verbatim>\<open>startDetection\<close> of its own rendering, in which the camera is not active, so the
  call returns at its guard. In every state the component reaches no frame callback
  and no timer is pending, the stages and the counters are at their initial values,
  and \<^verbatim>\<open>onComplete\<close> has never been called with \<^verbatim>\<open>true\<close>: the check ends only by
  \<^verbatim>\<open>Skip\<close>.
\<close>

theorem detection_never_starts:
  assumes "reachableLiveness c"
  shows "scheduled c = None \<and> \<not> timer c \<and> True \<notin> set (completed c) \<and>
    detectionSteps (ui c) = noSteps \<and> detectionProgress (ui c) = 0 \<and>
    blinkCountRef c = 0 \<and> headTurnCountRef c = 0"
  using reachable_idle [OF assms] by (simp add: idle_def)

theorem detection_never_starts_witness:
  "reachableLiveness watching \<and> cameraActive (ui watching) \<and> streamRef watching \<and>
   scheduled watching = None \<and> \<not> timer watching \<and> detectionProgress (ui watching) = 0"
  using detection_never_starts [OF watching_reachable]
  by (simp add: watching_reachable watching_ui)

text \<open>
  Claim C29. A loop cannot see the stages it sets. \<^verbatim>\<open>detectFace\<close> asks for the next
  frame with itself as the callback, so every frame of a loop reads the stages of
  the rendering that started it. When that rendering has not detected the blinks,
  no number of frames counts a head turn, starts the timer or calls \<^verbatim>\<open>onComplete\<close>,
  whatever the detector returns, while the loop keeps asking for frames.
\<close>

theorem stale_loop_never_completes:
  assumes "\<not> blinkDetected (detectionSteps cap)" and "cameraActive cap"
  shows "headTurnCountRef (fold (detectFace cap) rs c) = headTurnCountRef c \<and>
    timer (fold (detectFace cap) rs c) = timer c \<and>
    completed (fold (detectFace cap) rs c) = completed c \<and>
    (rs \<noteq> [] \<longrightarrow> scheduled (fold (detectFace cap) rs c) = Some cap)"
proof -
  have "scheduled (fold (detectFace cap) rs c) = Some cap" if "rs \<noteq> []"
    using that
  proof (induction rs arbitrary: c rule: rev_induct)
    case Nil
    then show ?case by simp
  next
    case (snoc r rs)
    show ?case by (simp add: detectFace_stale(5) [OF assms])
  qed
  with frames_stale [OF assms(1), of rs c] show ?thesis by simp
qed

theorem stale_loop_never_completes_witness:
  "cameraActive (ui watching) \<and> \<not> blinkDetected (detectionSteps (ui watching)) \<and>
   blinkCountRef (fold (detectFace (ui watching))
     [Detections [faceWith openEye 100], Detections [faceWith closedEye 200]] watching) = 1 \<and>
   headTurnCountRef (fold (detectFace (ui watching))
     [Detections [faceWith openEye 100], Detections [faceWith closedEye 200]] watching) = 0 \<and>
   \<not> timer (fold (detectFace (ui watching))
     [Detections [faceWith openEye 100], Detections [faceWith closedEye 200]] watching)"
proof -
  let ?cap = "ui watching"
  let ?c1 = "detectFace ?cap (Detections [faceWith openEye 100]) watching"
  from detection_never_starts [OF watching_reachable]
  have w: "detectionSteps ?cap = noSteps" "blinkCountRef watching = 0"
    "headTurnCountRef watching = 0" "\<not> timer watching"
    by simp_all
  then have s: "\<not> blinkDetected (detectionSteps ?cap)"
    by (simp add: noSteps_def)
  have f: "calculateEyeAspectRatio (leftEye (faceWith eye x)) = calculateEyeAspectRatio eye"
    "calculateEyeAspectRatio (rightEye (faceWith eye x)) = calculateEyeAspectRatio eye"
    for eye x
    by (simp_all add: faceWith_def)
  have p: "prevEyeAspectRatioRef ?c1 = Some (Finite (3 / 5))" "blinkCountRef ?c1 = 0"
    using processFace_first [OF s, of "faceWith openEye 100" _ _ watching] w(2)
    by (simp_all add: detectFace_face [OF watching_ui(1)] f sample_ratio watching_ui(5))
  have "blinkCountRef (processFace ?cap (faceWith closedEye 200) ?c1) = blinkCountRef ?c1 + 1"
    using processFace_blink(1) [of ?cap "faceWith closedEye 200" "Finite (1 / 10)"
        "Finite (1 / 10)" ?c1 "Finite (3 / 5)"] s p
    by (simp add: f sample_ratio)
  then have "blinkCountRef (detectFace ?cap (Detections [faceWith closedEye 200]) ?c1) = 1"
    using p(2) by (simp add: detectFace_face [OF watching_ui(1)])
  with stale_loop_never_completes [OF s watching_ui(1),
      of "[Detections [faceWith openEye 100], Detections [faceWith closedEye 200]]" watching]
    w s watching_ui(1)
  show ?thesis by simp
qed

end
