(* ===== verification/JS_JSON.thy ===== *)
theory JS_JSON
  imports JS_Prelude
begin

text \<open>
  The built-ins \<^verbatim>\<open>JSON.stringify\<close> and \<^verbatim>\<open>JSON.parse\<close> of the host language, which
  src/unnamed/part_002 (the contract library), src/app/verify/page.tsx and
  src/lib/qr-generator.ts call. A JSON value is the datatype \<open>json\<close>; an object is
  the list of its members in the order of the text, and a number is kept as its
  literal, since the program never computes with one. \<open>stringify\<close> prints a value
  without white space and escapes strings as the host does. \<open>jsonParse\<close> is a
  recursive-descent parser of the JSON grammar; its three mutually recursive
  functions take a fuel argument, and \<open>jsonParse\<close> gives them two units for every
  character of the text and two more. \<open>getProp\<close> reads a property (the last of
  the members of that name) and \<open>truthy\<close> is the conversion to a Boolean that
  \<^verbatim>\<open>||\<close> and \<^verbatim>\<open>!\<close> apply. Characters are the 256 of the type \<open>char\<close>: an escape
  \<^verbatim>\<open>\u\<close> of a code above 255 is refused. A number is truthy when its mantissa has
  a digit other than zero; a literal so small that the host rounds it to zero, such
  as \<^verbatim>\<open>1e-400\<close>, is falsy in the host and truthy here.

  The lemmas show that parsing the text of a string and of a number literal gives
  it back before any delimiter, and that \<open>jsonParse (stringify j) = Some j\<close> for
  every value \<open>j\<close> whose number literals follow the grammar: the fuel of \<open>jsonParse\<close>
  is enough for every text that \<open>stringify\<close> prints.
\<close>

section \<open>Values\<close>

datatype json =
    JNull
  | JBool bool
  | JNumber string
  | JString string
  | JArray "json list"
  | JObject "(string \<times> json) list"

definition quote :: char where
  "quote = CHR 0x22"

definition backslash :: char where
  "backslash = CHR 0x5C"

section \<open>Printing\<close>

definition escapeChar :: "char \<Rightarrow> string" where
  "escapeChar c =
    (let n = of_char c :: nat in
     if c = quote then [backslash, quote]
     else if c = backslash then [backslash, backslash]
     else if n = 8 then [backslash, CHR ''b'']
     else if n = 12 then [backslash, CHR ''f'']
     else if n = 10 then [backslash, CHR ''n'']
     else if n = 13 then [backslash, CHR ''r'']
     else if n = 9 then [backslash, CHR ''t'']
     else if n < 32 then [backslash, CHR ''u'', CHR ''0'', CHR ''0'', hexDigit (n div 16),
                          hexDigit (n mod 16)]
     else [c])"

definition quoteString :: "string \<Rightarrow> string" where
  "quoteString s = quote # concat (map escapeChar s) @ [quote]"

fun commaSep :: "string list \<Rightarrow> string" where
  "commaSep [] = []"
| "commaSep [x] = x"
| "commaSep (x # y # ys) = x @ CHR '','' # commaSep (y # ys)"

definition member :: "string \<times> string \<Rightarrow> string" where
  "member m = quoteString (fst m) @ CHR '':'' # snd m"

primrec stringify :: "json \<Rightarrow> string" where
  "stringify JNull = ''null''"
| "stringify (JBool b) = (if b then ''true'' else ''false'')"
| "stringify (JNumber lit) = lit"
| "stringify (JString s) = quoteString s"
| "stringify (JArray vs) = CHR ''['' # commaSep (map stringify vs) @ '']''"
| "stringify (JObject ms) =
    CHR ''{'' # commaSep (map member (map (map_prod id stringify) ms)) @ ''}''"

section \<open>Parsing\<close>

definition isJsonSpace :: "char \<Rightarrow> bool" where
  "isJsonSpace c = (of_char c \<in> {9, 10, 13, 32 :: nat})"

definition skipSpace :: "string \<Rightarrow> string" where
  "skipSpace s = dropWhile isJsonSpace s"

definition isDigit :: "char \<Rightarrow> bool" where
  "isDigit c = isRadixDigit 10 c"

definition unescape :: "char \<Rightarrow> char option" where
  "unescape e =
    (if e = quote then Some quote
     else if e = backslash then Some backslash
     else if e = CHR ''/'' then Some CHR ''/''
     else if e = CHR ''b'' then Some (char_of (8 :: nat))
     else if e = CHR ''f'' then Some (char_of (12 :: nat))
     else if e = CHR ''n'' then Some (char_of (10 :: nat))
     else if e = CHR ''r'' then Some (char_of (13 :: nat))
     else if e = CHR ''t'' then Some (char_of (9 :: nat))
     else None)"

definition consChar :: "char \<Rightarrow> (string \<times> string) option \<Rightarrow> (string \<times> string) option" where
  "consChar c r = map_option (\<lambda>(s, rest). (c # s, rest)) r"

function parseChars :: "string \<Rightarrow> (string \<times> string) option" where
  "parseChars [] = None"
| "parseChars (c # r) =
    (if c = quote then Some ([], r)
     else if c = backslash then
       (case r of
          [] \<Rightarrow> None
        | e # r' \<Rightarrow>
            if e = CHR ''u'' then
              (if length r' \<ge> 4 \<and> list_all (isRadixDigit 16) (take 4 r')
                  \<and> radixValue 16 (take 4 r') < 256
               then consChar (char_of (radixValue 16 (take 4 r'))) (parseChars (drop 4 r'))
               else None)
            else
              (case unescape e of
                 None \<Rightarrow> None
               | Some ch \<Rightarrow> consChar ch (parseChars r')))
     else if (of_char c :: nat) < 32 then None
     else consChar c (parseChars r))"
  by pat_completeness auto
termination
  by (relation "measure length") auto

definition digitsOf :: "string \<Rightarrow> string" where
  "digitsOf s = takeWhile isDigit s"

definition takeInt :: "string \<Rightarrow> nat option" where
  "takeInt s =
    (case s of
       [] \<Rightarrow> None
     | c # r \<Rightarrow>
         if c = CHR ''0'' then Some 1
         else if isDigit c then Some (length (digitsOf s))
         else None)"

definition takeFrac :: "string \<Rightarrow> nat option" where
  "takeFrac s =
    (case s of
       [] \<Rightarrow> Some 0
     | c # r \<Rightarrow>
         if c = CHR ''.'' then (if digitsOf r = [] then None else Some (1 + length (digitsOf r)))
         else Some 0)"

definition takeExp :: "string \<Rightarrow> nat option" where
  "takeExp s =
    (case s of
       [] \<Rightarrow> Some 0
     | c # r \<Rightarrow>
         if c = CHR ''e'' \<or> c = CHR ''E'' then
           (let k = (if take 1 r = ''+'' \<or> take 1 r = ''-'' then 1 else 0)
            in if digitsOf (drop k r) = [] then None
               else Some (1 + k + length (digitsOf (drop k r))))
         else Some 0)"

definition numberLength :: "string \<Rightarrow> nat option" where
  "numberLength s =
    (let k = (if take 1 s = ''-'' then 1 else 0 :: nat)
     in case takeInt (drop k s) of
          None \<Rightarrow> None
        | Some i \<Rightarrow>
            (case takeFrac (drop (k + i) s) of
               None \<Rightarrow> None
             | Some f \<Rightarrow>
                 (case takeExp (drop (k + i + f) s) of
                    None \<Rightarrow> None
                  | Some e \<Rightarrow> Some (k + i + f + e))))"

definition takeNumber :: "string \<Rightarrow> (string \<times> string) option" where
  "takeNumber s = map_option (\<lambda>n. (take n s, drop n s)) (numberLength s)"

definition withValue :: "('a \<Rightarrow> json) \<Rightarrow> ('a \<times> string) option \<Rightarrow> (json \<times> string) option" where
  "withValue f r = map_option (\<lambda>(x, rest). (f x, rest)) r"

fun parseValue :: "nat \<Rightarrow> string \<Rightarrow> (json \<times> string) option"
  and parseElements :: "nat \<Rightarrow> string \<Rightarrow> (json list \<times> string) option"
  and parseMembers :: "nat \<Rightarrow> string \<Rightarrow> ((string \<times> json) list \<times> string) option" where
  "parseValue 0 s = None"
| "parseValue (Suc n) s =
    (case skipSpace s of
       [] \<Rightarrow> None
     | c # r \<Rightarrow>
         if c = CHR ''{'' then
           (if take 1 (skipSpace r) = ''}'' then Some (JObject [], drop 1 (skipSpace r))
            else withValue JObject (parseMembers n r))
         else if c = CHR ''['' then
           (if take 1 (skipSpace r) = '']'' then Some (JArray [], drop 1 (skipSpace r))
            else withValue JArray (parseElements n r))
         else if c = quote then withValue JString (parseChars r)
         else if take 4 (c # r) = ''true'' then Some (JBool True, drop 4 (c # r))
         else if take 5 (c # r) = ''false'' then Some (JBool False, drop 5 (c # r))
         else if take 4 (c # r) = ''null'' then Some (JNull, drop 4 (c # r))
         else withValue JNumber (takeNumber (c # r)))"
| "parseElements 0 s = None"
| "parseElements (Suc n) s =
    (case parseValue n s of
       None \<Rightarrow> None
     | Some (v, r) \<Rightarrow>
         (case skipSpace r of
            [] \<Rightarrow> None
          | c # r' \<Rightarrow>
              if c = CHR '','' then
                (case parseElements n r' of
                   None \<Rightarrow> None
                 | Some (vs, r'') \<Rightarrow> Some (v # vs, r''))
              else if c = CHR '']'' then Some ([v], r')
              else None))"
| "parseMembers 0 s = None"
| "parseMembers (Suc n) s =
    (case skipSpace s of
       [] \<Rightarrow> None
     | q # r \<Rightarrow>
         if q \<noteq> quote then None
         else
           (case parseChars r of
              None \<Rightarrow> None
            | Some (k, r1) \<Rightarrow>
                (case skipSpace r1 of
                   [] \<Rightarrow> None
                 | c # r2 \<Rightarrow>
                     if c \<noteq> CHR '':'' then None
                     else
                       (case parseValue n r2 of
                          None \<Rightarrow> None
                        | Some (v, r3) \<Rightarrow>
                            (case skipSpace r3 of
                               [] \<Rightarrow> None
                             | d # r4 \<Rightarrow>
                                 if d = CHR '','' then
                                   (case parseMembers n r4 of
                                      None \<Rightarrow> None
                                    | Some (ms, r5) \<Rightarrow> Some ((k, v) # ms, r5))
                                 else if d = CHR ''}'' then Some ([(k, v)], r4)
                                 else None)))))"

definition jsonParse :: "string \<Rightarrow> json option" where
  "jsonParse text =
    (case parseValue (2 * length text + 2) text of
       None \<Rightarrow> None
     | Some (v, rest) \<Rightarrow> if skipSpace rest = [] then Some v else None)"

section \<open>Reading a value\<close>

fun getProp :: "json \<Rightarrow> string \<Rightarrow> json option" where
  "getProp (JObject ms) k = map_of (rev ms) k"
| "getProp v k = None"

definition mantissa :: "string \<Rightarrow> string" where
  "mantissa lit = takeWhile (\<lambda>c. c \<noteq> CHR ''e'' \<and> c \<noteq> CHR ''E'') lit"

fun truthy :: "json option \<Rightarrow> bool" where
  "truthy None \<longleftrightarrow> False"
| "truthy (Some JNull) \<longleftrightarrow> False"
| "truthy (Some (JBool b)) \<longleftrightarrow> b"
| "truthy (Some (JNumber lit)) \<longleftrightarrow> (\<exists>c \<in> set (mantissa lit). isDigit c \<and> c \<noteq> CHR ''0'')"
| "truthy (Some (JString s)) \<longleftrightarrow> s \<noteq> []"
| "truthy (Some (JArray vs)) \<longleftrightarrow> True"
| "truthy (Some (JObject ms)) \<longleftrightarrow> True"

lemmas json_defs =
  quote_def backslash_def escapeChar_def quoteString_def member_def isJsonSpace_def
  skipSpace_def isDigit_def unescape_def consChar_def digitsOf_def takeInt_def takeFrac_def
  takeExp_def numberLength_def takeNumber_def withValue_def jsonParse_def mantissa_def

section \<open>Strings\<close>

lemma consChar_simps [simp]:
  "consChar c None = None"
  "consChar c (Some (s, rest)) = Some (c # s, rest)"
  by (simp_all add: consChar_def)

lemma withValue_simps [simp]:
  "withValue f None = None"
  "withValue f (Some (x, rest)) = Some (f x, rest)"
  by (simp_all add: withValue_def)

lemma of_char_eq_iff: "(of_char c :: nat) = n \<longleftrightarrow> n < 256 \<and> c = char_of n"
proof
  assume "(of_char c :: nat) = n"
  then have "n < 256" and "char_of n = c" by auto
  then show "n < 256 \<and> c = char_of n" by simp
next
  assume "n < 256 \<and> c = char_of n"
  then show "(of_char c :: nat) = n" by simp
qed

lemma hex_pair:
  assumes "n < 256"
  shows "list_all (isRadixDigit 16) [CHR ''0'', CHR ''0'', hexDigit (n div 16), hexDigit (n mod 16)]"
    and "radixValue 16 [CHR ''0'', CHR ''0'', hexDigit (n div 16), hexDigit (n mod 16)] = n"
proof -
  from assms have d: "n div 16 < 16" "n mod 16 < 16" by simp_all
  have z: "isRadixDigit 16 CHR ''0''" "digitOf CHR ''0'' = 0"
    by (simp_all add: isRadixDigit_def digitOf_def digitValue_def)
  show "list_all (isRadixDigit 16) [CHR ''0'', CHR ''0'', hexDigit (n div 16), hexDigit (n mod 16)]"
    using d z by (simp add: isRadixDigit_hexDigit)
  show "radixValue 16 [CHR ''0'', CHR ''0'', hexDigit (n div 16), hexDigit (n mod 16)] = n"
    using d z by (simp add: radixValue_def digitOf_hexDigit)
qed

lemma parseChars_escapeChar:
  "parseChars (escapeChar c @ r) = consChar c (parseChars r)"
proof -
  let ?n = "of_char c :: nat"
  have n: "?n < 256" by simp
  consider "c = quote" | "c = backslash" | "?n \<in> {8, 12, 10, 13, 9}"
    | "?n < 32" "?n \<notin> {8, 12, 10, 13, 9}" | "32 \<le> ?n" "c \<noteq> quote" "c \<noteq> backslash"
    by (cases "?n < 32") (auto simp: quote_def backslash_def)
  then show ?thesis
  proof cases
    case 1
    then show ?thesis by (simp add: escapeChar_def unescape_def quote_def backslash_def)
  next
    case 2
    then show ?thesis by (simp add: escapeChar_def unescape_def quote_def backslash_def)
  next
    case 3
    then have "c \<in> {char_of (8 :: nat), char_of (12 :: nat), char_of (10 :: nat),
        char_of (13 :: nat), char_of (9 :: nat)}"
      by (auto simp: of_char_eq_iff)
    then show ?thesis
      by (auto simp: escapeChar_def unescape_def quote_def backslash_def Let_def)
  next
    case 4
    then have q: "c \<noteq> quote" "c \<noteq> backslash"
      by (auto simp: quote_def backslash_def)
    have c: "char_of ?n = c" by simp
    from 4 q show ?thesis
      using hex_pair [OF n]
      by (simp add: escapeChar_def Let_def backslash_def quote_def c)
  next
    case 5
    then show ?thesis
      by (simp add: escapeChar_def Let_def backslash_def quote_def)
  qed
qed

lemma parseChars_quoted:
  "parseChars (concat (map escapeChar s) @ quote # rest) = Some (s, rest)"
  by (induction s) (simp_all add: parseChars_escapeChar)

lemma parseChars_quoteString:
  "parseChars (tl (quoteString s) @ rest) = Some (s, rest)"
  by (simp add: quoteString_def parseChars_quoted)

section \<open>Numbers\<close>

definition delimited :: "string \<Rightarrow> bool" where
  "delimited rest \<longleftrightarrow> rest = [] \<or> hd rest \<in> {CHR '','', CHR '']'', CHR ''}''}"

definition validNumber :: "string \<Rightarrow> bool" where
  "validNumber lit \<longleftrightarrow> numberLength lit = Some (length lit)"

lemma delimited_simps [simp]:
  "delimited []" "delimited (CHR '','' # r)" "delimited (CHR '']'' # r)" "delimited (CHR ''}'' # r)"
  by (simp_all add: delimited_def)

lemma delimited_hd:
  assumes "delimited rest"
  shows "rest = [] \<or> (\<not> isDigit (hd rest) \<and> hd rest \<noteq> CHR ''.'' \<and> hd rest \<noteq> CHR ''e'' \<and>
    hd rest \<noteq> CHR ''E'' \<and> hd rest \<noteq> CHR ''+'' \<and> hd rest \<noteq> CHR ''-'' \<and> \<not> isJsonSpace (hd rest))"
  using assms
  by (auto simp: delimited_def isDigit_def isRadixDigit_def digitValue_def isJsonSpace_def)

lemma isDigit_zero: "isDigit CHR ''0''"
  by (simp add: isDigit_def isRadixDigit_def digitValue_def)

lemma digitsOf_append:
  assumes "delimited rest"
  shows "digitsOf (x @ rest) = digitsOf x"
proof (cases "list_all isDigit x")
  case True
  then have a: "\<forall>c \<in> set x. isDigit c"
    by (simp add: list_all_iff)
  have r: "takeWhile isDigit rest = []"
    using delimited_hd [OF assms] by (cases rest) auto
  from a have "takeWhile isDigit (x @ rest) = x @ takeWhile isDigit rest"
    by (intro takeWhile_append2) simp
  with r have 1: "digitsOf (x @ rest) = x"
    by (simp only: digitsOf_def append_Nil2)
  from a have 2: "digitsOf x = x"
    unfolding digitsOf_def by (simp only: takeWhile_eq_all_conv)
  from 1 2 show ?thesis by (simp only:)
next
  case False
  then obtain c where "c \<in> set x" "\<not> isDigit c"
    by (auto simp: list_all_iff)
  then show ?thesis
    by (simp add: digitsOf_def takeWhile_append1)
qed

lemma length_digitsOf: "length (digitsOf x) \<le> length x"
  by (simp add: digitsOf_def length_takeWhile_le)

lemma takeInt_append:
  assumes "delimited rest"
  shows "takeInt (x @ rest) = takeInt x"
proof (cases x)
  case Nil
  with delimited_hd [OF assms] isDigit_zero show ?thesis
    by (cases rest) (auto simp: takeInt_def)
next
  case (Cons c r)
  with digitsOf_append [OF assms, of x] show ?thesis
    by (simp add: takeInt_def)
qed

lemma takeFrac_append:
  assumes "delimited rest"
  shows "takeFrac (x @ rest) = takeFrac x"
proof (cases x)
  case Nil
  with delimited_hd [OF assms] show ?thesis
    by (cases rest) (auto simp: takeFrac_def)
next
  case (Cons c r)
  with digitsOf_append [OF assms, of r] show ?thesis
    by (simp add: takeFrac_def)
qed

lemma takeExp_append:
  assumes "delimited rest"
  shows "takeExp (x @ rest) = takeExp x"
proof (cases x)
  case Nil
  with delimited_hd [OF assms] show ?thesis
    by (cases rest) (auto simp: takeExp_def)
next
  case (Cons c r)
  show ?thesis
  proof (cases r)
    case Nil
    with Cons delimited_hd [OF assms] digitsOf_append [OF assms, of "[]"] show ?thesis
      by (cases rest) (auto simp: takeExp_def Let_def)
  next
    case (Cons d r')
    with \<open>x = c # r\<close> digitsOf_append [OF assms, of r] digitsOf_append [OF assms, of r']
    show ?thesis
      by (simp add: takeExp_def Let_def)
  qed
qed

lemma takeInt_le: "takeInt x = Some i \<Longrightarrow> i \<le> length x \<and> 0 < i"
  using length_digitsOf [of x]
  by (cases x) (auto simp: takeInt_def digitsOf_def split: if_splits)

lemma takeFrac_le: "takeFrac x = Some f \<Longrightarrow> f \<le> length x"
  using length_digitsOf [of "tl x"]
  by (cases x) (auto simp: takeFrac_def split: if_splits)

lemma takeExp_le: "takeExp x = Some e \<Longrightarrow> e \<le> length x"
proof (cases x)
  case Nil
  assume "takeExp x = Some e"
  with Nil show ?thesis by (simp add: takeExp_def)
next
  case (Cons c r)
  assume e: "takeExp x = Some e"
  let ?k = "if take 1 r = ''+'' \<or> take 1 r = ''-'' then 1 else 0 :: nat"
  have "?k \<le> length r" by (cases r) auto
  moreover have "length (digitsOf (drop ?k r)) \<le> length r - ?k"
    using length_digitsOf [of "drop ?k r"] by simp
  ultimately have "1 + ?k + length (digitsOf (drop ?k r)) \<le> length x"
    using Cons by simp
  with e Cons show ?thesis
    by (auto simp: takeExp_def Let_def split: if_splits)
qed

lemma numberLength_append:
  assumes "validNumber lit" and "delimited rest"
  shows "numberLength (lit @ rest) = Some (length lit)"
proof -
  let ?k = "if take 1 lit = ''-'' then 1 else 0 :: nat"
  from assms(1) obtain i f e where
    i: "takeInt (drop ?k lit) = Some i" and
    f: "takeFrac (drop (?k + i) lit) = Some f" and
    e: "takeExp (drop (?k + i + f) lit) = Some e" and
    n: "?k + i + f + e = length lit"
    by (auto simp: validNumber_def numberLength_def Let_def split: option.splits)
  from takeInt_le [OF i] have lit: "lit \<noteq> []" by auto
  then have k: "(if take 1 (lit @ rest) = ''-'' then 1 else 0 :: nat) = ?k"
    by (cases lit) auto
  have kl: "?k \<le> length lit" using lit by (cases lit) auto
  have il: "?k + i \<le> length lit" using takeInt_le [OF i] kl by auto
  have fl: "?k + i + f \<le> length lit" using takeFrac_le [OF f] il by auto
  have d: "drop ?k (lit @ rest) = drop ?k lit @ rest"
    "drop (?k + i) (lit @ rest) = drop (?k + i) lit @ rest"
    "drop (?k + i + f) (lit @ rest) = drop (?k + i + f) lit @ rest"
    using kl il fl by simp_all
  show ?thesis
    unfolding numberLength_def k Let_def
    using i f e n
    by (simp only: d takeInt_append [OF assms(2)] takeFrac_append [OF assms(2)]
        takeExp_append [OF assms(2)] option.case)
qed

lemma takeNumber_append:
  assumes "validNumber lit" and "delimited rest"
  shows "takeNumber (lit @ rest) = Some (lit, rest)"
  by (simp add: takeNumber_def numberLength_append [OF assms])

lemma validNumber_hd:
  assumes "validNumber lit"
  shows "lit \<noteq> [] \<and> (hd lit = CHR ''-'' \<or> isDigit (hd lit))"
proof -
  let ?k = "if take 1 lit = ''-'' then 1 else 0 :: nat"
  from assms obtain i where i: "takeInt (drop ?k lit) = Some i"
    by (auto simp: validNumber_def numberLength_def Let_def split: option.splits)
  then show ?thesis
    by (cases lit) (auto simp: takeInt_def isDigit_def isRadixDigit_def digitValue_def
        split: if_splits list.splits)
qed

section \<open>Parsing the text of a value\<close>

primrec wellFormedJson :: "json \<Rightarrow> bool" where
  "wellFormedJson JNull \<longleftrightarrow> True"
| "wellFormedJson (JBool b) \<longleftrightarrow> True"
| "wellFormedJson (JNumber lit) \<longleftrightarrow> validNumber lit"
| "wellFormedJson (JString s) \<longleftrightarrow> True"
| "wellFormedJson (JArray vs) \<longleftrightarrow> list_all wellFormedJson vs"
| "wellFormedJson (JObject ms) \<longleftrightarrow> list_all (pred_prod (\<lambda>k. True) wellFormedJson) ms"

definition parsesBack :: "json \<Rightarrow> bool" where
  "parsesBack j \<longleftrightarrow>
    (\<forall>rest n. delimited rest \<longrightarrow> 2 * length (stringify j @ rest) < n \<longrightarrow>
       parseValue n (stringify j @ rest) = Some (j, rest))"

lemma skipSpace_Cons [simp]: "\<not> isJsonSpace c \<Longrightarrow> skipSpace (c # s) = c # s"
  by (simp add: skipSpace_def)

lemma skipSpace_Nil [simp]: "skipSpace [] = []"
  by (simp add: skipSpace_def)

lemma not_space [simp]:
  "\<not> isJsonSpace CHR ''{''" "\<not> isJsonSpace CHR ''}''" "\<not> isJsonSpace CHR ''[''"
  "\<not> isJsonSpace CHR '']''" "\<not> isJsonSpace CHR '',''" "\<not> isJsonSpace CHR '':''"
  "\<not> isJsonSpace quote" "\<not> isJsonSpace CHR ''t''" "\<not> isJsonSpace CHR ''f''"
  "\<not> isJsonSpace CHR ''n''"
  by (simp_all add: isJsonSpace_def quote_def)

lemma commaSep_Cons:
  "commaSep (x # xs) = x @ (if xs = [] then [] else CHR '','' # commaSep xs)"
  by (cases xs) simp_all

lemma stringify_hd:
  assumes "wellFormedJson j"
  shows "stringify j \<noteq> [] \<and> \<not> isJsonSpace (hd (stringify j)) \<and>
    hd (stringify j) \<noteq> CHR '']'' \<and> hd (stringify j) \<noteq> CHR ''}''"
proof (cases j)
  case (JNumber lit)
  with assms validNumber_hd [of lit] show ?thesis
    by (auto simp: isJsonSpace_def isDigit_def isRadixDigit_def digitValue_def)
next
  case (JBool b)
  then show ?thesis by (simp add: isJsonSpace_def)
next
  case (JString s)
  then show ?thesis by (simp add: quoteString_def quote_def isJsonSpace_def)
qed (simp_all add: isJsonSpace_def)

lemma parsesBackI:
  assumes "\<And>rest m. delimited rest \<Longrightarrow> 2 * length (stringify j @ rest) < Suc m \<Longrightarrow>
    parseValue (Suc m) (stringify j @ rest) = Some (j, rest)"
  shows "parsesBack j"
  unfolding parsesBack_def
proof (intro allI impI)
  fix rest n
  assume "delimited rest" and "2 * length (stringify j @ rest) < n"
  with assms [of rest "n - 1"] show "parseValue n (stringify j @ rest) = Some (j, rest)"
    by (cases n) simp_all
qed

lemma quote_neq [simp]:
  "quote \<noteq> CHR ''{''" "quote \<noteq> CHR ''[''" "quote \<noteq> CHR ''}''" "quote \<noteq> CHR '']''"
  by (simp_all add: quote_def)

lemma parsesBack_atom:
  "parsesBack JNull" "parsesBack (JBool b)" "parsesBack (JString s)"
  by (rule parsesBackI, simp add: quote_def quoteString_def isJsonSpace_def skipSpace_def
      parseChars_quoted [unfolded quote_def])+

definition membersText :: "(string \<times> json) list \<Rightarrow> string" where
  "membersText ms = commaSep (map member (map (map_prod id stringify) ms))"

lemma membersText_simps:
  "membersText [] = []"
  "membersText ((k, v) # ms) =
    quote # concat (map escapeChar k) @ quote # CHR '':'' # stringify v @
      (if ms = [] then [] else CHR '','' # membersText ms)"
  by (simp_all add: membersText_def commaSep_Cons member_def quoteString_def)

lemma stringify_JObject: "stringify (JObject ms) = CHR ''{'' # membersText ms @ ''}''"
  by (simp add: membersText_def)

lemma parsesBack_number:
  assumes "validNumber lit"
  shows "parsesBack (JNumber lit)"
  unfolding parsesBack_def
proof (intro allI impI)
  fix rest n
  assume d: "delimited rest" and n: "2 * length (stringify (JNumber lit) @ rest) < n"
  from validNumber_hd [OF assms] obtain c r where lit: "lit = c # r"
    and c: "c = CHR ''-'' \<or> isDigit c"
    by (cases lit) auto
  from c have "\<not> isJsonSpace c" "c \<noteq> CHR ''{''" "c \<noteq> CHR ''[''" "c \<noteq> quote"
    "c \<noteq> CHR ''t''" "c \<noteq> CHR ''f''" "c \<noteq> CHR ''n''"
    by (auto simp: isDigit_def isRadixDigit_def digitValue_def isJsonSpace_def quote_def)
  moreover from n obtain m where "n = Suc m" by (cases n) auto
  ultimately show "parseValue n (stringify (JNumber lit) @ rest) = Some (JNumber lit, rest)"
    using takeNumber_append [OF assms d] lit by simp
qed

lemma parseElements_stringify:
  assumes "vs \<noteq> []" and "\<And>v. v \<in> set vs \<Longrightarrow> parsesBack v"
    and "2 * length (commaSep (map stringify vs) @ CHR '']'' # rest) + 1 < n"
  shows "parseElements n (commaSep (map stringify vs) @ CHR '']'' # rest) = Some (vs, rest)"
  using assms
proof (induction vs arbitrary: n)
  case Nil
  then show ?case by simp
next
  case (Cons v vs)
  from Cons.prems(3) obtain m where n: "n = Suc m" by (cases n) auto
  let ?tail = "(if vs = [] then [] else CHR '','' # commaSep (map stringify vs)) @ CHR '']'' # rest"
  have s: "commaSep (map stringify (v # vs)) @ CHR '']'' # rest = stringify v @ ?tail"
    by (simp add: commaSep_Cons)
  have "delimited ?tail" by simp
  moreover have "2 * length (stringify v @ ?tail) < m"
    using Cons.prems(3) unfolding s n by simp
  moreover have "parsesBack v" using Cons.prems(2) by simp
  ultimately have v: "parseValue m (stringify v @ ?tail) = Some (v, ?tail)"
    unfolding parsesBack_def by blast
  show ?case
  proof (cases "vs = []")
    case True
    with v show ?thesis unfolding s n by simp
  next
    case False
    have "2 * length (commaSep (map stringify vs) @ CHR '']'' # rest) + 1 < m"
      using Cons.prems(3) False unfolding s n by simp
    with Cons.IH [OF False] Cons.prems(2)
    have "parseElements m (commaSep (map stringify vs) @ CHR '']'' # rest) = Some (vs, rest)"
      by simp
    with v False show ?thesis unfolding s n by simp
  qed
qed

lemma parseMembers_stringify:
  assumes "ms \<noteq> []" and "\<And>k v. (k, v) \<in> set ms \<Longrightarrow> parsesBack v"
    and "2 * length (membersText ms @ CHR ''}'' # rest) + 1 < n"
  shows "parseMembers n (membersText ms @ CHR ''}'' # rest) = Some (ms, rest)"
  using assms
proof (induction ms arbitrary: n)
  case Nil
  then show ?case by simp
next
  case (Cons kv ms)
  obtain k v where kv: "kv = (k, v)" by (cases kv)
  from Cons.prems(3) obtain m where n: "n = Suc m" by (cases n) auto
  let ?tail = "(if ms = [] then [] else CHR '','' # membersText ms) @ CHR ''}'' # rest"
  have s: "membersText (kv # ms) @ CHR ''}'' # rest =
      quote # concat (map escapeChar k) @ quote # CHR '':'' # stringify v @ ?tail"
    by (simp add: membersText_simps kv)
  have "delimited ?tail" by simp
  moreover have "2 * length (stringify v @ ?tail) < m"
    using Cons.prems(3) unfolding s n by simp
  moreover have "parsesBack v" using Cons.prems(2) [of k v] kv by simp
  ultimately have v: "parseValue m (stringify v @ ?tail) = Some (v, ?tail)"
    unfolding parsesBack_def by blast
  have k: "parseChars (concat (map escapeChar k) @ quote # CHR '':'' # stringify v @ ?tail) =
      Some (k, CHR '':'' # stringify v @ ?tail)"
    by (rule parseChars_quoted)
  show ?case
  proof (cases "ms = []")
    case True
    with v k show ?thesis unfolding s n by (simp add: kv)
  next
    case False
    have "2 * length (membersText ms @ CHR ''}'' # rest) + 1 < m"
      using Cons.prems(3) False unfolding s n by simp
    moreover have "\<And>k v. (k, v) \<in> set ms \<Longrightarrow> parsesBack v"
      using Cons.prems(2) by auto
    ultimately
    have "parseMembers m (membersText ms @ CHR ''}'' # rest) = Some (ms, rest)"
      by (intro Cons.IH [OF False])
    with v k False show ?thesis unfolding s n by (simp add: kv)
  qed
qed

lemma parsesBack_array:
  assumes "\<And>v. v \<in> set vs \<Longrightarrow> wellFormedJson v \<and> parsesBack v"
  shows "parsesBack (JArray vs)"
  unfolding parsesBack_def
proof (intro allI impI)
  fix rest n
  assume n: "2 * length (stringify (JArray vs) @ rest) < n"
  then obtain m where m: "n = Suc m" by (cases n) auto
  show "parseValue n (stringify (JArray vs) @ rest) = Some (JArray vs, rest)"
  proof (cases vs)
    case Nil
    then show ?thesis by (simp add: m)
  next
    case (Cons v vs')
    let ?body = "commaSep (map stringify vs) @ CHR '']'' # rest"
    from assms [of v] Cons stringify_hd [of v] have "?body \<noteq> []"
      "\<not> isJsonSpace (hd ?body)" "hd ?body \<noteq> CHR '']''"
      by (simp_all add: commaSep_Cons)
    then have h: "take 1 (skipSpace ?body) \<noteq> '']''"
      by (cases ?body) auto
    have "parseElements m ?body = Some (vs, rest)"
      using assms Cons n m by (intro parseElements_stringify) simp_all
    with h show ?thesis by (simp add: m)
  qed
qed

lemma parsesBack_object:
  assumes "\<And>k v. (k, v) \<in> set ms \<Longrightarrow> parsesBack v"
  shows "parsesBack (JObject ms)"
proof (rule parsesBackI)
  fix rest m
  assume "2 * length (stringify (JObject ms) @ rest) < Suc m"
  then have n: "2 * length (membersText ms @ CHR ''}'' # rest) + 1 < m"
    by (simp only: stringify_JObject) simp
  show "parseValue (Suc m) (stringify (JObject ms) @ rest) = Some (JObject ms, rest)"
    unfolding stringify_JObject
  proof (cases ms)
    case Nil
    then show "parseValue (Suc m) ((CHR ''{'' # membersText ms @ ''}'') @ rest) =
        Some (JObject ms, rest)"
      by (simp add: membersText_simps)
  next
    case (Cons kv ms')
    let ?body = "membersText ms @ CHR ''}'' # rest"
    obtain k v where "kv = (k, v)" by (cases kv)
    with Cons obtain r where "?body = quote # r"
      by (simp add: membersText_simps)
    then have h: "take 1 (skipSpace ?body) \<noteq> ''}''"
      by (simp add: quote_def isJsonSpace_def skipSpace_def)
    have "parseMembers m ?body = Some (ms, rest)"
      using assms Cons n by (intro parseMembers_stringify) simp_all
    with h show "parseValue (Suc m) ((CHR ''{'' # membersText ms @ ''}'') @ rest) =
        Some (JObject ms, rest)"
      by simp
  qed
qed

lemma wellFormed_parsesBack: "wellFormedJson j \<Longrightarrow> parsesBack j"
proof (induction j)
  case (JNumber lit)
  then show ?case by (simp add: parsesBack_number)
next
  case (JArray vs)
  then show ?case by (intro parsesBack_array) (auto simp: list_all_iff)
next
  case (JObject ms)
  then show ?case
    by (intro parsesBack_object) (fastforce simp: list_all_iff)
qed (simp_all add: parsesBack_atom)

lemma parsesBackD:
  "parsesBack j \<Longrightarrow> delimited rest \<Longrightarrow> 2 * length (stringify j @ rest) < n \<Longrightarrow>
    parseValue n (stringify j @ rest) = Some (j, rest)"
  by (simp add: parsesBack_def)

lemma jsonParse_stringify:
  assumes "wellFormedJson j"
  shows "jsonParse (stringify j) = Some j"
proof -
  have "parseValue (2 * length (stringify j) + 2) (stringify j @ []) = Some (j, [])"
    by (rule parsesBackD [OF wellFormed_parsesBack [OF assms]]) simp_all
  then show ?thesis
    unfolding jsonParse_def by (simp only: append_Nil2 option.case prod.case skipSpace_Nil refl if_True)
qed

end
