(* ===== verification/Contract_Interactions.thy ===== *)
theory Contract_Interactions
  imports Identity_Ledger Zk_Proofs JS_JSON
begin

text \<open>
  The library src/unnamed/part_002 (imported by the pages as
  \<^verbatim>\<open>@/lib/contract-interactions\<close>): the three functions through which the pages reach
  the contract of \<open>Identity_Ledger\<close>. Each function takes the state of the contract
  and gives the value it returns, or the message of the error it throws;
  \<open>storeIdentityProof\<close> gives the state after its transaction. The library \<^verbatim>\<open>ethers\<close> is
  the record \<open>ethers\<close>: the account a signer signs for, the text
  \<^verbatim>\<open>signer.getAddress()\<close> gives, and the address that an argument of type
  \<^verbatim>\<open>address\<close> is read as. A call reaches the contract (no failure of the network),
  and a transaction is mined when it is sent, in a block of the time given. The
  arguments of \<open>verifyIdentityProof\<close> are JSON values, since the verify page passes
  what it has parsed: \<^verbatim>\<open>ethers\<close> refuses a proof id or an address that is no string.

  The lemmas show when a proof is stored, that what is stored is read back by
  \<open>getUserIdentity_lib\<close> and verified by \<open>verifyIdentityProof\<close>, which answers a
  verification gets on every branch, and that the liveness flag belongs to the
  proof id and not to the user.
\<close>

section \<open>The library of the chain\<close>

record 's ethers =
  account :: "'s \<Rightarrow> address"
  getAddress :: "'s \<Rightarrow> string"
  resolveAddress :: "string \<Rightarrow> address option"

fun stringArg :: "json \<Rightarrow> string option" where
  "stringArg (JString s) = Some s"
| "stringArg v = None"

section \<open>Storing a proof\<close>

definition storeFailed :: string where
  "storeFailed = ''Failed to store proof on blockchain''"

definition proofDataJson :: "zkProof \<Rightarrow> json" where
  "proofDataJson proof =
    JObject [(''pi_a'', JArray (map JString (pi_a proof))),
             (''pi_b'', JArray (map (\<lambda>row. JArray (map JString row)) (pi_b proof))),
             (''pi_c'', JArray (map JString (pi_c proof))),
             (''livenessVerified'', JBool (publicLivenessVerified proof \<or> False))]"

definition storeIdentityProof ::
  "'s ethers \<Rightarrow> uint256 \<Rightarrow> 's \<Rightarrow> zkProof \<Rightarrow> ledger \<Rightarrow> string + ledger" where
  "storeIdentityProof eth blockTime s proof st =
    (let proofDataObj = proofDataJson proof
     in case storeProof \<lparr>sender = account eth s, blockTimestamp = blockTime\<rparr>
               (proofId proof) (commitment proof) (publicIsAdult proof)
               (stringify proofDataObj) st of
          Inl revert \<Rightarrow> Inl storeFailed
        | Inr tx \<Rightarrow> Inr tx)"

section \<open>Reading an identity\<close>

record userIdentity =
  uProofId :: string
  uCommitment :: string
  uIsAdult :: bool
  uLivenessVerified :: bool
  uTimestamp :: "int option"

definition getFailed :: string where
  "getFailed = ''Failed to get user identity from blockchain''"

definition readLiveness :: "string \<Rightarrow> bool" where
  "readLiveness proofDataStr =
    (case jsonParse proofDataStr of
       None \<Rightarrow> False
     | Some parsedProofData \<Rightarrow>
         (case parsedProofData of
            JNull \<Rightarrow> False
          | _ \<Rightarrow> truthy (getProp parsedProofData ''livenessVerified'')))"

definition toDate :: "uint256 \<Rightarrow> int option" where
  "toDate seconds =
    (if unat seconds * 1000 \<le> 8640000000000000 then Some (int (unat seconds) * 1000) else None)"

definition getUserIdentity_lib :: "'s ethers \<Rightarrow> 's \<Rightarrow> ledger \<Rightarrow> string + userIdentity option" where
  "getUserIdentity_lib eth s st =
    (case resolveAddress eth (getAddress eth s) of
       None \<Rightarrow> Inl getFailed
     | Some user \<Rightarrow>
         (case getUserIdentity user st of
            (pid, com, adult, seconds) \<Rightarrow>
              if pid = [] then Inr None
              else
                Inr (Some \<lparr>uProofId = pid, uCommitment = com, uIsAdult = adult,
                           uLivenessVerified = readLiveness (getProofData pid st),
                           uTimestamp = toDate seconds\<rparr>)))"

section \<open>Verifying a proof\<close>

record verification =
  verified :: bool
  vtype :: json
  message :: string

definition verifyFailed :: string where
  "verifyFailed = ''Failed to verify proof on blockchain''"

definition notVerified :: string where
  "notVerified = ''The proof could not be verified. It may be invalid or expired.''"

definition ageMessage :: "bool \<Rightarrow> bool \<Rightarrow> string" where
  "ageMessage adult live =
    ''The person is verified to be '' @ (if adult then ''over'' else ''under'') @
    '' 18 years old.'' @ (if live then '' (Liveness Verified)'' else '''')"

definition identityMessage :: "bool \<Rightarrow> string" where
  "identityMessage live =
    ''The identity has been successfully verified.'' @
    (if live then '' This identity includes liveness verification.'' else '''')"

definition verifyIdentityProof ::
  "'s ethers \<Rightarrow> json \<Rightarrow> json \<Rightarrow> json \<Rightarrow> ledger \<Rightarrow> string + verification" where
  "verifyIdentityProof eth proofIdArg userAddress verificationType st =
    (case (stringArg proofIdArg, Option.bind (stringArg userAddress) (resolveAddress eth)) of
       (Some pid, Some user) \<Rightarrow>
         (case verifyProof pid user st of
            Inl revert \<Rightarrow> Inl verifyFailed
          | Inr isValid \<Rightarrow>
              if \<not> isValid then
                Inr \<lparr>verified = False, vtype = verificationType, message = notVerified\<rparr>
              else
                (case getUserIdentity user st of
                   (p, c, adult, t) \<Rightarrow>
                     (let live = readLiveness (getProofData pid st)
                      in if verificationType = JString ''age'' then
                           Inr \<lparr>verified = True, vtype = JString ''age'',
                                message = ageMessage adult live\<rparr>
                         else
                           Inr \<lparr>verified = True, vtype = JString ''identity'',
                                message = identityMessage live\<rparr>)))
     | _ \<Rightarrow> Inl verifyFailed)"

lemmas contract_defs =
  storeFailed_def proofDataJson_def storeIdentityProof_def getFailed_def readLiveness_def
  toDate_def getUserIdentity_lib_def verifyFailed_def notVerified_def ageMessage_def
  identityMessage_def verifyIdentityProof_def

section \<open>The proof data\<close>

lemma wellFormed_strings [simp]: "list_all wellFormedJson (map JString xs)"
  by (simp add: list_all_iff)

lemma wellFormed_proofDataJson [simp]: "wellFormedJson (proofDataJson proof)"
  by (simp add: proofDataJson_def list_all_iff)

lemma jsonParse_proofDataJson [simp]:
  "jsonParse (stringify (proofDataJson proof)) = Some (proofDataJson proof)"
  by (simp add: jsonParse_stringify)

lemma readLiveness_proofDataJson [simp]:
  "readLiveness (stringify (proofDataJson proof)) = publicLivenessVerified proof"
  by (simp add: readLiveness_def) (simp add: proofDataJson_def)

section \<open>Storing\<close>

lemma storeIdentityProof_Inr_iff:
  "(\<exists>st'. storeIdentityProof eth t s proof st = Inr st') \<longleftrightarrow> proofId proof \<noteq> []"
  by (simp add: storeIdentityProof_def storeProof_def)

lemma storeIdentityProof_Inl:
  "storeIdentityProof eth t s proof st = Inl e \<longleftrightarrow> proofId proof = [] \<and> e = storeFailed"
  by (auto simp: storeIdentityProof_def storeProof_def)

lemma storeIdentityProof_state:
  assumes "storeIdentityProof eth t s proof st = Inr st'"
  shows "userIdentities st' (account eth s) =
      \<lparr>idProofId = proofId proof, idCommitment = commitment proof,
       idIsAdult = publicIsAdult proof, idTimestamp = t\<rparr>"
    and "proofData st' (proofId proof) = stringify (proofDataJson proof)"
    and "proofId proof \<noteq> []"
    and "\<And>user. user \<noteq> account eth s \<Longrightarrow> userIdentities st' user = userIdentities st user"
    and "\<And>pid. pid \<noteq> proofId proof \<Longrightarrow> proofData st' pid = proofData st pid"
  using assms by (auto simp: storeIdentityProof_def storeProof_def split: if_splits)

lemma generateProofId_nonempty [simp]: "generateProofId env uid \<noteq> []"
  by (simp add: generateProofId_def)

lemma generateZkProof_proofId:
  "generateZkProof env poseidon data = Inr proof \<Longrightarrow> proofId proof \<noteq> []"
  by (auto simp: generateZkProof_def split: option.splits)

section \<open>Reading back\<close>

lemma getUserIdentity_lib_eq:
  assumes "resolveAddress eth (getAddress eth s) = Some user"
  shows "getUserIdentity_lib eth s st =
    (let i = userIdentities st user
     in if idProofId i = [] then Inr None
        else Inr (Some \<lparr>uProofId = idProofId i, uCommitment = idCommitment i,
                         uIsAdult = idIsAdult i,
                         uLivenessVerified = readLiveness (proofData st (idProofId i)),
                         uTimestamp = toDate (idTimestamp i)\<rparr>))"
  using assms by (simp add: getUserIdentity_lib_def getUserIdentity_def getProofData_def Let_def)

lemma verifyIdentityProof_eq:
  assumes "resolveAddress eth a = Some user"
  shows "verifyIdentityProof eth (JString pid) (JString a) ty st =
    (let i = userIdentities st user
     in if idProofId i = [] then Inl verifyFailed
        else if idProofId i \<noteq> pid then
          Inr \<lparr>verified = False, vtype = ty, message = notVerified\<rparr>
        else if ty = JString ''age'' then
          Inr \<lparr>verified = True, vtype = JString ''age'',
               message = ageMessage (idIsAdult i) (readLiveness (proofData st pid))\<rparr>
        else
          Inr \<lparr>verified = True, vtype = JString ''identity'',
               message = identityMessage (readLiveness (proofData st pid))\<rparr>)"
  using assms
  by (simp add: verifyIdentityProof_def verifyProof_eq getUserIdentity_def getProofData_def
      Let_def)

lemma verifyIdentityProof_Inl:
  "verifyIdentityProof eth p a ty st = Inl e \<Longrightarrow> e = verifyFailed"
  by (auto simp: verifyIdentityProof_def verifyProof_eq getUserIdentity_def Let_def
      split: option.splits if_splits prod.splits)

lemma verifyIdentityProof_not_string:
  "stringArg p = None \<or> stringArg a = None \<Longrightarrow>
    verifyIdentityProof eth p a ty st = Inl verifyFailed"
  by (auto simp: verifyIdentityProof_def split: option.splits)

lemma getUserIdentity_lib_stored:
  assumes "storeIdentityProof eth t s proof st = Inr st'"
    and "resolveAddress eth (getAddress eth s) = Some (account eth s)"
  shows "getUserIdentity_lib eth s st' =
    Inr (Some \<lparr>uProofId = proofId proof, uCommitment = commitment proof,
                uIsAdult = publicIsAdult proof,
                uLivenessVerified = publicLivenessVerified proof, uTimestamp = toDate t\<rparr>)"
  using storeIdentityProof_state [OF assms(1)]
  by (simp add: getUserIdentity_lib_eq [OF assms(2)])

lemma verifyIdentityProof_stored:
  assumes "storeIdentityProof eth t s proof st = Inr st'"
    and "resolveAddress eth a = Some (account eth s)"
  shows "verifyIdentityProof eth (JString (proofId proof)) (JString a) ty st' =
    Inr (if ty = JString ''age''
         then \<lparr>verified = True, vtype = JString ''age'',
               message = ageMessage (publicIsAdult proof) (publicLivenessVerified proof)\<rparr>
         else \<lparr>verified = True, vtype = JString ''identity'',
               message = identityMessage (publicLivenessVerified proof)\<rparr>)"
  using storeIdentityProof_state [OF assms(1)]
  by (simp add: verifyIdentityProof_eq [OF assms(2)])

section \<open>A sample chain\<close>

definition sampleEthers :: "string ethers" where
  "sampleEthers =
    \<lparr>account = (\<lambda>s. if s = ''0xA'' then 10 else 11),
     getAddress = (\<lambda>s. s),
     resolveAddress = (\<lambda>a. if a = ''0xA'' then Some 10 else if a = ''0xB'' then Some 11 else None)\<rparr>"

definition sampleProof :: zkProof where
  "sampleProof =
    \<lparr>proofId = ''proof_7_1700000000000'', commitment = ''1234567890'', publicIsAdult = True,
     publicLivenessVerified = True, pi_a = [''1234567890'', []],
     pi_b = [[[], []], [[], []]], pi_c = [[], []]\<rparr>"

definition sampleChain :: ledger where
  "sampleChain =
    execute (StoreProof \<lparr>sender = 10, blockTimestamp = 1700000000\<rparr> (proofId sampleProof)
      (commitment sampleProof) (publicIsAdult sampleProof)
      (stringify (proofDataJson sampleProof))) deployed"

lemma sampleEthers_simps [simp]:
  "account sampleEthers ''0xA'' = 10" "getAddress sampleEthers s = s"
  "resolveAddress sampleEthers ''0xA'' = Some 10" "resolveAddress sampleEthers ''0xB'' = Some 11"
  by (simp_all add: sampleEthers_def)

lemma sampleProof_simps [simp]:
  "proofId sampleProof = ''proof_7_1700000000000''" "commitment sampleProof = ''1234567890''"
  "publicIsAdult sampleProof" "publicLivenessVerified sampleProof"
  by (simp_all add: sampleProof_def)

lemma sample_store:
  "storeIdentityProof sampleEthers 1700000000 ''0xA'' sampleProof deployed = Inr sampleChain"
  by (simp add: storeIdentityProof_def sampleChain_def execute_StoreProof storeProof_def)

lemma sampleChain_reachable: "reachableLedger sampleChain"
  unfolding sampleChain_def by (intro reachableLedger.step reachableLedger.init)

section \<open>Properties\<close>

text \<open>
  An identity that \<open>storeIdentityProof\<close> has stored for a signer is the one
  \<open>getUserIdentity_lib\<close> reads for that signer: the proof id, the commitment, the adult
  flag and the liveness flag of the proof, the last one through the JSON text of the
  proof data, and the time of the block as a date.
\<close>

theorem stored_identity_read_back:
  assumes "storeIdentityProof eth t s proof st = Inr st'"
    and "resolveAddress eth (getAddress eth s) = Some (account eth s)"
  shows "getUserIdentity_lib eth s st' =
    Inr (Some \<lparr>uProofId = proofId proof, uCommitment = commitment proof,
                uIsAdult = publicIsAdult proof,
                uLivenessVerified = publicLivenessVerified proof, uTimestamp = toDate t\<rparr>)"
  by (rule getUserIdentity_lib_stored [OF assms])

theorem stored_identity_read_back_witness:
  "getUserIdentity_lib sampleEthers ''0xA'' sampleChain =
    Inr (Some \<lparr>uProofId = ''proof_7_1700000000000'', uCommitment = ''1234567890'',
                uIsAdult = True, uLivenessVerified = True,
                uTimestamp = Some 1700000000000\<rparr>)"
  using stored_identity_read_back [OF sample_store] by (simp add: toDate_def)

text \<open>
  Claim C17. A proof that \<open>storeIdentityProof\<close> has stored for a signer is verified for
  the address of that signer: an age verification tells whether the person is over
  18 and an identity verification that the identity is verified, each with the note
  on liveness when the proof carries the flag; every type other than \<^verbatim>\<open>"age"\<close> is
  answered as an identity verification.
\<close>

theorem stored_proof_verifies:
  assumes "storeIdentityProof eth t s proof st = Inr st'"
    and "resolveAddress eth a = Some (account eth s)"
  shows "verifyIdentityProof eth (JString (proofId proof)) (JString a) ty st' =
    Inr (if ty = JString ''age''
         then \<lparr>verified = True, vtype = JString ''age'',
               message = ageMessage (publicIsAdult proof) (publicLivenessVerified proof)\<rparr>
         else \<lparr>verified = True, vtype = JString ''identity'',
               message = identityMessage (publicLivenessVerified proof)\<rparr>)"
  by (rule verifyIdentityProof_stored [OF assms])

theorem stored_proof_verifies_witness:
  "verifyIdentityProof sampleEthers (JString ''proof_7_1700000000000'') (JString ''0xA'')
     (JString ''age'') sampleChain =
    Inr \<lparr>verified = True, vtype = JString ''age'',
         message = ''The person is verified to be over 18 years old. (Liveness Verified)''\<rparr>"
  using stored_proof_verifies [OF sample_store, of "''0xA''" "JString ''age''"]
  by (simp add: ageMessage_def)

text \<open>
  Claim C25. A verification for an address that has no identity does not answer that
  the proof could not be verified: the contract reverts, and \<open>verifyIdentityProof\<close>
  throws the error of a failed call. The answer \<open>notVerified\<close> is given exactly when
  the address has an identity with another proof id.
\<close>

theorem verifyIdentityProof_unknown_user:
  assumes "resolveAddress eth a = Some user"
  shows "(idProofId (userIdentities st user) = [] \<longrightarrow>
      verifyIdentityProof eth (JString pid) (JString a) ty st = Inl verifyFailed) \<and>
    (verifyIdentityProof eth (JString pid) (JString a) ty st =
        Inr \<lparr>verified = False, vtype = ty, message = notVerified\<rparr> \<longleftrightarrow>
      idProofId (userIdentities st user) \<noteq> [] \<and> idProofId (userIdentities st user) \<noteq> pid)"
  by (auto simp: verifyIdentityProof_eq [OF assms] Let_def)

theorem verifyIdentityProof_unknown_user_witness:
  "verifyIdentityProof sampleEthers (JString ''proof_7_1700000000000'') (JString ''0xB'')
     (JString ''age'') sampleChain = Inl verifyFailed \<and>
   verifyIdentityProof sampleEthers (JString ''proof_8'') (JString ''0xA'')
     (JString ''age'') sampleChain =
     Inr \<lparr>verified = False, vtype = JString ''age'', message = notVerified\<rparr>"
  using verifyIdentityProof_unknown_user [of sampleEthers "''0xB''" 11 sampleChain
      "''proof_7_1700000000000''" "JString ''age''"]
    verifyIdentityProof_unknown_user [of sampleEthers "''0xA''" 10 sampleChain
      "''proof_8''" "JString ''age''"]
  by (simp add: sampleChain_def execute_StoreProof storeProof_def deployed_def emptyIdentity_def)

text \<open>
  Claim C26. The liveness flag of a verification is read from the proof data of the
  proof id, which any account may write: after another account has stored a proof
  of the same id, the verification of the first user reports the liveness flag of
  the second proof, while the adult flag stays the one of the first.
\<close>

theorem liveness_of_last_writer:
  assumes "storeIdentityProof eth t s proof st = Inr st1"
    and "storeIdentityProof eth t' s' proof' st1 = Inr st2"
    and "proofId proof' = proofId proof"
    and "account eth s' \<noteq> account eth s"
    and "resolveAddress eth a = Some (account eth s)"
  shows "verifyIdentityProof eth (JString (proofId proof)) (JString a) (JString ''age'') st2 =
    Inr \<lparr>verified = True, vtype = JString ''age'',
         message = ageMessage (publicIsAdult proof) (publicLivenessVerified proof')\<rparr>"
  using storeIdentityProof_state [OF assms(1)] storeIdentityProof_state [OF assms(2)] assms(3,4)
  by (simp add: verifyIdentityProof_eq [OF assms(5)])

theorem liveness_of_last_writer_witness:
  "verifyIdentityProof sampleEthers (JString ''proof_7_1700000000000'') (JString ''0xA'')
     (JString ''age'')
     (execute (StoreProof \<lparr>sender = 11, blockTimestamp = 1700000100\<rparr> (proofId sampleProof)
        (commitment sampleProof) False
        (stringify (proofDataJson (sampleProof\<lparr>publicIsAdult := False,
           publicLivenessVerified := False\<rparr>)))) sampleChain) =
    Inr \<lparr>verified = True, vtype = JString ''age'',
         message = ''The person is verified to be over 18 years old.''\<rparr>"
  using liveness_of_last_writer [OF sample_store, of 1700000100 "''0xB''"
      "sampleProof\<lparr>publicIsAdult := False, publicLivenessVerified := False\<rparr>" _ "''0xA''"]
  by (simp add: storeIdentityProof_def execute_def storeProof_def sampleEthers_def
      ageMessage_def)

end
