(* ===== verification/Dashboard.thy ===== *)
theory Dashboard
  imports Contract_Interactions Wallet_Provider
begin

text \<open>
  The page src/app/dashboard/page.tsx and the function \<open>generateQrCode\<close> of
  src/lib/qr-generator.ts: the page reads the identity of the signer of the wallet
  from the contract and draws two QR codes, one for a verification of the identity
  and one for a verification of the age. The text of a code is the JSON text of an
  object with the type of the verification, the proof id and the address of the
  wallet. The library that draws a code is the function \<open>toDataURL\<close>, from the text to
  the image or to no image when it fails. The state of the page is the record
  \<open>dashboardState\<close> with the number of error toasts raised; the wallet is the one of
  the rendering whose handler runs, and a handler runs to its end before the next event.

  The lemmas show what a load leaves in the state on every branch, that the two codes
  are drawn together, and which address and proof id the codes carry.
\<close>

section \<open>Drawing a code\<close>

definition generateQrFailed :: string where
  "generateQrFailed = ''Failed to generate QR code''"

definition generateQrCode :: "(string \<Rightarrow> 'img option) \<Rightarrow> json \<Rightarrow> string + 'img" where
  "generateQrCode toDataURL data =
    (let jsonData = stringify data
     in case toDataURL jsonData of
          None \<Rightarrow> Inl generateQrFailed
        | Some qrCodeDataUrl \<Rightarrow> Inr qrCodeDataUrl)"

definition qrPayload :: "string \<Rightarrow> string \<Rightarrow> string option \<Rightarrow> json" where
  "qrPayload ty pid addr =
    JObject [(''type'', JString ty), (''proofId'', JString pid),
             (''address'', case addr of None \<Rightarrow> JNull | Some a \<Rightarrow> JString a)]"

section \<open>State\<close>

record 'img dashboardState =
  isLoading :: bool
  identityData :: "userIdentity option"
  identityQr :: "'img option"
  ageQr :: "'img option"
  errorToasts :: nat

definition initialDashboard :: "'img dashboardState" where
  "initialDashboard =
    \<lparr>isLoading = False, identityData = None, identityQr = None, ageQr = None, errorToasts = 0\<rparr>"

section \<open>Loading the identity\<close>

definition loadFailed :: "'img dashboardState \<Rightarrow> 'img dashboardState" where
  "loadFailed st = st\<lparr>errorToasts := errorToasts st + 1, isLoading := False\<rparr>"

definition loadIdentityData ::
  "'s ethers \<Rightarrow> (string \<Rightarrow> 'img option) \<Rightarrow> ('p, 's) walletState \<Rightarrow> ledger \<Rightarrow>
    'img dashboardState \<Rightarrow> 'img dashboardState" where
  "loadIdentityData eth toDataURL w chain st =
    (case signer w of
       None \<Rightarrow> st
     | Some s \<Rightarrow>
         (let st1 = st\<lparr>isLoading := True\<rparr>
          in case getUserIdentity_lib eth s chain of
               Inl msg \<Rightarrow> loadFailed st1
             | Inr identity \<Rightarrow>
                 (let st2 = st1\<lparr>identityData := identity\<rparr>
                  in case identity of
                       None \<Rightarrow> st2\<lparr>isLoading := False\<rparr>
                     | Some i \<Rightarrow>
                         (case generateQrCode toDataURL
                                 (qrPayload ''identity'' (uProofId i) (address w)) of
                            Inl msg \<Rightarrow> loadFailed st2
                          | Inr identityQrCode \<Rightarrow>
                              (case generateQrCode toDataURL
                                      (qrPayload ''age'' (uProofId i) (address w)) of
                                 Inl msg \<Rightarrow> loadFailed st2
                               | Inr ageQrCode \<Rightarrow>
                                   st2\<lparr>identityQr := Some identityQrCode,
                                       ageQr := Some ageQrCode, isLoading := False\<rparr>)))))"

definition walletEffect ::
  "'s ethers \<Rightarrow> (string \<Rightarrow> 'img option) \<Rightarrow> ('p, 's) walletState \<Rightarrow> ledger \<Rightarrow>
    'img dashboardState \<Rightarrow> 'img dashboardState" where
  "walletEffect eth toDataURL w chain st =
    (if isConnected w \<and> signer w \<noteq> None then loadIdentityData eth toDataURL w chain st else st)"

section \<open>What the page shows\<close>

datatype 'img dashboardPanel =
    WalletNotConnectedPanel
  | LoadingPanel
  | NoIdentityFound
  | IdentityPanel userIdentity "'img option" "'img option"

definition dashboardView :: "bool \<Rightarrow> 'img dashboardState \<Rightarrow> 'img dashboardPanel" where
  "dashboardView walletConnected st =
    (if \<not> walletConnected then WalletNotConnectedPanel
     else if isLoading st then LoadingPanel
     else case identityData st of
            None \<Rightarrow> NoIdentityFound
          | Some i \<Rightarrow> IdentityPanel i (identityQr st) (ageQr st))"

definition livenessLabel :: "userIdentity \<Rightarrow> string \<times> string" where
  "livenessLabel i =
    (if uLivenessVerified i then ''Liveness Verified'' else ''Basic Identity'',
     if uLivenessVerified i
     then ''Your identity has enhanced security with liveness verification''
     else ''Your identity does not include liveness verification'')"

definition ageNote :: "userIdentity \<Rightarrow> string" where
  "ageNote i =
    ''This QR code contains a zero-knowledge proof that you are '' @
    (if uIsAdult i then ''over'' else ''under'') @
    '' 18 years old. It does not reveal your actual age or any other personal information.''"

definition copiedAddress :: "('p, 's) walletState \<Rightarrow> string" where
  "copiedAddress w = orElse (address w) (\<lambda>a. a = []) []"

section \<open>The page as a machine\<close>

datatype dashboardEvent = WalletChanged | RefreshClicked

fun available :: "('p, 's) walletState \<Rightarrow> 'img dashboardState \<Rightarrow> dashboardEvent \<Rightarrow> bool" where
  "available w st WalletChanged \<longleftrightarrow> True"
| "available w st RefreshClicked \<longleftrightarrow>
    (case dashboardView (isConnected w) st of IdentityPanel i a b \<Rightarrow> True | _ \<Rightarrow> False)"

fun perform ::
  "'s ethers \<Rightarrow> (string \<Rightarrow> 'img option) \<Rightarrow> ('p, 's) walletState \<Rightarrow> ledger \<Rightarrow>
    dashboardEvent \<Rightarrow> 'img dashboardState \<Rightarrow> 'img dashboardState" where
  "perform eth toDataURL w chain WalletChanged st = walletEffect eth toDataURL w chain st"
| "perform eth toDataURL w chain RefreshClicked st = loadIdentityData eth toDataURL w chain st"

inductive reachableDashboard ::
  "'s ethers \<Rightarrow> (string \<Rightarrow> 'img option) \<Rightarrow> 'img dashboardState \<Rightarrow> bool"
  for eth :: "'s ethers" and toDataURL :: "string \<Rightarrow> 'img option" where
  init: "reachableDashboard eth toDataURL initialDashboard"
| step: "reachableDashboard eth toDataURL st \<Longrightarrow>
    available (w :: (unit, 's) walletState) st ev \<Longrightarrow>
    reachableDashboard eth toDataURL (perform eth toDataURL w chain ev st)"

definition codesInv :: "'img dashboardState \<Rightarrow> bool" where
  "codesInv st \<longleftrightarrow> \<not> isLoading st \<and> (identityQr st = None \<longleftrightarrow> ageQr st = None)"

lemmas dashboard_defs =
  generateQrFailed_def generateQrCode_def qrPayload_def initialDashboard_def loadFailed_def
  loadIdentityData_def walletEffect_def dashboardView_def livenessLabel_def ageNote_def
  copiedAddress_def

section \<open>The codes\<close>

lemma wellFormed_qrPayload [simp]: "wellFormedJson (qrPayload ty pid addr)"
  by (cases addr) (simp_all add: qrPayload_def)

lemma jsonParse_qrPayload [simp]:
  "jsonParse (stringify (qrPayload ty pid addr)) = Some (qrPayload ty pid addr)"
  by (simp add: jsonParse_stringify)

lemma getProp_qrPayload [simp]:
  "getProp (qrPayload ty pid addr) ''type'' = Some (JString ty)"
  "getProp (qrPayload ty pid addr) ''proofId'' = Some (JString pid)"
  "getProp (qrPayload ty pid addr) ''address'' =
    Some (case addr of None \<Rightarrow> JNull | Some a \<Rightarrow> JString a)"
  by (simp_all add: qrPayload_def)

lemma generateQrCode_eq:
  "generateQrCode toDataURL data =
    (case toDataURL (stringify data) of None \<Rightarrow> Inl generateQrFailed | Some url \<Rightarrow> Inr url)"
  by (simp add: generateQrCode_def)

lemma codesInv_initial: "codesInv initialDashboard"
  by (simp add: codesInv_def initialDashboard_def)

lemma codesInv_load: "codesInv st \<Longrightarrow> codesInv (loadIdentityData eth toDataURL w chain st)"
  by (auto simp: codesInv_def loadIdentityData_def loadFailed_def Let_def
      split: option.splits sum.splits)

lemma reachable_codesInv: "reachableDashboard eth toDataURL st \<Longrightarrow> codesInv st"
proof (induction rule: reachableDashboard.induct)
  case init
  show ?case by (rule codesInv_initial)
next
  case (step st w ev chain)
  then show ?case
    by (cases ev) (simp_all add: codesInv_load walletEffect_def)
qed

lemma loadIdentityData_loaded:
  assumes "signer w = Some s"
    and "getUserIdentity_lib eth s chain = Inr (Some i)"
    and "toDataURL (stringify (qrPayload ''identity'' (uProofId i) (address w))) = Some a"
    and "toDataURL (stringify (qrPayload ''age'' (uProofId i) (address w))) = Some b"
  shows "loadIdentityData eth toDataURL w chain st =
    st\<lparr>isLoading := False, identityData := Some i, identityQr := Some a, ageQr := Some b\<rparr>"
  using assms by (simp add: loadIdentityData_def generateQrCode_eq)

lemma loadIdentityData_none:
  assumes "signer w = Some s" and "getUserIdentity_lib eth s chain = Inr None"
  shows "loadIdentityData eth toDataURL w chain st = st\<lparr>isLoading := False, identityData := None\<rparr>"
  using assms by (simp add: loadIdentityData_def)

end
