(* ===== verification/Verify_Page.thy ===== *)
theory Verify_Page
  imports Contract_Interactions Wallet_Provider
begin

text \<open>
  The page src/app/verify/page.tsx: the verifier scans the QR code of a user, the
  page parses its text, asks the contract through \<open>verifyIdentityProof\<close> and shows the
  answer. The state of the page is the record \<open>verifyState\<close> with the toasts it has
  raised; the wallet and the state of the contract are arguments of the handler,
  which runs to its end before the next event. The text of a toast that quotes the
  scanned type carries that value. \<open>isString\<close> is not part of the page: it states
  the type \<^verbatim>\<open>string\<close> that the page declares for the type of a result.

  The lemmas show the answer of the page on every branch of the handler, the type of
  the results it shows, and what the panel under a verified age says.
\<close>

section \<open>State\<close>

datatype toast =
    WalletNotConnected
  | VerificationSuccessful json
  | VerificationFailed
  | ErrorVerifying string

record verifyState =
  isProcessing :: bool
  verificationResult :: "verification option"
  toasts :: "toast list"

definition initialVerify :: verifyState where
  "initialVerify = \<lparr>isProcessing = False, verificationResult = None, toasts = []\<rparr>"

section \<open>The handler of a scan\<close>

definition invalidFormat :: string where
  "invalidFormat = ''Invalid QR code format. Please scan a valid identity verification QR code.''"

definition missingInformation :: string where
  "missingInformation = ''Invalid QR code data. Missing required verification information.''"

definition nullProperty :: string where
  "nullProperty = ''Cannot read properties of null (reading 'proofId')''"

definition property :: "json \<Rightarrow> string \<Rightarrow> json" where
  "property v k = (case getProp v k of None \<Rightarrow> JNull | Some x \<Rightarrow> x)"

definition readQrData :: "string \<Rightarrow> string + json" where
  "readQrData data =
    (case jsonParse data of
       None \<Rightarrow> Inl invalidFormat
     | Some qrData \<Rightarrow>
         (case qrData of
            JNull \<Rightarrow> Inl nullProperty
          | _ \<Rightarrow>
              if \<not> truthy (getProp qrData ''proofId'') \<or> \<not> truthy (getProp qrData ''address'')
                 \<or> \<not> truthy (getProp qrData ''type'')
              then Inl missingInformation
              else Inr qrData))"

definition verifyScanned :: "'s ethers \<Rightarrow> string \<Rightarrow> ledger \<Rightarrow> string + (json \<times> verification)" where
  "verifyScanned eth data chain =
    (case readQrData data of
       Inl msg \<Rightarrow> Inl msg
     | Inr qrData \<Rightarrow>
         (case verifyIdentityProof eth (property qrData ''proofId'') (property qrData ''address'')
                 (property qrData ''type'') chain of
            Inl msg \<Rightarrow> Inl msg
          | Inr result \<Rightarrow> Inr (property qrData ''type'', result)))"

definition handleQrCodeScanned_verify ::
  "'s ethers \<Rightarrow> 's option \<Rightarrow> ledger \<Rightarrow> string \<Rightarrow> verifyState \<Rightarrow> verifyState" where
  "handleQrCodeScanned_verify eth walletSigner chain data st =
    (case walletSigner of
       None \<Rightarrow> st\<lparr>toasts := toasts st @ [WalletNotConnected]\<rparr>
     | Some s \<Rightarrow>
         (let st1 = st\<lparr>isProcessing := True\<rparr>
          in case verifyScanned eth data chain of
               Inr (scannedType, result) \<Rightarrow>
                 st1\<lparr>toasts := toasts st1 @
                        [if verified result then VerificationSuccessful scannedType
                         else VerificationFailed],
                     verificationResult := Some result, isProcessing := False\<rparr>
             | Inl msg \<Rightarrow>
                 st1\<lparr>toasts := toasts st1 @
                        [ErrorVerifying (orElse (Some msg) (\<lambda>m. m = [])
                           ''There was an error verifying the proof. Please try again.'')],
                     verificationResult :=
                       Some \<lparr>verified = False, vtype = JString ''unknown'',
                             message = orElse (Some msg) (\<lambda>m. m = [])
                               ''Invalid QR code or proof data.''\<rparr>,
                     isProcessing := False\<rparr>))"

definition resetVerification :: "verifyState \<Rightarrow> verifyState" where
  "resetVerification st = st\<lparr>verificationResult := None\<rparr>"

section \<open>What the page shows\<close>

datatype verifyPanel = ConnectYourWallet | ResultPanel verification | ScannerPanel

definition verifyView :: "bool \<Rightarrow> verifyState \<Rightarrow> verifyPanel" where
  "verifyView walletConnected st =
    (if \<not> walletConnected then ConnectYourWallet
     else case verificationResult st of
            Some result \<Rightarrow> ResultPanel result
          | None \<Rightarrow> ScannerPanel)"

definition resultTitle :: "verification \<Rightarrow> string" where
  "resultTitle result = (if verified result then ''Verification Successful'' else ''Verification Failed'')"

definition resultNote :: "verification \<Rightarrow> string list" where
  "resultNote result =
    (if verified result \<and> vtype result = JString ''identity''
     then [''The identity has been verified without revealing any personal information.'']
     else []) @
    (if verified result \<and> vtype result = JString ''age''
     then [''The person is verified to be over 18 years old without revealing their actual age.'']
     else [])"

section \<open>The page as a machine\<close>

datatype verifyEvent = QrScanned string | VerifyAnother

fun offered :: "('p, 's) walletState \<Rightarrow> verifyState \<Rightarrow> verifyEvent \<Rightarrow> bool" where
  "offered w st (QrScanned data) \<longleftrightarrow> verifyView (isConnected w) st = ScannerPanel"
| "offered w st VerifyAnother \<longleftrightarrow> verificationResult st \<noteq> None"

fun answer ::
  "'s ethers \<Rightarrow> ('p, 's) walletState \<Rightarrow> ledger \<Rightarrow> verifyEvent \<Rightarrow> verifyState \<Rightarrow> verifyState" where
  "answer eth w chain (QrScanned data) st = handleQrCodeScanned_verify eth (signer w) chain data st"
| "answer eth w chain VerifyAnother st = resetVerification st"

inductive reachableVerify :: "'s ethers \<Rightarrow> verifyState \<Rightarrow> bool" for eth :: "'s ethers" where
  init: "reachableVerify eth initialVerify"
| step: "reachableVerify eth st \<Longrightarrow> offered (w :: (unit, 's) walletState) st ev \<Longrightarrow>
    reachableVerify eth (answer eth w chain ev st)"

fun isString :: "json \<Rightarrow> bool" where
  "isString (JString s) \<longleftrightarrow> True"
| "isString v \<longleftrightarrow> False"

definition resultInv :: "verifyState \<Rightarrow> bool" where
  "resultInv st \<longleftrightarrow>
    \<not> isProcessing st \<and>
    (case verificationResult st of
       None \<Rightarrow> True
     | Some result \<Rightarrow>
         message result \<noteq> [] \<and>
         (if verified result then vtype result \<in> {JString ''age'', JString ''identity''}
          else vtype result = JString ''unknown'' \<or>
               message result = notVerified \<and> truthy (Some (vtype result))))"

lemmas verify_defs =
  initialVerify_def invalidFormat_def missingInformation_def nullProperty_def property_def
  readQrData_def verifyScanned_def handleQrCodeScanned_verify_def resetVerification_def
  verifyView_def resultTitle_def resultNote_def

section \<open>Reading the text of a code\<close>

lemma readQrData_Inr:
  "readQrData data = Inr q \<longleftrightarrow>
    jsonParse data = Some q \<and> truthy (getProp q ''proofId'') \<and> truthy (getProp q ''address'')
      \<and> truthy (getProp q ''type'')"
  by (cases "jsonParse data"; cases "the (jsonParse data)")
    (auto simp: readQrData_def)

lemma readQrData_Inl:
  "readQrData data = Inl msg \<Longrightarrow> msg \<in> {invalidFormat, nullProperty, missingInformation}"
  by (auto simp: readQrData_def split: option.splits json.splits if_splits)

lemma property_truthy: "truthy (getProp q k) \<Longrightarrow> truthy (Some (property q k))"
  by (cases "getProp q k") (simp_all add: property_def)

lemma messages_nonempty [simp]:
  "invalidFormat \<noteq> []" "nullProperty \<noteq> []" "missingInformation \<noteq> []" "verifyFailed \<noteq> []"
  "notVerified \<noteq> []" "ageMessage a l \<noteq> []" "identityMessage l \<noteq> []"
  "[] \<noteq> invalidFormat" "[] \<noteq> nullProperty" "[] \<noteq> missingInformation"
  "[] \<noteq> verifyFailed"
  by (simp_all add: invalidFormat_def nullProperty_def missingInformation_def verifyFailed_def
      notVerified_def ageMessage_def identityMessage_def)

lemma verifyIdentityProof_Inr:
  assumes "verifyIdentityProof eth p a ty st = Inr result"
  shows "message result \<noteq> []"
    and "verified result \<Longrightarrow> vtype result \<in> {JString ''age'', JString ''identity''}"
    and "\<not> verified result \<Longrightarrow> vtype result = ty \<and> message result = notVerified"
  using assms
  by (auto simp: verifyIdentityProof_def getUserIdentity_def Let_def
      split: option.splits sum.splits if_splits)

lemma verifyScanned_Inl: "verifyScanned eth data chain = Inl msg \<Longrightarrow> msg \<noteq> []"
  by (auto simp: verifyScanned_def split: sum.splits
      dest!: readQrData_Inl verifyIdentityProof_Inl)

lemma verifyScanned_Inr:
  assumes "verifyScanned eth data chain = Inr (t, result)"
  shows "message result \<noteq> []"
    and "verified result \<Longrightarrow> vtype result \<in> {JString ''age'', JString ''identity''}"
    and "\<not> verified result \<Longrightarrow> vtype result = t \<and> message result = notVerified \<and> truthy (Some t)"
proof -
  from assms obtain q where q: "readQrData data = Inr q" and t: "t = property q ''type''"
    and v: "verifyIdentityProof eth (property q ''proofId'') (property q ''address'') t chain
      = Inr result"
    by (auto simp: verifyScanned_def split: sum.splits)
  from q have "truthy (Some t)"
    unfolding t by (intro property_truthy) (simp add: readQrData_Inr)
  with verifyIdentityProof_Inr [OF v]
  show "message result \<noteq> []"
    and "verified result \<Longrightarrow> vtype result \<in> {JString ''age'', JString ''identity''}"
    and "\<not> verified result \<Longrightarrow> vtype result = t \<and> message result = notVerified \<and> truthy (Some t)"
    by simp_all
qed

section \<open>The results of the page\<close>

lemma resultInv_initial: "resultInv initialVerify"
  by (simp add: resultInv_def initialVerify_def)

lemma resultInv_reset: "resultInv st \<Longrightarrow> resultInv (resetVerification st)"
  by (simp add: resultInv_def resetVerification_def)

lemma resultInv_handle:
  assumes "resultInv st"
  shows "resultInv (handleQrCodeScanned_verify eth walletSigner chain data st)"
proof (cases walletSigner)
  case None
  with assms show ?thesis
    by (simp add: handleQrCodeScanned_verify_def resultInv_def)
next
  case (Some s)
  show ?thesis
  proof (cases "verifyScanned eth data chain")
    case (Inl msg)
    with Some verifyScanned_Inl [OF Inl] show ?thesis
      by (simp add: handleQrCodeScanned_verify_def resultInv_def orElse_def)
  next
    case (Inr r)
    obtain t result where r: "r = (t, result)" by (cases r)
    from verifyScanned_Inr [OF Inr [unfolded r]] Some Inr r show ?thesis
      by (simp add: handleQrCodeScanned_verify_def resultInv_def)
  qed
qed

lemma reachable_resultInv: "reachableVerify eth st \<Longrightarrow> resultInv st"
proof (induction rule: reachableVerify.induct)
  case init
  show ?case by (rule resultInv_initial)
next
  case (step st w ev chain)
  then show ?case
    by (cases ev) (simp_all add: resultInv_handle resultInv_reset)
qed

section \<open>The answer to a scan\<close>

lemma handle_result:
  assumes "verifyScanned eth data chain = Inr (t, result)"
  shows "handleQrCodeScanned_verify eth (Some s) chain data st =
    st\<lparr>toasts := toasts st @
          [if verified result then VerificationSuccessful t else VerificationFailed],
       verificationResult := Some result, isProcessing := False\<rparr>"
  using assms by (simp add: handleQrCodeScanned_verify_def)

lemma handle_error:
  assumes "verifyScanned eth data chain = Inl msg" and "msg \<noteq> []"
  shows "handleQrCodeScanned_verify eth (Some s) chain data st =
    st\<lparr>toasts := toasts st @ [ErrorVerifying msg],
       verificationResult := Some \<lparr>verified = False, vtype = JString ''unknown'', message = msg\<rparr>,
       isProcessing := False\<rparr>"
  using assms by (simp add: handleQrCodeScanned_verify_def orElse_def)

lemma readQrData_stringify:
  assumes "wellFormedJson q"
  shows "readQrData (stringify q) =
    (if q = JNull then Inl nullProperty
     else if truthy (getProp q ''proofId'') \<and> truthy (getProp q ''address'') \<and>
             truthy (getProp q ''type'')
     then Inr q else Inl missingInformation)"
proof -
  have "readQrData (stringify q) =
    (case q of
       JNull \<Rightarrow> Inl nullProperty
     | _ \<Rightarrow>
         if \<not> truthy (getProp q ''proofId'') \<or> \<not> truthy (getProp q ''address'')
            \<or> \<not> truthy (getProp q ''type'')
         then Inl missingInformation
         else Inr q)"
    by (simp only: readQrData_def jsonParse_stringify [OF assms] option.case)
  then show ?thesis by (cases q) auto
qed

lemma verifyScanned_stringify:
  assumes "wellFormedJson q" and "truthy (getProp q ''proofId'')"
    and "truthy (getProp q ''address'')" and "truthy (getProp q ''type'')"
  shows "verifyScanned eth (stringify q) chain =
    map_sum id (Pair (property q ''type''))
      (verifyIdentityProof eth (property q ''proofId'') (property q ''address'')
         (property q ''type'') chain)"
proof -
  from assms(2) have "q \<noteq> JNull" by auto
  with assms show ?thesis
    by (simp add: verifyScanned_def readQrData_stringify split: sum.splits)
qed

lemma readQrData_null: "readQrData ''null'' = Inl nullProperty"
  using readQrData_stringify [of JNull] by simp

section \<open>A sample verification\<close>

definition verifier :: "(unit, string) walletState" where
  "verifier =
    \<lparr>provider = Some (), signer = Some ''0xB'', address = Some ''0xB'', chainId = Some 11155111,
     isConnected = True\<rparr>"

definition unverifiedCode :: string where
  "unverifiedCode =
    stringify (JObject [(''type'', JNumber ''5''), (''proofId'', JString ''proof_8''),
                        (''address'', JString ''0xA'')])"

definition afterUnverified :: verifyState where
  "afterUnverified = answer sampleEthers verifier sampleChain (QrScanned unverifiedCode) initialVerify"

lemma afterUnverified_reachable: "reachableVerify sampleEthers afterUnverified"
  unfolding afterUnverified_def
  by (rule reachableVerify.step [OF reachableVerify.init])
    (simp add: verifyView_def verifier_def initialVerify_def)

lemma afterUnverified_result:
  "verificationResult afterUnverified =
    Some \<lparr>verified = False, vtype = JNumber ''5'', message = notVerified\<rparr>"
proof -
  have "validNumber ''5''" by code_simp
  then have "verifyScanned sampleEthers unverifiedCode sampleChain =
    Inr (JNumber ''5'', \<lparr>verified = False, vtype = JNumber ''5'', message = notVerified\<rparr>)"
    unfolding unverifiedCode_def
    by (subst verifyScanned_stringify)
      (simp_all add: property_def verifyIdentityProof_eq [of sampleEthers "''0xA''" 10]
        sampleChain_def execute_def storeProof_def mantissa_def isDigit_def isRadixDigit_def
        digitValue_def)
  then show ?thesis
    by (simp add: afterUnverified_def verifier_def handle_result)
qed

section \<open>Properties\<close>

text \<open>
  Claim C23. The results the verify page shows have the type their declaration gives
  them only when they are verified: in every state the page reaches no verification
  is in progress, a result has a message, a verified result has the type \<^verbatim>\<open>"age"\<close> or
  \<^verbatim>\<open>"identity"\<close>, and a result that is not verified has the type \<^verbatim>\<open>"unknown"\<close> or is the
  answer \<open>notVerified\<close> with the type of the scanned code, which is any truthy JSON
  value.
\<close>

theorem verify_results_typed:
  assumes "reachableVerify eth st" and "verificationResult st = Some result"
  shows "\<not> isProcessing st \<and> message result \<noteq> [] \<and>
    (if verified result then vtype result \<in> {JString ''age'', JString ''identity''}
     else vtype result = JString ''unknown'' \<or>
          message result = notVerified \<and> truthy (Some (vtype result)))"
  using reachable_resultInv [OF assms(1)] assms(2) by (auto simp: resultInv_def)

theorem verify_results_typed_witness:
  "\<not> isProcessing afterUnverified \<and> notVerified \<noteq> [] \<and>
    verificationResult afterUnverified =
      Some \<lparr>verified = False, vtype = JNumber ''5'', message = notVerified\<rparr> \<and>
    \<not> isString (JNumber ''5'')"
  using verify_results_typed [OF afterUnverified_reachable afterUnverified_result]
    afterUnverified_result
  by simp

text \<open>
  A text that is no JSON, the text \<^verbatim>\<open>null\<close> and an object without a truthy
  proof id, address or type are answered by the error panel of the page: the result
  is not verified, has the type \<^verbatim>\<open>"unknown"\<close> and the message of the error, and the
  contract is not asked.
\<close>

theorem scan_errors:
  assumes "readQrData data = Inl msg"
  shows "msg \<in> {invalidFormat, nullProperty, missingInformation} \<and>
    handleQrCodeScanned_verify eth (Some s) chain data st =
      st\<lparr>toasts := toasts st @ [ErrorVerifying msg],
         verificationResult :=
           Some \<lparr>verified = False, vtype = JString ''unknown'', message = msg\<rparr>,
         isProcessing := False\<rparr>"
proof -
  from assms have v: "verifyScanned eth data chain = Inl msg"
    by (simp add: verifyScanned_def)
  from readQrData_Inl [OF assms] have "msg \<noteq> []" by auto
  with readQrData_Inl [OF assms] handle_error [OF v] show ?thesis by simp
qed

theorem scan_errors_witness:
  "handleQrCodeScanned_verify sampleEthers (Some ''0xB'') sampleChain ''null'' initialVerify =
    initialVerify\<lparr>toasts := [ErrorVerifying nullProperty],
      verificationResult :=
        Some \<lparr>verified = False, vtype = JString ''unknown'', message = nullProperty\<rparr>,
      isProcessing := False\<rparr>"
  using scan_errors [of "''null''" nullProperty sampleEthers "''0xB''" sampleChain initialVerify]
  by (simp add: readQrData_null initialVerify_def)

end
