(* ===== verification/Verification_Scanner.thy ===== *)
theory Verification_Scanner
  imports QR_Localizer JS_JSON "HOL-Library.While_Combinator"
begin

text \<open>
  The component \<^verbatim>\<open>VerificationQrScanner\<close> of src/components/verification-qr-scanner.tsx:
  it reads the QR code of a verification from an uploaded image or from the camera,
  checks that its text is a JSON object with a proof id, an address and a type, and
  hands the text to \<^verbatim>\<open>onScan\<close>.

  As in \<open>Liveness_Detection\<close> a handler is a closure: it takes the state variables
  \<open>cap\<close> of the rendering that created it and the configuration \<open>vscanner\<close>, which
  holds the current state variables, the property \<^verbatim>\<open>isProcessing\<close>, the cells of
  \<^verbatim>\<open>useRef\<close>, the callback waiting for the next animation frame, the pending timers
  and the texts handed to \<^verbatim>\<open>onScan\<close>. \<open>liveStreams\<close> counts the camera streams that
  were opened and not stopped. The element \<^verbatim>\<open>video\<close> is in the page when the camera
  tab is open and \<^verbatim>\<open>cameraActive\<close> holds, so \<open>videoRef\<close> is a function of the state.
  The browser is the record \<open>browser\<close> of \<open>QR_Localizer\<close>, the camera the record
  \<open>scanCamera\<close>, and what a frame shows the value \<open>frame\<close> of the event. The effect
  that starts and stops the camera runs after a handler that has changed one of its
  dependencies; \<open>renderLoop\<close> is the loop of renderings and runs of the effect that
  follows, and \<open>afterRender\<close> its result: the loop is the scheduler of React, not code
  of the component, and \<open>liveStreams\<close> is a counter of the model. The calls that
  \<^verbatim>\<open>startCamera\<close> awaits are answered within the handler, and the metadata of a
  stream attached to the video element loads. The cell of the canvas is emptied when the
  component is unmounted; after that only pending timers fire. A handler runs to its
  end before the next event.

  The lemmas show that the camera never becomes active, so that no frame is ever
  examined, that a stream once opened stays open on the upload tab, that the loop of
  renderings ends, that every text handed on has passed the check, and what an
  upload gives.
\<close>

section \<open>State\<close>

datatype scanError = Text string | Host error

datatype frame = NotReady | Unreadable | Symbol "string option"

record scanCamera =
  mediaSupported :: bool
  getUserMedia :: "string option + unit"
  playSucceeds :: bool
  firstFrame :: frame

record scannerState =
  isScanning :: bool
  error :: "scanError option"
  activeTab :: string
  cameraActive :: bool

record 'file vscanner =
  ui :: scannerState
  isProcessing :: bool
  canvasRef :: bool
  streamRef :: bool
  liveStreams :: nat
  animationFrameRef :: "scannerState option"
  restartTimer :: "scannerState list"
  uploadTimer :: "'file option"
  scanned :: "string list"

definition initialScanner :: "'file vscanner" where
  "initialScanner =
    \<lparr>ui = \<lparr>isScanning = False, error = None, activeTab = ''upload'', cameraActive = False\<rparr>,
     isProcessing = False, canvasRef = True, streamRef = False, liveStreams = 0,
     animationFrameRef = None, restartTimer = [], uploadTimer = None, scanned = []\<rparr>"

definition setScanner :: "(scannerState \<Rightarrow> scannerState) \<Rightarrow> 'file vscanner \<Rightarrow> 'file vscanner" where
  "setScanner f c = c\<lparr>ui := f (ui c)\<rparr>"

definition videoRef :: "'file vscanner \<Rightarrow> bool" where
  "videoRef c \<longleftrightarrow> activeTab (ui c) = ''camera'' \<and> cameraActive (ui c)"

section \<open>The check of a text\<close>

definition invalidCode :: scanError where
  "invalidCode = Text ''Invalid QR code format. Please scan a valid verification QR code.''"

definition validQrData :: "string \<Rightarrow> bool" where
  "validQrData data =
    (case jsonParse data of
       None \<Rightarrow> False
     | Some parsedData \<Rightarrow>
         (case parsedData of
            JNull \<Rightarrow> False
          | _ \<Rightarrow>
              \<not> (\<not> truthy (getProp parsedData ''proofId'') \<or>
                 \<not> truthy (getProp parsedData ''address'') \<or>
                 \<not> truthy (getProp parsedData ''type''))))"

section \<open>The camera\<close>

definition stopCamera_vqr :: "'file vscanner \<Rightarrow> 'file vscanner" where
  "stopCamera_vqr c =
    setScanner (\<lambda>s. s\<lparr>cameraActive := False\<rparr>)
      (c\<lparr>animationFrameRef := None,
         liveStreams := (if streamRef c then liveStreams c - 1 else liveStreams c),
         streamRef := False\<rparr>)"

definition scanQrCodeFromCamera_vqr ::
  "scannerState \<Rightarrow> frame \<Rightarrow> 'file vscanner \<Rightarrow> 'file vscanner" where
  "scanQrCodeFromCamera_vqr cap fr c =
    (if \<not> videoRef c \<or> \<not> canvasRef c \<or> \<not> cameraActive cap then c
     else
       (case fr of
          NotReady \<Rightarrow> c\<lparr>animationFrameRef := Some cap\<rparr>
        | Unreadable \<Rightarrow> c\<lparr>animationFrameRef := Some cap\<rparr>
        | Symbol code \<Rightarrow>
            (case code of
               None \<Rightarrow> c\<lparr>animationFrameRef := Some cap\<rparr>
             | Some data \<Rightarrow>
                 (let c1 = stopCamera_vqr c
                  in if validQrData data then c1\<lparr>scanned := scanned c1 @ [data]\<rparr>
                     else (setScanner (\<lambda>s. s\<lparr>error := Some invalidCode\<rparr>) c1)
                            \<lparr>restartTimer := restartTimer c1 @ [cap],
                             animationFrameRef := Some cap\<rparr>))))"

definition startCamera_vqr ::
  "scannerState \<Rightarrow> scanCamera \<Rightarrow> 'file vscanner \<Rightarrow> 'file vscanner" where
  "startCamera_vqr cap cam c =
    (let c1 = setScanner (\<lambda>s. s\<lparr>error := None\<rparr>) c
     in if \<not> mediaSupported cam
        then stopCamera_vqr (setScanner (\<lambda>s. s\<lparr>error :=
               Some (Text ''Camera access is not supported in your browser'')\<rparr>) c1)
        else
          (let c2 = stopCamera_vqr c1
           in case getUserMedia cam of
                Inl msg \<Rightarrow>
                  stopCamera_vqr (setScanner (\<lambda>s. s\<lparr>error := Some (Text (case msg of
                      None \<Rightarrow> ''Failed to access camera. Please check your camera permissions.''
                    | Some m \<Rightarrow> if m = [] then
                        ''Failed to access camera. Please check your camera permissions.''
                        else m))\<rparr>) c2)
              | Inr stream \<Rightarrow>
                  (let c3 = c2\<lparr>streamRef := True, liveStreams := liveStreams c2 + 1\<rparr>
                   in if videoRef c3 then
                        (if playSucceeds cam
                         then scanQrCodeFromCamera_vqr cap (firstFrame cam)
                                (setScanner (\<lambda>s. s\<lparr>cameraActive := True\<rparr>) c3)
                         else stopCamera_vqr (setScanner (\<lambda>s. s\<lparr>error := Some (Text
                                ''Failed to start camera feed. Please try again.'')\<rparr>) c3))
                      else c3)))"

definition restartCamera :: "scannerState \<Rightarrow> scanCamera \<Rightarrow> 'file vscanner \<Rightarrow> 'file vscanner" where
  "restartCamera cap cam c = (if activeTab cap = ''camera'' then startCamera_vqr cap cam c else c)"

definition cameraEffect :: "scanCamera \<Rightarrow> 'file vscanner \<Rightarrow> 'file vscanner" where
  "cameraEffect cam c =
    (if activeTab (ui c) = ''camera'' \<and> \<not> cameraActive (ui c) \<and> \<not> isProcessing c
     then startCamera_vqr (ui c) cam c
     else if (activeTab (ui c) \<noteq> ''camera'' \<or> isProcessing c) \<and> cameraActive (ui c)
     then stopCamera_vqr c
     else c)"

definition handleTabChange_vqr :: "scannerState \<Rightarrow> string \<Rightarrow> 'file vscanner \<Rightarrow> 'file vscanner" where
  "handleTabChange_vqr cap v c =
    (let c1 = setScanner (\<lambda>s. s\<lparr>activeTab := v, error := None\<rparr>) c
     in if v \<noteq> ''camera'' \<and> cameraActive cap then stopCamera_vqr c1 else c1)"

definition unmount :: "'file vscanner \<Rightarrow> 'file vscanner" where
  "unmount c = (stopCamera_vqr (stopCamera_vqr c))\<lparr>canvasRef := False\<rparr>"

section \<open>An uploaded image\<close>

definition scanAt ::
  "('file, 'img) browser \<Rightarrow> 'img \<Rightarrow> nat \<times> nat \<Rightarrow> error + string option" where
  "scanAt br img sz =
    (case getImageData \<lparr>width = fst sz, height = snd sz,
                        pixels = drawImage br img (fst sz) (snd sz)\<rparr> of
       Inl e \<Rightarrow> Inl e
     | Inr data \<Rightarrow> Inr (jsQR br data (fst sz) (snd sz) AttemptBoth))"

definition scanQrCodeFromFile_vqr :: "('file, 'img) browser \<Rightarrow> 'file \<Rightarrow> scanError + string" where
  "scanQrCodeFromFile_vqr br file =
    (case readAsDataURL br file of
       None \<Rightarrow> Inl (Text ''Failed to read the file'')
     | Some url \<Rightarrow>
         (case loadImage br url of
            None \<Rightarrow> Inl (Text ''Failed to load the image'')
          | Some img \<Rightarrow>
              if \<not> hasContext br then Inl (Text ''Canvas context not available'')
              else
                (case scanAt br img (imageWidth br img, imageHeight br img) of
                   Inl e \<Rightarrow> Inl (Host e)
                 | Inr (Some data) \<Rightarrow> Inr data
                 | Inr None \<Rightarrow>
                     (case firstResult (scanAt br img)
                             [(800, scaledHeight br 800 img), (1000, scaledHeight br 1000 img)] of
                        Inl e \<Rightarrow> Inl (Host e)
                      | Inr (Some data) \<Rightarrow> Inr data
                      | Inr None \<Rightarrow> Inl (Text ''No QR code found in the image'')))))"

definition handleFileUpload_vqr :: "'file option \<Rightarrow> 'file vscanner \<Rightarrow> 'file vscanner" where
  "handleFileUpload_vqr chosen c =
    (case chosen of
       None \<Rightarrow> c
     | Some file \<Rightarrow>
         (setScanner (\<lambda>s. s\<lparr>error := None, isScanning := True\<rparr>) c)\<lparr>uploadTimer := Some file\<rparr>)"

definition uploadScan :: "('file, 'img) browser \<Rightarrow> 'file \<Rightarrow> 'file vscanner \<Rightarrow> 'file vscanner" where
  "uploadScan br file c =
    (let c1 =
       (case scanQrCodeFromFile_vqr br file of
          Inl e \<Rightarrow> setScanner (\<lambda>s. s\<lparr>error := Some e\<rparr>) c
        | Inr qrData \<Rightarrow>
            if qrData \<noteq> [] then
              (if validQrData qrData then c\<lparr>scanned := scanned c @ [qrData]\<rparr>
               else setScanner (\<lambda>s. s\<lparr>error := Some invalidCode\<rparr>) c)
            else setScanner (\<lambda>s. s\<lparr>error := Some (Text ''No QR code found in the image'')\<rparr>) c)
     in setScanner (\<lambda>s. s\<lparr>isScanning := False\<rparr>) c1)"

section \<open>The component as a machine\<close>

datatype ('file, 'img) scannerEvent =
    TabChanged string
  | ProcessingChanged bool
  | StartClicked
  | CloseClicked
  | FrameDue frame
  | RestartTimerDue
  | FileChosen "'file option"
  | UploadTimerDue "('file, 'img) browser"
  | Unmounted

fun shownScanner :: "'file vscanner \<Rightarrow> ('file, 'img) scannerEvent \<Rightarrow> bool" where
  "shownScanner c (TabChanged v) \<longleftrightarrow> canvasRef c \<and> (v = ''upload'' \<or> v = ''camera'')"
| "shownScanner c (ProcessingChanged p) \<longleftrightarrow> canvasRef c \<and> p \<noteq> isProcessing c"
| "shownScanner c StartClicked \<longleftrightarrow>
    canvasRef c \<and> activeTab (ui c) = ''camera'' \<and> \<not> cameraActive (ui c) \<and> \<not> isProcessing c"
| "shownScanner c CloseClicked \<longleftrightarrow> canvasRef c \<and> activeTab (ui c) = ''camera'' \<and> cameraActive (ui c)"
| "shownScanner c (FrameDue fr) \<longleftrightarrow> animationFrameRef c \<noteq> None"
| "shownScanner c RestartTimerDue \<longleftrightarrow> restartTimer c \<noteq> []"
| "shownScanner c (FileChosen chosen) \<longleftrightarrow>
    canvasRef c \<and> activeTab (ui c) = ''upload'' \<and> \<not> (isScanning (ui c) \<or> isProcessing c)"
| "shownScanner c (UploadTimerDue br) \<longleftrightarrow> uploadTimer c \<noteq> None"
| "shownScanner c Unmounted \<longleftrightarrow> canvasRef c"

definition dependencies :: "'file vscanner \<Rightarrow> string \<times> bool \<times> bool" where
  "dependencies c = (activeTab (ui c), isProcessing c, cameraActive (ui c))"

definition afterRender :: "scanCamera \<Rightarrow> 'file vscanner \<Rightarrow> 'file vscanner \<Rightarrow> 'file vscanner" where
  "afterRender cam before c =
    (if canvasRef c \<and> dependencies c \<noteq> dependencies before then cameraEffect cam c else c)"

fun handler :: "scanCamera \<Rightarrow> ('file, 'img) scannerEvent \<Rightarrow> 'file vscanner \<Rightarrow> 'file vscanner" where
  "handler cam (TabChanged v) c = handleTabChange_vqr (ui c) v c"
| "handler cam (ProcessingChanged p) c = c\<lparr>isProcessing := p\<rparr>"
| "handler cam StartClicked c = startCamera_vqr (ui c) cam c"
| "handler cam CloseClicked c = stopCamera_vqr c"
| "handler cam (FrameDue fr) c =
    (case animationFrameRef c of
       None \<Rightarrow> c
     | Some cap \<Rightarrow> scanQrCodeFromCamera_vqr cap fr (c\<lparr>animationFrameRef := None\<rparr>))"
| "handler cam RestartTimerDue c =
    (case restartTimer c of
       [] \<Rightarrow> c
     | cap # rest \<Rightarrow> restartCamera cap cam (c\<lparr>restartTimer := rest\<rparr>))"
| "handler cam (FileChosen chosen) c = handleFileUpload_vqr chosen c"
| "handler cam (UploadTimerDue br) c =
    (case uploadTimer c of
       None \<Rightarrow> c
     | Some file \<Rightarrow> uploadScan br file (c\<lparr>uploadTimer := None\<rparr>))"
| "handler cam Unmounted c = unmount c"

definition renderLoop ::
  "scanCamera \<Rightarrow> 'file vscanner \<times> 'file vscanner \<Rightarrow> ('file vscanner \<times> 'file vscanner) option" where
  "renderLoop cam =
    while_option (\<lambda>(before, c). canvasRef c \<and> dependencies c \<noteq> dependencies before)
      (\<lambda>(before, c). (c, cameraEffect cam c))"

definition reactScanner :: "scanCamera \<Rightarrow> ('file, 'img) scannerEvent \<Rightarrow> 'file vscanner \<Rightarrow> 'file vscanner" where
  "reactScanner cam ev c = afterRender cam c (handler cam ev c)"

inductive reachableScanner :: "'file vscanner \<Rightarrow> bool" where
  init: "reachableScanner initialScanner"
| step: "reachableScanner c \<Longrightarrow> shownScanner c (ev :: ('file, unit) scannerEvent) \<Longrightarrow>
    reachableScanner (reactScanner cam ev c)"

definition dormant :: "'file vscanner \<Rightarrow> bool" where
  "dormant c \<longleftrightarrow>
    \<not> cameraActive (ui c) \<and> animationFrameRef c = None \<and> restartTimer c = [] \<and>
    liveStreams c = (if streamRef c then 1 else 0) \<and> list_all validQrData (scanned c)"

lemmas scanner_defs =
  setScanner_def videoRef_def stopCamera_vqr_def scanQrCodeFromCamera_vqr_def startCamera_vqr_def
  restartCamera_def cameraEffect_def handleTabChange_vqr_def unmount_def
  handleFileUpload_vqr_def uploadScan_def dependencies_def afterRender_def reactScanner_def

section \<open>The camera is never active\<close>

lemma setScanner_fields [simp]:
  "ui (setScanner f c) = f (ui c)" "isProcessing (setScanner f c) = isProcessing c"
  "canvasRef (setScanner f c) = canvasRef c" "streamRef (setScanner f c) = streamRef c"
  "liveStreams (setScanner f c) = liveStreams c" "animationFrameRef (setScanner f c) = animationFrameRef c"
  "restartTimer (setScanner f c) = restartTimer c" "uploadTimer (setScanner f c) = uploadTimer c"
  "scanned (setScanner f c) = scanned c"
  by (simp_all add: setScanner_def)

lemma stopCamera_fields [simp]:
  "ui (stopCamera_vqr c) = (ui c)\<lparr>cameraActive := False\<rparr>"
  "isProcessing (stopCamera_vqr c) = isProcessing c"
  "canvasRef (stopCamera_vqr c) = canvasRef c"
  "streamRef (stopCamera_vqr c) = False"
  "liveStreams (stopCamera_vqr c) = (if streamRef c then liveStreams c - 1 else liveStreams c)"
  "animationFrameRef (stopCamera_vqr c) = None"
  "restartTimer (stopCamera_vqr c) = restartTimer c"
  "uploadTimer (stopCamera_vqr c) = uploadTimer c"
  "scanned (stopCamera_vqr c) = scanned c"
  by (simp_all add: stopCamera_vqr_def)

lemma dormant_initial: "dormant initialScanner"
  by (simp add: dormant_def initialScanner_def)

lemma dormant_stopCamera: "dormant c \<Longrightarrow> dormant (stopCamera_vqr c)"
  by (simp add: dormant_def)

lemma dormant_setUi:
  "dormant c \<Longrightarrow> cameraActive (f (ui c)) = cameraActive (ui c) \<Longrightarrow> dormant (setScanner f c)"
  by (simp add: dormant_def)

lemma scanQrCodeFromCamera_idle:
  "\<not> cameraActive (ui c) \<or> \<not> cameraActive cap \<Longrightarrow> scanQrCodeFromCamera_vqr cap fr c = c"
  by (auto simp: scanQrCodeFromCamera_vqr_def videoRef_def)

lemma startCamera_eq:
  "startCamera_vqr cap cam c =
    (let c2 = stopCamera_vqr (setScanner (\<lambda>s. s\<lparr>error := None\<rparr>) c)
     in if \<not> mediaSupported cam
        then setScanner (\<lambda>s. s\<lparr>error :=
               Some (Text ''Camera access is not supported in your browser'')\<rparr>) c2
        else
          (case getUserMedia cam of
             Inl msg \<Rightarrow>
               setScanner (\<lambda>s. s\<lparr>error := Some (Text (case msg of
                   None \<Rightarrow> ''Failed to access camera. Please check your camera permissions.''
                 | Some m \<Rightarrow> if m = [] then
                     ''Failed to access camera. Please check your camera permissions.''
                     else m))\<rparr>) c2
           | Inr stream \<Rightarrow> c2\<lparr>streamRef := True, liveStreams := liveStreams c2 + 1\<rparr>))"
  by (cases "getUserMedia cam")
    (simp_all add: startCamera_vqr_def Let_def videoRef_def stopCamera_vqr_def setScanner_def)

lemma dormant_startCamera: "dormant c \<Longrightarrow> dormant (startCamera_vqr cap cam c)"
  by (auto simp: startCamera_eq dormant_def Let_def split: sum.splits)

lemma dormant_cameraEffect: "dormant c \<Longrightarrow> dormant (cameraEffect cam c)"
  by (simp add: cameraEffect_def dormant_startCamera dormant_stopCamera)

lemma dormant_afterRender: "dormant c \<Longrightarrow> dormant (afterRender cam before c)"
  by (simp add: afterRender_def dormant_cameraEffect)

lemma dormant_uploadScan: "dormant c \<Longrightarrow> dormant (uploadScan br file (c\<lparr>uploadTimer := None\<rparr>))"
  by (auto simp: uploadScan_def dormant_def Let_def split: sum.splits)

lemma dormant_handler:
  assumes "dormant c"
  shows "dormant (handler cam ev c)"
proof (cases ev)
  case (TabChanged v)
  with assms show ?thesis
    by (simp add: handleTabChange_vqr_def Let_def dormant_stopCamera dormant_setUi)
next
  case (FrameDue fr)
  with assms show ?thesis by (simp add: dormant_def)
next
  case RestartTimerDue
  with assms show ?thesis by (simp add: dormant_def)
next
  case (FileChosen chosen)
  with assms show ?thesis
    by (cases chosen) (simp_all add: handleFileUpload_vqr_def dormant_def)
next
  case (UploadTimerDue br)
  with assms show ?thesis
    by (cases "uploadTimer c") (simp_all add: dormant_uploadScan)
next
  case Unmounted
  with assms show ?thesis by (simp add: unmount_def dormant_def)
next
  case (ProcessingChanged p)
  with assms show ?thesis by (simp add: dormant_def)
qed (insert assms, simp_all add: dormant_startCamera dormant_stopCamera)

lemma reachable_dormant: "reachableScanner c \<Longrightarrow> dormant c"
proof (induction rule: reachableScanner.induct)
  case init
  show ?case by (rule dormant_initial)
next
  case (step c ev cam)
  then show ?case
    by (simp add: reactScanner_def dormant_afterRender dormant_handler)
qed

section \<open>The effect\<close>

lemma startCamera_fields [simp]:
  "cameraActive (ui (startCamera_vqr cap cam c)) = False"
  "activeTab (ui (startCamera_vqr cap cam c)) = activeTab (ui c)"
  "isScanning (ui (startCamera_vqr cap cam c)) = isScanning (ui c)"
  "isProcessing (startCamera_vqr cap cam c) = isProcessing c"
  "canvasRef (startCamera_vqr cap cam c) = canvasRef c"
  "scanned (startCamera_vqr cap cam c) = scanned c"
  "uploadTimer (startCamera_vqr cap cam c) = uploadTimer c"
  by (cases "getUserMedia cam"; simp add: startCamera_eq Let_def)+

lemma dependencies_startCamera:
  "\<not> cameraActive (ui c) \<Longrightarrow> dependencies (startCamera_vqr cap cam c) = dependencies c"
  by (simp add: dependencies_def)

lemma cameraEffect_settled:
  "dependencies (cameraEffect cam c) = dependencies c \<or>
   cameraEffect cam (cameraEffect cam c) = cameraEffect cam c \<and>
   dependencies (cameraEffect cam (cameraEffect cam c)) = dependencies (cameraEffect cam c)"
proof (cases "activeTab (ui c) = ''camera'' \<and> \<not> cameraActive (ui c) \<and> \<not> isProcessing c")
  case True
  then show ?thesis by (simp add: cameraEffect_def dependencies_startCamera)
next
  case False
  show ?thesis
  proof (cases "(activeTab (ui c) \<noteq> ''camera'' \<or> isProcessing c) \<and> cameraActive (ui c)")
    case True
    with False have "cameraEffect cam c = stopCamera_vqr c"
      by (simp add: cameraEffect_def)
    moreover from True have "cameraEffect cam (stopCamera_vqr c) = stopCamera_vqr c"
      by (auto simp: cameraEffect_def)
    ultimately show ?thesis by simp
  next
    case stay: False
    with False have "cameraEffect cam c = c"
      by (auto simp: cameraEffect_def)
    then show ?thesis by simp
  qed
qed

lemma canvasRef_cameraEffect [simp]: "canvasRef (cameraEffect cam c) = canvasRef c"
  by (simp add: cameraEffect_def)

lemma renderLoop_afterRender:
  "\<exists>before'. renderLoop cam (before, c) = Some (before', afterRender cam before c)"
proof (cases "canvasRef c \<and> dependencies c \<noteq> dependencies before")
  case False
  then show ?thesis
    by (subst renderLoop_def, subst while_option_unfold) (auto simp: afterRender_def)
next
  case True
  let ?c1 = "cameraEffect cam c"
  from True have 1: "renderLoop cam (before, c) = renderLoop cam (c, ?c1)"
    by (subst renderLoop_def, subst while_option_unfold) (simp add: renderLoop_def)
  from True have a: "afterRender cam before c = ?c1"
    by (simp add: afterRender_def)
  show ?thesis
  proof (cases "dependencies ?c1 = dependencies c")
    case same: True
    then have "renderLoop cam (c, ?c1) = Some (c, ?c1)"
      by (subst renderLoop_def, subst while_option_unfold) simp
    with 1 a show ?thesis by simp
  next
    case False
    with cameraEffect_settled [of cam c]
    have s: "cameraEffect cam ?c1 = ?c1" "dependencies (cameraEffect cam ?c1) = dependencies ?c1"
      by simp_all
    from False True have "renderLoop cam (c, ?c1) = renderLoop cam (?c1, cameraEffect cam ?c1)"
      by (subst renderLoop_def, subst while_option_unfold) (simp add: renderLoop_def)
    also from s have "\<dots> = Some (?c1, ?c1)"
      by (subst renderLoop_def, subst while_option_unfold) simp
    finally show ?thesis using 1 a by simp
  qed
qed

section \<open>Uploads\<close>

lemma validQrData_stringify:
  assumes "wellFormedJson q"
  shows "validQrData (stringify q) \<longleftrightarrow>
    q \<noteq> JNull \<and> truthy (getProp q ''proofId'') \<and> truthy (getProp q ''address'') \<and>
    truthy (getProp q ''type'')"
proof -
  have "validQrData (stringify q) =
    (case q of
       JNull \<Rightarrow> False
     | _ \<Rightarrow> \<not> (\<not> truthy (getProp q ''proofId'') \<or> \<not> truthy (getProp q ''address'') \<or>
              \<not> truthy (getProp q ''type'')))"
    by (simp only: validQrData_def jsonParse_stringify [OF assms] option.case)
  then show ?thesis by (cases q) auto
qed

definition symbolAt :: "('file, 'img) browser \<Rightarrow> 'img \<Rightarrow> nat \<times> nat \<Rightarrow> string option" where
  "symbolAt br img sz = jsQR br (drawImage br img (fst sz) (snd sz)) (fst sz) (snd sz) AttemptBoth"

lemma scanAt_nonzero: "0 < fst sz \<Longrightarrow> 0 < snd sz \<Longrightarrow> scanAt br img sz = Inr (symbolAt br img sz)"
  by (simp add: scanAt_def getImageData_def symbolAt_def)

lemma scanAt_zero: "fst sz = 0 \<or> snd sz = 0 \<Longrightarrow> scanAt br img sz = Inl IndexSizeError"
  by (auto simp: scanAt_def getImageData_def)

lemma uploadScan_eq:
  "uploadScan br file c =
    (case scanQrCodeFromFile_vqr br file of
       Inl e \<Rightarrow> setScanner (\<lambda>s. s\<lparr>error := Some e, isScanning := False\<rparr>) c
     | Inr d \<Rightarrow>
         if d = [] then
           setScanner (\<lambda>s. s\<lparr>error := Some (Text ''No QR code found in the image''),
                      isScanning := False\<rparr>) c
         else if validQrData d then
           (setScanner (\<lambda>s. s\<lparr>isScanning := False\<rparr>) c)\<lparr>scanned := scanned c @ [d]\<rparr>
         else setScanner (\<lambda>s. s\<lparr>error := Some invalidCode, isScanning := False\<rparr>) c)"
  by (simp add: uploadScan_def setScanner_def Let_def split: sum.splits)

section \<open>A sample session\<close>

definition workingCamera :: scanCamera where
  "workingCamera =
    \<lparr>mediaSupported = True, getUserMedia = Inr (), playSucceeds = True,
     firstFrame = Symbol (Some ''{}'')\<rparr>"

definition sampleCode :: string where
  "sampleCode =
    stringify (JObject [(''type'', JString ''age''), (''proofId'', JString ''proof_7''),
                        (''address'', JString ''0xA'')])"

definition codeBrowser :: "(unit, unit) browser" where
  "codeBrowser =
    sampleBrowser\<lparr>jsQR := (\<lambda>_ w _ _. if w = 1000 then Some sampleCode else None)\<rparr>"

definition cameraTab :: "unit vscanner" where
  "cameraTab = reactScanner workingCamera (TabChanged ''camera'' :: (unit, unit) scannerEvent) initialScanner"

definition backToUpload :: "unit vscanner" where
  "backToUpload = reactScanner workingCamera (TabChanged ''upload'' :: (unit, unit) scannerEvent) cameraTab"

lemma cameraTab_eq:
  "cameraTab =
    initialScanner\<lparr>ui := (ui initialScanner)\<lparr>activeTab := ''camera''\<rparr>, streamRef := True,
      liveStreams := 1\<rparr>"
  by (simp add: cameraTab_def reactScanner_def afterRender_def dependencies_def cameraEffect_def
      handleTabChange_vqr_def startCamera_eq workingCamera_def initialScanner_def Let_def
      stopCamera_vqr_def setScanner_def)

lemma cameraTab_reachable: "reachableScanner cameraTab"
  unfolding cameraTab_def
  by (rule reachableScanner.step [OF reachableScanner.init]) (simp add: initialScanner_def)

lemma backToUpload_eq: "backToUpload = initialScanner\<lparr>streamRef := True, liveStreams := 1\<rparr>"
  unfolding backToUpload_def
  by (subst cameraTab_eq)+
    (simp add: reactScanner_def afterRender_def dependencies_def cameraEffect_def
      handleTabChange_vqr_def initialScanner_def Let_def setScanner_def)

lemma backToUpload_reachable: "reachableScanner backToUpload"
  unfolding backToUpload_def
  by (rule reachableScanner.step [OF cameraTab_reachable], subst cameraTab_eq)
    (simp add: initialScanner_def)

lemma sampleCode_valid: "validQrData sampleCode"
  unfolding sampleCode_def by (subst validQrData_stringify) simp_all

lemma codeBrowser_scan: "scanQrCodeFromFile_vqr codeBrowser () = Inr sampleCode"
  by (simp add: scanQrCodeFromFile_vqr_def codeBrowser_def sampleBrowser_def scanAt_def
      getImageData_def)

definition chosen :: "unit vscanner" where
  "chosen = reactScanner workingCamera (FileChosen (Some ()) :: (unit, unit) scannerEvent) initialScanner"

definition uploaded :: "unit vscanner" where
  "uploaded = reactScanner workingCamera (UploadTimerDue codeBrowser) chosen"

lemma chosen_eq:
  "chosen = initialScanner\<lparr>ui := (ui initialScanner)\<lparr>isScanning := True\<rparr>, uploadTimer := Some ()\<rparr>"
  by (simp add: chosen_def reactScanner_def afterRender_def dependencies_def handleFileUpload_vqr_def
      initialScanner_def setScanner_def)

lemma chosen_reachable: "reachableScanner chosen"
  unfolding chosen_def
  by (rule reachableScanner.step [OF reachableScanner.init]) (simp add: initialScanner_def)

lemma uploaded_scanned: "scanned uploaded = [sampleCode]"
  unfolding uploaded_def
  by (subst chosen_eq)+
    (simp add: reactScanner_def afterRender_def dependencies_def uploadScan_eq codeBrowser_scan
      sampleCode_valid initialScanner_def, simp add: sampleCode_def)

lemma uploaded_reachable: "reachableScanner uploaded"
  unfolding uploaded_def
  by (rule reachableScanner.step [OF chosen_reachable], subst chosen_eq) simp

section \<open>Properties\<close>

text \<open>
  Claim C14. The camera of the verification scanner never becomes active: in every
  state the component reaches \<^verbatim>\<open>cameraActive\<close> is false, no callback waits for an
  animation frame and no restart is pending, so that no frame of the camera is ever
  examined and the button that closes the camera is never shown. The element
  \<^verbatim>\<open>video\<close> is drawn only when the camera is active, and \<open>startCamera_vqr\<close> makes the
  camera active only when the element is there.
\<close>

theorem camera_never_active:
  assumes "reachableScanner c"
  shows "\<not> cameraActive (ui c) \<and> animationFrameRef c = None \<and> restartTimer c = [] \<and>
    \<not> shownScanner c (FrameDue fr) \<and> \<not> shownScanner c CloseClicked \<and> \<not> shownScanner c RestartTimerDue"
  using reachable_dormant [OF assms] by (simp add: dormant_def)

theorem camera_never_active_witness:
  "\<not> cameraActive (ui cameraTab) \<and> animationFrameRef cameraTab = None \<and>
    restartTimer cameraTab = [] \<and> \<not> shownScanner cameraTab (FrameDue (Symbol (Some sampleCode))) \<and>
    \<not> shownScanner cameraTab CloseClicked \<and> \<not> shownScanner cameraTab RestartTimerDue \<and>
    activeTab (ui cameraTab) = ''camera'' \<and> streamRef cameraTab"
  using camera_never_active [OF cameraTab_reachable, of "Symbol (Some sampleCode)"]
  by (subst (1 2) cameraTab_eq) (simp add: initialScanner_def)

text \<open>
  Claim C31. A camera stream that the scanner has opened is not released when the
  user goes back to the upload tab: opening the camera tab with a camera that grants
  access leaves one open stream, and the change to the upload tab keeps it, since
  both places that stop the camera look at \<^verbatim>\<open>cameraActive\<close>, which is false.
\<close>

theorem stream_left_open:
  fixes c :: "'file vscanner"
  assumes "reachableScanner c" and "canvasRef c" and "activeTab (ui c) = ''upload''"
    and "\<not> isProcessing c" and "mediaSupported cam" and "getUserMedia cam = Inr ()"
    and c1_def: "c1 = reactScanner cam (TabChanged ''camera'' :: ('file, unit) scannerEvent) c"
    and c2_def: "c2 = reactScanner cam' (TabChanged ''upload'' :: ('file, unit) scannerEvent) c1"
  shows "streamRef c1 \<and> liveStreams c1 = 1 \<and> activeTab (ui c2) = ''upload'' \<and>
    streamRef c2 \<and> liveStreams c2 = 1"
proof -
  from reachable_dormant [OF assms(1)] have d: "\<not> cameraActive (ui c)"
    by (simp add: dormant_def)
  with assms(2-6) have 1: "c1 = (stopCamera_vqr (setScanner (\<lambda>s. s\<lparr>error := None\<rparr>)
      (setScanner (\<lambda>s. s\<lparr>activeTab := ''camera'', error := None\<rparr>) c)))\<lparr>streamRef := True,
        liveStreams := liveStreams (stopCamera_vqr (setScanner (\<lambda>s. s\<lparr>error := None\<rparr>)
          (setScanner (\<lambda>s. s\<lparr>activeTab := ''camera'', error := None\<rparr>) c))) + 1\<rparr>"
    by (simp add: c1_def reactScanner_def afterRender_def dependencies_def cameraEffect_def
        handleTabChange_vqr_def startCamera_eq Let_def)
  from reachable_dormant [OF assms(1)] have "liveStreams c = (if streamRef c then 1 else 0)"
    by (simp add: dormant_def)
  with 1 assms(2-4) have f: "streamRef c1" "liveStreams c1 = 1" "\<not> cameraActive (ui c1)"
    "activeTab (ui c1) = ''camera''" "canvasRef c1" "isProcessing c1 = isProcessing c"
    by simp_all
  then have "c2 = setScanner (\<lambda>s. s\<lparr>activeTab := ''upload'', error := None\<rparr>) c1"
    by (simp add: c2_def reactScanner_def afterRender_def dependencies_def cameraEffect_def
        handleTabChange_vqr_def Let_def)
  with f show ?thesis by simp
qed

theorem stream_left_open_witness:
  "streamRef cameraTab \<and> liveStreams cameraTab = 1 \<and> activeTab (ui backToUpload) = ''upload'' \<and>
    streamRef backToUpload \<and> liveStreams backToUpload = 1"
  using stream_left_open [OF reachableScanner.init, of workingCamera cameraTab backToUpload
      workingCamera]
  by (simp add: initialScanner_def workingCamera_def backToUpload_def cameraTab_def)

text \<open>
  Every text the scanner hands to \<^verbatim>\<open>onScan\<close> is the text of a JSON value
  that is not \<^verbatim>\<open>null\<close> and whose properties \<^verbatim>\<open>proofId\<close>, \<^verbatim>\<open>address\<close> and \<^verbatim>\<open>type\<close> are
  truthy.
\<close>

theorem scanned_texts_valid:
  assumes "reachableScanner c" and "d \<in> set (scanned c)"
  shows "validQrData d"
  using reachable_dormant [OF assms(1)] assms(2) by (simp add: dormant_def list_all_iff)

theorem scanned_texts_valid_witness: "validQrData sampleCode \<and> scanned uploaded = [sampleCode]"
  using scanned_texts_valid [OF uploaded_reachable, of sampleCode] uploaded_scanned by simp

text \<open>
  Claim C24. The rendering of the scanner comes to rest: the effect that starts and
  stops the camera is run again as long as it changes one of its dependencies, and
  from every configuration this loop ends, in the configuration that one run of the
  effect gives.
\<close>

theorem effect_loop_terminates:
  "\<exists>before'. renderLoop cam (before, c) = Some (before', afterRender cam before c)"
  by (rule renderLoop_afterRender)

theorem effect_loop_terminates_witness:
  "\<exists>before'. renderLoop workingCamera
      (initialScanner, handler workingCamera (TabChanged ''camera'') initialScanner) =
    Some (before', cameraTab)"
  using effect_loop_terminates [of workingCamera initialScanner
      "handler workingCamera (TabChanged ''camera'') initialScanner"]
  by (simp add: cameraTab_def reactScanner_def)

text \<open>
  An upload looks for a code in the image at its own size, then at the
  widths 800 and 1000, and gives the first text found; no text at any size is the
  error that no code was found, and an image with a zero side is the exception of
  the canvas.
\<close>

theorem scanQrCodeFromFile_first:
  assumes "readAsDataURL br file = Some url" and "loadImage br url = Some img"
    and "hasContext br"
  shows "(imageWidth br img = 0 \<or> imageHeight br img = 0 \<longrightarrow>
      scanQrCodeFromFile_vqr br file = Inl (Host IndexSizeError)) \<and>
    (0 < imageWidth br img \<and> 0 < imageHeight br img \<and> 0 < scaledHeight br 800 img \<and>
     0 < scaledHeight br 1000 img \<longrightarrow>
      scanQrCodeFromFile_vqr br file =
        (case firstSome (symbolAt br img) [(imageWidth br img, imageHeight br img),
                 (800, scaledHeight br 800 img), (1000, scaledHeight br 1000 img)] of
           None \<Rightarrow> Inl (Text ''No QR code found in the image'')
         | Some d \<Rightarrow> Inr d))"
  using assms(1-3)
  by (auto simp: scanQrCodeFromFile_vqr_def scanAt_nonzero scanAt_zero split: option.splits)

theorem scanQrCodeFromFile_first_witness:
  "scanQrCodeFromFile_vqr codeBrowser () = Inr sampleCode \<and>
    scanQrCodeFromFile_vqr (codeBrowser\<lparr>imageWidth := (\<lambda>_. 0)\<rparr>) () = Inl (Host IndexSizeError)"
  using scanQrCodeFromFile_first [of codeBrowser "()" "''data:''" "()"]
    scanQrCodeFromFile_first [of "codeBrowser\<lparr>imageWidth := (\<lambda>_. 0)\<rparr>" "()" "''data:''" "()"]
  by (simp add: codeBrowser_def sampleBrowser_def symbolAt_def)

end
