(* ===== verification/Qr_Scanner.thy ===== *)
theory Qr_Scanner
  imports Pipeline
begin

text \<open>
  The component \<^verbatim>\<open>QrScanner\<close>, the second component of
  src/components/liveness-detection.tsx (from line 410): it reads the QR code of an
  identity card from an uploaded image or from the camera with \<open>decodeFromFile\<close> of
  \<open>Pipeline\<close> and hands the record to \<^verbatim>\<open>onScan\<close>.

  A handler is a closure: it takes the state variables \<open>cap\<close> of the rendering that
  created it and the configuration \<open>qscanner\<close>, which holds the current state
  variables, the property \<^verbatim>\<open>isProcessing\<close>, the cells of \<^verbatim>\<open>useRef\<close>, the callback waiting
  for the next animation frame, whether the clean-up of the last run of the effect
  stops the camera, whether the component is mounted, and the records handed to
  \<^verbatim>\<open>onScan\<close>. \<open>liveStreams\<close> counts the camera streams that were opened and not
  stopped. The element \<^verbatim>\<open>video\<close> is in the page when the camera tab is open and
  \<^verbatim>\<open>cameraActive\<close> holds, so \<open>videoRef_qr\<close> is a function of the state. The
  environment and the browser are those of the decoder, the camera is the record
  \<open>qrCamera\<close>, and what the canvas gives for a frame is the value \<open>shot\<close> of the event.
  The effect runs after a handler that has changed one of its two dependencies. A
  handler runs to its end before the next event.

  The lemmas show that the camera never becomes active, that every start of the
  camera opens a stream that is never stopped, and that an upload hands on the
  record of the decoder or shows its error.
\<close>

section \<open>State\<close>

datatype qrError = Message string | Decoder error

datatype 'file shot = NoContext | NoBlob | Shot 'file

record 'file qrCamera =
  mediaSupported :: bool
  getUserMedia :: "string option + unit"
  metadataLoads :: bool
  firstShot :: "'file shot"

record qrScannerState =
  isScanning :: bool
  error :: "qrError option"
  activeTab :: string
  cameraActive :: bool

record qscanner =
  ui :: qrScannerState
  isProcessing :: bool
  mounted :: bool
  decoderRef :: bool
  streamRef :: bool
  liveStreams :: nat
  animationFrameRef :: "qrScannerState option"
  effectCleanup :: bool
  scanned :: "identity list"

definition initialQrScanner :: qscanner where
  "initialQrScanner =
    \<lparr>ui = \<lparr>isScanning = False, error = None, activeTab = ''upload'', cameraActive = False\<rparr>,
     isProcessing = False, mounted = True, decoderRef = True, streamRef = False,
     liveStreams = 0, animationFrameRef = None, effectCleanup = False, scanned = []\<rparr>"

definition setQr :: "(qrScannerState \<Rightarrow> qrScannerState) \<Rightarrow> qscanner \<Rightarrow> qscanner" where
  "setQr f c = c\<lparr>ui := f (ui c)\<rparr>"

definition videoRef_qr :: "qscanner \<Rightarrow> bool" where
  "videoRef_qr c \<longleftrightarrow> activeTab (ui c) = ''camera'' \<and> cameraActive (ui c)"

section \<open>The camera\<close>

definition stopCamera_qr :: "qscanner \<Rightarrow> qscanner" where
  "stopCamera_qr c =
    setQr (\<lambda>s. s\<lparr>cameraActive := False\<rparr>)
      (c\<lparr>animationFrameRef := None,
         liveStreams := (if streamRef c then liveStreams c - 1 else liveStreams c),
         streamRef := False\<rparr>)"

definition scanQrCodeFromCamera_qr ::
  "environment \<Rightarrow> ('file, 'img) browser \<Rightarrow> qrScannerState \<Rightarrow> 'file shot \<Rightarrow> qscanner \<Rightarrow> qscanner" where
  "scanQrCodeFromCamera_qr env br cap sh c =
    (if \<not> videoRef_qr c \<or> \<not> decoderRef c \<or> \<not> cameraActive cap then c
     else
       (case sh of
          NoContext \<Rightarrow> c
        | NoBlob \<Rightarrow> c
        | Shot file \<Rightarrow>
            (case decodeFromFile env br file of
               Inr result \<Rightarrow> (let c1 = stopCamera_qr c in c1\<lparr>scanned := scanned c1 @ [result]\<rparr>)
             | Inl e \<Rightarrow> c\<lparr>animationFrameRef := Some cap\<rparr>)))"

definition startCamera_qr ::
  "environment \<Rightarrow> ('file, 'img) browser \<Rightarrow> qrScannerState \<Rightarrow> 'file qrCamera \<Rightarrow> qscanner \<Rightarrow> qscanner" where
  "startCamera_qr env br cap cam c =
    (let c1 = setQr (\<lambda>s. s\<lparr>error := None\<rparr>) c
     in if \<not> mediaSupported cam
        then setQr (\<lambda>s. s\<lparr>error :=
               Some (Message ''Camera access is not supported in your browser'')\<rparr>) c1
        else
          (case getUserMedia cam of
             Inl msg \<Rightarrow>
               setQr (\<lambda>s. s\<lparr>error := Some (Message (case msg of
                   None \<Rightarrow> ''Failed to access camera. Please check your camera permissions.''
                 | Some m \<Rightarrow> if m = [] then
                     ''Failed to access camera. Please check your camera permissions.''
                     else m))\<rparr>) c1
           | Inr stream \<Rightarrow>
               (let c2 = c1\<lparr>streamRef := True, liveStreams := liveStreams c1 + 1\<rparr>
                in if videoRef_qr c2 \<and> metadataLoads cam
                   then scanQrCodeFromCamera_qr env br cap (firstShot cam)
                          (setQr (\<lambda>s. s\<lparr>cameraActive := True\<rparr>) c2)
                   else c2)))"

definition cameraEffect_qr ::
  "environment \<Rightarrow> ('file, 'img) browser \<Rightarrow> 'file qrCamera \<Rightarrow> qscanner \<Rightarrow> qscanner" where
  "cameraEffect_qr env br cam c =
    (let cap = ui c;
         c0 = (if effectCleanup c then stopCamera_qr c else c);
         c1 = c0\<lparr>effectCleanup := cameraActive cap\<rparr>
     in if activeTab cap = ''camera'' \<and> \<not> cameraActive cap \<and> \<not> isProcessing c
        then startCamera_qr env br cap cam c1
        else if activeTab cap \<noteq> ''camera'' \<and> cameraActive cap then stopCamera_qr c1
        else c1)"

definition handleTabChange_qr :: "string \<Rightarrow> qscanner \<Rightarrow> qscanner" where
  "handleTabChange_qr v c = setQr (\<lambda>s. s\<lparr>activeTab := v, error := None\<rparr>) c"

definition unmount_qr :: "qscanner \<Rightarrow> qscanner" where
  "unmount_qr c =
    (let c1 = stopCamera_qr (c\<lparr>decoderRef := False\<rparr>);
         c2 = (if effectCleanup c1 then stopCamera_qr c1 else c1)
     in c2\<lparr>mounted := False\<rparr>)"

section \<open>An uploaded image\<close>

definition handleFileUpload_qr ::
  "environment \<Rightarrow> ('file, 'img) browser \<Rightarrow> 'file option \<Rightarrow> qscanner \<Rightarrow> qscanner" where
  "handleFileUpload_qr env br chosen c =
    (case chosen of
       None \<Rightarrow> c
     | Some file \<Rightarrow>
         (let c1 = setQr (\<lambda>s. s\<lparr>error := None, isScanning := True\<rparr>) c;
              c2 = (if \<not> decoderRef c1 then c1\<lparr>decoderRef := True\<rparr> else c1);
              c3 = (case decodeFromFile env br file of
                      Inr result \<Rightarrow> c2\<lparr>scanned := scanned c2 @ [result]\<rparr>
                    | Inl e \<Rightarrow> setQr (\<lambda>s. s\<lparr>error := Some (Decoder e)\<rparr>) c2)
          in setQr (\<lambda>s. s\<lparr>isScanning := False\<rparr>) c3))"

section \<open>The component as a machine\<close>

datatype 'file qrEvent =
    TabChanged string
  | ProcessingChanged bool
  | StartClicked
  | CloseClicked
  | FrameDue "'file shot"
  | FileChosen "'file option"
  | Unmounted

fun shownQr :: "qscanner \<Rightarrow> 'file qrEvent \<Rightarrow> bool" where
  "shownQr c (TabChanged v) \<longleftrightarrow> mounted c \<and> (v = ''upload'' \<or> v = ''camera'')"
| "shownQr c (ProcessingChanged p) \<longleftrightarrow> mounted c \<and> p \<noteq> isProcessing c"
| "shownQr c StartClicked \<longleftrightarrow>
    mounted c \<and> activeTab (ui c) = ''camera'' \<and> \<not> cameraActive (ui c) \<and> \<not> isProcessing c"
| "shownQr c CloseClicked \<longleftrightarrow> mounted c \<and> activeTab (ui c) = ''camera'' \<and> cameraActive (ui c)"
| "shownQr c (FrameDue sh) \<longleftrightarrow> animationFrameRef c \<noteq> None"
| "shownQr c (FileChosen chosen) \<longleftrightarrow>
    mounted c \<and> activeTab (ui c) = ''upload'' \<and> \<not> (isScanning (ui c) \<or> isProcessing c)"
| "shownQr c Unmounted \<longleftrightarrow> mounted c"

definition afterRender_qr ::
  "environment \<Rightarrow> ('file, 'img) browser \<Rightarrow> 'file qrCamera \<Rightarrow> qscanner \<Rightarrow> qscanner \<Rightarrow> qscanner" where
  "afterRender_qr env br cam before c =
    (if mounted c \<and> (activeTab (ui c), isProcessing c) \<noteq> (activeTab (ui before), isProcessing before)
     then cameraEffect_qr env br cam c else c)"

fun handlerQr ::
  "environment \<Rightarrow> ('file, 'img) browser \<Rightarrow> 'file qrCamera \<Rightarrow> 'file qrEvent \<Rightarrow> qscanner \<Rightarrow> qscanner" where
  "handlerQr env br cam (TabChanged v) c = handleTabChange_qr v c"
| "handlerQr env br cam (ProcessingChanged p) c = c\<lparr>isProcessing := p\<rparr>"
| "handlerQr env br cam StartClicked c = startCamera_qr env br (ui c) cam c"
| "handlerQr env br cam CloseClicked c = stopCamera_qr c"
| "handlerQr env br cam (FrameDue sh) c =
    (case animationFrameRef c of
       None \<Rightarrow> c
     | Some cap \<Rightarrow> scanQrCodeFromCamera_qr env br cap sh (c\<lparr>animationFrameRef := None\<rparr>))"
| "handlerQr env br cam (FileChosen chosen) c = handleFileUpload_qr env br chosen c"
| "handlerQr env br cam Unmounted c = unmount_qr c"

definition reactQr ::
  "environment \<Rightarrow> ('file, 'img) browser \<Rightarrow> 'file qrCamera \<Rightarrow> 'file qrEvent \<Rightarrow> qscanner \<Rightarrow> qscanner" where
  "reactQr env br cam ev c = afterRender_qr env br cam c (handlerQr env br cam ev c)"

inductive reachableQr :: "qscanner \<Rightarrow> bool" where
  init: "reachableQr initialQrScanner"
| step: "reachableQr c \<Longrightarrow> shownQr c (ev :: unit qrEvent) \<Longrightarrow>
    reachableQr (reactQr env (br :: (unit, unit) browser) cam ev c)"

definition dormantQr :: "qscanner \<Rightarrow> bool" where
  "dormantQr c \<longleftrightarrow>
    \<not> cameraActive (ui c) \<and> animationFrameRef c = None \<and> \<not> effectCleanup c \<and>
    (streamRef c \<longrightarrow> 0 < liveStreams c)"

lemmas qr_scanner_defs =
  setQr_def videoRef_qr_def stopCamera_qr_def scanQrCodeFromCamera_qr_def startCamera_qr_def
  cameraEffect_qr_def handleTabChange_qr_def unmount_qr_def handleFileUpload_qr_def
  afterRender_qr_def reactQr_def

section \<open>The camera is never active\<close>

lemma setQr_fields [simp]:
  "ui (setQr f c) = f (ui c)" "isProcessing (setQr f c) = isProcessing c"
  "mounted (setQr f c) = mounted c" "decoderRef (setQr f c) = decoderRef c"
  "streamRef (setQr f c) = streamRef c" "liveStreams (setQr f c) = liveStreams c"
  "animationFrameRef (setQr f c) = animationFrameRef c"
  "effectCleanup (setQr f c) = effectCleanup c" "scanned (setQr f c) = scanned c"
  by (simp_all add: setQr_def)

lemma stopCamera_qr_fields [simp]:
  "ui (stopCamera_qr c) = (ui c)\<lparr>cameraActive := False\<rparr>"
  "isProcessing (stopCamera_qr c) = isProcessing c" "mounted (stopCamera_qr c) = mounted c"
  "decoderRef (stopCamera_qr c) = decoderRef c" "streamRef (stopCamera_qr c) = False"
  "liveStreams (stopCamera_qr c) = (if streamRef c then liveStreams c - 1 else liveStreams c)"
  "animationFrameRef (stopCamera_qr c) = None"
  "effectCleanup (stopCamera_qr c) = effectCleanup c" "scanned (stopCamera_qr c) = scanned c"
  by (simp_all add: stopCamera_qr_def)

lemma startCamera_qr_idle:
  assumes "\<not> cameraActive (ui c)"
  shows "startCamera_qr env br cap cam c =
    (if \<not> mediaSupported cam
     then setQr (\<lambda>s. s\<lparr>error :=
            Some (Message ''Camera access is not supported in your browser'')\<rparr>) c
     else
       (case getUserMedia cam of
          Inl msg \<Rightarrow>
            setQr (\<lambda>s. s\<lparr>error := Some (Message (case msg of
                None \<Rightarrow> ''Failed to access camera. Please check your camera permissions.''
              | Some m \<Rightarrow> if m = [] then
                  ''Failed to access camera. Please check your camera permissions.''
                  else m))\<rparr>) c
        | Inr stream \<Rightarrow>
            (setQr (\<lambda>s. s\<lparr>error := None\<rparr>) c)\<lparr>streamRef := True,
              liveStreams := liveStreams c + 1\<rparr>))"
  using assms
  by (cases "getUserMedia cam") (simp_all add: startCamera_qr_def Let_def videoRef_qr_def setQr_def)

lemma dormantQr_initial: "dormantQr initialQrScanner"
  by (simp add: dormantQr_def initialQrScanner_def)

lemma dormantQr_stopCamera: "dormantQr c \<Longrightarrow> dormantQr (stopCamera_qr c)"
  by (simp add: dormantQr_def)

lemma dormantQr_startCamera: "dormantQr c \<Longrightarrow> dormantQr (startCamera_qr env br cap cam c)"
  by (auto simp: startCamera_qr_idle dormantQr_def split: sum.splits)

lemma dormantQr_effect: "dormantQr c \<Longrightarrow> dormantQr (cameraEffect_qr env br cam c)"
proof -
  assume d: "dormantQr c"
  then have "dormantQr (c\<lparr>effectCleanup := False\<rparr>)"
    by (simp add: dormantQr_def)
  with d show ?thesis
    by (simp add: cameraEffect_qr_def Let_def dormantQr_startCamera) (simp add: dormantQr_def)
qed

lemma dormantQr_upload: "dormantQr c \<Longrightarrow> dormantQr (handleFileUpload_qr env br chosen c)"
  by (auto simp: handleFileUpload_qr_def dormantQr_def Let_def split: option.splits sum.splits)

lemma dormantQr_handler:
  assumes "dormantQr c"
  shows "dormantQr (handlerQr env br cam ev c)"
proof (cases ev)
  case (FrameDue sh)
  with assms show ?thesis by (simp add: dormantQr_def)
next
  case Unmounted
  with assms show ?thesis by (simp add: unmount_qr_def dormantQr_def Let_def)
qed (insert assms, simp_all add: dormantQr_startCamera dormantQr_stopCamera dormantQr_upload,
    simp_all add: dormantQr_def handleTabChange_qr_def)

lemma reachable_dormantQr: "reachableQr c \<Longrightarrow> dormantQr c"
proof (induction rule: reachableQr.induct)
  case init
  show ?case by (rule dormantQr_initial)
next
  case (step c ev env br cam)
  then show ?case
    by (simp add: reactQr_def afterRender_qr_def dormantQr_effect dormantQr_handler)
qed

section \<open>A sample session\<close>

definition grantingCamera :: "unit qrCamera" where
  "grantingCamera =
    \<lparr>mediaSupported = True, getUserMedia = Inr (), metadataLoads = True, firstShot = Shot ()\<rparr>"

definition unreadable :: "(unit, unit) browser" where
  "unreadable = sampleBrowser\<lparr>readAsDataURL := (\<lambda>_. None)\<rparr>"

definition onCameraTab :: qscanner where
  "onCameraTab =
    reactQr (clockAt 0) unreadable grantingCamera (TabChanged ''camera'') initialQrScanner"

definition startedAgain :: qscanner where
  "startedAgain = reactQr (clockAt 0) unreadable grantingCamera StartClicked onCameraTab"

lemma onCameraTab_eq:
  "onCameraTab =
    initialQrScanner\<lparr>ui := (ui initialQrScanner)\<lparr>activeTab := ''camera''\<rparr>, streamRef := True,
      liveStreams := 1\<rparr>"
  by (simp add: onCameraTab_def reactQr_def afterRender_qr_def cameraEffect_qr_def
      handleTabChange_qr_def startCamera_qr_idle grantingCamera_def initialQrScanner_def Let_def
      setQr_def)

lemma onCameraTab_fields [simp]:
  "activeTab (ui onCameraTab) = ''camera''" "\<not> cameraActive (ui onCameraTab)"
  "streamRef onCameraTab" "liveStreams onCameraTab = 1" "mounted onCameraTab"
  "\<not> isProcessing onCameraTab" "animationFrameRef onCameraTab = None"
  by (subst onCameraTab_eq, simp add: initialQrScanner_def)+

lemma onCameraTab_reachable: "reachableQr onCameraTab"
  unfolding onCameraTab_def
  by (rule reachableQr.step [OF reachableQr.init]) (simp add: initialQrScanner_def)

lemma unreadable_decode: "decodeFromFile env unreadable () = Inl (DecodingFailed FileReadFailed)"
  by (simp add: decodeFromFile_def scanFromFile_def unreadable_def sampleBrowser_def)

section \<open>Properties\<close>

text \<open>
  Claim C15. The camera of the scanner of identity cards never becomes active: in
  every state the component reaches \<^verbatim>\<open>cameraActive\<close> is false and no callback waits for
  an animation frame, so that no frame of the camera is ever decoded and the button
  that closes the camera is never shown. The element \<^verbatim>\<open>video\<close> is drawn only when the
  camera is active, and \<open>startCamera_qr\<close> makes the camera active only when the
  element is there.
\<close>

theorem qr_camera_never_active:
  assumes "reachableQr c"
  shows "\<not> cameraActive (ui c) \<and> animationFrameRef c = None \<and>
    \<not> shownQr c (FrameDue sh) \<and> \<not> shownQr c CloseClicked"
  using reachable_dormantQr [OF assms] by (simp add: dormantQr_def)

theorem qr_camera_never_active_witness:
  "\<not> cameraActive (ui onCameraTab) \<and> animationFrameRef onCameraTab = None \<and>
    \<not> shownQr onCameraTab (FrameDue (Shot ())) \<and> \<not> shownQr onCameraTab CloseClicked \<and>
    activeTab (ui onCameraTab) = ''camera'' \<and> streamRef onCameraTab"
  using qr_camera_never_active [OF onCameraTab_reachable, of "Shot ()"]
  by simp

text \<open>
  Claim C30. Every start of the camera opens a stream, and the stream that the
  scanner held before is neither stopped nor remembered: a click on the start
  button with a camera that grants access adds one to the number of open streams and
  leaves the button in place, so that after a start from a state that holds a
  stream more streams are open than \<open>stopCamera_qr\<close> can stop.
\<close>

theorem streams_leak:
  assumes "reachableQr c" and "shownQr c (StartClicked :: 'file qrEvent)"
    and "mediaSupported cam" and "getUserMedia cam = Inr ()"
    and "c' = reactQr env br cam (StartClicked :: 'file qrEvent) c"
  shows "liveStreams c' = liveStreams c + 1 \<and> shownQr c' (StartClicked :: 'file qrEvent) \<and>
    (streamRef c \<longrightarrow> 0 < liveStreams (stopCamera_qr c'))"
proof -
  from reachable_dormantQr [OF assms(1)]
  have d: "\<not> cameraActive (ui c)" "streamRef c \<longrightarrow> 0 < liveStreams c"
    by (simp_all add: dormantQr_def)
  with assms(2-5) have "c' = (setQr (\<lambda>s. s\<lparr>error := None\<rparr>) c)\<lparr>streamRef := True,
      liveStreams := liveStreams c + 1\<rparr>"
    by (simp add: reactQr_def afterRender_qr_def startCamera_qr_idle)
  with assms(2) d show ?thesis by simp
qed

theorem streams_leak_witness:
  "liveStreams startedAgain = 2 \<and> shownQr startedAgain (StartClicked :: unit qrEvent) \<and>
    0 < liveStreams (stopCamera_qr startedAgain)"
  using streams_leak [OF onCameraTab_reachable, of grantingCamera startedAgain "clockAt 0" unreadable]
  by (simp add: grantingCamera_def startedAgain_def)

text \<open>
  An upload hands the record of \<open>decodeFromFile\<close> to \<^verbatim>\<open>onScan\<close>, or shows the
  error of the decoder and hands on nothing; in both cases the scanner is no longer
  scanning afterwards.
\<close>

theorem upload_hands_record:
  assumes "reachableQr c" and "shownQr c (FileChosen (Some file))"
    and "c' = reactQr env br cam (FileChosen (Some file)) c"
  shows "\<not> isScanning (ui c') \<and>
    (case decodeFromFile env br file of
       Inr r \<Rightarrow> scanned c' = scanned c @ [r] \<and> error (ui c') = None
     | Inl e \<Rightarrow> scanned c' = scanned c \<and> error (ui c') = Some (Decoder e))"
  using assms(2,3)
  by (simp add: reactQr_def afterRender_qr_def handleFileUpload_qr_def Let_def split: sum.splits)

theorem upload_hands_record_witness:
  "\<not> isScanning (ui (reactQr (clockAt 0) unreadable grantingCamera (FileChosen (Some ()))
        initialQrScanner)) \<and>
    scanned (reactQr (clockAt 0) unreadable grantingCamera (FileChosen (Some ()))
        initialQrScanner) = [] \<and>
    error (ui (reactQr (clockAt 0) unreadable grantingCamera (FileChosen (Some ()))
        initialQrScanner)) = Some (Decoder (DecodingFailed FileReadFailed))"
  using upload_hands_record [OF reachableQr.init, of "()" _ "clockAt 0" unreadable grantingCamera]
  by (simp add: unreadable_decode) (simp add: initialQrScanner_def)

end
