(* ===== verification/Connect_Button.thy ===== *)
theory Connect_Button
  imports Wallet_Provider
begin

text \<open>
  The component \<^verbatim>\<open>ConnectWalletButton\<close>, the first part of
  src/components/connect-wallet-button.tsx: one button that connects the wallet, or,
  when the wallet is connected, shows the ends of its address and disconnects it.
  The state of the component is the flag \<^verbatim>\<open>isConnecting\<close>; the wallet is the state of
  \<open>Wallet_Provider\<close>, and a click takes both. The label of the connected button ends
  with a cross, which is left out of \<open>shortAddress\<close>.

  The lemmas show what the button shows for an address, and that its clicks are the
  events \<open>Connect\<close> and \<open>Disconnect\<close> of the wallet.
\<close>

section \<open>Definitions\<close>

datatype buttonFace = AddressLabel string | Connecting | ConnectWallet

definition shortAddress :: "string option \<Rightarrow> string" where
  "shortAddress addr =
    (case addr of None \<Rightarrow> [] | Some a \<Rightarrow> js_slice a 0 6) @ ''...'' @
    (case addr of None \<Rightarrow> [] | Some a \<Rightarrow> js_slice a (- 4) (int (length a)))"

definition buttonView :: "('p, 's) walletState \<Rightarrow> bool \<Rightarrow> buttonFace \<times> bool" where
  "buttonView w isConnecting =
    (if isConnected w then (AddressLabel (shortAddress (address w)), False)
     else (if isConnecting then Connecting else ConnectWallet, isConnecting))"

definition handleConnect_button ::
  "('p, 's) ethereum option \<Rightarrow> ('p, 's) walletState \<times> bool \<Rightarrow>
    (('p, 's) walletState \<times> bool) \<times> effect list" where
  "handleConnect_button eth st =
    (let isConnecting = True;
         (w, effects) = connect eth (fst st);
         isConnecting = False
     in ((w, isConnecting), effects))"

definition clickButton ::
  "('p, 's) ethereum option \<Rightarrow> ('p, 's) walletState \<times> bool \<Rightarrow>
    (('p, 's) walletState \<times> bool) \<times> effect list" where
  "clickButton eth st =
    (if isConnected (fst st) then ((disconnect (fst st), snd st), [])
     else if snd (buttonView (fst st) (snd st)) then (st, [])
     else handleConnect_button eth st)"

lemmas button_defs = shortAddress_def buttonView_def handleConnect_button_def clickButton_def

section \<open>The label\<close>

lemma shortAddress_long:
  assumes "10 \<le> length a"
  shows "shortAddress (Some a) = take 6 a @ ''...'' @ drop (length a - 4) a"
proof -
  have "js_slice a 0 6 = take 6 a"
    using assms js_slice_int [of a 0 6] by simp
  moreover have "js_slice a (- 4) (int (length a)) = drop (length a - 4) a"
    using assms by (simp add: js_slice_def rel_index_def Let_def nat_diff_distrib)
  ultimately show ?thesis by (simp add: shortAddress_def)
qed

lemma shortAddress_short: "length a \<le> 4 \<Longrightarrow> shortAddress (Some a) = a @ ''...'' @ a"
  using js_slice_int [of a 0 6] by (simp add: shortAddress_def js_slice_def rel_index_def Let_def)

lemma length_shortAddress: "length (shortAddress addr) \<le> 13"
  by (cases addr) (simp_all add: shortAddress_def length_js_slice rel_index_def)

section \<open>Clicks\<close>

lemma clickButton_wallet:
  "fst (fst (clickButton eth (w, False))) =
    handle (if isConnected w then Disconnect else Connect eth) w"
  by (simp add: clickButton_def buttonView_def handleConnect_button_def split: prod.splits)

lemma clickButton_flag: "snd (fst (clickButton eth (w, False))) = False"
  by (simp add: clickButton_def buttonView_def handleConnect_button_def split: prod.splits)

lemma clickButton_reachable:
  "reachableWallet w \<Longrightarrow> reachableWallet (fst (fst (clickButton eth (w, False))))"
  unfolding clickButton_wallet by (rule reachableWallet.step)

text \<open>
  The button of a connected wallet shows the ends of its address, a click on it
  disconnects the wallet, and the button then offers to connect again. With the
  four-character address of the sample session the two ends overlap.
\<close>

theorem connect_button_toggles:
  assumes "isConnected w"
  shows "fst (buttonView w False) = AddressLabel (shortAddress (address w)) \<and>
    \<not> isConnected (fst (fst (clickButton eth (w, False)))) \<and>
    buttonView (fst (fst (clickButton eth (w, False)))) False = (ConnectWallet, False)"
  using assms by (simp add: buttonView_def clickButton_def disconnect_def)

theorem connect_button_toggles_witness:
  "fst (buttonView sampleSession False) = AddressLabel ''0xB...0xB'' \<and>
    buttonView (fst (fst (clickButton None (sampleSession, False)))) False = (ConnectWallet, False)"
  using connect_button_toggles [of sampleSession None]
  by (simp add: sampleSession_eq shortAddress_short)

text \<open>
  While a connection is being made the button is disabled, and a click changes nothing.
\<close>

theorem connecting_button_disabled:
  assumes "\<not> isConnected w"
  shows "buttonView w True = (Connecting, True) \<and> clickButton eth (w, True) = ((w, True), [])"
  using assms by (simp add: buttonView_def clickButton_def)

theorem connecting_button_disabled_witness:
  "buttonView (initialState :: (unit, string) walletState) True = (Connecting, True) \<and>
    clickButton (Some sampleWallet) (initialState, True) = ((initialState, True), [])"
  using connecting_button_disabled [of initialState "Some sampleWallet"] by (simp add: initialState_def)

end
