(* ===== verification/Navigation.thy ===== *)
theory Navigation
  imports JS_Prelude
begin

text \<open>
  The parts of the application that lead to its pages: the navigation bar
  \<^verbatim>\<open>Navbar\<close> and the wrapper \<^verbatim>\<open>ClientOnlyLiveness\<close> (both in src/unnamed/part_003), and the
  home page \<^verbatim>\<open>Home\<close> with its three cards (src/unnamed/part_000). The navigation bar is
  the list of its links for the path of the current page, each with the flag that
  chooses its colour; the home page is the list of its cards with their links; the
  wrapper has one flag, \<^verbatim>\<open>isMounted\<close>, set by an effect after the first render.

  The lemmas show that the keys of the links are distinct, that at most one link is
  highlighted and exactly one on a page of the bar, that every card of the home page
  leads to a page of the bar, and that the wrapper shows the liveness component from
  the second render on.
\<close>

section \<open>Definitions\<close>

record navItem =
  navName :: string
  navPath :: string

record navLink =
  key :: string
  href :: string
  highlighted :: bool
  label :: string

definition navItems :: "navItem list" where
  "navItems =
    [\<lparr>navName = ''Home'', navPath = ''/''\<rparr>,
     \<lparr>navName = ''Create ID'', navPath = ''/create''\<rparr>,
     \<lparr>navName = ''Dashboard'', navPath = ''/dashboard''\<rparr>,
     \<lparr>navName = ''Verify'', navPath = ''/verify''\<rparr>]"

definition Navbar :: "string \<Rightarrow> navLink list" where
  "Navbar pathname =
    map (\<lambda>item. \<lparr>key = navPath item, href = navPath item,
          highlighted = (pathname = navPath item), label = navName item\<rparr>) navItems"

record homeCard =
  cardTitle :: string
  cardHref :: string
  cardButton :: string

definition Home :: "homeCard list" where
  "Home =
    [\<lparr>cardTitle = ''Create Identity'', cardHref = ''/create'', cardButton = ''Get Started''\<rparr>,
     \<lparr>cardTitle = ''User Dashboard'', cardHref = ''/dashboard'',
       cardButton = ''Access Dashboard''\<rparr>,
     \<lparr>cardTitle = ''Verify Identity'', cardHref = ''/verify'',
       cardButton = ''Verify Someone''\<rparr>]"

datatype 'v clientOnly = InitializingLiveness | Rendered 'v

definition ClientOnlyLiveness :: "bool \<Rightarrow> 'v \<Rightarrow> 'v clientOnly" where
  "ClientOnlyLiveness isMounted livenessDetection =
    (if \<not> isMounted then InitializingLiveness else Rendered livenessDetection)"

definition mountEffect :: "bool \<Rightarrow> bool" where
  "mountEffect isMounted = True"

fun renders :: "nat \<Rightarrow> bool" where
  "renders 0 = False"
| "renders (Suc n) = mountEffect (renders n)"

section \<open>The navigation bar\<close>

lemma paths_navItems: "map navPath navItems = [''/'', ''/create'', ''/dashboard'', ''/verify'']"
  by (simp add: navItems_def)

lemma keys_Navbar: "map key (Navbar pathname) = map navPath navItems"
  by (simp add: Navbar_def comp_def)

lemma hrefs_Navbar: "map href (Navbar pathname) = map navPath navItems"
  by (simp add: Navbar_def comp_def)

lemma highlighted_Navbar:
  "map href (filter highlighted (Navbar pathname)) = filter (\<lambda>p. pathname = p) (map navPath navItems)"
  by (simp add: Navbar_def filter_map comp_def)

text \<open>
  The keys that React is given for the links are distinct.
\<close>

theorem navbar_keys_distinct: "distinct (map key (Navbar pathname))"
  unfolding keys_Navbar paths_navItems by simp

text \<open>
  On a page of the bar exactly that page's link is highlighted; on any other path, for
  instance \<^verbatim>\<open>/create/\<close> or a page below one of the four, none is.
\<close>

theorem navbar_highlights:
  "map href (filter highlighted (Navbar pathname)) =
    (if pathname \<in> set (map navPath navItems) then [pathname] else [])"
  unfolding highlighted_Navbar paths_navItems by auto

text \<open>
  Every card of the home page leads to a page of the navigation bar, and every page of
  the bar but the home page itself has a card.
\<close>

theorem home_cards_lead_to_pages:
  "set (map cardHref Home) = set (map navPath navItems) - {''/''}"
  unfolding paths_navItems by (auto simp: Home_def)

section \<open>The wrapper of the liveness component\<close>

text \<open>
  The first render of the wrapper shows the placeholder, and every later render the
  liveness component.
\<close>

theorem client_only_renders:
  "ClientOnlyLiveness (renders n) v = (if n = 0 then InitializingLiveness else Rendered v)"
  by (cases n) (simp_all add: ClientOnlyLiveness_def mountEffect_def)

end
