(* ===== verification/Spec2Isabelle.thy ===== *)
theory Spec2Isabelle
  imports Pipeline Alt_Parser Identity_Ledger Create_Page Liveness_Detection Dashboard
    Verify_Page Verification_Scanner Qr_Scanner Connect_Button Navigation
begin

text \<open>
  A verification development for SecureID, a browser application that reads the
  Secure QR code of an identity document, derives a proof object from the decoded
  record and stores it in a contract through the user's wallet.

  \<^bold>\<open>The program.\<close> The class \<^verbatim>\<open>SecureQRDecoder\<close> of src/lib/secure-qr-decoder.ts reads
  a QR code from an image, converts its decimal text to bytes, inflates them, splits
  the result at the delimiter byte 255 into text fields, cuts the photo, the hashes
  of mobile number and email and the signature from the binary tail, and derives
  the age and the adult flag from the date of birth. src/lib/zk-proofs.ts builds
  the proof object from the record and holds a second, shorter parser of the same
  bytes. The contract \<^verbatim>\<open>IdentityVerifier\<close> (its source is kept in
  src/components/connect-wallet-button.tsx) stores one identity per account.
  \<^verbatim>\<open>WalletProvider\<close> of src/components/wallet-provider-simple.tsx keeps the
  connection to the wallet. The contract library src/unnamed/part_002 (imported by
  the pages as \<^verbatim>\<open>@/lib/contract-interactions\<close>) sends the calls to the contract. The
  pages under src/app drive these parts: src/app/create/page.tsx is the wizard that
  leads from the scan to the stored proof, src/app/dashboard/page.tsx draws the QR
  codes of a stored identity with src/lib/qr-generator.ts, and src/app/verify/page.tsx
  verifies such a code. Two components scan codes: \<^verbatim>\<open>QrScanner\<close> (the second half of
  src/components/liveness-detection.tsx) for the wizard and \<^verbatim>\<open>VerificationQrScanner\<close>
  of src/components/verification-qr-scanner.tsx for the verify page.

  \<^bold>\<open>The theories.\<close>

  \<^item> \<open>JS_Prelude\<close>: the values and built-ins of the host language the program uses.
    Bytes are \<open>8 word\<close>, a \<^verbatim>\<open>Uint8Array\<close> is a list of them, a string a list of 8-bit
    characters. \<open>js_slice\<close> is \<^verbatim>\<open>slice\<close> with its relative indices, \<open>parseInt\<close>,
    \<open>trim\<close>, \<open>splitOn\<close>, \<open>toHex\<close> are the built-ins of the same names. The record
    \<open>environment\<close> holds what the decoder calls and does not define (the clock, the
    host's date parser, the inflate routine); the datatype \<open>error\<close> has one
    constructor for each \<^verbatim>\<open>throw\<close> and each rethrowing \<^verbatim>\<open>catch\<close>.
  \<^item> \<open>JS_Date\<close>: the calendar arithmetic of the \<^verbatim>\<open>Date\<close> object (\<open>DayFromYear\<close>,
    \<open>YearFromDay\<close>, \<open>MonthFromDay\<close>, \<open>DateFromDay\<close>, \<open>MakeDay\<close>, \<open>newDate\<close>,
    \<open>setFullYear\<close> and the getters), with the round trip \<open>civil_roundtrip\<close> between
    calendar fields and time values.
  \<^item> \<open>Date_Age\<close>: \<^verbatim>\<open>calculateAge\<close> and \<^verbatim>\<open>parseDateOfBirth\<close>, definitions of the same
    names. The lemmas give the age and the adult flag in terms of calendar fields,
    the range check of accepted dates and the three accepted formats.
  \<^item> \<open>Field_Parser\<close>: \<^verbatim>\<open>extractDataFields\<close> with its helpers. \<open>findEnd\<close> and
    \<open>readFields\<close> are the two loops of the first pass, on indices as in the code;
    \<open>shiftFields\<close>, \<open>fieldShift\<close>, \<open>indicator\<close>, \<open>correctedFields\<close> the anomaly
    correction; \<open>textEnd\<close> the loop that computes the end of the text; \<open>tailLayout\<close>
    the \<^verbatim>\<open>if\<close> chain over the indicator; \<open>deriveAge\<close> the final block;
    \<open>assembleRecord\<close> and \<open>extractDataFields\<close> the method. The result object is the
    record \<open>identity\<close>, a field the code leaves unset being \<open>None\<close>.
  \<^item> \<open>Byte_Codec\<close>: \<^verbatim>\<open>convertBase10ToByteArray\<close> (\<open>stringToBigInt\<close> for \<^verbatim>\<open>BigInt\<close>,
    \<open>bigIntToHex\<close> for \<^verbatim>\<open>toString(16)\<close>, \<open>hexToBytes\<close> for the loop over pairs of
    digits) and \<^verbatim>\<open>decompressData\<close>, related to the big-endian encoding \<open>natToBytes\<close>
    and its value \<open>bytesValue\<close>.
  \<^item> \<open>Image_Filters\<close>: the four filters \<^verbatim>\<open>applyHighContrast\<close>, \<^verbatim>\<open>applyGrayscale\<close>,
    \<^verbatim>\<open>applyBinarize\<close> and \<^verbatim>\<open>applySharpen\<close> on the record \<open>canvas\<close>, each loop a
    \<open>function\<close> on the index, related to a map over the pixels (\<open>mapPixels\<close>).
  \<^item> \<open>QR_Localizer\<close>: \<^verbatim>\<open>tryMultipleProcessingMethods\<close> and \<^verbatim>\<open>scanFromFile\<close>. The file
    reader, the image loader, the drawing of the canvas and the detector are the
    fields of the record \<open>browser\<close>; the three nested loops with their early return
    are \<open>tryInversions\<close>, \<open>tryMethod\<close> and \<open>firstResult\<close>, related to the first
    success in the list \<open>attempts\<close>.
  \<^item> \<open>Pipeline\<close>: \<^verbatim>\<open>processSecureQRData\<close> and \<^verbatim>\<open>decodeFromFile\<close>, which compose the
    theories above and wrap their errors.
  \<^item> \<open>Zk_Proofs\<close>: \<^verbatim>\<open>hashString\<close> on \<open>32 word\<close>, \<^verbatim>\<open>generateProofId\<close> and
    \<^verbatim>\<open>generateZkProof\<close>, with the Poseidon hash as a parameter.
  \<^item> \<open>Alt_Parser\<close>: \<^verbatim>\<open>processQrData\<close>, \<^verbatim>\<open>bigIntToByteArray\<close>, \<^verbatim>\<open>findDelimiter\<close> and
    \<^verbatim>\<open>parseByteArray\<close> of src/lib/zk-proofs.ts, compared with the decoder.
  \<^item> \<open>Identity_Ledger\<close>: the contract. Its storage is the record \<open>ledger\<close>, a revert
    is \<open>Inl\<close>, \<open>execute\<close> is one transaction and \<open>reachableLedger\<close> the states
    reached from \<open>deployed\<close>.
  \<^item> \<open>Wallet_Provider\<close>: the state \<open>walletState\<close> of the provider, its handlers
    \<open>mount\<close>, \<open>connect\<close>, \<open>disconnect\<close>, \<open>handleAccountsChanged\<close>,
    \<open>handleChainChanged\<close>, \<open>handleConnect\<close>, \<open>handleDisconnect\<close>, the step function
    \<open>handle\<close> on events and the reachable states \<open>reachableWallet\<close>.
  \<^item> \<open>Create_Page\<close>: the wizard \<^verbatim>\<open>CreateIdentity\<close> of src/app/create/page.tsx. Its
    state is the record \<open>createState\<close> with the step as a rational number; the
    handlers are \<open>handleQrCodeScanned\<close>, \<open>verifyLastFourDigits\<close>,
    \<open>handleLivenessComplete\<close>, \<open>generateProof\<close>, \<open>storeProofOnChain\<close> and \<open>goBack\<close>;
    \<open>enabled\<close> says which controls the page shows, \<open>fire\<close> runs the handler of an
    event and \<open>reachableCreate\<close> are the states reached by enabled events.
  \<^item> \<open>Liveness_Detection\<close>: the component \<^verbatim>\<open>LivenessDetection\<close> of
    src/components/liveness-detection.tsx. The record \<open>liveness\<close> holds the current
    state, the refs, the pending frame callback with the state its closure has
    captured, the timer and the calls of \<^verbatim>\<open>onComplete\<close>; \<open>startCamera\<close>, \<open>stopCamera\<close>,
    \<open>startDetection\<close>, \<open>detectFace\<close> (with \<open>markFace\<close>, \<open>countBlink\<close>, \<open>countHeadTurn\<close>),
    \<open>calculateEyeAspectRatio\<close> and \<open>cancelCheck\<close> are the functions of the same
    names; \<open>shown\<close> and \<open>react\<close> are the controls and their handlers.
  \<^item> \<open>JS_JSON\<close>: the built-ins \<^verbatim>\<open>JSON.stringify\<close> and \<^verbatim>\<open>JSON.parse\<close>: the datatype
    \<open>json\<close>, the printer \<open>stringify\<close>, the recursive-descent parser \<open>jsonParse\<close> with
    fuel, the property read \<open>getProp\<close> and the conversion \<open>truthy\<close>.
  \<^item> \<open>Contract_Interactions\<close>: \<^verbatim>\<open>storeIdentityProof\<close>, \<^verbatim>\<open>getUserIdentity\<close> (here
    \<open>getUserIdentity_lib\<close>, the name being taken by the view of the contract) and
    \<^verbatim>\<open>verifyIdentityProof\<close> of the contract library, as functions of the state
    \<open>ledger\<close> of the contract; a thrown error is \<open>Inl\<close> of its message. The library
    \<^verbatim>\<open>ethers\<close> is the record \<open>ethers\<close>.
  \<^item> \<open>Dashboard\<close>: the page \<^verbatim>\<open>Dashboard\<close> and \<^verbatim>\<open>generateQrCode\<close>. \<open>loadIdentityData\<close>
    is the handler of the same name, \<open>qrPayload\<close> the object of a code,
    \<open>dashboardView\<close> the view shown, \<open>perform\<close> the step on events.
  \<^item> \<open>Verify_Page\<close>: the page \<^verbatim>\<open>VerifyIdentity\<close>. \<open>handleQrCodeScanned_verify\<close> is its
    handler \<^verbatim>\<open>handleQrCodeScanned\<close> (with \<open>readQrData\<close> for the parsing and the
    validation and \<open>verifyScanned\<close> for the body of its \<^verbatim>\<open>try\<close>), \<open>resetVerification\<close>
    the reset, \<open>verifyView\<close>, \<open>resultTitle\<close> and \<open>resultNote\<close> what the page shows,
    \<open>answer\<close> the step on events.
  \<^item> \<open>Verification_Scanner\<close>: the component \<^verbatim>\<open>VerificationQrScanner\<close>. The record
    \<open>vscanner\<close> holds the state, the refs, the pending frame callback and timers and
    the texts handed to \<^verbatim>\<open>onScan\<close>; \<open>startCamera_vqr\<close>, \<open>stopCamera_vqr\<close>,
    \<open>scanQrCodeFromCamera_vqr\<close>, \<open>handleFileUpload_vqr\<close> (with \<open>uploadScan\<close> for the
    callback of its timer), \<open>scanQrCodeFromFile_vqr\<close> and \<open>handleTabChange_vqr\<close> are the
    functions of those names, \<open>cameraEffect\<close> the effect that starts and stops the
    camera, \<open>renderLoop\<close> the loop of renderings it may cause, \<open>reactScanner\<close> the
    step on events.
  \<^item> \<open>Qr_Scanner\<close>: the component \<^verbatim>\<open>QrScanner\<close>, with the same structure:
    \<open>startCamera_qr\<close>, \<open>stopCamera_qr\<close>, \<open>scanQrCodeFromCamera_qr\<close>,
    \<open>handleFileUpload_qr\<close>, \<open>handleTabChange_qr\<close>, \<open>cameraEffect_qr\<close> and the step
    \<open>reactQr\<close>; its frames and uploads are decoded by \<open>decodeFromFile\<close>.
  \<^item> \<open>Connect_Button\<close>: the component \<^verbatim>\<open>ConnectWalletButton\<close> of
    src/components/connect-wallet-button.tsx. \<open>buttonView\<close> is what the button shows,
    \<open>shortAddress\<close> its label for a connected wallet, \<open>handleConnect_button\<close> the
    handler \<^verbatim>\<open>handleConnect\<close>, \<open>clickButton\<close> a click, which is a step of the wallet
    provider.
  \<^item> \<open>Navigation\<close>: the navigation bar \<open>Navbar\<close> over \<open>navItems\<close> and the wrapper
    \<open>ClientOnlyLiveness\<close> with its effect \<open>mountEffect\<close> (src/unnamed/part_003), and
    the cards of the home page \<open>Home\<close> (src/unnamed/part_000).
  \<^item> This theory: the properties of the decoder from text to record and from image
    to record, which span the codec, the localizer and the parser, and the properties
    of the flow of an identity from the wizard over the contract and the dashboard
    to the verify page. \<open>chainStore\<close> is the call of \<^verbatim>\<open>storeIdentityProof\<close> by the
    wizard.

  \<^bold>\<open>What is shown.\<close> The loops terminate (they are total functions) and compute their
  reference definitions: the split \<open>tokens\<close>, the big-endian bytes, the map over
  pixels, the first successful attempt. On a payload written by \<open>encodeFields\<close>
  followed by photo, hashes and signature, the record holds exactly what was written
  (\<open>extractDataFields_layout\<close>), and so does the result of the whole pipeline on the
  decimal numeral of such a payload (\<open>processSecureQRData_decimal\<close>,
  \<open>decodeFromFile_record\<close>). The failures of each stage are characterised by
  equivalences. The anomaly correction is characterised in full, including the
  offset it gives the photo. Dates accepted by the parser lie between the clock
  reading and 120 years before it, and the age is the number of completed years.
  The string hash is the polynomial hash modulo \<open>2^32\<close>. In every reachable state of
  the contract the stored identity of a user is the one of the user's last
  \<^verbatim>\<open>ProofStored\<close> event; in every reachable state of the wallet provider the
  connection flag agrees with the fields set on connection; in every reachable
  state of the wizard at its last two steps the proof it holds is the proof of the
  card whose reference id the user has confirmed. The wizard reaches a step without
  panel, and its liveness flag survives a failed check (\<open>wizard_dead_end\<close>,
  \<open>liveness_not_reset\<close>). The frame loop of the liveness component is never started,
  and a loop started before the blinks are detected could not finish
  (\<open>detection_never_starts\<close>, \<open>stale_loop_never_completes\<close>). Parsing the text that
  \<open>stringify\<close> prints gives the value back (\<open>jsonParse_stringify\<close>); on it rest the
  round trips through the contract: a stored identity is read back and verified
  (\<open>stored_identity_read_back\<close>, \<open>stored_proof_verifies\<close>), the proof of the wizard
  is accepted by the contract and verified (\<open>wizard_store_verifies\<close>), and a code of
  the dashboard passes the scanner and the verify page (\<open>dashboard_code_verifies\<close>).
  The answers of a verification are characterised on every branch, with what goes
  wrong: an unknown address is an error, the liveness flag is the one of the last
  writer of the proof id, the note under an age says over 18 for a minor, and the
  codes drawn after a change of account do not verify. In both scanners the camera
  never becomes active and an opened stream is not released
  (\<open>camera_never_active\<close>, \<open>stream_left_open\<close>, \<open>qr_camera_never_active\<close>,
  \<open>streams_leak\<close>); the results of the verify page are typed as far as
  \<open>verify_results_typed\<close> says, and the loop of renderings of the camera effect ends
  (\<open>effect_loop_terminates\<close>). A click on the wallet button is the event \<open>Connect\<close>
  or \<open>Disconnect\<close> of the wallet provider (\<open>clickButton_wallet\<close>); the navigation bar
  highlights the link of the current page and no other, and the cards of the home
  page lead to the pages of the bar (\<open>navbar_highlights\<close>,
  \<open>home_cards_lead_to_pages\<close>).

  \<^bold>\<open>Bounds and assumptions.\<close> Every loop of the program is a \<open>function\<close> with a
  measure, except the loop of renderings, a \<open>while_option\<close> that is proved to return.
  Fuel is used only by the JSON parser: \<open>jsonParse\<close> gives its three mutually
  recursive functions \<open>2 * length text + 2\<close> units, one for each call, and a call
  consumes a character or is followed by one that does; \<open>jsonParse_stringify\<close> shows
  that this is enough for every text \<open>stringify\<close> prints. Number literals of JSON are
  kept as text, and an escape \<^verbatim>\<open>\u\<close> above 255 is refused. Integers are unbounded
  except bytes, the 32-bit hash, addresses and
  \<^verbatim>\<open>uint256\<close> values; the numbers the decoder computes with (indices, years, the
  indicator) stay far below \<open>2^53\<close>, where the host's numbers are exact. Time values
  are local times with a constant offset to UTC. Characters are 8-bit, as the bytes
  of a payload are. The coordinates of the face landmarks are reals, with the values
  \<^verbatim>\<open>Infinity\<close> and \<^verbatim>\<open>NaN\<close> for the quotient of the eye aspect ratio; rounding is not
  modelled. The scaled height of an image is a field of \<open>browser\<close>, so no
  floating-point arithmetic is modelled. The comparison of Keccak hashes in the
  contract is the comparison of the strings. The state updates of one handler of the
  wallet provider or of the wizard take effect together, a listener sees the state
  of the last rendering, and an asynchronous handler ends before the next event.
  The wallet provider is the one of src/components/wallet-provider-simple.tsx; the
  root layout names the module \<^verbatim>\<open>@/components/wallet-provider\<close>, which the sources do
  not hold, so what is shown of a change of account is shown of the provider of the
  sources. A call of the contract library reaches the contract, and a transaction is
  mined when it is sent. A value of \<^verbatim>\<open>livenessVerified\<close> in the stored proof data counts
  as the host counts it: every value but \<^verbatim>\<open>false\<close>, \<^verbatim>\<open>null\<close>, zero and the empty string
  is read as true. The element \<^verbatim>\<open>video\<close> of a scanner exists exactly when the state
  of the last rendering shows it, and the metadata of a stream attached to it in
  \<open>Verification_Scanner\<close> loads. The image type of the browser is \<open>unit\<close> in the
  reachable configurations of the scanners; the functions themselves are generic.

  \<^bold>\<open>Not modelled.\<close> The inflate routine, the QR detector, the Poseidon hash, the
  wallet, the camera, the face detector, the library \<^verbatim>\<open>ethers\<close> and the routine that
  draws a QR code are libraries or programs the sources only call: they are
  parameters of the model. The root layout (src/app/layout.tsx) is markup that nests
  the pages in the wallet provider and under the navigation bar, without state or
  branches; src/unnamed/part_001 is a note on the model files of the face detector;
  src/lib/contract-abi.ts repeats the signatures of the contract as text. Of the
  pages and components the markup (class names, icons, texts without a condition)
  is left out, and so are the placeholder of the dynamic import of the liveness
  component and the drawing on the canvas. Notifications other than those of the verify page, failures of the
  network, gas and the encoding of contract calls are not modelled.
\<close>

section \<open>The decoder from text to record\<close>

text \<open>
  Claim C1. The encoder's round trip through the whole pipeline: the decimal numeral
  of a byte array without leading zero byte is converted back to that array,
  decompressed (or kept, when the inflate routine fails), and passed to the field
  parser, whose result is the result of the pipeline; an error of the parser is
  wrapped once more.
\<close>

theorem processSecureQRData_decimal:
  assumes "c \<noteq> []" and "hd c \<noteq> 0 \<or> length c = 1"
  shows "processSecureQRData env (toDecimal (bytesValue c)) =
    (case extractDataFields env (decompressData env c) of
       Inl e \<Rightarrow> Inl (ProcessingFailed e)
     | Inr r \<Rightarrow> Inr r)"
  using process_decimal [OF assms] by (simp add: processSecureQRData_def)

theorem processSecureQRData_decimal_witness:
  "\<exists>r. processSecureQRData (clockAt (civilTime 2024 5 14)) (toDecimal (bytesValue samplePayload))
       = Inr r
     \<and> emailMobilePresent r = 3 \<and> name r = Some ''Asha'' \<and> dateOfBirth r = Some ''15-06-2000''
     \<and> age r = Some 23 \<and> isAdult r = Some True \<and> photo r = [1, 2, 3]
     \<and> signature r = replicate 256 5"
proof -
  let ?env = "clockAt (civilTime 2024 5 14)"
  let ?r = "assembleRecord ?env samplePayload (map bytesToString sampleTokens)
    (bytesToString (hd sampleTokens))"
  note s = sample_record [of ?env]
  have f: "name ?r = Some ''Asha''" "dateOfBirth ?r = Some ''15-06-2000''"
    using s(3) by (simp_all add: textFields_def sampleTokens_def)
  from processSecureQRData_decimal [of samplePayload ?env] samplePayload_head s f
  show ?thesis by (simp add: sample_deriveAge)
qed

text \<open>
  Claim C18. The pipeline fails in two cases only: the text is not an integer
  literal, or the inflate routine returns an empty array. Every other input gives a
  record.
\<close>

theorem processSecureQRData_errors:
  "processSecureQRData env rawData = Inl e \<longleftrightarrow>
     (stringToBigInt rawData = None \<and> e = ProcessingFailed (ConvertFailed BigIntSyntaxError)) \<or>
     (\<exists>c. convertBase10ToByteArray rawData = Inr c \<and> inflate env c = Some [] \<and>
        e = ProcessingFailed (ExtractFailed UndefinedTrim 0))"
proof (cases "convertBase10ToByteArray rawData")
  case (Inl e')
  then have "stringToBigInt rawData = None"
    by (auto simp: convertBase10ToByteArray_def Let_def split: option.splits)
  with Inl show ?thesis
    by (auto simp: process_convert_failed)
next
  case (Inr c)
  then have "stringToBigInt rawData \<noteq> None"
    by (auto simp: convertBase10ToByteArray_def split: option.splits)
  with Inr convert_nonempty [OF Inr] show ?thesis
    by (auto simp: process_converted decompress_empty_iff)
qed

section \<open>The decoder from image to record\<close>

text \<open>
  Claim C7. From the image to the record: when the scan of the file finds the decimal
  numeral of a byte array and the field parser accepts the decompressed bytes,
  \<open>decodeFromFile\<close> returns the record of the field parser, with the age and the
  adult flag derived from its date of birth.
\<close>

theorem decodeFromFile_record:
  assumes "scanFromFile br (Some file) = Inr (toDecimal (bytesValue c))"
    and "c \<noteq> []" and "hd c \<noteq> 0 \<or> length c = 1"
    and "extractDataFields env (decompressData env c) = Inr r"
  shows "decodeFromFile env br file = Inr r"
  using assms process_decimal [OF assms(2,3)]
  by (simp add: decodeFromFile_def processSecureQRData_def)

theorem decodeFromFile_record_witness:
  "\<exists>r. decodeFromFile (clockAt (civilTime 2024 5 14)) payloadBrowser () = Inr r
     \<and> emailMobilePresent r = 3 \<and> name r = Some ''Asha'' \<and> age r = Some 23
     \<and> isAdult r = Some True \<and> photo r = [1, 2, 3] \<and> signature r = replicate 256 5"
proof -
  let ?env = "clockAt (civilTime 2024 5 14)"
  let ?r = "assembleRecord ?env samplePayload (map bytesToString sampleTokens)
    (bytesToString (hd sampleTokens))"
  note s = sample_record [of ?env]
  have f: "name ?r = Some ''Asha''"
    using s(3) by (simp add: textFields_def sampleTokens_def)
  from decodeFromFile_record [of payloadBrowser "()" samplePayload ?env ?r]
    payload_scan samplePayload_head s f
  show ?thesis by (simp add: sample_deriveAge)
qed

text \<open>
  Every failure of \<open>decodeFromFile\<close> is the failure of the scan or of the
  processing of its text, wrapped once by the \<^verbatim>\<open>catch\<close> block of the method; no
  record is returned in that case.
\<close>

theorem decodeFromFile_errors:
  "decodeFromFile env br file = Inl e \<longleftrightarrow>
     (\<exists>e'. scanFromFile br (Some file) = Inl e' \<and> e = DecodingFailed e') \<or>
     (\<exists>rawData e'. scanFromFile br (Some file) = Inr rawData \<and>
        processSecureQRData env rawData = Inl e' \<and> e = DecodingFailed e')"
  by (auto simp: decodeFromFile_def split: sum.splits)

section \<open>From the dashboard to the verifier\<close>

lemma validQrData_readQrData: "validQrData d \<longleftrightarrow> (\<exists>q. readQrData d = Inr q)"
  by (cases "jsonParse d"; cases "the (jsonParse d)") (auto simp: validQrData_def readQrData_def)

lemma qrPayload_valid:
  "validQrData (stringify (qrPayload ty pid (Some a))) \<longleftrightarrow> ty \<noteq> [] \<and> pid \<noteq> [] \<and> a \<noteq> []"
  by (subst validQrData_stringify) (auto simp: qrPayload_def)

lemma verifyScanned_qrPayload:
  assumes "ty \<noteq> []" and "pid \<noteq> []" and "a \<noteq> []"
  shows "verifyScanned eth (stringify (qrPayload ty pid (Some a))) chain =
    map_sum id (Pair (JString ty))
      (verifyIdentityProof eth (JString pid) (JString a) (JString ty) chain)"
  using assms by (subst verifyScanned_stringify) (simp_all add: property_def)

lemma loadIdentityData_stored:
  assumes "storeIdentityProof eth t s proof chain0 = Inr chain"
    and "Wallet_Provider.signer w = Some s"
    and "resolveAddress eth (getAddress eth s) = Some (account eth s)"
    and st'_def: "st' = loadIdentityData eth Some w chain st"
  shows "identityQr st' = Some (stringify (qrPayload ''identity'' (proofId proof) (address w)))"
    and "ageQr st' = Some (stringify (qrPayload ''age'' (proofId proof) (address w)))"
    and "dashboardState.identityData st' =
      Some \<lparr>uProofId = proofId proof, uCommitment = commitment proof,
        uIsAdult = publicIsAdult proof, uLivenessVerified = publicLivenessVerified proof,
        uTimestamp = toDate t\<rparr>"
  unfolding st'_def
  by (subst loadIdentityData_loaded [OF assms(2) getUserIdentity_lib_stored [OF assms(1,3)]];
      simp)+

lemma scan_stored:
  assumes "storeIdentityProof eth t s proof chain0 = Inr chain"
    and "resolveAddress eth a = Some (account eth s)" and "a \<noteq> []" and "ty \<noteq> []"
    and st'_def: "st' = handleQrCodeScanned_verify eth (Some v) chain
      (stringify (qrPayload ty (proofId proof) (Some a))) st"
  shows "verificationResult st' = Some
      (if ty = ''age''
       then \<lparr>verified = True, vtype = JString ''age'',
             message = ageMessage (publicIsAdult proof) (publicLivenessVerified proof)\<rparr>
       else \<lparr>verified = True, vtype = JString ''identity'',
             message = identityMessage (publicLivenessVerified proof)\<rparr>)"
    and "toasts st' = toasts st @ [VerificationSuccessful (JString ty)]"
proof -
  from storeIdentityProof_state(3) [OF assms(1)] assms(3,4)
  have "verifyScanned eth (stringify (qrPayload ty (proofId proof) (Some a))) chain =
    Inr (JString ty,
      if ty = ''age''
      then \<lparr>verified = True, vtype = JString ''age'',
            message = ageMessage (publicIsAdult proof) (publicLivenessVerified proof)\<rparr>
      else \<lparr>verified = True, vtype = JString ''identity'',
            message = identityMessage (publicLivenessVerified proof)\<rparr>)"
    by (simp add: verifyScanned_qrPayload verifyIdentityProof_stored [OF assms(1,2)])
  from handle_result [OF this, of v st]
  show "verificationResult st' = Some
      (if ty = ''age''
       then \<lparr>verified = True, vtype = JString ''age'',
             message = ageMessage (publicIsAdult proof) (publicLivenessVerified proof)\<rparr>
       else \<lparr>verified = True, vtype = JString ''identity'',
             message = identityMessage (publicLivenessVerified proof)\<rparr>)"
    and "toasts st' = toasts st @ [VerificationSuccessful (JString ty)]"
    by (simp_all add: st'_def)
qed

definition chainStore ::
  "'s ethers \<Rightarrow> uint256 \<Rightarrow> ledger \<Rightarrow> 's \<Rightarrow> zkProof \<Rightarrow> string option + ledger" where
  "chainStore eth t chain s p = map_sum Some id (storeIdentityProof eth t s p chain)"

lemma wizard_proof_id:
  assumes "reachableCreate poseidon store st" and "step st = 4"
  shows "\<exists>p. zkProof st = Some p \<and> proofId p \<noteq> [] \<and>
    publicLivenessVerified p = livenessVerified st"
proof -
  from reachable_wizardInv [OF assms(1)] assms(2) have "proved poseidon st"
    by (simp add: wizardInv_def)
  then obtain env d p where "generateZkProof env poseidon (withoutLiveness d) = Inr p"
    and "zkProof st = Some (p\<lparr>publicLivenessVerified := livenessVerified st\<rparr>)"
    by (auto simp: proved_def)
  with generateZkProof_proofId [of env poseidon "withoutLiveness d" p] show ?thesis by simp
qed

definition staleSession :: "(unit, string) walletState" where
  "staleSession = sampleSession"

lemma staleSession_simps [simp]:
  "Wallet_Provider.signer staleSession = Some ''0xA''" "address staleSession = Some ''0xB''"
  by (simp_all add: staleSession_def sampleSession_eq)

lemma staleSession_reachable: "reachableWallet staleSession"
  unfolding staleSession_def by (rule sampleSession_reachable)

lemma sampleChain_other [simp]: "idProofId (userIdentities sampleChain 11) = []"
  by (simp add: sampleChain_def execute_def storeProof_def deployed_def emptyIdentity_def)

section \<open>Properties of the flow of an identity\<close>

text \<open>
  Claim C16. From the dashboard to the verifier. For an identity that
  \<open>storeIdentityProof\<close> has stored for the signer of the wallet, the dashboard draws
  two codes whose texts are the JSON texts of the type, the proof id and the address
  of the wallet; when that address is the one of the signer, each text passes the
  check of the scanner, and the verify page answers it with a verified result of
  its type, the age result telling whether the person is over 18.
\<close>

theorem dashboard_code_verifies:
  assumes "storeIdentityProof eth t s proof chain0 = Inr chain"
    and "Wallet_Provider.signer w = Some s" and "address w = Some a" and "a \<noteq> []"
    and "resolveAddress eth (getAddress eth s) = Some (account eth s)"
    and "resolveAddress eth a = Some (account eth s)"
    and "ageQr (loadIdentityData eth Some w chain st) = Some code"
  shows "code = stringify (qrPayload ''age'' (proofId proof) (Some a)) \<and> validQrData code \<and>
    verificationResult (handleQrCodeScanned_verify eth (Some v) chain code st') =
      Some \<lparr>verified = True, vtype = JString ''age'',
            message = ageMessage (publicIsAdult proof) (publicLivenessVerified proof)\<rparr>"
proof -
  from loadIdentityData_stored(2) [OF assms(1,2,5) refl, of st] assms(3,7)
  have c: "code = stringify (qrPayload ''age'' (proofId proof) (Some a))" by simp
  from storeIdentityProof_state(3) [OF assms(1)] assms(4) have "validQrData code"
    by (simp add: c qrPayload_valid)
  with c scan_stored(1) [OF assms(1,6,4) _ refl, of "''age''" v st'] show ?thesis by simp
qed

theorem dashboard_code_verifies_witness:
  "ageQr (loadIdentityData sampleEthers Some sampleUser sampleChain initialDashboard) =
     Some (stringify (qrPayload ''age'' ''proof_7_1700000000000'' (Some ''0xA''))) \<and>
   validQrData (stringify (qrPayload ''age'' ''proof_7_1700000000000'' (Some ''0xA''))) \<and>
   verificationResult (handleQrCodeScanned_verify sampleEthers (Some ''0xB'') sampleChain
       (stringify (qrPayload ''age'' ''proof_7_1700000000000'' (Some ''0xA''))) initialVerify) =
     Some \<lparr>verified = True, vtype = JString ''age'',
           message = ''The person is verified to be over 18 years old. (Liveness Verified)''\<rparr>"
proof -
  have q: "ageQr (loadIdentityData sampleEthers Some sampleUser sampleChain initialDashboard) =
    Some (stringify (qrPayload ''age'' ''proof_7_1700000000000'' (Some ''0xA'')))"
    using loadIdentityData_stored(2) [OF sample_store, of sampleUser _ initialDashboard]
    by (simp add: sampleUser_def)
  from dashboard_code_verifies [OF sample_store _ _ _ _ _ q, of "''0xA''" "''0xB''" initialVerify]
    q show ?thesis
    by (simp add: sampleUser_def ageMessage_def)
qed

text \<open>
  Claim C32. The codes of the dashboard after a change of account do not verify. The
  wallet keeps the signer of the old account and shows the address of the new one;
  the dashboard then reads the identity of the signer and writes the address of the
  wallet into the codes. When the new account has no identity the contract reverts,
  and the verify page shows the error of a failed call for a proof that is stored.
\<close>

theorem stale_account_code_fails:
  assumes "storeIdentityProof eth t s proof chain0 = Inr chain"
    and "Wallet_Provider.signer w = Some s" and "address w = Some b" and "b \<noteq> []"
    and "resolveAddress eth (getAddress eth s) = Some (account eth s)"
    and "resolveAddress eth b = Some other"
    and "idProofId (userIdentities chain other) = []"
    and "ageQr (loadIdentityData eth Some w chain st) = Some code"
  shows "code = stringify (qrPayload ''age'' (proofId proof) (Some b)) \<and>
    verificationResult (handleQrCodeScanned_verify eth (Some v) chain code st') =
      Some \<lparr>verified = False, vtype = JString ''unknown'', message = verifyFailed\<rparr>"
proof -
  from loadIdentityData_stored(2) [OF assms(1,2,5) refl, of st] assms(3,8)
  have c: "code = stringify (qrPayload ''age'' (proofId proof) (Some b))" by simp
  from storeIdentityProof_state(3) [OF assms(1)] assms(4,7)
  have "verifyScanned eth code chain = Inl verifyFailed"
    by (simp add: c verifyScanned_qrPayload verifyIdentityProof_eq [OF assms(6)])
  from handle_error [OF this, of v st'] c show ?thesis by simp
qed

theorem stale_account_code_fails_witness:
  "reachableWallet staleSession \<and>
   verificationResult (handleQrCodeScanned_verify sampleEthers (Some ''0xB'') sampleChain
       (stringify (qrPayload ''age'' ''proof_7_1700000000000'' (Some ''0xB''))) initialVerify) =
     Some \<lparr>verified = False, vtype = JString ''unknown'', message = verifyFailed\<rparr>"
proof -
  have q: "ageQr (loadIdentityData sampleEthers Some staleSession sampleChain initialDashboard) =
    Some (stringify (qrPayload ''age'' ''proof_7_1700000000000'' (Some ''0xB'')))"
    using loadIdentityData_stored(2) [OF sample_store, of staleSession _ initialDashboard]
    by simp
  from stale_account_code_fails [OF sample_store _ _ _ _ _ _ q, of "''0xB''" 11 "''0xB''"
      initialVerify] staleSession_reachable
  show ?thesis by simp
qed

text \<open>
  Claim C8. From the wizard to the verifier. In every state the wizard reaches at
  step 4 it holds a proof whose id is not empty, so the contract accepts it: storing
  it through \<open>storeIdentityProof\<close> takes the wizard to step 5, and a verification of
  the age for the address of the signer is then answered with the adult flag of the
  proof and with the liveness flag of the page.
\<close>

theorem wizard_store_verifies:
  assumes "reachableCreate poseidon store st" and "step st = 4"
    and "resolveAddress eth a = Some (account eth s)"
  shows "\<exists>p chain'. zkProof st = Some p \<and> storeIdentityProof eth t s p chain = Inr chain' \<and>
    step (storeProofOnChain (chainStore eth t chain) (Some s) st) = 5 \<and>
    verifyIdentityProof eth (JString (proofId p)) (JString a) (JString ''age'') chain' =
      Inr \<lparr>verified = True, vtype = JString ''age'',
           message = ageMessage (publicIsAdult p) (livenessVerified st)\<rparr>"
proof -
  from wizard_proof_id [OF assms(1,2)] obtain p where p: "zkProof st = Some p"
    "proofId p \<noteq> []" "publicLivenessVerified p = livenessVerified st"
    by blast
  from p(2) obtain chain' where c: "storeIdentityProof eth t s p chain = Inr chain'"
    using storeIdentityProof_Inr_iff [of eth t s p chain] by blast
  with p(1) have "step (storeProofOnChain (chainStore eth t chain) (Some s) st) = 5"
    by (simp add: storeProofOnChain_def chainStore_def)
  with p c verifyIdentityProof_stored [OF c assms(3), of "JString ''age''"] show ?thesis
    by simp
qed

theorem wizard_store_verifies_witness:
  "\<exists>st p chain'.
     runEvents (clockAt 0) (\<lambda>_. Some ''7'') (chainStore sampleEthers 1700000000 deployed) sampleUser
       [LivenessComplete True, GenerateClicked] atLiveness = Some st \<and>
     step st = 4 \<and> zkProof st = Some p \<and>
     storeIdentityProof sampleEthers 1700000000 ''0xA'' p deployed = Inr chain' \<and>
     verifyIdentityProof sampleEthers (JString (proofId p)) (JString ''0xA'') (JString ''age'')
       chain' =
       Inr \<lparr>verified = True, vtype = JString ''age'',
            message = ''The person is verified to be over 18 years old. (Liveness Verified)''\<rparr>"
proof -
  let ?store = "chainStore sampleEthers 1700000000 deployed"
  obtain p where p: "generateZkProof (clockAt 0) (\<lambda>_. Some ''7'') (withoutLiveness sampleCard) = Inr p"
    using sample_generate by blast
  then have a: "publicIsAdult p"
    by (auto simp: generateZkProof_def orElse_def sampleCard_def)
  let ?st = "atLiveness\<lparr>livenessVerified := True, createState.error := None,
    zkProof := Some (p\<lparr>publicLivenessVerified := True\<rparr>), proofGenerated := True, step := 4\<rparr>"
  have r: "runEvents (clockAt 0) (\<lambda>_. Some ''7'') ?store sampleUser
      [LivenessComplete True, GenerateClicked] atLiveness = Some ?st"
    using p
    by (simp add: atLiveness_def sampleUser_def initialCreate_def handleLivenessComplete_def
        generateProof_def)
  have "reachableCreate (\<lambda>_. Some ''7'') ?store ?st"
    by (rule reachable_runEvents [OF atLiveness_reachable r])
  from wizard_store_verifies [OF this, of sampleEthers "''0xA''" "''0xA''" 1700000000 deployed]
    r a show ?thesis
    by (auto simp: ageMessage_def)
qed

text \<open>
  Claim C33. The note under a verified age contradicts the answer for a minor. For a
  stored proof whose adult flag is false, the verify page shows the title
  \<^verbatim>\<open>Verification Successful\<close>, the message that the person is under 18, and under it
  the note that the person is verified to be over 18.
\<close>

theorem minor_shown_as_adult:
  assumes "storeIdentityProof eth t s proof chain0 = Inr chain"
    and "resolveAddress eth a = Some (account eth s)" and "a \<noteq> []"
    and "\<not> publicIsAdult proof"
    and "verificationResult (handleQrCodeScanned_verify eth (Some v) chain
      (stringify (qrPayload ''age'' (proofId proof) (Some a))) st) = Some result"
  shows "resultTitle result = ''Verification Successful'' \<and>
    message result = ''The person is verified to be under 18 years old.'' @
      (if publicLivenessVerified proof then '' (Liveness Verified)'' else []) \<and>
    resultNote result =
      [''The person is verified to be over 18 years old without revealing their actual age.'']"
  using scan_stored(1) [OF assms(1-3) _ refl, of "''age''" v st] assms(4,5)
  by (auto simp: resultTitle_def resultNote_def ageMessage_def)

theorem minor_shown_as_adult_witness:
  "\<exists>chain result.
     storeIdentityProof sampleEthers 1700000000 ''0xA'' (sampleProof\<lparr>publicIsAdult := False\<rparr>)
       deployed = Inr chain \<and>
     verificationResult (handleQrCodeScanned_verify sampleEthers (Some ''0xB'') chain
       (stringify (qrPayload ''age'' ''proof_7_1700000000000'' (Some ''0xA''))) initialVerify)
       = Some result \<and>
     resultTitle result = ''Verification Successful'' \<and>
     message result = ''The person is verified to be under 18 years old. (Liveness Verified)'' \<and>
     resultNote result =
       [''The person is verified to be over 18 years old without revealing their actual age.'']"
proof -
  let ?proof = "sampleProof\<lparr>publicIsAdult := False\<rparr>"
  obtain chain where c: "storeIdentityProof sampleEthers 1700000000 ''0xA'' ?proof deployed = Inr chain"
    using storeIdentityProof_Inr_iff [of sampleEthers 1700000000 "''0xA''" ?proof deployed]
    by auto
  have "\<exists>result. verificationResult (handleQrCodeScanned_verify sampleEthers (Some ''0xB'') chain
      (stringify (qrPayload ''age'' ''proof_7_1700000000000'' (Some ''0xA''))) initialVerify)
      = Some result"
    using scan_stored(1) [OF c _ _ _ refl, of "''0xA''" "''age''" "''0xB''" initialVerify]
    by simp
  then obtain result where r: "verificationResult (handleQrCodeScanned_verify sampleEthers
      (Some ''0xB'') chain
      (stringify (qrPayload ''age'' ''proof_7_1700000000000'' (Some ''0xA''))) initialVerify)
      = Some result"
    by blast
  from minor_shown_as_adult [OF c, of "''0xA''" "''0xB''" initialVerify result] r c
  show ?thesis by auto
qed

end
